(* ===== verification/Prelude.thy ===== *)
theory Prelude
  imports Main "HOL-Library.Word" "HOL-Library.List_Lexorder" "HOL-Library.Char_ord"
    "HOL-Library.Monad_Syntax" "HOL-Library.Multiset"
begin

text \<open>
  The vocabulary every component of the development shares: Rust's \<open>Result\<close> with the operations the
  source applies to it, the sequencing of early returns, the bytes of a Rust \<open>String\<close>, and the
  locale of the tables that the source searches with \<open>iter().find\<close>.

  Conventions. A Rust \<open>String\<close> is the list of its UTF-8 bytes, so \<open>length\<close> is \<open>str::len\<close>. A call
  that may panic returns an \<open>option\<close>, with \<open>None\<close> for the panic; a call that returns a \<open>Result\<close>
  returns a \<open>result\<close>.
\<close>

section \<open>Results\<close>

datatype ('v, 'e) result = Ok 'v | Err 'e

named_theorems result_simps \<open>equations that decide when a chain of fallible calls succeeds\<close>
named_theorems result_errs \<open>equations that decide which error a chain of fallible calls returns\<close>

primrec and_then :: "('v, 'e) result \<Rightarrow> ('v \<Rightarrow> ('u, 'e) result) \<Rightarrow> ('u, 'e) result" where
  "and_then (Ok v) f = f v"
| "and_then (Err e) f = Err e"

primrec map_err :: "('e \<Rightarrow> 'd) \<Rightarrow> ('v, 'e) result \<Rightarrow> ('v, 'd) result" where
  "map_err f (Ok v) = Ok v"
| "map_err f (Err e) = Err (f e)"

primrec ok_or :: "'v option \<Rightarrow> 'e \<Rightarrow> ('v, 'e) result" where
  "ok_or None e = Err e"
| "ok_or (Some v) e = Ok v"

primrec ok_value :: "('v, 'e) result \<Rightarrow> 'v option" where
  "ok_value (Ok v) = Some v"
| "ok_value (Err e) = None"

text \<open>\<open>if condition { return Err(error); }\<close>\<close>

definition fail_if :: "bool \<Rightarrow> 'e \<Rightarrow> (unit, 'e) result" where
  "fail_if b e = (if b then Err e else Ok ())"

text \<open>A body that is a sequence of \<open>check?;\<close> statements: the first failing check decides.\<close>

fun checks :: "(unit, 'e) result list \<Rightarrow> (unit, 'e) result" where
  "checks [] = Ok ()"
| "checks (c # cs) = and_then c (\<lambda>_. checks cs)"

text \<open>A loop whose body pushes the value of a fallible call, left by the first error.\<close>

fun try_map :: "('a \<Rightarrow> ('b, 'e) result) \<Rightarrow> 'a list \<Rightarrow> ('b list, 'e) result" where
  "try_map f [] = Ok []"
| "try_map f (x # xs) = and_then (f x) (\<lambda>y. and_then (try_map f xs) (\<lambda>ys. Ok (y # ys)))"

lemma and_then_Ok [result_simps]:
  "and_then r f = Ok u \<longleftrightarrow> (\<exists>v. r = Ok v \<and> f v = Ok u)"
  by (cases r) auto

lemma and_then_Err [result_errs]:
  "and_then r f = Err e \<longleftrightarrow> r = Err e \<or> (\<exists>v. r = Ok v \<and> f v = Err e)"
  by (cases r) auto

lemma map_err_Ok [result_simps]: "map_err f r = Ok v \<longleftrightarrow> r = Ok v"
  by (cases r) auto

lemma map_err_Err [result_errs]: "map_err f r = Err d \<longleftrightarrow> (\<exists>e. r = Err e \<and> d = f e)"
  by (cases r) auto

lemma ok_or_Ok [result_simps]: "ok_or x e = Ok v \<longleftrightarrow> x = Some v"
  by (cases x) auto

lemma ok_or_Err [result_errs]: "ok_or x e = Err d \<longleftrightarrow> x = None \<and> d = e"
  by (cases x) auto

lemma ok_value_Some [simp]: "ok_value r = Some v \<longleftrightarrow> r = Ok v"
  by (cases r) auto

lemma fail_if_Ok [result_simps]: "fail_if b e = Ok u \<longleftrightarrow> \<not> b"
  by (simp add: fail_if_def)

lemma fail_if_Err [result_errs]: "fail_if b e = Err d \<longleftrightarrow> b \<and> d = e"
  by (auto simp: fail_if_def)

lemma fail_if_simps [simp]: "fail_if True e = Err e" "fail_if False e = Ok ()"
  by (simp_all add: fail_if_def)

lemma if_Ok_Err [result_simps]:
  "(if b then Ok u else Err e) = Ok v \<longleftrightarrow> b \<and> u = v"
  "(if b then Err e else r) = Ok v \<longleftrightarrow> \<not> b \<and> r = Ok v"
  by auto

lemma checks_Nil_Ok [result_simps]: "checks [] = Ok u"
  by simp

lemma checks_Cons_Ok [result_simps]:
  "checks (c # cs) = Ok u \<longleftrightarrow> c = Ok () \<and> checks cs = Ok ()"
  by (cases c) auto

lemma checks_Ok: "checks cs = Ok () \<longleftrightarrow> (\<forall>c \<in> set cs. c = Ok ())"
  by (induction cs) (auto simp: result_simps)

lemma checks_Err_in: "checks cs = Err e \<Longrightarrow> Err e \<in> set cs"
  by (induction cs) (auto simp: result_errs)

lemma checks_append: "checks (xs @ ys) = and_then (checks xs) (\<lambda>_. checks ys)"
proof (induction xs)
  case Nil
  then show ?case by simp
next
  case (Cons c cs)
  then show ?case by (cases c) auto
qed

lemma try_map_Ok:
  "try_map f xs = Ok ys \<longleftrightarrow> list_all2 (\<lambda>x y. f x = Ok y) xs ys"
proof (induction xs arbitrary: ys)
  case Nil
  then show ?case by auto
next
  case (Cons x xs)
  show ?case by (cases ys) (auto simp: and_then_Ok Cons.IH)
qed

lemma try_map_Ok_map:
  assumes "\<And>x. x \<in> set xs \<Longrightarrow> f x = Ok (g x)"
  shows "try_map f xs = Ok (map g xs)"
  using assms by (induction xs) auto

lemma try_map_append:
  "try_map f (xs @ ys) = and_then (try_map f xs) (\<lambda>us. and_then (try_map f ys) (\<lambda>vs. Ok (us @ vs)))"
proof (induction xs)
  case Nil
  show ?case by (cases "try_map f ys") auto
next
  case (Cons x xs)
  show ?case
    by (cases "f x"; cases "try_map f xs"; cases "try_map f ys") (auto simp: Cons.IH)
qed

lemma result_not_Ok: "(\<forall>v. r \<noteq> Ok v) \<longleftrightarrow> (\<exists>e. r = Err e)"
  by (cases r) auto

section \<open>Bytes of strings\<close>

definition byte :: "char \<Rightarrow> nat" where
  "byte c = of_char c"

definition is_ascii_lowercase :: "char \<Rightarrow> bool" where
  "is_ascii_lowercase c \<longleftrightarrow> 97 \<le> byte c \<and> byte c \<le> 122"

definition is_ascii_uppercase :: "char \<Rightarrow> bool" where
  "is_ascii_uppercase c \<longleftrightarrow> 65 \<le> byte c \<and> byte c \<le> 90"

definition is_ascii_digit :: "char \<Rightarrow> bool" where
  "is_ascii_digit c \<longleftrightarrow> 48 \<le> byte c \<and> byte c \<le> 57"

definition is_ascii_alphanumeric :: "char \<Rightarrow> bool" where
  "is_ascii_alphanumeric c \<longleftrightarrow> is_ascii_lowercase c \<or> is_ascii_uppercase c \<or> is_ascii_digit c"

definition is_ascii_hexdigit :: "char \<Rightarrow> bool" where
  "is_ascii_hexdigit c \<longleftrightarrow>
     is_ascii_digit c \<or> 97 \<le> byte c \<and> byte c \<le> 102 \<or> 65 \<le> byte c \<and> byte c \<le> 70"

definition to_ascii_lowercase :: "string \<Rightarrow> string" where
  "to_ascii_lowercase s = map (\<lambda>c. if is_ascii_uppercase c then char_of (byte c + 32) else c) s"

definition is_ascii :: "string \<Rightarrow> bool" where
  "is_ascii s \<longleftrightarrow> list_all (\<lambda>c. byte c < 128) s"

lemmas ascii_defs = byte_def is_ascii_lowercase_def is_ascii_uppercase_def is_ascii_digit_def
  is_ascii_alphanumeric_def is_ascii_hexdigit_def

text \<open>The same tests on the bits of a character, for evaluation.\<close>

lemma byte_bits [code]: "byte (Char b0 b1 b2 b3 b4 b5 b6 b7) =
  of_bool b0 + 2 * of_bool b1 + 4 * of_bool b2 + 8 * of_bool b3 + 16 * of_bool b4 + 32 * of_bool b5 +
  64 * of_bool b6 + 128 * of_bool b7"
  by (simp add: byte_def)

lemma is_ascii_uppercase_bits [code]: "is_ascii_uppercase (Char b0 b1 b2 b3 b4 b5 b6 b7) \<longleftrightarrow>
  \<not> b7 \<and> b6 \<and> \<not> b5 \<and> (b0 \<or> b1 \<or> b2 \<or> b3 \<or> b4) \<and> \<not> (b4 \<and> b3 \<and> (b2 \<or> b1 \<and> b0))"
  unfolding is_ascii_uppercase_def byte_bits
  by (cases b0; cases b1; cases b2; cases b3; cases b4; cases b5; cases b6; cases b7) simp_all

lemma is_ascii_lowercase_bits [code]: "is_ascii_lowercase (Char b0 b1 b2 b3 b4 b5 b6 b7) \<longleftrightarrow>
  \<not> b7 \<and> b6 \<and> b5 \<and> (b0 \<or> b1 \<or> b2 \<or> b3 \<or> b4) \<and> \<not> (b4 \<and> b3 \<and> (b2 \<or> b1 \<and> b0))"
  unfolding is_ascii_lowercase_def byte_bits
  by (cases b0; cases b1; cases b2; cases b3; cases b4; cases b5; cases b6; cases b7) simp_all

lemma is_ascii_digit_bits [code]: "is_ascii_digit (Char b0 b1 b2 b3 b4 b5 b6 b7) \<longleftrightarrow>
  \<not> b7 \<and> \<not> b6 \<and> b5 \<and> b4 \<and> \<not> (b3 \<and> (b2 \<or> b1))"
  unfolding is_ascii_digit_def byte_bits
  by (cases b0; cases b1; cases b2; cases b3; cases b4; cases b5; cases b6; cases b7) simp_all

fun ascii_lower :: "char \<Rightarrow> char" where
  "ascii_lower (Char b0 b1 b2 b3 b4 b5 b6 b7) =
     (if is_ascii_uppercase (Char b0 b1 b2 b3 b4 b5 b6 b7) then Char b0 b1 b2 b3 b4 True b6 b7
      else Char b0 b1 b2 b3 b4 b5 b6 b7)"

lemma ascii_lower_eq: "ascii_lower c = (if is_ascii_uppercase c then char_of (byte c + 32) else c)"
proof (cases "is_ascii_uppercase c")
  case True
  then have "byte (ascii_lower c) = byte c + 32"
    by (cases c) (simp add: is_ascii_uppercase_bits byte_bits)
  then have "char_of (byte c + 32) = char_of (byte (ascii_lower c))" by simp
  also have "\<dots> = ascii_lower c" by (simp only: byte_def char_of_char)
  finally show ?thesis using True by simp
qed (cases c; simp)

lemma to_ascii_lowercase_code [code]: "to_ascii_lowercase s = map ascii_lower s"
  by (simp add: to_ascii_lowercase_def ascii_lower_eq)

lemma is_ascii_simps [simp]:
  "is_ascii []" "is_ascii (c # s) \<longleftrightarrow> byte c < 128 \<and> is_ascii s"
  "is_ascii (s @ t) \<longleftrightarrow> is_ascii s \<and> is_ascii t"
  by (simp_all add: is_ascii_def)

text \<open>\<open>str::contains\<close> of a pattern that is a string.\<close>

fun str_starts_with :: "string \<Rightarrow> string \<Rightarrow> bool" where
  "str_starts_with s [] = True"
| "str_starts_with [] (p # ps) = False"
| "str_starts_with (c # s) (p # ps) = (c = p \<and> str_starts_with s ps)"

fun str_contains :: "string \<Rightarrow> string \<Rightarrow> bool" where
  "str_contains [] p = (p = [])"
| "str_contains (c # s) p = (str_starts_with (c # s) p \<or> str_contains s p)"

lemma str_starts_with_iff: "str_starts_with s p \<longleftrightarrow> (\<exists>t. s = p @ t)"
  by (induction s p rule: str_starts_with.induct) auto

lemma str_contains_iff: "str_contains s p \<longleftrightarrow> (\<exists>u t. s = u @ p @ t)"
proof (induction s)
  case Nil
  then show ?case by auto
next
  case (Cons c s)
  have "(\<exists>u t. c # s = u @ p @ t) \<longleftrightarrow> (\<exists>t. c # s = p @ t) \<or> (\<exists>u t. s = u @ p @ t)"
    by (metis append_Cons append_Nil list.exhaust list.inject)
  then show ?case using Cons.IH by (simp add: str_starts_with_iff)
qed

text \<open>
  Characters of a UTF-8 string: a byte is the first of its character unless it is a continuation
  byte. \<open>chars().count()\<close>, \<open>chars().take(n).collect()\<close> and \<open>String::truncate\<close>, which panics when
  the new length cuts a character.
\<close>

definition is_continuation :: "char \<Rightarrow> bool" where
  "is_continuation c \<longleftrightarrow> 128 \<le> byte c \<and> byte c < 192"

definition chars_count :: "string \<Rightarrow> nat" where
  "chars_count s = length (filter (\<lambda>c. \<not> is_continuation c) s)"

fun chars_take :: "nat \<Rightarrow> string \<Rightarrow> string" where
  "chars_take n [] = []"
| "chars_take n (c # s) =
     (if is_continuation c then c # chars_take n s
      else case n of 0 \<Rightarrow> [] | Suc m \<Rightarrow> c # chars_take m s)"

definition is_char_boundary :: "string \<Rightarrow> nat \<Rightarrow> bool" where
  "is_char_boundary s i \<longleftrightarrow>
     i = 0 \<or> i = length s \<or> (i < length s \<and> \<not> is_continuation (s ! i))"

definition str_truncate :: "nat \<Rightarrow> string \<Rightarrow> string option" where
  "str_truncate n s =
     (if length s < n then Some s else if is_char_boundary s n then Some (take n s) else None)"

lemma is_ascii_not_continuation: "byte c < 128 \<Longrightarrow> \<not> is_continuation c"
  by (simp add: is_continuation_def)

lemma chars_count_ascii: "is_ascii s \<Longrightarrow> chars_count s = length s"
  by (induction s) (auto simp: chars_count_def is_ascii_not_continuation)

lemma chars_take_ascii: "is_ascii s \<Longrightarrow> chars_take n s = take n s"
  by (induction n s rule: chars_take.induct)
    (auto simp: is_ascii_not_continuation split: nat.split)

lemma is_ascii_take: "is_ascii s \<Longrightarrow> is_ascii (take n s)"
  by (auto simp: is_ascii_def list_all_iff dest: in_set_takeD)

lemma is_ascii_nth: "is_ascii s \<Longrightarrow> i < length s \<Longrightarrow> byte (s ! i) < 128"
  by (simp add: is_ascii_def list_all_length)

lemma str_truncate_ascii: "is_ascii s \<Longrightarrow> str_truncate n s = Some (take n s)"
  by (auto simp: str_truncate_def is_char_boundary_def is_ascii_nth is_ascii_not_continuation)

text \<open>The \<open>Display\<close> form of an unsigned integer, and \<open>{byte:02x}\<close>.\<close>

definition digit_char :: "nat \<Rightarrow> char" where
  "digit_char n = char_of (if n < 10 then 48 + n else 87 + n)"

fun show_nat :: "nat \<Rightarrow> string" where
  "show_nat n = (if n < 10 then [digit_char n] else show_nat (n div 10) @ [digit_char (n mod 10)])"

declare show_nat.simps [simp del]

definition hex_byte :: "8 word \<Rightarrow> string" where
  "hex_byte b = [digit_char (unat b div 16), digit_char (unat b mod 16)]"

text \<open>Joining the parts of a list, \<open>parts.join(sep)\<close>.\<close>

fun str_join :: "string \<Rightarrow> string list \<Rightarrow> string" where
  "str_join sep [] = []"
| "str_join sep [s] = s"
| "str_join sep (s # t # ts) = s @ sep @ str_join sep (t # ts)"

section \<open>Tables searched by key\<close>

lemma find_append:
  "find P (xs @ ys) = (case find P xs of None \<Rightarrow> find P ys | Some x \<Rightarrow> Some x)"
  by (induction xs) auto

text \<open>\<open>iter().position(p)\<close>, and the prefix of a list up to the element it finds.\<close>

fun position :: "('a \<Rightarrow> bool) \<Rightarrow> 'a list \<Rightarrow> nat option" where
  "position P [] = None"
| "position P (x # xs) = (if P x then Some 0 else map_option Suc (position P xs))"

lemma position_None: "position P xs = None \<longleftrightarrow> (\<forall>x \<in> set xs. \<not> P x)"
  by (induction xs) auto

lemma position_map: "position P (map f xs) = position (P \<circ> f) xs"
  by (induction xs) auto

lemma position_split:
  "position (\<lambda>x. x = t) xs = Some i \<longleftrightarrow>
     (\<exists>us vs. xs = us @ t # vs \<and> t \<notin> set us \<and> i = length us)"
proof (induction xs arbitrary: i)
  case Nil
  then show ?case by simp
next
  case (Cons x xs)
  have "(\<exists>us vs. x # xs = us @ t # vs \<and> t \<notin> set us \<and> i = length us) \<longleftrightarrow>
      x = t \<and> i = 0 \<or>
      x \<noteq> t \<and> (\<exists>us vs. xs = us @ t # vs \<and> t \<notin> set us \<and> i = Suc (length us))"
    (is "?l \<longleftrightarrow> ?r")
  proof
    assume ?l
    then obtain us vs where "x # xs = us @ t # vs" "t \<notin> set us" "i = length us" by blast
    then show ?r by (cases us) auto
  next
    assume ?r
    then show ?l by (metis append_Cons append_Nil empty_iff empty_set length_Cons list.size(3) set_ConsD)
  qed
  moreover have "position (\<lambda>x. x = t) (x # xs) = Some i \<longleftrightarrow>
      x = t \<and> i = 0 \<or> x \<noteq> t \<and> (\<exists>j. i = Suc j \<and> position (\<lambda>x. x = t) xs = Some j)"
    by auto
  ultimately show ?case by (auto simp: Cons.IH)
qed

text \<open>
  \<open>entries.iter().find(|entry| entry.key == key)\<close> returns the first entry with the key. The
  registry, the policy and the plan are all read this way, so the facts are proved once.
\<close>

locale keyed_table =
  fixes entries :: "'t \<Rightarrow> 'r list"
    and key :: "'r \<Rightarrow> 'k"
    and lookup :: "'t \<Rightarrow> 'k \<Rightarrow> 'r option"
  assumes lookup_find: "lookup t k = find (\<lambda>r. key r = k) (entries t)"
begin

lemma lookup_Some_in: "lookup t k = Some r \<Longrightarrow> r \<in> set (entries t) \<and> key r = k"
  by (auto simp: lookup_find find_Some_iff in_set_conv_nth)

lemma lookup_None: "lookup t k = None \<longleftrightarrow> k \<notin> key ` set (entries t)"
  by (auto simp: lookup_find find_None_iff)

lemma lookup_first:
  assumes "entries t = xs @ r # ys" and "k \<notin> key ` set xs" and "key r = k"
  shows "lookup t k = Some r"
proof -
  have "find (\<lambda>r. key r = k) xs = None"
    using assms(2) by (auto simp: find_None_iff)
  with assms show ?thesis by (simp add: lookup_find find_append)
qed

end

section \<open>Validated types\<close>

text \<open>
  Statuses, review packages and forensic events are built the same way: a constructor that runs the
  type's validation, and a wrapper type whose only constructor runs it again. A wrapped value is
  therefore a valid one.
\<close>

locale validated_type =
  fixes validate :: "'a \<Rightarrow> (unit, 'e) result"
    and wrap :: "'a \<Rightarrow> 'v"
    and unwrap :: "'v \<Rightarrow> 'a"
    and construct :: "'a \<Rightarrow> ('a, 'e) result"
    and wrap_new :: "'a \<Rightarrow> ('v, 'e) result"
  assumes construct_eq: "construct a = and_then (validate a) (\<lambda>_. Ok a)"
    and wrap_new_eq: "wrap_new a = and_then (validate a) (\<lambda>_. Ok (wrap a))"
    and unwrap_wrap: "unwrap (wrap a) = a"
begin

lemma construct_Ok: "construct a = Ok b \<longleftrightarrow> validate a = Ok () \<and> b = a"
  by (auto simp: construct_eq result_simps)

lemma wrap_new_Ok: "wrap_new a = Ok v \<longleftrightarrow> validate a = Ok () \<and> v = wrap a"
  by (auto simp: wrap_new_eq result_simps)

lemma wrap_new_valid: "wrap_new a = Ok v \<Longrightarrow> validate (unwrap v) = Ok () \<and> unwrap v = a"
  by (simp add: wrap_new_Ok unwrap_wrap)

lemma wrap_new_Err: "wrap_new a = Err e \<longleftrightarrow> validate a = Err e"
  by (auto simp: wrap_new_eq result_errs)

text \<open>Validating twice, as the builders of the source do, changes nothing.\<close>

lemma build_twice: "and_then (construct a) wrap_new = wrap_new a"
  by (cases "validate a") (auto simp: construct_eq wrap_new_eq)

end

end
