(* ===== verification/Vocabulary.thy ===== *)
theory Vocabulary
  imports Prelude
begin

text \<open>
  The shared vocabulary of \<open>src/domain/shared\<close> (identifiers, time, enumerations) and \<open>src/config\<close>.
  Enumerations keep the source's variants. Where two enumerations share a variant name, a theory
  writes it qualified by its type, as the source does (\<open>approval_posture.Denied\<close> is
  \<open>ApprovalPosture::Denied\<close>); the source's variants called \<open>None\<close> are \<open>NoSideEffect\<close> and
  \<open>NoReview\<close>, so that \<open>None\<close> stays the empty option.
\<close>

section \<open>Identifiers and time\<close>

text \<open>Every identifier is a newtype over a UUID, compared as its 128 bits.\<close>

type_synonym uuid = "128 word"
type_synonym request_id = uuid
type_synonym correlation_id = uuid
type_synonym requester_id = uuid
type_synonym policy_id = uuid
type_synonym capability_id = uuid
type_synonym route_decision_id = uuid
type_synonym execution_plan_id = uuid
type_synonym review_package_id = uuid
type_synonym forensic_event_id = uuid

text \<open>A UTC instant; only its order matters. The clock is an argument of the calls that read it.\<close>

type_synonym timestamp = int
type_synonym u64 = "64 word"
type_synonym u32 = "32 word"

section \<open>Enumerations\<close>

datatype environment_mode = Dev | Test | Staging | Prod | Airgapped | TestHarness

datatype requester_class =
  TrustedAppSurface | TrustedInternalService | ReviewSurface | DevelopmentTestSurface
| UntrustedUnknown

datatype approval_posture =
  Denied | ReviewRequired | ExplicitOperatorApproval | PolicyPreapproved | ExecuteAllowed

datatype execution_state =
  Denied | ReviewRequired | WaitingExplicitApproval | AdmittedNotStarted | InProgress | Degraded
| PartialSuccess | CompletedWithConstraints | Completed | Failed | Canceled

datatype degraded_subtype =
  DegradedPreStart | DegradedInFlight | DegradedFallbackEquivalent | DegradedFallbackLimited
| DegradedPartial | UnavailableDependencyBlock

datatype side_effect_class =
  NoSideEffect | LocalFileWrite | LocalDbMutation | LocalProcessSpawn
| ExternalNetworkDeniedByDefault | OtherGoverned

datatype revocation_state = Active | Disabled | Revoked

datatype denial_reason_class =
  UnknownRequester | UntrustedRequester | MissingPolicy | PolicyDenied | CapabilityNotAdmitted
| ContractInvalid | IntegrityFailed | DependencyUnavailable | PrivacyScopeViolation
| ReviewRequired | UnsupportedRoute | DisabledByOperator

datatype denial_scope = Request | Capability | Route | Service | Artifact | Operation

datatype denial_basis = Contract | Policy | ContractAndPolicy | RuntimeSafety

text \<open>The admitted postures, \<open>PolicyPreapproved | ExecuteAllowed\<close> in the source's \<open>matches!\<close>.\<close>

abbreviation admitted_posture :: "approval_posture \<Rightarrow> bool" where
  "admitted_posture p \<equiv> p \<in> {PolicyPreapproved, ExecuteAllowed}"

section \<open>Service configuration\<close>

definition SERVICE_ID :: string where
  "SERVICE_ID = ''fa-local''"

section \<open>Denial guards and errors\<close>

text \<open>\<open>DenialGuard\<close> of \<open>src/domain/guards\<close>; the constructor stamps the wall-clock time \<open>now\<close>.\<close>

record denial_guard =
  dg_reason_class :: denial_reason_class
  dg_scope :: denial_scope
  dg_basis :: denial_basis
  dg_remediable :: bool
  dg_review_available :: bool
  dg_summary :: string
  dg_timestamp_utc :: timestamp

definition deny ::
  "timestamp \<Rightarrow> denial_reason_class \<Rightarrow> denial_scope \<Rightarrow> denial_basis \<Rightarrow> string \<Rightarrow> denial_guard" where
  "deny now reason scope basis summary =
     \<lparr>dg_reason_class = reason, dg_scope = scope, dg_basis = basis, dg_remediable = False,
      dg_review_available = False, dg_summary = summary, dg_timestamp_utc = now\<rparr>"

definition with_remediable :: "bool \<Rightarrow> denial_guard \<Rightarrow> denial_guard" where
  "with_remediable b guard = guard\<lparr>dg_remediable := b\<rparr>"

definition with_review_available :: "bool \<Rightarrow> denial_guard \<Rightarrow> denial_guard" where
  "with_review_available b guard = guard\<lparr>dg_review_available := b\<rparr>"

definition ensure :: "bool \<Rightarrow> denial_guard \<Rightarrow> (unit, denial_guard) result" where
  "ensure condition denial = (if condition then Ok () else Err denial)"

definition fail_closed :: "'v option \<Rightarrow> denial_guard \<Rightarrow> ('v, denial_guard) result" where
  "fail_closed v denial = ok_or v denial"

text \<open>\<open>FaLocalError\<close> of \<open>src/errors\<close>; wrapped foreign errors are kept as their messages.\<close>

datatype fa_local_error =
  Denied denial_guard
| Io string
| ContractInvalid string
| Serialization string
| Sqlite string
| SchemaCompile string string
| SchemaValidation string "string list"
| InternalInvariant string
| WritebackNotWired string
| WritebackFailed string

type_synonym 'v fa_local_result = "('v, fa_local_error) result"

text \<open>
  The \<open>Display\<close> form of an error. \<open>{errors:?}\<close> prints the list through the \<open>Debug\<close> formatter of
  the standard library, here the argument \<open>debug_list\<close>.
\<close>

fun show_error :: "(string list \<Rightarrow> string) \<Rightarrow> fa_local_error \<Rightarrow> string" where
  "show_error debug_list (fa_local_error.Denied guard) = dg_summary guard"
| "show_error debug_list (Io m) = m"
| "show_error debug_list (fa_local_error.ContractInvalid m) = ''contract invalid: '' @ m"
| "show_error debug_list (Serialization m) = ''serialization error: '' @ m"
| "show_error debug_list (Sqlite m) = ''sqlite error: '' @ m"
| "show_error debug_list (SchemaCompile s m) = ''schema compilation failed for '' @ s @ '': '' @ m"
| "show_error debug_list (SchemaValidation s es) =
     ''schema validation failed for '' @ s @ '': '' @ debug_list es"
| "show_error debug_list (InternalInvariant m) = ''internal invariant violated: '' @ m"
| "show_error debug_list (WritebackNotWired m) = ''writeback not yet wired: '' @ m"
| "show_error debug_list (WritebackFailed m) = ''writeback failed: '' @ m"

text \<open>The helper \<open>contract_invalid\<close> that every module of the crate repeats.\<close>

definition contract_invalid :: "string \<Rightarrow> fa_local_error" where
  "contract_invalid message = fa_local_error.ContractInvalid message"

lemma deny_simps [simp]:
  "dg_reason_class (deny now r s b m) = r" "dg_scope (deny now r s b m) = s"
  "dg_basis (deny now r s b m) = b" "dg_summary (deny now r s b m) = m"
  "dg_remediable (deny now r s b m) = False" "dg_review_available (deny now r s b m) = False"
  "dg_timestamp_utc (deny now r s b m) = now"
  by (simp_all add: deny_def)

lemma ensure_Ok [result_simps]: "ensure c d = Ok u \<longleftrightarrow> c"
  by (simp add: ensure_def)

lemma fail_closed_Ok [result_simps]: "fail_closed v d = Ok x \<longleftrightarrow> v = Some x"
  by (simp add: fail_closed_def ok_or_Ok)

section \<open>Bounded texts\<close>

text \<open>
  The digest and summary checks that \<open>src/domain/status\<close>, \<open>src/domain/review\<close> and
  \<open>src/domain/forensics\<close> each define again with the same body.
\<close>

definition is_valid_hash :: "string \<Rightarrow> bool" where
  "is_valid_hash v \<longleftrightarrow>
     length v = 64 \<and> list_all (\<lambda>c. is_ascii_hexdigit c \<and> \<not> is_ascii_uppercase c) v"

abbreviation bounded_text :: "string \<Rightarrow> bool" where
  "bounded_text s \<equiv> s \<noteq> [] \<and> length s \<le> 160"

text \<open>A digest printed with \<open>{byte:02x}\<close> is a valid hash.\<close>

lemma hex_byte_valid:
  "list_all (\<lambda>c. is_ascii_hexdigit c \<and> \<not> is_ascii_uppercase c) (hex_byte b)"
proof -
  have d: "is_ascii_hexdigit (digit_char n) \<and> \<not> is_ascii_uppercase (digit_char n)"
    if "n < 16" for n
    using that by (auto simp: ascii_defs digit_char_def)
  have "unat b < 256"
    using unsigned_less [of b, where ?'a = nat] by simp
  then have "unat b div 16 < 16" "unat b mod 16 < 16"
    by simp_all
  then show ?thesis by (simp add: hex_byte_def d)
qed

lemma length_hex_byte [simp]: "length (hex_byte b) = 2"
  by (simp add: hex_byte_def)

lemma hex_digest_valid:
  "length bs = 32 \<Longrightarrow> is_valid_hash (concat (map hex_byte bs))"
proof -
  assume "length bs = 32"
  moreover have "length (concat (map hex_byte bs)) = 2 * length bs"
    by (induction bs) auto
  moreover have "list_all (\<lambda>c. is_ascii_hexdigit c \<and> \<not> is_ascii_uppercase c) (concat (map hex_byte bs))"
    using hex_byte_valid by (induction bs) auto
  ultimately show ?thesis by (simp add: is_valid_hash_def)
qed

end
