(* ===== verification/Contracts.thy ===== *)
theory Contracts
  imports Vocabulary
begin

text \<open>
  Contract loading, \<open>src/domain/shared/schema.rs\<close>: a JSON value is checked against the schema file
  of its contract and only then decoded. The file system, the JSON parser, the JSON Schema
  validator and the derived decoders are not code of the repository: they are the fields of
  \<open>contract_env\<close> and the argument \<open>decode\<close>.
\<close>

datatype json =
  JNull | JBool bool | JNumber int | JString string | JArray "json list"
| JObject "(string \<times> json) list"

fun json_is_object :: "json \<Rightarrow> bool" where
  "json_is_object (JObject kvs) = True"
| "json_is_object _ = False"

fun json_get :: "json \<Rightarrow> string \<Rightarrow> json option" where
  "json_get (JObject kvs) k = map_of kvs k"
| "json_get _ k = None"

datatype schema_name =
  RequesterTrust | PolicyArtifact | CapabilityRegistry | ExecutionRequest | ExecutionPlan
| ExecutionStatus | ReviewPackage | ForensicEvent | FrictionPayload | RouteDecision | DenialGuard
| GnatDispatchEnvelope | GnatDispatchForensicEvent | NeuronForgeTaskDispatchForensicEvent

definition schema_names_all :: "schema_name list" where
  "schema_names_all =
     [RequesterTrust, PolicyArtifact, CapabilityRegistry, ExecutionRequest, ExecutionPlan,
      ExecutionStatus, ReviewPackage, ForensicEvent, FrictionPayload, RouteDecision, DenialGuard,
      GnatDispatchEnvelope, GnatDispatchForensicEvent, NeuronForgeTaskDispatchForensicEvent]"

fun fixture_prefix :: "schema_name \<Rightarrow> string" where
  "fixture_prefix RequesterTrust = ''requester-trust''"
| "fixture_prefix PolicyArtifact = ''policy-artifact''"
| "fixture_prefix CapabilityRegistry = ''capability-registry''"
| "fixture_prefix ExecutionRequest = ''execution-request''"
| "fixture_prefix ExecutionPlan = ''execution-plan''"
| "fixture_prefix ExecutionStatus = ''execution-status''"
| "fixture_prefix ReviewPackage = ''review-package''"
| "fixture_prefix ForensicEvent = ''forensic-event''"
| "fixture_prefix FrictionPayload = ''friction-payload''"
| "fixture_prefix RouteDecision = ''route-decision''"
| "fixture_prefix DenialGuard = ''denial-guard''"
| "fixture_prefix GnatDispatchEnvelope = ''gnat-dispatch-envelope''"
| "fixture_prefix GnatDispatchForensicEvent = ''gnat-dispatch-forensic-event''"
| "fixture_prefix NeuronForgeTaskDispatchForensicEvent = ''neuronforge-task-dispatch-forensic-event''"

fun schema_file_name :: "schema_name \<Rightarrow> string" where
  "schema_file_name RequesterTrust = ''requester-trust.schema.json''"
| "schema_file_name PolicyArtifact = ''policy-artifact.schema.json''"
| "schema_file_name CapabilityRegistry = ''capability-registry.schema.json''"
| "schema_file_name ExecutionRequest = ''execution-request.schema.json''"
| "schema_file_name ExecutionPlan = ''execution-plan.schema.json''"
| "schema_file_name ExecutionStatus = ''execution-status.schema.json''"
| "schema_file_name ReviewPackage = ''review-package.schema.json''"
| "schema_file_name ForensicEvent = ''forensic-event.schema.json''"
| "schema_file_name FrictionPayload = ''friction-payload.schema.json''"
| "schema_file_name RouteDecision = ''route-decision.schema.json''"
| "schema_file_name DenialGuard = ''denial-guard.schema.json''"
| "schema_file_name GnatDispatchEnvelope = ''gnat-dispatch-envelope.schema.json''"
| "schema_file_name GnatDispatchForensicEvent = ''gnat-dispatch-forensic-event.schema.json''"
| "schema_file_name NeuronForgeTaskDispatchForensicEvent =
     ''neuronforge-task-dispatch-forensic-event.schema.json''"

record contract_env =
  ce_manifest_dir :: string
  ce_read_to_string :: "string \<Rightarrow> (string, string) result"
  ce_from_str :: "string \<Rightarrow> (json, string) result"
  ce_from_slice :: "string \<Rightarrow> (json, string) result"
  ce_build_validator :: "json \<Rightarrow> (json \<Rightarrow> string list, string) result"
  ce_debug_list :: "string list \<Rightarrow> string"

definition schema_path :: "contract_env \<Rightarrow> schema_name \<Rightarrow> string" where
  "schema_path env name = ce_manifest_dir env @ ''/schemas/'' @ schema_file_name name"

definition load_json_value :: "contract_env \<Rightarrow> string \<Rightarrow> json fa_local_result" where
  "load_json_value env path =
     and_then (map_err Io (ce_read_to_string env path))
       (\<lambda>raw. map_err Serialization (ce_from_str env raw))"

definition validate_contract_value ::
  "contract_env \<Rightarrow> schema_name \<Rightarrow> json \<Rightarrow> unit fa_local_result" where
  "validate_contract_value env name v =
     and_then (load_json_value env (schema_path env name)) (\<lambda>schema.
     and_then (map_err (SchemaCompile (schema_file_name name)) (ce_build_validator env schema))
       (\<lambda>validator.
          let errors = validator v in
          if errors = [] then Ok ()
          else Err (SchemaValidation (schema_file_name name) errors)))"

definition deserialize_contract_value ::
  "contract_env \<Rightarrow> (json \<Rightarrow> ('a, string) result) \<Rightarrow> schema_name \<Rightarrow> json \<Rightarrow> 'a fa_local_result" where
  "deserialize_contract_value env decode name v =
     and_then (validate_contract_value env name v) (\<lambda>_. map_err Serialization (decode v))"

definition load_contract_from_path ::
  "contract_env \<Rightarrow> (json \<Rightarrow> ('a, string) result) \<Rightarrow> schema_name \<Rightarrow> string \<Rightarrow> 'a fa_local_result" where
  "load_contract_from_path env decode name path =
     and_then (load_json_value env path) (deserialize_contract_value env decode name)"

section \<open>Facts\<close>

lemma schema_names_all_complete: "name \<in> set schema_names_all"
  by (cases name) (simp_all add: schema_names_all_def)

lemma schema_file_name_prefix: "schema_file_name name = fixture_prefix name @ ''.schema.json''"
  by (cases name) simp_all

lemma schema_file_name_inject: "schema_file_name a = schema_file_name b \<Longrightarrow> a = b"
  by (cases a; cases b) simp_all

text \<open>No decoder runs on a value that its schema rejects.\<close>

lemma deserialize_Ok:
  "deserialize_contract_value env decode name v = Ok x \<longleftrightarrow>
     validate_contract_value env name v = Ok () \<and> decode v = Ok x"
  by (auto simp: deserialize_contract_value_def result_simps)

text \<open>When the schema file is readable and compiles, validity is the validator's verdict.\<close>

lemma validate_contract_value_Ok:
  assumes "ce_read_to_string env (schema_path env name) = Ok raw"
    and "ce_from_str env raw = Ok schema"
    and "ce_build_validator env schema = Ok validator"
  shows "validate_contract_value env name v = Ok () \<longleftrightarrow> validator v = []"
  using assms by (auto simp: validate_contract_value_def load_json_value_def Let_def)

section \<open>Properties\<close>

text \<open>A contract value is decoded only after the validator compiled from the schema file of its own
contract found no error in it: loading succeeds exactly when the schema file is read, parses and
compiles, the compiled validator reports no error, and the decoder accepts the value.\<close>

theorem contract_loading_decides:
  "deserialize_contract_value env decode name v = Ok x \<longleftrightarrow>
     (\<exists>raw schema validator.
        ce_read_to_string env (ce_manifest_dir env @ ''/schemas/'' @ fixture_prefix name @ ''.schema.json'') =
          Ok raw \<and>
        ce_from_str env raw = Ok schema \<and> ce_build_validator env schema = Ok validator \<and>
        validator v = [] \<and> decode v = Ok x)"
  by (auto simp: deserialize_contract_value_def validate_contract_value_def load_json_value_def
      schema_path_def schema_file_name_prefix Let_def result_simps)

end
