(* ===== verification/Trust.thy ===== *)
theory Trust
  imports Contracts
begin

text \<open>
  The requester-trust engine, \<open>src/domain/requester_trust\<close>: the envelope, its evaluation against
  the expected environment and the clock, and the loader that turns every failure into a denial.
\<close>

record app_context =
  ac_app_id :: string
  ac_app_version :: string
  ac_installation_id :: uuid

datatype trust_basis =
  SignedLocalSurface | InternalServiceToken | ReviewMediation | DevelopmentFixture

datatype trust_basis_provenance =
  SignedManifest | OperatorConfiguration | RuntimeAttestation | TestFixture

datatype user_intent_basis = ExplicitUserAction | OperatorApproval

record requester_trust_envelope =
  rt_requester_id :: requester_id
  rt_requester_class :: requester_class
  rt_app_context :: app_context
  rt_environment_mode :: environment_mode
  rt_trust_basis :: trust_basis
  rt_trust_basis_provenance :: trust_basis_provenance
  rt_user_intent_basis :: "user_intent_basis option"
  rt_request_nonce_or_token :: string
  rt_issued_at :: timestamp
  rt_expires_at :: timestamp

record trust_evaluation_context =
  tc_expected_environment :: environment_mode
  tc_now :: timestamp

definition is_valid_nonce_or_token :: "string \<Rightarrow> bool" where
  "is_valid_nonce_or_token v \<longleftrightarrow>
     (16 \<le> length v \<and> length v \<le> 128) \<and>
     list_all (\<lambda>c. is_ascii_alphanumeric c \<or> c \<in> {CHR ''.'', CHR ''_'', CHR '':'', CHR ''-''}) v"

definition evaluate ::
  "timestamp \<Rightarrow> requester_trust_envelope \<Rightarrow> trust_evaluation_context \<Rightarrow> (unit, denial_guard) result"
where
  "evaluate now envelope ctx = checks
     [fail_if (rt_requester_class envelope = UntrustedUnknown)
        (deny now UnknownRequester Request RuntimeSafety ''unknown requester denied''),
      fail_if (rt_environment_mode envelope \<noteq> tc_expected_environment ctx)
        (deny now denial_reason_class.ContractInvalid Request Contract ''environment mismatch''),
      fail_if (rt_issued_at envelope \<ge> rt_expires_at envelope)
        (deny now UntrustedRequester Request RuntimeSafety
           ''request token or nonce has an invalid time window''),
      fail_if (\<not> is_valid_nonce_or_token (rt_request_nonce_or_token envelope))
        (deny now UntrustedRequester Request RuntimeSafety ''request token or nonce is invalid''),
      fail_if (tc_now ctx \<ge> rt_expires_at envelope)
        (deny now UntrustedRequester Request RuntimeSafety ''request token or nonce is expired'')]"

definition load_envelope ::
  "contract_env \<Rightarrow> (json \<Rightarrow> (requester_trust_envelope, string) result) \<Rightarrow> json \<Rightarrow>
   requester_trust_envelope fa_local_result" where
  "load_envelope env decode v = deserialize_contract_value env decode RequesterTrust v"

definition load_and_evaluate ::
  "contract_env \<Rightarrow> (json \<Rightarrow> (requester_trust_envelope, string) result) \<Rightarrow> timestamp \<Rightarrow> json \<Rightarrow>
   trust_evaluation_context \<Rightarrow> (requester_trust_envelope, denial_guard) result" where
  "load_and_evaluate env decode now v ctx =
     (if \<not> json_is_object v then
        Err (deny now denial_reason_class.ContractInvalid Request Contract
               ''malformed requester envelope: root must be an object'')
      else if json_get v ''trust_basis'' = None then
        Err (deny now UntrustedRequester Request Contract ''missing trust basis'')
      else
        and_then (map_err (\<lambda>error. deny now denial_reason_class.ContractInvalid Request Contract
                    (''malformed requester envelope: '' @ show_error (ce_debug_list env) error))
                    (load_envelope env decode v)) (\<lambda>envelope.
        and_then (evaluate now envelope ctx) (\<lambda>_. Ok envelope)))"

section \<open>What a trusted envelope is\<close>

definition trusted_at :: "requester_trust_envelope \<Rightarrow> environment_mode \<Rightarrow> timestamp \<Rightarrow> bool" where
  "trusted_at envelope environment now \<longleftrightarrow>
     rt_requester_class envelope \<noteq> UntrustedUnknown \<and>
     rt_environment_mode envelope = environment \<and>
     rt_issued_at envelope < rt_expires_at envelope \<and> now < rt_expires_at envelope \<and>
     is_valid_nonce_or_token (rt_request_nonce_or_token envelope)"

lemma evaluate_Ok:
  "evaluate now envelope ctx = Ok () \<longleftrightarrow>
     trusted_at envelope (tc_expected_environment ctx) (tc_now ctx)"
  by (auto simp: evaluate_def trusted_at_def result_simps)

lemma load_and_evaluate_Ok:
  "load_and_evaluate env decode now v ctx = Ok envelope \<longleftrightarrow>
     json_is_object v \<and> json_get v ''trust_basis'' \<noteq> None \<and>
     load_envelope env decode v = Ok envelope \<and>
     trusted_at envelope (tc_expected_environment ctx) (tc_now ctx)"
  by (auto simp: load_and_evaluate_def result_simps evaluate_Ok)

section \<open>Properties\<close>

text \<open>Requester trust. The engine accepts an envelope exactly when it is a JSON object that names
its trust basis, decodes as a requester-trust contract, belongs to a known requester class and to the
expected environment, has a nonempty time window that has not ended, and carries a token of 16 to 128
admissible characters; whatever fails, the answer is a denial guard and never an error.\<close>

theorem trust_decides:
  "load_and_evaluate env decode now v ctx = Ok envelope \<longleftrightarrow>
     json_is_object v \<and> json_get v ''trust_basis'' \<noteq> None \<and>
     deserialize_contract_value env decode RequesterTrust v = Ok envelope \<and>
     rt_requester_class envelope \<noteq> UntrustedUnknown \<and>
     rt_environment_mode envelope = tc_expected_environment ctx \<and>
     rt_issued_at envelope < rt_expires_at envelope \<and> tc_now ctx < rt_expires_at envelope \<and>
     is_valid_nonce_or_token (rt_request_nonce_or_token envelope)"
  by (auto simp: load_and_evaluate_Ok trusted_at_def load_envelope_def)

end
