(* ===== verification/Policy_Artifact.thy ===== *)
theory Policy_Artifact
  imports Contracts
begin

text \<open>
  The policy artifact, \<open>src/domain/policy\<close>: its rules, the first-match lookup of a capability rule
  and the loader that denies on a missing or malformed artifact.
\<close>

record policy_scope =
  ps_service_id :: string
  ps_environment_modes :: "environment_mode list"

record capability_rule =
  cr_capability_id :: capability_id
  cr_allowed :: bool
  cr_allowed_requester_classes :: "requester_class list"
  cr_allowed_side_effect_classes :: "side_effect_class list"
  cr_required_approval_posture :: approval_posture

record side_effect_rule =
  se_side_effect_class :: side_effect_class
  se_allowed :: bool

record approval_rule =
  ar_requester_class :: requester_class
  ar_max_posture :: approval_posture

datatype dependency_readiness_condition = AllDependenciesReady

datatype failure_behavior = Deny

datatype policy_provenance_kind = LocalGovernedFile

record policy_provenance =
  pp_source_kind :: policy_provenance_kind
  pp_issued_at :: timestamp

record policy_artifact =
  pa_policy_id :: policy_id
  pa_policy_version :: string
  pa_scope :: policy_scope
  pa_capability_rules :: "capability_rule list"
  pa_side_effect_rules :: "side_effect_rule list"
  pa_approval_rules :: "approval_rule list"
  pa_environment_conditions :: "environment_mode list"
  pa_dependency_readiness_conditions :: "dependency_readiness_condition list"
  pa_failure_behavior :: failure_behavior
  pa_policy_provenance :: policy_provenance

definition capability_rule_for :: "policy_artifact \<Rightarrow> capability_id \<Rightarrow> capability_rule option" where
  "capability_rule_for policy cap = find (\<lambda>rule. cr_capability_id rule = cap) (pa_capability_rules policy)"

definition load_policy ::
  "contract_env \<Rightarrow> (json \<Rightarrow> (policy_artifact, string) result) \<Rightarrow> json \<Rightarrow> policy_artifact fa_local_result" where
  "load_policy env decode v = deserialize_contract_value env decode PolicyArtifact v"

definition load_required_value ::
  "contract_env \<Rightarrow> (json \<Rightarrow> (policy_artifact, string) result) \<Rightarrow> timestamp \<Rightarrow> json option \<Rightarrow>
   (policy_artifact, denial_guard) result" where
  "load_required_value env decode now v =
     and_then (ok_or v (deny now MissingPolicy Artifact Policy ''missing policy artifact''))
       (\<lambda>v. map_err (\<lambda>error. deny now denial_reason_class.ContractInvalid Artifact Contract
                (''invalid policy artifact: '' @ show_error (ce_debug_list env) error))
              (load_policy env decode v))"

interpretation rule_table: keyed_table pa_capability_rules cr_capability_id capability_rule_for
  by unfold_locales (simp add: capability_rule_for_def)

lemma load_required_value_Ok:
  "load_required_value env decode now v = Ok policy \<longleftrightarrow>
     (\<exists>j. v = Some j \<and> load_policy env decode j = Ok policy)"
  by (auto simp: load_required_value_def result_simps)

end
