(* ===== verification/Capabilities.thy ===== *)
theory Capabilities
  imports Trust Policy_Artifact
begin

text \<open>
  Execution requests (\<open>ExecutionRequest\<close> of \<open>src/domain/execution\<close> and the intake service that
  loads them) and the capability registry, \<open>src/domain/capabilities\<close>: its records, its first-match
  lookup and the admission of a request.
\<close>

section \<open>Execution requests\<close>

datatype request_intent = ExecuteCapability

record execution_request =
  er_request_id :: request_id
  er_correlation_id :: correlation_id
  er_requester_id :: requester_id
  er_environment_mode :: environment_mode
  er_requested_capability_id :: capability_id
  er_requested_side_effect_class :: side_effect_class
  er_intent :: request_intent
  er_intent_summary :: string
  er_requested_at :: timestamp

definition load_execution_request ::
  "contract_env \<Rightarrow> (json \<Rightarrow> (execution_request, string) result) \<Rightarrow> json \<Rightarrow> execution_request fa_local_result"
where
  "load_execution_request env decode v = deserialize_contract_value env decode ExecutionRequest v"

record intake_validation_result =
  iv_request :: execution_request

definition validate_request ::
  "contract_env \<Rightarrow> (json \<Rightarrow> (execution_request, string) result) \<Rightarrow> json \<Rightarrow>
   intake_validation_result fa_local_result" where
  "validate_request env decode v =
     and_then (load_execution_request env decode v) (\<lambda>request. Ok \<lparr>iv_request = request\<rparr>)"

definition validate_request_bytes ::
  "contract_env \<Rightarrow> (json \<Rightarrow> (execution_request, string) result) \<Rightarrow> string \<Rightarrow>
   intake_validation_result fa_local_result" where
  "validate_request_bytes env decode bytes =
     and_then (map_err Serialization (ce_from_slice env bytes)) (validate_request env decode)"

section \<open>The registry\<close>

datatype capability_type =
  LocalFileRead | LocalFileWrite | LocalDbMutation | LocalProcessSpawn | GovernedOther

datatype enabled_state = Enabled | Disabled

datatype review_class = NoReview | Operator

datatype capability_provenance_kind = RegistryFile

record capability_provenance =
  cp_source_kind :: capability_provenance_kind
  cp_issued_at :: timestamp

record capability_record =
  cap_capability_id :: capability_id
  cap_owner_service :: string
  cap_capability_type :: capability_type
  cap_side_effect_class :: side_effect_class
  cap_approval_posture :: approval_posture
  cap_allowed_requester_classes :: "requester_class list"
  cap_timeout_budget_ms :: u64
  cap_retry_budget :: u32
  cap_max_duration_budget_ms :: u64
  cap_max_cpu_budget :: "u32 option"
  cap_max_mem_budget_mb :: "u32 option"
  cap_enabled_state :: enabled_state
  cap_review_class :: review_class
  cap_provenance :: capability_provenance
  cap_revocation_state :: revocation_state
  cap_version_range :: "string option"

record capability_registry =
  reg_registry_version :: string
  reg_capabilities :: "capability_record list"

definition capability_for :: "capability_registry \<Rightarrow> capability_id \<Rightarrow> capability_record option" where
  "capability_for registry cap = find (\<lambda>entry. cap_capability_id entry = cap) (reg_capabilities registry)"

definition load_registry ::
  "contract_env \<Rightarrow> (json \<Rightarrow> (capability_registry, string) result) \<Rightarrow> json \<Rightarrow>
   capability_registry fa_local_result" where
  "load_registry env decode v = deserialize_contract_value env decode CapabilityRegistry v"

interpretation registry_table: keyed_table reg_capabilities cap_capability_id capability_for
  by unfold_locales (simp add: capability_for_def)

section \<open>Admission\<close>

definition admit_execution_request ::
  "timestamp \<Rightarrow> capability_registry \<Rightarrow> policy_artifact \<Rightarrow> requester_trust_envelope \<Rightarrow>
   execution_request \<Rightarrow> (capability_record, denial_guard) result" where
  "admit_execution_request now registry policy requester request =
     and_then (ok_or (capability_for registry (er_requested_capability_id request))
       (deny now CapabilityNotAdmitted Capability Policy ''unregistered capability'')) (\<lambda>capability.
     and_then (checks
       [fail_if (cap_enabled_state capability = enabled_state.Disabled)
          (deny now DisabledByOperator Capability Policy ''capability is disabled''),
        fail_if (cap_revocation_state capability = Revoked)
          (deny now CapabilityNotAdmitted Capability Policy ''capability is revoked''),
        fail_if (cap_owner_service capability \<noteq> SERVICE_ID)
          (deny now CapabilityNotAdmitted Capability Policy
             ''capability owner does not match fa-local''),
        fail_if (rt_requester_class requester \<notin> set (cap_allowed_requester_classes capability))
          (deny now CapabilityNotAdmitted Capability Policy
             ''requester class is not admitted for capability''),
        fail_if (cap_side_effect_class capability \<noteq> er_requested_side_effect_class request)
          (deny now PolicyDenied Capability ContractAndPolicy
             ''policy/capability mismatch: requested side effect does not match capability'')])
       (\<lambda>_.
     and_then (ok_or (capability_rule_for policy (cap_capability_id capability))
       (deny now PolicyDenied Capability ContractAndPolicy
          ''policy/capability mismatch: capability missing from policy'')) (\<lambda>policy_rule.
     and_then (checks
       [fail_if (\<not> cr_allowed policy_rule)
          (deny now PolicyDenied Capability Policy ''policy denies capability''),
        fail_if (er_environment_mode request \<notin> set (ps_environment_modes (pa_scope policy)) \<or>
                 er_environment_mode request \<notin> set (pa_environment_conditions policy))
          (deny now PolicyDenied Capability Policy ''policy does not admit this environment''),
        fail_if (rt_requester_class requester \<notin> set (cr_allowed_requester_classes policy_rule))
          (deny now PolicyDenied Capability Policy
             ''policy/capability mismatch: requester class not allowed''),
        fail_if (er_requested_side_effect_class request \<notin>
                 set (cr_allowed_side_effect_classes policy_rule))
          (deny now PolicyDenied Capability Policy
             ''policy/capability mismatch: side effect class not allowed'')])
       (\<lambda>_. Ok capability))))"

text \<open>
  The admission contract: which registry entry may serve a request, stated as a set of independent
  conditions on the registry, the policy and the requester.
\<close>

definition admissible ::
  "capability_registry \<Rightarrow> policy_artifact \<Rightarrow> requester_trust_envelope \<Rightarrow> execution_request \<Rightarrow>
   capability_record \<Rightarrow> bool" where
  "admissible registry policy requester request c \<longleftrightarrow>
     capability_for registry (er_requested_capability_id request) = Some c \<and>
     cap_enabled_state c = Enabled \<and> cap_revocation_state c \<noteq> Revoked \<and>
     cap_owner_service c = SERVICE_ID \<and>
     rt_requester_class requester \<in> set (cap_allowed_requester_classes c) \<and>
     cap_side_effect_class c = er_requested_side_effect_class request \<and>
     er_environment_mode request \<in>
       set (ps_environment_modes (pa_scope policy)) \<inter> set (pa_environment_conditions policy) \<and>
     (\<exists>rule. capability_rule_for policy (er_requested_capability_id request) = Some rule \<and>
        cr_allowed rule \<and> rt_requester_class requester \<in> set (cr_allowed_requester_classes rule) \<and>
        er_requested_side_effect_class request \<in> set (cr_allowed_side_effect_classes rule))"

lemma not_disabled: "s \<noteq> enabled_state.Disabled \<longleftrightarrow> s = Enabled"
  by (cases s) simp_all

lemma capability_for_id: "capability_for registry cap = Some c \<Longrightarrow> cap_capability_id c = cap"
  using registry_table.lookup_Some_in by blast

lemma admit_execution_request_Ok:
  "admit_execution_request now registry policy requester request = Ok c \<longleftrightarrow>
     admissible registry policy requester request c"
proof (cases "capability_for registry (er_requested_capability_id request)")
  case None
  then show ?thesis by (simp add: admit_execution_request_def admissible_def)
next
  case (Some c')
  then have "cap_capability_id c' = er_requested_capability_id request"
    by (rule capability_for_id)
  with Some show ?thesis
    by (auto simp: admit_execution_request_def admissible_def result_simps not_disabled)
qed

text \<open>Every refusal of the admission is a denial of the capability.\<close>

lemma admit_execution_request_Err:
  "admit_execution_request now registry policy requester request = Err guard \<Longrightarrow>
     dg_scope guard = Capability \<and> dg_timestamp_utc guard = now \<and>
     dg_reason_class guard \<in> {CapabilityNotAdmitted, DisabledByOperator, PolicyDenied}"
  unfolding admit_execution_request_def
  by (auto simp: result_errs dest!: checks_Err_in)

section \<open>Properties\<close>

text \<open>C34: Capability admission. A request is admitted, with the registry's first entry for its
capability, exactly when that entry is enabled, not revoked, owned by this service, open to the
requester's class and declared for the requested side effect, and the policy's first rule for the
capability allows it for that class and side effect in an environment the policy covers.\<close>

theorem admission_decides:
  "admit_execution_request now registry policy requester request = Ok c \<longleftrightarrow>
     admissible registry policy requester request c"
  by (rule admit_execution_request_Ok)

text \<open>Revocation. Of the three revocation states only \<open>Revoked\<close> refuses a request: an entry whose
operator switch is on and whose revocation state is \<open>Disabled\<close> is admitted like an active one.\<close>

theorem disabled_revocation_admits:
  "(admit_execution_request now \<lparr>reg_registry_version = v,
       reg_capabilities = [c\<lparr>cap_revocation_state := revocation_state.Disabled\<rparr>]\<rparr> policy requester request =
     Ok (c\<lparr>cap_revocation_state := revocation_state.Disabled\<rparr>)) \<longleftrightarrow>
   (admit_execution_request now \<lparr>reg_registry_version = v,
       reg_capabilities = [c\<lparr>cap_revocation_state := Active\<rparr>]\<rparr> policy requester request =
     Ok (c\<lparr>cap_revocation_state := Active\<rparr>))"
  by (simp add: admit_execution_request_Ok admissible_def capability_for_def)

end
