(* ===== verification/Posture.thy ===== *)
theory Posture
  imports Capabilities
begin

text \<open>
  Route decisions, \<open>src/domain/routing\<close>, and the approval-posture resolver, \<open>src/domain/posture\<close>:
  the consistency checks, the six factors, the minimum over their ranks and the bounded operator
  summary. The resolver panics (\<open>None\<close>) where the source's \<open>expect\<close> or \<open>String::truncate\<close> would.
\<close>

section \<open>Route decisions\<close>

record policy_reference =
  pr_policy_id :: policy_id
  pr_policy_version :: string

record capability_decision_summary =
  cd_requested_capability_id :: capability_id
  cd_capability_admitted :: bool
  cd_capability_owner_service :: "string option"
  cd_requested_side_effect_class :: side_effect_class
  cd_capability_approval_posture :: "approval_posture option"
  cd_policy_required_approval_posture :: "approval_posture option"
  cd_requester_max_approval_posture :: "approval_posture option"
  cd_side_effect_minimum_approval_posture :: approval_posture
  cd_review_class :: "review_class option"

record route_decision =
  rd_route_decision_id :: route_decision_id
  rd_correlation_id :: correlation_id
  rd_request_id :: request_id
  rd_resolved_approval_posture :: approval_posture
  rd_execution_allowed :: bool
  rd_denial_guards :: "denial_guard list"
  rd_review_required :: bool
  rd_explicit_approval_required :: bool
  rd_policy_reference :: "policy_reference option"
  rd_capability_decision_summary :: capability_decision_summary
  rd_operator_visible_summary :: string
  rd_degraded_subtype :: "degraded_subtype option"
  rd_decided_at_utc :: timestamp

definition load_route_decision ::
  "contract_env \<Rightarrow> (json \<Rightarrow> (route_decision, string) result) \<Rightarrow> json \<Rightarrow> route_decision fa_local_result"
where
  "load_route_decision env decode v = deserialize_contract_value env decode RouteDecision v"

record route_resolution_input =
  ri_request :: execution_request
  ri_requester_trust_outcome :: "(requester_trust_envelope, denial_guard) result"
  ri_policy_outcome :: "(policy_artifact, denial_guard) result"
  ri_capability_admission_outcome :: "(capability_record, denial_guard) result"

record route_resolution_context =
  rc_route_decision_id :: route_decision_id
  rc_decided_at_utc :: timestamp
  rc_degraded_subtype :: "degraded_subtype option"

definition new_route_resolution_context ::
  "route_decision_id \<Rightarrow> timestamp \<Rightarrow> route_resolution_context" where
  "new_route_resolution_context route_decision_id decided_at =
     \<lparr>rc_route_decision_id = route_decision_id, rc_decided_at_utc = decided_at,
      rc_degraded_subtype = None\<rparr>"

definition with_degraded_subtype ::
  "degraded_subtype \<Rightarrow> route_resolution_context \<Rightarrow> route_resolution_context" where
  "with_degraded_subtype subtype ctx = ctx\<lparr>rc_degraded_subtype := Some subtype\<rparr>"

section \<open>Postures in order\<close>

fun posture_rank :: "approval_posture \<Rightarrow> nat" where
  "posture_rank approval_posture.Denied = 0"
| "posture_rank approval_posture.ReviewRequired = 1"
| "posture_rank ExplicitOperatorApproval = 2"
| "posture_rank PolicyPreapproved = 3"
| "posture_rank ExecuteAllowed = 4"

text \<open>The rank orders the postures, so that the library's minima and bounds apply to them.\<close>

instantiation approval_posture :: linorder
begin

definition less_eq_approval_posture :: "approval_posture \<Rightarrow> approval_posture \<Rightarrow> bool" where
  "p \<le> q \<longleftrightarrow> posture_rank p \<le> posture_rank q"

definition less_approval_posture :: "approval_posture \<Rightarrow> approval_posture \<Rightarrow> bool" where
  "p < q \<longleftrightarrow> posture_rank p < posture_rank q"

instance
proof
  fix p q r :: approval_posture
  show "p < q \<longleftrightarrow> p \<le> q \<and> \<not> q \<le> p"
    by (auto simp: less_eq_approval_posture_def less_approval_posture_def)
  show "p \<le> p" by (simp add: less_eq_approval_posture_def)
  show "p \<le> q \<Longrightarrow> q \<le> r \<Longrightarrow> p \<le> r" by (simp add: less_eq_approval_posture_def)
  show "p \<le> q \<Longrightarrow> q \<le> p \<Longrightarrow> p = q"
    by (cases p; cases q) (simp_all add: less_eq_approval_posture_def)
  show "p \<le> q \<or> q \<le> p" by (auto simp: less_eq_approval_posture_def)
qed

end

fun side_effect_minimum_posture :: "side_effect_class \<Rightarrow> approval_posture" where
  "side_effect_minimum_posture NoSideEffect = ExecuteAllowed"
| "side_effect_minimum_posture side_effect_class.LocalFileWrite = PolicyPreapproved"
| "side_effect_minimum_posture side_effect_class.LocalDbMutation = PolicyPreapproved"
| "side_effect_minimum_posture side_effect_class.LocalProcessSpawn = ExplicitOperatorApproval"
| "side_effect_minimum_posture OtherGoverned = ExplicitOperatorApproval"
| "side_effect_minimum_posture ExternalNetworkDeniedByDefault = approval_posture.Denied"

fun review_class_minimum_posture :: "review_class \<Rightarrow> approval_posture" where
  "review_class_minimum_posture NoReview = ExecuteAllowed"
| "review_class_minimum_posture Operator = ExplicitOperatorApproval"

fun user_intent_minimum_posture :: "user_intent_basis option \<Rightarrow> approval_posture" where
  "user_intent_minimum_posture (Some _) = ExecuteAllowed"
| "user_intent_minimum_posture None = approval_posture.ReviewRequired"

definition execution_allowed_for :: "approval_posture \<Rightarrow> bool" where
  "execution_allowed_for posture \<longleftrightarrow> admitted_posture posture"

text \<open>\<open>Iterator::min_by_key\<close>: the first element of least key.\<close>

fun min_by_key :: "('a \<Rightarrow> nat) \<Rightarrow> 'a list \<Rightarrow> 'a option" where
  "min_by_key f [] = None"
| "min_by_key f (x # xs) = Some (foldl (\<lambda>m y. if f y < f m then y else m) x xs)"

section \<open>Summaries\<close>

definition bounded_summary :: "string \<Rightarrow> string option" where
  "bounded_summary summary =
     (let bounded = chars_take 160 summary in
      if chars_count summary > 160
      then do { bounded \<leftarrow> str_truncate 157 bounded; Some (bounded @ ''...'') }
      else Some bounded)"

definition first_denial_summary :: "denial_guard list \<Rightarrow> string" where
  "first_denial_summary guards =
     (case guards of [] \<Rightarrow> ''request denied'' | g # _ \<Rightarrow> dg_summary g)"

definition denied_summary :: "execution_request \<Rightarrow> string" where
  "denied_summary request =
     (if er_requested_side_effect_class request = ExternalNetworkDeniedByDefault
      then ''requested side effect is denied by bounded doctrine''
      else ''approval posture resolution denied request'')"

fun operator_text :: "approval_posture \<Rightarrow> string" where
  "operator_text approval_posture.Denied = ''request denied for capability ''"
| "operator_text approval_posture.ReviewRequired = ''request requires review for capability ''"
| "operator_text ExplicitOperatorApproval =
     ''request requires explicit operator approval for capability ''"
| "operator_text PolicyPreapproved = ''request is policy preapproved for capability ''"
| "operator_text ExecuteAllowed = ''request is execute allowed for capability ''"

definition operator_summary :: "approval_posture \<Rightarrow> string \<Rightarrow> string option" where
  "operator_summary posture cap = bounded_summary (operator_text posture @ cap)"

definition stamped_denial ::
  "denial_reason_class \<Rightarrow> denial_scope \<Rightarrow> denial_basis \<Rightarrow> string \<Rightarrow> timestamp \<Rightarrow> denial_guard" where
  "stamped_denial reason scope basis summary stamp =
     \<lparr>dg_reason_class = reason, dg_scope = scope, dg_basis = basis, dg_remediable = False,
      dg_review_available = False, dg_summary = summary, dg_timestamp_utc = stamp\<rparr>"

section \<open>Consistency\<close>

definition approval_rule_for :: "policy_artifact \<Rightarrow> requester_class \<Rightarrow> approval_rule option" where
  "approval_rule_for policy cls = find (\<lambda>rule. ar_requester_class rule = cls) (pa_approval_rules policy)"

definition side_effect_rule_for :: "policy_artifact \<Rightarrow> side_effect_class \<Rightarrow> side_effect_rule option" where
  "side_effect_rule_for policy c = find (\<lambda>rule. se_side_effect_class rule = c) (pa_side_effect_rules policy)"

interpretation approval_table: keyed_table pa_approval_rules ar_requester_class approval_rule_for
  by unfold_locales (simp add: approval_rule_for_def)

interpretation side_effect_table:
  keyed_table pa_side_effect_rules se_side_effect_class side_effect_rule_for
  by unfold_locales (simp add: side_effect_rule_for_def)

text \<open>\<open>if condition { denials.push(denial); }\<close>\<close>

definition push_if :: "bool \<Rightarrow> 'a \<Rightarrow> 'a list" where
  "push_if b x = (if b then [x] else [])"

definition validate_consistency ::
  "execution_request \<Rightarrow> requester_trust_envelope \<Rightarrow> policy_artifact \<Rightarrow> capability_record \<Rightarrow>
   timestamp \<Rightarrow> denial_guard list" where
  "validate_consistency request requester policy capability stamp = concat
     [push_if (er_requester_id request \<noteq> rt_requester_id requester)
        (stamped_denial denial_reason_class.ContractInvalid Request Contract
           ''requester envelope does not match execution request'' stamp),
      push_if (er_environment_mode request \<noteq> rt_environment_mode requester)
        (stamped_denial denial_reason_class.ContractInvalid Request Contract
           ''requester environment does not match execution request'' stamp),
      push_if (ps_service_id (pa_scope policy) \<noteq> SERVICE_ID)
        (stamped_denial PolicyDenied Artifact Policy
           ''policy service scope does not match fa-local'' stamp),
      push_if (er_environment_mode request \<notin> set (ps_environment_modes (pa_scope policy)) \<or>
               er_environment_mode request \<notin> set (pa_environment_conditions policy))
        (stamped_denial PolicyDenied Capability Policy
           ''policy does not admit this environment'' stamp),
      push_if (cap_capability_id capability \<noteq> er_requested_capability_id request)
        (stamped_denial CapabilityNotAdmitted Capability Policy
           ''capability decision does not match execution request'' stamp),
      push_if (cap_owner_service capability \<noteq> SERVICE_ID)
        (stamped_denial CapabilityNotAdmitted Capability Policy
           ''capability owner does not match fa-local'' stamp),
      push_if (cap_side_effect_class capability \<noteq> er_requested_side_effect_class request)
        (stamped_denial PolicyDenied Capability ContractAndPolicy
           ''policy/capability mismatch: requested side effect does not match capability'' stamp),
      push_if (capability_rule_for policy (cap_capability_id capability) = None)
        (stamped_denial PolicyDenied Capability ContractAndPolicy
           ''policy/capability mismatch: capability missing from policy'' stamp),
      push_if (approval_rule_for policy (rt_requester_class requester) = None)
        (stamped_denial PolicyDenied Request Policy
           ''policy lacks requester approval rule'' stamp),
      (case side_effect_rule_for policy (er_requested_side_effect_class request) of
         Some rule \<Rightarrow> push_if (\<not> se_allowed rule)
           (stamped_denial PolicyDenied Operation Policy
              ''policy denies requested side effect class'' stamp)
       | None \<Rightarrow>
           [stamped_denial PolicyDenied Operation Policy
              ''policy denies requested side effect class'' stamp])]"

definition build_capability_decision_summary ::
  "execution_request \<Rightarrow> requester_trust_envelope option \<Rightarrow> policy_artifact option \<Rightarrow>
   capability_record option \<Rightarrow> capability_decision_summary" where
  "build_capability_decision_summary request requester policy capability =
     \<lparr>cd_requested_capability_id = er_requested_capability_id request,
      cd_capability_admitted = (capability \<noteq> None),
      cd_capability_owner_service = map_option cap_owner_service capability,
      cd_requested_side_effect_class = er_requested_side_effect_class request,
      cd_capability_approval_posture = map_option cap_approval_posture capability,
      cd_policy_required_approval_posture = do {
        policy \<leftarrow> policy;
        map_option cr_required_approval_posture
          (capability_rule_for policy (er_requested_capability_id request)) },
      cd_requester_max_approval_posture = do {
        requester \<leftarrow> requester;
        policy \<leftarrow> policy;
        map_option ar_max_posture (approval_rule_for policy (rt_requester_class requester)) },
      cd_side_effect_minimum_approval_posture =
        side_effect_minimum_posture (er_requested_side_effect_class request),
      cd_review_class = map_option cap_review_class capability\<rparr>"

section \<open>Resolution\<close>

definition denied_decision ::
  "execution_request \<Rightarrow> policy_reference option \<Rightarrow> capability_decision_summary \<Rightarrow>
   denial_guard list \<Rightarrow> route_resolution_context \<Rightarrow> route_decision option" where
  "denied_decision request policy_reference summary guards ctx = do {
     visible \<leftarrow> bounded_summary (''request denied: '' @ first_denial_summary guards);
     Some \<lparr>rd_route_decision_id = rc_route_decision_id ctx,
       rd_correlation_id = er_correlation_id request,
       rd_request_id = er_request_id request,
       rd_resolved_approval_posture = approval_posture.Denied,
       rd_execution_allowed = False,
       rd_denial_guards = guards,
       rd_review_required = False,
       rd_explicit_approval_required = False,
       rd_policy_reference = policy_reference,
       rd_capability_decision_summary = summary,
       rd_operator_visible_summary = visible,
       rd_degraded_subtype = rc_degraded_subtype ctx,
       rd_decided_at_utc = rc_decided_at_utc ctx\<rparr> }"

primrec denial_of :: "('v, denial_guard) result \<Rightarrow> denial_guard list" where
  "denial_of (Ok v) = []"
| "denial_of (Err denial) = [denial]"

definition posture_factors ::
  "approval_rule \<Rightarrow> capability_rule \<Rightarrow> capability_record \<Rightarrow> execution_request \<Rightarrow>
   requester_trust_envelope \<Rightarrow> approval_posture list" where
  "posture_factors approval_rule policy_rule capability request requester =
     [ar_max_posture approval_rule,
      cr_required_approval_posture policy_rule,
      cap_approval_posture capability,
      review_class_minimum_posture (cap_review_class capability),
      side_effect_minimum_posture (er_requested_side_effect_class request),
      user_intent_minimum_posture (rt_user_intent_basis requester)]"

definition recorded_denials :: "route_resolution_input \<Rightarrow> route_resolution_context \<Rightarrow> denial_guard list"
where
  "recorded_denials input ctx =
     denial_of (ri_requester_trust_outcome input) @
     denial_of (ri_policy_outcome input) @
     denial_of (ri_capability_admission_outcome input) @
     (case (ok_value (ri_requester_trust_outcome input), ok_value (ri_policy_outcome input),
            ok_value (ri_capability_admission_outcome input)) of
        (Some requester, Some policy, Some capability) \<Rightarrow>
          validate_consistency (ri_request input) requester policy capability (rc_decided_at_utc ctx)
      | _ \<Rightarrow> [])"

definition resolve ::
  "(uuid \<Rightarrow> string) \<Rightarrow> route_resolution_input \<Rightarrow> route_resolution_context \<Rightarrow> route_decision option" where
  "resolve show_uuid input ctx =
     (let request = ri_request input;
          policy_reference = map_option
            (\<lambda>policy. \<lparr>pr_policy_id = pa_policy_id policy, pr_policy_version = pa_policy_version policy\<rparr>)
            (ok_value (ri_policy_outcome input));
          requester = ok_value (ri_requester_trust_outcome input);
          policy = ok_value (ri_policy_outcome input);
          capability = ok_value (ri_capability_admission_outcome input);
          denials = recorded_denials input ctx;
          summary = build_capability_decision_summary request requester policy capability
      in if denials \<noteq> [] then denied_decision request policy_reference summary denials ctx
         else do {
           requester \<leftarrow> requester;
           policy \<leftarrow> policy;
           capability \<leftarrow> capability;
           policy_rule \<leftarrow> capability_rule_for policy (cap_capability_id capability);
           approval_rule \<leftarrow> approval_rule_for policy (rt_requester_class requester);
           posture \<leftarrow> min_by_key posture_rank
             (posture_factors approval_rule policy_rule capability request requester);
           if posture = approval_posture.Denied
           then denied_decision request policy_reference summary
             [stamped_denial PolicyDenied Operation ContractAndPolicy (denied_summary request)
                (rc_decided_at_utc ctx)] ctx
           else do {
             visible \<leftarrow> operator_summary posture (show_uuid (er_requested_capability_id request));
             Some \<lparr>rd_route_decision_id = rc_route_decision_id ctx,
               rd_correlation_id = er_correlation_id request,
               rd_request_id = er_request_id request,
               rd_resolved_approval_posture = posture,
               rd_execution_allowed = execution_allowed_for posture,
               rd_denial_guards = [],
               rd_review_required = (posture = approval_posture.ReviewRequired),
               rd_explicit_approval_required = (posture = ExplicitOperatorApproval),
               rd_policy_reference = policy_reference,
               rd_capability_decision_summary = summary,
               rd_operator_visible_summary = visible,
               rd_degraded_subtype = rc_degraded_subtype ctx,
               rd_decided_at_utc = rc_decided_at_utc ctx\<rparr> } })"

section \<open>Bounded summaries\<close>

lemma bounded_summary_ascii:
  assumes "is_ascii s"
  shows "bounded_summary s = Some (if length s > 160 then take 157 s @ ''...'' else s)"
  using assms
  by (simp add: bounded_summary_def chars_take_ascii chars_count_ascii str_truncate_ascii
      is_ascii_take min_def)

lemma bounded_summary_ascii_bounded:
  "is_ascii s \<Longrightarrow> s \<noteq> [] \<Longrightarrow> \<exists>b. bounded_summary s = Some b \<and> bounded_text b \<and> is_ascii b"
  by (auto simp: bounded_summary_ascii is_ascii_take byte_def)

lemma is_ascii_operator_text: "is_ascii (operator_text p)"
  by (cases p) (simp_all add: byte_def)

section \<open>The resolved posture\<close>

lemma posture_rank_inject [simp]: "posture_rank p = posture_rank q \<longleftrightarrow> p = q"
  by (cases p; cases q) simp_all

lemma min_by_key_posture_rank:
  "min_by_key posture_rank (p # ps) = Some (Min (set (p # ps)))"
proof -
  have "foldl (\<lambda>m q. if posture_rank q < posture_rank m then q else m) p ps = fold min ps p"
  proof (induction ps arbitrary: p)
    case (Cons q ps)
    have "(if posture_rank q < posture_rank p then q else p) = min q p"
      by (auto simp: min_def less_eq_approval_posture_def not_le)
    with Cons.IH [of "min q p"] show ?case by simp
  qed simp
  then show ?thesis by (simp only: min_by_key.simps Min.set_eq_fold)
qed

definition consistent ::
  "execution_request \<Rightarrow> requester_trust_envelope \<Rightarrow> policy_artifact \<Rightarrow> capability_record \<Rightarrow> bool" where
  "consistent request requester policy capability \<longleftrightarrow>
     er_requester_id request = rt_requester_id requester \<and>
     er_environment_mode request = rt_environment_mode requester \<and>
     ps_service_id (pa_scope policy) = SERVICE_ID \<and>
     er_environment_mode request \<in>
       set (ps_environment_modes (pa_scope policy)) \<inter> set (pa_environment_conditions policy) \<and>
     cap_capability_id capability = er_requested_capability_id request \<and>
     cap_owner_service capability = SERVICE_ID \<and>
     cap_side_effect_class capability = er_requested_side_effect_class request \<and>
     capability_rule_for policy (cap_capability_id capability) \<noteq> None \<and>
     approval_rule_for policy (rt_requester_class requester) \<noteq> None \<and>
     (\<exists>rule. side_effect_rule_for policy (er_requested_side_effect_class request) = Some rule \<and>
        se_allowed rule)"

lemma push_if_Nil [simp]: "push_if b x = [] \<longleftrightarrow> \<not> b"
  by (simp add: push_if_def)

lemma validate_consistency_Nil:
  "validate_consistency request requester policy capability stamp = [] \<longleftrightarrow>
     consistent request requester policy capability"
  by (auto simp: validate_consistency_def consistent_def split: option.splits)

text \<open>
  What the rules permit, stated without the resolver's list of factors: the requester's ceiling, the
  policy's requirement and the capability's posture bound the posture, and so do the review class,
  the side effect and a missing user intent.
\<close>

definition permitted ::
  "approval_rule \<Rightarrow> capability_rule \<Rightarrow> capability_record \<Rightarrow> execution_request \<Rightarrow>
   requester_trust_envelope \<Rightarrow> approval_posture \<Rightarrow> bool" where
  "permitted approval rule capability request requester q \<longleftrightarrow>
     q \<le> ar_max_posture approval \<and> q \<le> cr_required_approval_posture rule \<and>
     q \<le> cap_approval_posture capability \<and>
     (cap_review_class capability = Operator \<longrightarrow> q \<le> ExplicitOperatorApproval) \<and>
     (er_requested_side_effect_class request \<in> {side_effect_class.LocalFileWrite,
        side_effect_class.LocalDbMutation} \<longrightarrow> q \<le> PolicyPreapproved) \<and>
     (er_requested_side_effect_class request \<in> {side_effect_class.LocalProcessSpawn, OtherGoverned} \<longrightarrow>
        q \<le> ExplicitOperatorApproval) \<and>
     (er_requested_side_effect_class request = ExternalNetworkDeniedByDefault \<longrightarrow>
        q = approval_posture.Denied) \<and>
     (rt_user_intent_basis requester = None \<longrightarrow> q \<le> approval_posture.ReviewRequired)"

definition greatest_permitted ::
  "approval_rule \<Rightarrow> capability_rule \<Rightarrow> capability_record \<Rightarrow> execution_request \<Rightarrow>
   requester_trust_envelope \<Rightarrow> approval_posture" where
  "greatest_permitted approval rule capability request requester =
     Max {q. permitted approval rule capability request requester q}"

lemma approval_posture_least: "approval_posture.Denied \<le> q"
  by (simp add: less_eq_approval_posture_def)

lemma approval_posture_greatest: "q \<le> ExecuteAllowed"
  by (cases q) (simp_all add: less_eq_approval_posture_def)

lemma finite_approval_postures: "finite (A :: approval_posture set)"
proof (rule finite_subset)
  show "A \<subseteq> {approval_posture.Denied, approval_posture.ReviewRequired, ExplicitOperatorApproval,
      PolicyPreapproved, ExecuteAllowed}"
  proof
    fix q assume "q \<in> A"
    show "q \<in> {approval_posture.Denied, approval_posture.ReviewRequired, ExplicitOperatorApproval,
      PolicyPreapproved, ExecuteAllowed}"
      by (cases q) simp_all
  qed
qed simp

lemma le_Denied_iff [simp]: "q \<le> approval_posture.Denied \<longleftrightarrow> q = approval_posture.Denied"
  using approval_posture_least order.antisym by blast

lemma le_side_effect_minimum_iff:
  "q \<le> side_effect_minimum_posture s \<longleftrightarrow>
     (s \<in> {side_effect_class.LocalFileWrite, side_effect_class.LocalDbMutation} \<longrightarrow>
        q \<le> PolicyPreapproved) \<and>
     (s \<in> {side_effect_class.LocalProcessSpawn, OtherGoverned} \<longrightarrow> q \<le> ExplicitOperatorApproval) \<and>
     (s = ExternalNetworkDeniedByDefault \<longrightarrow> q = approval_posture.Denied)"
  by (cases s) (simp_all add: approval_posture_greatest)

lemma le_review_class_minimum_iff:
  "q \<le> review_class_minimum_posture c \<longleftrightarrow> (c = Operator \<longrightarrow> q \<le> ExplicitOperatorApproval)"
  by (cases c) (simp_all add: approval_posture_greatest)

lemma le_user_intent_minimum_iff:
  "q \<le> user_intent_minimum_posture b \<longleftrightarrow> (b = None \<longrightarrow> q \<le> approval_posture.ReviewRequired)"
  by (cases b) (simp_all add: approval_posture_greatest)

lemma permitted_iff_factors:
  "permitted approval rule capability request requester q \<longleftrightarrow>
     (\<forall>f \<in> set (posture_factors approval rule capability request requester). q \<le> f)"
proof -
  have "(\<forall>f \<in> set (posture_factors approval rule capability request requester). q \<le> f) \<longleftrightarrow>
      q \<le> ar_max_posture approval \<and> q \<le> cr_required_approval_posture rule \<and>
      q \<le> cap_approval_posture capability \<and>
      q \<le> review_class_minimum_posture (cap_review_class capability) \<and>
      q \<le> side_effect_minimum_posture (er_requested_side_effect_class request) \<and>
      q \<le> user_intent_minimum_posture (rt_user_intent_basis requester)"
    by (simp add: posture_factors_def)
  then show ?thesis
    unfolding permitted_def le_side_effect_minimum_iff le_review_class_minimum_iff
      le_user_intent_minimum_iff by argo
qed

lemma greatest_permitted_permitted:
  "permitted approval rule capability request requester
     (greatest_permitted approval rule capability request requester)"
proof -
  have "permitted approval rule capability request requester approval_posture.Denied"
    by (simp add: permitted_def approval_posture_least)
  then have "{q. permitted approval rule capability request requester q} \<noteq> {}" by auto
  from Max_in [OF finite_approval_postures this] show ?thesis
    by (simp only: greatest_permitted_def mem_Collect_eq)
qed

lemma greatest_permitted_eq:
  "greatest_permitted approval rule capability request requester =
     Min (set (posture_factors approval rule capability request requester))"
proof -
  let ?F = "set (posture_factors approval rule capability request requester)"
  have ne: "?F \<noteq> {}" by (simp add: posture_factors_def)
  have "{q. permitted approval rule capability request requester q} = {..Min ?F}"
    using ne by (auto simp: permitted_iff_factors)
  then show ?thesis
    unfolding greatest_permitted_def by (intro Max_eqI finite_approval_postures) auto
qed

text \<open>
  The resolver's answer as a specification: the greatest permitted posture when every outcome is a
  success and the inputs agree with each other, and a denial otherwise.
\<close>

definition spec_posture :: "route_resolution_input \<Rightarrow> approval_posture" where
  "spec_posture input =
     (case (ri_requester_trust_outcome input, ri_policy_outcome input,
            ri_capability_admission_outcome input) of
        (Ok requester, Ok policy, Ok capability) \<Rightarrow>
          (if consistent (ri_request input) requester policy capability
           then (case (capability_rule_for policy (cap_capability_id capability),
                       approval_rule_for policy (rt_requester_class requester)) of
                   (Some rule, Some approval) \<Rightarrow>
                     greatest_permitted approval rule capability (ri_request input) requester
                 | _ \<Rightarrow> approval_posture.Denied)
           else approval_posture.Denied)
      | _ \<Rightarrow> approval_posture.Denied)"

lemma spec_posture_bounds:
  assumes "ri_requester_trust_outcome input = Ok r" and "ri_policy_outcome input = Ok p"
    and "ri_capability_admission_outcome input = Ok c"
  shows "spec_posture input \<le> cap_approval_posture c \<and>
    (\<forall>rule. capability_rule_for p (cap_capability_id c) = Some rule \<longrightarrow>
       spec_posture input \<le> cr_required_approval_posture rule) \<and>
    (\<forall>approval. approval_rule_for p (rt_requester_class r) = Some approval \<longrightarrow>
       spec_posture input \<le> ar_max_posture approval) \<and>
    (er_requested_side_effect_class (ri_request input) = ExternalNetworkDeniedByDefault \<longrightarrow>
       spec_posture input = approval_posture.Denied) \<and>
    (rt_user_intent_basis r = None \<longrightarrow> spec_posture input \<le> approval_posture.ReviewRequired)"
proof (cases "spec_posture input = approval_posture.Denied")
  case True
  then show ?thesis using approval_posture_least by simp
next
  case False
  with assms obtain rule approval where
    rules: "capability_rule_for p (cap_capability_id c) = Some rule"
      "approval_rule_for p (rt_requester_class r) = Some approval"
    and spec: "spec_posture input = greatest_permitted approval rule c (ri_request input) r"
    by (auto simp: spec_posture_def split: if_splits option.splits)
  have "permitted approval rule c (ri_request input) r (spec_posture input)"
    unfolding spec by (rule greatest_permitted_permitted)
  then show ?thesis by (simp add: rules permitted_def)
qed

text \<open>A decision whose flags say what its posture says.\<close>

definition coherent :: "route_decision \<Rightarrow> bool" where
  "coherent d \<longleftrightarrow>
     (rd_execution_allowed d \<longleftrightarrow> admitted_posture (rd_resolved_approval_posture d)) \<and>
     (rd_review_required d \<longleftrightarrow> rd_resolved_approval_posture d = approval_posture.ReviewRequired) \<and>
     (rd_explicit_approval_required d \<longleftrightarrow> rd_resolved_approval_posture d = ExplicitOperatorApproval)"

definition answers :: "route_resolution_input \<Rightarrow> route_resolution_context \<Rightarrow> route_decision \<Rightarrow> bool" where
  "answers input ctx d \<longleftrightarrow>
     rd_route_decision_id d = rc_route_decision_id ctx \<and>
     rd_correlation_id d = er_correlation_id (ri_request input) \<and>
     rd_request_id d = er_request_id (ri_request input) \<and>
     rd_degraded_subtype d = rc_degraded_subtype ctx \<and>
     rd_decided_at_utc d = rc_decided_at_utc ctx \<and>
     cd_requested_capability_id (rd_capability_decision_summary d) =
       er_requested_capability_id (ri_request input)"

lemma bind_Some_iff: "Option.bind x f = Some y \<longleftrightarrow> (\<exists>z. x = Some z \<and> f z = Some y)"
  by (cases x) auto

lemma bind_None_iff: "Option.bind x f = None \<longleftrightarrow> x = None \<or> (\<exists>z. x = Some z \<and> f z = None)"
  by (cases x) auto

lemma denied_decision_Some:
  assumes "denied_decision request ref summary guards ctx = Some d"
  shows "rd_resolved_approval_posture d = approval_posture.Denied" "coherent d"
    "rd_denial_guards d = guards"
    "rd_correlation_id d = er_correlation_id request" "rd_request_id d = er_request_id request"
    "rd_route_decision_id d = rc_route_decision_id ctx"
    "rd_degraded_subtype d = rc_degraded_subtype ctx" "rd_decided_at_utc d = rc_decided_at_utc ctx"
    "rd_capability_decision_summary d = summary" "rd_policy_reference d = ref"
    "bounded_summary (''request denied: '' @ first_denial_summary guards) =
       Some (rd_operator_visible_summary d)"
  using assms by (auto simp: denied_decision_def bind_Some_iff coherent_def)

lemma cd_requested_build [simp]:
  "cd_requested_capability_id (build_capability_decision_summary request r p c) =
     er_requested_capability_id request"
  by (simp add: build_capability_decision_summary_def)

lemma posture_factors_min:
  "min_by_key posture_rank (posture_factors a r c request requester) =
     Some (Min (set (posture_factors a r c request requester)))"
  unfolding posture_factors_def by (rule min_by_key_posture_rank)

lemma recorded_denials_Nil:
  "recorded_denials input ctx = [] \<longleftrightarrow>
     (\<exists>r p c. ri_requester_trust_outcome input = Ok r \<and> ri_policy_outcome input = Ok p \<and>
        ri_capability_admission_outcome input = Ok c \<and> consistent (ri_request input) r p c)"
  by (cases "ri_requester_trust_outcome input"; cases "ri_policy_outcome input";
      cases "ri_capability_admission_outcome input")
    (simp_all add: recorded_denials_def validate_consistency_Nil)

text \<open>
  The two ways through the resolver: a recorded denial decides, or everything agrees and the
  minimum of the factors decides.
\<close>

lemma resolve_denied:
  assumes "recorded_denials input ctx \<noteq> []"
  obtains ref summary where
    "cd_requested_capability_id summary = er_requested_capability_id (ri_request input)"
    "resolve show_uuid input ctx =
       denied_decision (ri_request input) ref summary (recorded_denials input ctx) ctx"
  by (rule that [OF cd_requested_build]) (simp add: resolve_def Let_def assms)

lemma spec_posture_denied:
  "recorded_denials input ctx \<noteq> [] \<Longrightarrow> spec_posture input = approval_posture.Denied"
  by (auto simp: recorded_denials_Nil spec_posture_def split: result.splits)

definition admitted_decision ::
  "route_resolution_input \<Rightarrow> route_resolution_context \<Rightarrow> policy_reference option \<Rightarrow>
   capability_decision_summary \<Rightarrow> string \<Rightarrow> route_decision" where
  "admitted_decision input ctx ref summary visible =
     \<lparr>rd_route_decision_id = rc_route_decision_id ctx,
      rd_correlation_id = er_correlation_id (ri_request input),
      rd_request_id = er_request_id (ri_request input),
      rd_resolved_approval_posture = spec_posture input,
      rd_execution_allowed = execution_allowed_for (spec_posture input),
      rd_denial_guards = [],
      rd_review_required = (spec_posture input = approval_posture.ReviewRequired),
      rd_explicit_approval_required = (spec_posture input = ExplicitOperatorApproval),
      rd_policy_reference = ref,
      rd_capability_decision_summary = summary,
      rd_operator_visible_summary = visible,
      rd_degraded_subtype = rc_degraded_subtype ctx,
      rd_decided_at_utc = rc_decided_at_utc ctx\<rparr>"

lemma resolve_agreed:
  assumes "recorded_denials input ctx = []"
  obtains ref summary where
    "cd_requested_capability_id summary = er_requested_capability_id (ri_request input)"
    "resolve show_uuid input ctx =
       (if spec_posture input = approval_posture.Denied
        then denied_decision (ri_request input) ref summary
          [stamped_denial PolicyDenied Operation ContractAndPolicy
             (denied_summary (ri_request input)) (rc_decided_at_utc ctx)] ctx
        else map_option (admitted_decision input ctx ref summary)
          (operator_summary (spec_posture input)
             (show_uuid (er_requested_capability_id (ri_request input)))))"
proof -
  from assms obtain r p c where ok: "ri_requester_trust_outcome input = Ok r"
    "ri_policy_outcome input = Ok p" "ri_capability_admission_outcome input = Ok c"
    and con: "consistent (ri_request input) r p c"
    by (auto simp: recorded_denials_Nil)
  from con obtain rule approval where
    rules: "capability_rule_for p (cap_capability_id c) = Some rule"
      "approval_rule_for p (rt_requester_class r) = Some approval"
    by (auto simp: consistent_def)
  have spec: "spec_posture input =
      Min (set (posture_factors approval rule c (ri_request input) r))"
    using ok con rules by (simp add: spec_posture_def greatest_permitted_eq)
  show ?thesis
    by (rule that [of "build_capability_decision_summary (ri_request input) (Some r) (Some p) (Some c)"
          "Some \<lparr>pr_policy_id = pa_policy_id p, pr_policy_version = pa_policy_version p\<rparr>"])
      (simp_all add: resolve_def Let_def assms ok rules posture_factors_min flip: spec,
       simp add: admitted_decision_def map_option_case split: option.split)
qed

lemma resolve_Some:
  assumes "resolve show_uuid input ctx = Some d"
  shows "rd_resolved_approval_posture d = spec_posture input \<and> coherent d \<and> answers input ctx d \<and>
    (rd_denial_guards d = [] \<longleftrightarrow> spec_posture input \<noteq> approval_posture.Denied)"
proof -
  have denied: ?thesis
    if "spec_posture input = approval_posture.Denied" "guards \<noteq> []"
      "cd_requested_capability_id summary = er_requested_capability_id (ri_request input)"
      "denied_decision (ri_request input) ref summary guards ctx = Some d"
    for ref summary guards
    using denied_decision_Some [OF that(4)] that(1-3) by (simp add: answers_def)
  show ?thesis
  proof (cases "recorded_denials input ctx = []")
    case False
    obtain ref summary where
      "cd_requested_capability_id summary = er_requested_capability_id (ri_request input)"
      "resolve show_uuid input ctx =
         denied_decision (ri_request input) ref summary (recorded_denials input ctx) ctx"
      using resolve_denied [OF False, of show_uuid] by blast
    with assms show ?thesis
      by (intro denied [OF spec_posture_denied [OF False] False]) simp_all
  next
    case True
    obtain ref summary where
      cap: "cd_requested_capability_id summary = er_requested_capability_id (ri_request input)"
      and eq: "resolve show_uuid input ctx =
       (if spec_posture input = approval_posture.Denied
        then denied_decision (ri_request input) ref summary
          [stamped_denial PolicyDenied Operation ContractAndPolicy
             (denied_summary (ri_request input)) (rc_decided_at_utc ctx)] ctx
        else map_option (admitted_decision input ctx ref summary)
          (operator_summary (spec_posture input)
             (show_uuid (er_requested_capability_id (ri_request input)))))"
      using resolve_agreed [OF True, of show_uuid] by blast
    show ?thesis
    proof (cases "spec_posture input = approval_posture.Denied")
      case True
      with assms cap eq show ?thesis by (intro denied [OF True _ cap]) simp_all
    next
      case False
      with assms eq obtain visible where "d = admitted_decision input ctx ref summary visible"
        by auto
      with False cap show ?thesis
        by (simp add: admitted_decision_def coherent_def answers_def execution_allowed_for_def)
    qed
  qed
qed

section \<open>No panic, and a bounded summary\<close>

text \<open>
  The texts the resolver did not write itself: the summaries of the denials it is handed, and the
  printed identifier.
\<close>

definition handed_texts :: "route_resolution_input \<Rightarrow> string set" where
  "handed_texts input = dg_summary ` set (denial_of (ri_requester_trust_outcome input) @
     denial_of (ri_policy_outcome input) @ denial_of (ri_capability_admission_outcome input))"

lemma validate_consistency_ascii:
  "g \<in> set (validate_consistency request r p c stamp) \<Longrightarrow> is_ascii (dg_summary g)"
  by (auto simp: validate_consistency_def push_if_def stamped_denial_def byte_def
      split: if_splits option.splits)

lemma recorded_denials_ascii:
  assumes "\<forall>t \<in> handed_texts input. is_ascii t" and "g \<in> set (recorded_denials input ctx)"
  shows "is_ascii (dg_summary g)"
  using assms
  by (auto simp: handed_texts_def recorded_denials_def dest: validate_consistency_ascii
      split: option.splits)

lemma denied_decision_ascii:
  assumes "is_ascii (first_denial_summary guards)"
  shows "\<exists>d. denied_decision request ref summary guards ctx = Some d \<and>
    bounded_text (rd_operator_visible_summary d)"
  using bounded_summary_ascii_bounded [of "''request denied: '' @ first_denial_summary guards"] assms
  by (auto simp: denied_decision_def byte_def)

lemma first_denial_summary_ascii:
  "(\<And>g. g \<in> set guards \<Longrightarrow> is_ascii (dg_summary g)) \<Longrightarrow> is_ascii (first_denial_summary guards)"
  by (cases guards) (auto simp: first_denial_summary_def byte_def)

lemma resolve_total:
  assumes "\<forall>t \<in> handed_texts input. is_ascii t"
    and "is_ascii (show_uuid (er_requested_capability_id (ri_request input)))"
  shows "\<exists>d. resolve show_uuid input ctx = Some d \<and> bounded_text (rd_operator_visible_summary d)"
proof (cases "recorded_denials input ctx = []")
  case False
  have "is_ascii (first_denial_summary (recorded_denials input ctx))"
    using recorded_denials_ascii [OF assms(1)] by (rule first_denial_summary_ascii)
  note total = denied_decision_ascii [OF this]
  obtain ref summary where "resolve show_uuid input ctx =
      denied_decision (ri_request input) ref summary (recorded_denials input ctx) ctx"
    using resolve_denied [OF False, of show_uuid] by blast
  then show ?thesis using total by simp
next
  case True
  let ?guard = "stamped_denial PolicyDenied Operation ContractAndPolicy
      (denied_summary (ri_request input)) (rc_decided_at_utc ctx)"
  have "is_ascii (first_denial_summary [?guard])"
    by (simp add: first_denial_summary_def stamped_denial_def denied_summary_def byte_def)
  note denied = denied_decision_ascii [OF this]
  obtain b where "operator_summary (spec_posture input)
      (show_uuid (er_requested_capability_id (ri_request input))) = Some b" "bounded_text b"
    using bounded_summary_ascii_bounded [of "operator_text (spec_posture input) @
        show_uuid (er_requested_capability_id (ri_request input))"] assms(2)
    by (cases "spec_posture input") (auto simp: operator_summary_def is_ascii_operator_text byte_def)
  then show ?thesis
    using denied resolve_agreed [OF True, of show_uuid]
    by (metis (no_types, lifting) admitted_decision_def option.simps(9) route_decision.select_convs(11))
qed

section \<open>A summary that is cut inside a character\<close>

text \<open>
  The cut is made at byte 157 of the first 160 characters. A text of two-byte characters after the
  sixteen bytes of the prefix has a continuation byte there.
\<close>

lemma chars_take_append_ascii:
  "is_ascii a \<Longrightarrow> length a \<le> n \<Longrightarrow> chars_take n (a @ s) = a @ chars_take (n - length a) s"
proof (induction a arbitrary: n)
  case Nil
  then show ?case by simp
next
  case (Cons c a)
  then obtain m where "n = Suc m" by (cases n) auto
  with Cons show ?case by (simp add: is_ascii_not_continuation)
qed

definition e_acute :: string where
  "e_acute = [CHR 0xC3, CHR 0xA9]"

lemma e_acute_chars:
  "chars_take n (concat (replicate m e_acute)) = concat (replicate (min n m) e_acute)"
  "chars_count (concat (replicate m e_acute)) = m"
proof -
  have c: "\<not> is_continuation CHR 0xC3" "is_continuation CHR 0xA9"
    by (simp_all add: is_continuation_def byte_def)
  show "chars_take n (concat (replicate m e_acute)) = concat (replicate (min n m) e_acute)"
    by (induction m arbitrary: n) (auto simp: e_acute_def c split: nat.split)
  show "chars_count (concat (replicate m e_acute)) = m"
    by (induction m) (simp_all add: e_acute_def c chars_count_def)
qed

lemma e_acute_odd_byte: "k < m \<Longrightarrow> concat (replicate m e_acute) ! (2 * k + 1) = CHR 0xA9"
proof (induction m arbitrary: k)
  case (Suc m)
  then show ?case by (cases k) (simp_all add: e_acute_def)
qed simp

lemma length_e_acute: "length (concat (replicate m e_acute)) = 2 * m"
  by (induction m) (simp_all add: e_acute_def)

lemma bounded_summary_cut: "bounded_summary (''request denied: '' @ concat (replicate 145 e_acute)) = None"
proof -
  let ?p = "''request denied: ''"
  have p: "is_ascii ?p" "length ?p = 16"
    by (simp_all add: byte_def)
  have taken: "chars_take 160 (?p @ concat (replicate 145 e_acute)) = ?p @ concat (replicate 144 e_acute)"
    using chars_take_append_ascii [OF p(1), of 160 "concat (replicate 145 e_acute)"]
    by (simp only: p(2) e_acute_chars) simp
  have count: "chars_count (?p @ concat (replicate 145 e_acute)) = 161"
    using chars_count_ascii [OF p(1)] e_acute_chars(2) [of 145]
    by (simp only: chars_count_def filter_append length_append p(2))
  have "(?p @ concat (replicate 144 e_acute)) ! 157 = concat (replicate 144 e_acute) ! (2 * 70 + 1)"
    by (simp only: nth_append p(2)) simp
  also have "\<dots> = CHR 0xA9"
    by (rule e_acute_odd_byte) simp
  finally have "str_truncate 157 (?p @ concat (replicate 144 e_acute)) = None"
    by (simp only: str_truncate_def is_char_boundary_def length_append p(2) length_e_acute)
      (simp add: is_continuation_def byte_def)
  then show ?thesis
    by (simp only: bounded_summary_def taken count Let_def) simp
qed

section \<open>Properties\<close>

text \<open>The resolver can panic. When the requester's denial has a summary of 145 two-byte characters,
as a schema error that quotes the caller's text may, the bounded operator summary is cut inside a
character and the resolver panics, whatever the policy, the capability and the request.\<close>

theorem resolver_panics_inside_character:
  "resolve show_uuid
     \<lparr>ri_request = request,
      ri_requester_trust_outcome = Err (guard\<lparr>dg_summary := concat (replicate 145 e_acute)\<rparr>),
      ri_policy_outcome = policy, ri_capability_admission_outcome = capability\<rparr> ctx = None"
  by (simp add: resolve_def recorded_denials_def Let_def denied_decision_def first_denial_summary_def
      bounded_summary_cut [simplified])

end
