(* ===== verification/Execution_Plan.thy ===== *)
theory Execution_Plan
  imports Capabilities "HOL-Library.Product_Lexorder"
begin

text \<open>
  Execution plans, \<open>src/domain/execution\<close>: the declared plan, its canonical form and hash, and the
  validator that admits a plan against the capability registry. The UUID printer, the JSON
  serialiser of the canonical form and SHA-256 are the fields of \<open>hash_env\<close>.
\<close>

section \<open>Plans\<close>

datatype cancellation_policy = CancelRemainingSteps | FinishInFlightOnly

datatype completion_policy = AllStepsMustSucceed | AllowDeclaredFallbackCompletion

record execution_plan_step =
  step_id :: string
  step_capability_id :: capability_id
  step_declared_side_effect_class :: side_effect_class
  step_timeout_budget_ms :: u64

record fallback_reference =
  fr_step_id :: string
  fr_fallback_step_id :: string

record execution_plan =
  pl_execution_plan_id :: execution_plan_id
  pl_correlation_id :: correlation_id
  pl_originating_request_id :: request_id
  pl_steps :: "execution_plan_step list"
  pl_referenced_capabilities :: "capability_id list"
  pl_declared_max_step_count :: u32
  pl_declared_side_effect_classes :: "side_effect_class list"
  pl_fallback_references :: "fallback_reference list"
  pl_cancellation_policy :: cancellation_policy
  pl_completion_policy :: completion_policy
  pl_max_duration_budget_ms :: u64
  pl_stable_plan_hash :: string
  pl_planned_at_utc :: timestamp

definition load_execution_plan ::
  "contract_env \<Rightarrow> (json \<Rightarrow> (execution_plan, string) result) \<Rightarrow> json \<Rightarrow> execution_plan fa_local_result"
where
  "load_execution_plan env decode v = deserialize_contract_value env decode ExecutionPlan v"

record validated_execution_plan =
  vp_plan :: execution_plan
  vp_stable_plan_hash :: string

fun side_effect_class_label :: "side_effect_class \<Rightarrow> string" where
  "side_effect_class_label NoSideEffect = ''none''"
| "side_effect_class_label side_effect_class.LocalFileWrite = ''local_file_write''"
| "side_effect_class_label side_effect_class.LocalDbMutation = ''local_db_mutation''"
| "side_effect_class_label side_effect_class.LocalProcessSpawn = ''local_process_spawn''"
| "side_effect_class_label ExternalNetworkDeniedByDefault = ''external_network_denied_by_default''"
| "side_effect_class_label OtherGoverned = ''other_governed''"

lemma side_effect_class_label_inject [simp]:
  "side_effect_class_label a = side_effect_class_label b \<longleftrightarrow> a = b"
  by (cases a; cases b) simp_all

section \<open>The canonical form and its hash\<close>

record canonical_execution_plan_step =
  cs_step_id :: string
  cs_capability_id :: string
  cs_declared_side_effect_class :: string
  cs_timeout_budget_ms :: u64

record canonical_fallback_reference =
  cf_step_id :: string
  cf_fallback_step_id :: string

record canonical_execution_plan =
  cn_steps :: "canonical_execution_plan_step list"
  cn_referenced_capabilities :: "string list"
  cn_declared_max_step_count :: u32
  cn_declared_side_effect_classes :: "string list"
  cn_fallback_references :: "canonical_fallback_reference list"
  cn_cancellation_policy :: cancellation_policy
  cn_completion_policy :: completion_policy
  cn_max_duration_budget_ms :: u64

record hash_env =
  he_show_uuid :: "uuid \<Rightarrow> string"
  he_to_vec :: "canonical_execution_plan \<Rightarrow> string"
  he_sha256 :: "string \<Rightarrow> 8 word list"

definition canonical_plan :: "(uuid \<Rightarrow> string) \<Rightarrow> execution_plan \<Rightarrow> canonical_execution_plan" where
  "canonical_plan show_uuid plan =
     \<lparr>cn_steps = map (\<lambda>step.
        \<lparr>cs_step_id = step_id step,
         cs_capability_id = show_uuid (step_capability_id step),
         cs_declared_side_effect_class =
           side_effect_class_label (step_declared_side_effect_class step),
         cs_timeout_budget_ms = step_timeout_budget_ms step\<rparr>) (pl_steps plan),
      cn_referenced_capabilities = sort (map show_uuid (pl_referenced_capabilities plan)),
      cn_declared_max_step_count = pl_declared_max_step_count plan,
      cn_declared_side_effect_classes =
        sort (map side_effect_class_label (pl_declared_side_effect_classes plan)),
      cn_fallback_references =
        sort_key (\<lambda>r. (cf_step_id r, cf_fallback_step_id r))
          (map (\<lambda>r. \<lparr>cf_step_id = fr_step_id r, cf_fallback_step_id = fr_fallback_step_id r\<rparr>)
            (pl_fallback_references plan)),
      cn_cancellation_policy = pl_cancellation_policy plan,
      cn_completion_policy = pl_completion_policy plan,
      cn_max_duration_budget_ms = pl_max_duration_budget_ms plan\<rparr>"

definition compute_stable_plan_hash :: "hash_env \<Rightarrow> execution_plan \<Rightarrow> string" where
  "compute_stable_plan_hash env plan =
     concat (map hex_byte (he_sha256 env (he_to_vec env (canonical_plan (he_show_uuid env) plan))))"

section \<open>The validator\<close>

definition checked_add :: "u64 \<Rightarrow> u64 \<Rightarrow> u64 option" where
  "checked_add a b = (if unat a + unat b < 2 ^ 64 then Some (a + b) else None)"

definition plan_denial :: "timestamp \<Rightarrow> string \<Rightarrow> denial_guard" where
  "plan_denial now summary = deny now denial_reason_class.ContractInvalid Operation Contract summary"

definition check_referenced_capability ::
  "timestamp \<Rightarrow> capability_registry \<Rightarrow> capability_id \<Rightarrow> (unit, denial_guard) result" where
  "check_referenced_capability now registry cap =
     and_then (ok_or (capability_for registry cap)
       (deny now CapabilityNotAdmitted Capability Policy
          ''execution plan references unregistered capability'')) (\<lambda>capability. checks
       [fail_if (cap_enabled_state capability = enabled_state.Disabled)
          (deny now DisabledByOperator Capability Policy
             ''execution plan references disabled capability''),
        fail_if (cap_revocation_state capability = Revoked)
          (deny now CapabilityNotAdmitted Capability Policy
             ''execution plan references revoked capability''),
        fail_if (cap_owner_service capability \<noteq> SERVICE_ID)
          (deny now CapabilityNotAdmitted Capability Policy
             ''execution plan references capability outside fa-local ownership'')])"

text \<open>
  The loop over the steps carries the index map and the running timeout total; \<open>i\<close> is the index
  of the first step of the rest.
\<close>

fun validate_steps ::
  "timestamp \<Rightarrow> capability_registry \<Rightarrow> execution_plan \<Rightarrow> nat \<Rightarrow> (string \<rightharpoonup> nat) \<Rightarrow> u64 \<Rightarrow>
   execution_plan_step list \<Rightarrow> ((string \<rightharpoonup> nat) \<times> u64, denial_guard) result" where
  "validate_steps now registry plan i ids total_ms [] = Ok (ids, total_ms)"
| "validate_steps now registry plan i ids total_ms (step # steps) =
     and_then (checks
       [fail_if (ids (step_id step) \<noteq> None)
          (plan_denial now ''execution plan contains duplicate step ids''),
        fail_if (step_capability_id step \<notin> set (pl_referenced_capabilities plan))
          (plan_denial now ''execution plan step references undeclared capability''),
        fail_if (side_effect_class_label (step_declared_side_effect_class step) \<notin>
                 set (map side_effect_class_label (pl_declared_side_effect_classes plan)))
          (plan_denial now ''execution plan step uses undeclared side effect class'')]) (\<lambda>_.
     and_then (ok_or (capability_for registry (step_capability_id step))
       (deny now CapabilityNotAdmitted Capability Policy
          ''execution plan references unregistered capability'')) (\<lambda>capability.
     and_then (checks
       [fail_if (cap_side_effect_class capability \<noteq> step_declared_side_effect_class step)
          (plan_denial now ''execution plan step side effect does not match capability''),
        fail_if (step_timeout_budget_ms step > cap_timeout_budget_ms capability)
          (plan_denial now ''execution plan step timeout exceeds capability timeout budget'')]) (\<lambda>_.
     and_then (ok_or (checked_add total_ms (step_timeout_budget_ms step))
       (plan_denial now ''execution plan timeout budget overflowed'')) (\<lambda>total_ms'.
       validate_steps now registry plan (Suc i) (ids(step_id step \<mapsto> i)) total_ms' steps))))"

definition check_fallback ::
  "timestamp \<Rightarrow> (string \<rightharpoonup> nat) \<Rightarrow> fallback_reference \<Rightarrow> (unit, denial_guard) result" where
  "check_fallback now ids r =
     and_then (ok_or (ids (fr_step_id r))
       (plan_denial now ''execution plan fallback references undeclared primary step''))
       (\<lambda>step_index.
     and_then (ok_or (ids (fr_fallback_step_id r))
       (plan_denial now ''execution plan fallback references undeclared fallback step''))
       (\<lambda>fallback_index. checks
       [fail_if (fr_step_id r = fr_fallback_step_id r)
          (plan_denial now ''execution plan fallback cannot target the same step''),
        fail_if (fallback_index \<le> step_index)
          (plan_denial now ''execution plan fallback must target a later declared step'')]))"

definition validate_plan ::
  "hash_env \<Rightarrow> timestamp \<Rightarrow> execution_plan \<Rightarrow> capability_registry \<Rightarrow>
   (validated_execution_plan, denial_guard) result" where
  "validate_plan env now plan registry =
     and_then (checks
       [fail_if (pl_steps plan = [])
          (plan_denial now ''execution plan must declare at least one step''),
        fail_if (length (pl_steps plan) > unat (pl_declared_max_step_count plan))
          (plan_denial now ''execution plan exceeds declared max step count'')]) (\<lambda>_.
     and_then (checks
       (map (check_referenced_capability now registry) (pl_referenced_capabilities plan))) (\<lambda>_.
     and_then (validate_steps now registry plan 0 Map.empty 0 (pl_steps plan)) (\<lambda>(ids, total_ms).
     and_then (checks
       [fail_if (total_ms > pl_max_duration_budget_ms plan)
          (plan_denial now ''execution plan timeout sum exceeds max duration budget''),
        fail_if (pl_fallback_references plan \<noteq> [] \<and>
                 pl_completion_policy plan \<noteq> AllowDeclaredFallbackCompletion)
          (plan_denial now
             ''execution plan fallback references require fallback-aware completion policy'')]) (\<lambda>_.
     and_then (checks (map (check_fallback now ids) (pl_fallback_references plan))) (\<lambda>_.
       let stable_plan_hash = compute_stable_plan_hash env plan in
       and_then (fail_if (pl_stable_plan_hash plan \<noteq> stable_plan_hash)
         (deny now IntegrityFailed Artifact Contract
            ''execution plan hash does not match canonical plan content'')) (\<lambda>_.
       Ok \<lparr>vp_plan = plan, vp_stable_plan_hash = stable_plan_hash\<rparr>))))))"

section \<open>What a valid plan is\<close>

text \<open>
  The plan contract, stated on the plan and the registry alone: no index map, no running total and
  no order of checks.
\<close>

definition capability_usable :: "capability_registry \<Rightarrow> capability_id \<Rightarrow> bool" where
  "capability_usable registry cap \<longleftrightarrow>
     (\<exists>c. capability_for registry cap = Some c \<and> cap_enabled_state c = Enabled \<and>
        cap_revocation_state c \<noteq> Revoked \<and> cap_owner_service c = SERVICE_ID)"

definition step_declared :: "capability_registry \<Rightarrow> execution_plan \<Rightarrow> execution_plan_step \<Rightarrow> bool" where
  "step_declared registry plan step \<longleftrightarrow>
     step_capability_id step \<in> set (pl_referenced_capabilities plan) \<and>
     step_declared_side_effect_class step \<in> set (pl_declared_side_effect_classes plan) \<and>
     (\<exists>c. capability_for registry (step_capability_id step) = Some c \<and>
        cap_side_effect_class c = step_declared_side_effect_class step \<and>
        step_timeout_budget_ms step \<le> cap_timeout_budget_ms c)"

definition declares_later :: "execution_plan_step list \<Rightarrow> fallback_reference \<Rightarrow> bool" where
  "declares_later steps r \<longleftrightarrow>
     (\<exists>i j. i < j \<and> j < length steps \<and> step_id (steps ! i) = fr_step_id r \<and>
        step_id (steps ! j) = fr_fallback_step_id r)"

definition timeout_sum :: "execution_plan_step list \<Rightarrow> nat" where
  "timeout_sum steps = sum_list (map (\<lambda>s. unat (step_timeout_budget_ms s)) steps)"

definition plan_structure_valid :: "capability_registry \<Rightarrow> execution_plan \<Rightarrow> bool" where
  "plan_structure_valid registry plan \<longleftrightarrow>
     pl_steps plan \<noteq> [] \<and> length (pl_steps plan) \<le> unat (pl_declared_max_step_count plan) \<and>
     (\<forall>cap \<in> set (pl_referenced_capabilities plan). capability_usable registry cap) \<and>
     distinct (map step_id (pl_steps plan)) \<and>
     (\<forall>step \<in> set (pl_steps plan). step_declared registry plan step) \<and>
     timeout_sum (pl_steps plan) \<le> unat (pl_max_duration_budget_ms plan) \<and>
     (pl_fallback_references plan \<noteq> [] \<longrightarrow>
        pl_completion_policy plan = AllowDeclaredFallbackCompletion) \<and>
     (\<forall>r \<in> set (pl_fallback_references plan). declares_later (pl_steps plan) r)"

section \<open>The validator decides the contract\<close>

lemma check_referenced_capability_Ok:
  "check_referenced_capability now registry cap = Ok u \<longleftrightarrow> capability_usable registry cap"
  by (auto simp: check_referenced_capability_def capability_usable_def result_simps not_disabled)

primrec index_steps :: "nat \<Rightarrow> (string \<rightharpoonup> nat) \<Rightarrow> execution_plan_step list \<Rightarrow> (string \<rightharpoonup> nat)" where
  "index_steps i ids [] = ids"
| "index_steps i ids (s # ss) = index_steps (Suc i) (ids(step_id s \<mapsto> i)) ss"

lemma checked_add_Some:
  "checked_add a b = Some c \<longleftrightarrow> unat a + unat b < 2 ^ 64 \<and> c = a + b"
  by (auto simp: checked_add_def)

lemma unat_checked_add: "checked_add a b = Some c \<Longrightarrow> unat c = unat a + unat b"
  by (auto simp: checked_add_Some unat_word_ariths)

lemma validate_steps_Ok:
  "validate_steps now registry plan i ids acc steps = Ok (ids', acc') \<longleftrightarrow>
     distinct (map step_id steps) \<and>
     (\<forall>s \<in> set steps. ids (step_id s) = None \<and> step_declared registry plan s) \<and>
     unat acc + timeout_sum steps < 2 ^ 64 \<and> acc' = acc + of_nat (timeout_sum steps) \<and>
     ids' = index_steps i ids steps"
proof (induction steps arbitrary: i ids acc)
  case Nil
  have "unat acc < 2 ^ 64"
    using unsigned_less [of acc, where ?'a = nat] by simp
  then show ?case by (auto simp: timeout_sum_def)
next
  case (Cons s ss)
  let ?t = "step_timeout_budget_ms s"
  have "validate_steps now registry plan i ids acc (s # ss) = Ok (ids', acc') \<longleftrightarrow>
      ids (step_id s) = None \<and> step_declared registry plan s \<and> unat acc + unat ?t < 2 ^ 64 \<and>
      validate_steps now registry plan (Suc i) (ids(step_id s \<mapsto> i)) (acc + ?t) ss = Ok (ids', acc')"
    by (auto simp: result_simps step_declared_def checked_add_Some not_less image_iff)
  also have "\<dots> \<longleftrightarrow> ids (step_id s) = None \<and> step_declared registry plan s \<and>
      unat acc + unat ?t < 2 ^ 64 \<and> distinct (map step_id ss) \<and>
      (\<forall>r \<in> set ss. step_id r \<noteq> step_id s \<and> ids (step_id r) = None \<and> step_declared registry plan r) \<and>
      unat (acc + ?t) + timeout_sum ss < 2 ^ 64 \<and> acc' = acc + ?t + of_nat (timeout_sum ss) \<and>
      ids' = index_steps i ids (s # ss)"
    unfolding Cons.IH by auto
  finally show ?case
    by (auto simp: timeout_sum_def unat_word_ariths add.assoc image_iff)
qed

lemma index_steps_Some:
  assumes "distinct (map step_id steps)" and "\<forall>s \<in> set steps. ids (step_id s) = None"
  shows "index_steps i ids steps x = Some n \<longleftrightarrow>
    ids x = Some n \<or> (\<exists>k < length steps. n = i + k \<and> step_id (steps ! k) = x)"
  using assms
proof (induction steps arbitrary: i ids)
  case Nil
  then show ?case by simp
next
  case (Cons s ss)
  have d: "distinct (map step_id ss)" "\<forall>t \<in> set ss. (ids(step_id s \<mapsto> i)) (step_id t) = None"
    using Cons.prems by (auto simp: rev_image_eqI)
  have "(\<exists>k < length (s # ss). n = i + k \<and> step_id ((s # ss) ! k) = x) \<longleftrightarrow>
      n = i \<and> step_id s = x \<or> (\<exists>k < length ss. n = Suc i + k \<and> step_id (ss ! k) = x)"
    by (auto simp: Ex_less_Suc2)
  moreover have "(ids(step_id s \<mapsto> i)) x = Some n \<longleftrightarrow> ids x = Some n \<or> n = i \<and> step_id s = x"
    using Cons.prems(2) by auto
  ultimately show ?case
    using Cons.IH [OF d, of "Suc i"] by (simp only: index_steps.simps) blast
qed

corollary index_steps_0_Some:
  assumes "distinct (map step_id steps)"
  shows "index_steps 0 Map.empty steps x = Some n \<longleftrightarrow> n < length steps \<and> step_id (steps ! n) = x"
  using assms by (simp add: index_steps_Some)

lemma declares_later_neq:
  assumes "distinct (map step_id steps)" and "i < j" "j < length steps"
  shows "step_id (steps ! i) \<noteq> step_id (steps ! j)"
  using assms nth_eq_iff_index_eq [of "map step_id steps" i j] by simp

lemma check_fallback_Ok:
  assumes d: "distinct (map step_id steps)"
  shows "check_fallback now (index_steps 0 Map.empty steps) r = Ok u \<longleftrightarrow> declares_later steps r"
proof
  assume "check_fallback now (index_steps 0 Map.empty steps) r = Ok u"
  then show "declares_later steps r"
    using d by (auto simp: check_fallback_def declares_later_def result_simps index_steps_0_Some not_le)
next
  assume "declares_later steps r"
  then obtain i j where ij: "i < j" "j < length steps"
    "step_id (steps ! i) = fr_step_id r" "step_id (steps ! j) = fr_fallback_step_id r"
    by (auto simp: declares_later_def)
  then have "index_steps 0 Map.empty steps (fr_step_id r) = Some i"
    "index_steps 0 Map.empty steps (fr_fallback_step_id r) = Some j"
    using d by (simp_all add: index_steps_0_Some)
  moreover have "fr_step_id r \<noteq> fr_fallback_step_id r"
    using declares_later_neq [OF d ij(1,2)] ij(3,4) by simp
  ultimately show "check_fallback now (index_steps 0 Map.empty steps) r = Ok u"
    using ij(1) by (simp add: check_fallback_def)
qed

lemma u64_bound: "unat (w :: u64) < 2 ^ 64"
  using unsigned_less [of w, where ?'a = nat] by simp

lemma unat_of_nat_u64: "n < 2 ^ 64 \<Longrightarrow> unat (of_nat n :: u64) = n"
  by (simp add: unat_of_nat)

lemma validate_steps_total_Ok:
  assumes "unat limit < 2 ^ 64"
  shows "(\<exists>ids acc. validate_steps now registry plan 0 Map.empty 0 steps = Ok (ids, acc) \<and>
       \<not> limit < acc \<and> P ids) \<longleftrightarrow>
     distinct (map step_id steps) \<and> (\<forall>s \<in> set steps. step_declared registry plan s) \<and>
     timeout_sum steps \<le> unat limit \<and> P (index_steps 0 Map.empty steps)"
  using assms
  by (auto simp: validate_steps_Ok word_less_nat_alt unat_of_nat_u64 not_less)

lemma validate_plan_Ok:
  "validate_plan env now plan registry = Ok v \<longleftrightarrow>
     plan_structure_valid registry plan \<and>
     pl_stable_plan_hash plan = compute_stable_plan_hash env plan \<and>
     v = \<lparr>vp_plan = plan, vp_stable_plan_hash = compute_stable_plan_hash env plan\<rparr>"
proof -
  let ?steps = "pl_steps plan" and ?limit = "pl_max_duration_budget_ms plan"
  let ?rest = "\<lambda>ids. (pl_fallback_references plan \<noteq> [] \<longrightarrow>
        pl_completion_policy plan = AllowDeclaredFallbackCompletion) \<and>
      (\<forall>r \<in> set (pl_fallback_references plan). check_fallback now ids r = Ok ()) \<and>
      pl_stable_plan_hash plan = compute_stable_plan_hash env plan \<and>
      v = \<lparr>vp_plan = plan, vp_stable_plan_hash = compute_stable_plan_hash env plan\<rparr>"
  have "validate_plan env now plan registry = Ok v \<longleftrightarrow>
      ?steps \<noteq> [] \<and> length ?steps \<le> unat (pl_declared_max_step_count plan) \<and>
      (\<forall>cap \<in> set (pl_referenced_capabilities plan). capability_usable registry cap) \<and>
      (\<exists>ids acc. validate_steps now registry plan 0 Map.empty 0 ?steps = Ok (ids, acc) \<and>
         \<not> ?limit < acc \<and> ?rest ids)"
    unfolding validate_plan_def Let_def
    by (auto simp: result_simps checks_Ok check_referenced_capability_Ok not_less)
  then show ?thesis
    unfolding validate_steps_total_Ok [OF u64_bound, where P = ?rest] plan_structure_valid_def
    by (auto simp: check_fallback_Ok)
qed

section \<open>The canonical form forgets order and identity\<close>

text \<open>
  Two plans have the same content when they agree on everything the hash is meant to cover: the
  steps in order, the declared sets as multisets, the budgets and the policies. Identifiers, times
  and the recorded hash are left out.
\<close>

definition same_content :: "execution_plan \<Rightarrow> execution_plan \<Rightarrow> bool" where
  "same_content p q \<longleftrightarrow>
     pl_steps p = pl_steps q \<and>
     mset (pl_referenced_capabilities p) = mset (pl_referenced_capabilities q) \<and>
     pl_declared_max_step_count p = pl_declared_max_step_count q \<and>
     mset (pl_declared_side_effect_classes p) = mset (pl_declared_side_effect_classes q) \<and>
     mset (pl_fallback_references p) = mset (pl_fallback_references q) \<and>
     pl_cancellation_policy p = pl_cancellation_policy q \<and>
     pl_completion_policy p = pl_completion_policy q \<and>
     pl_max_duration_budget_ms p = pl_max_duration_budget_ms q"

lemma sort_mset_eq_iff: "sort xs = sort ys \<longleftrightarrow> mset xs = mset ys"
  by (metis mset_sort sorted_list_of_multiset_mset)

lemma map_sort_key: "map f (sort_key f xs) = sort (map f xs)"
  by (rule properties_for_sort [symmetric]) simp_all

lemma sort_key_mset_eq_iff:
  assumes "inj f"
  shows "sort_key f xs = sort_key f ys \<longleftrightarrow> mset xs = mset ys"
proof
  assume "sort_key f xs = sort_key f ys"
  then show "mset xs = mset ys" by (metis mset_sort)
next
  assume "mset xs = mset ys"
  then have "map f (sort_key f xs) = map f (sort_key f ys)"
    by (simp add: map_sort_key sort_mset_eq_iff)
  then show "sort_key f xs = sort_key f ys"
    using assms by simp
qed

lemma mset_map_inj_eq_iff: "inj f \<Longrightarrow> mset (map f xs) = mset (map f ys) \<longleftrightarrow> mset xs = mset ys"
  by (metis inj_eq mset_map multiset.inj_map)

lemma inj_side_effect_class_label: "inj side_effect_class_label"
  by (simp add: inj_def)

lemma canonical_plan_eq_iff:
  assumes "inj show_uuid"
  shows "canonical_plan show_uuid p = canonical_plan show_uuid q \<longleftrightarrow> same_content p q"
proof -
  let ?step = "\<lambda>step :: execution_plan_step. \<lparr>cs_step_id = step_id step,
      cs_capability_id = show_uuid (step_capability_id step),
      cs_declared_side_effect_class = side_effect_class_label (step_declared_side_effect_class step),
      cs_timeout_budget_ms = step_timeout_budget_ms step\<rparr>"
  let ?ref = "\<lambda>r :: fallback_reference. \<lparr>cf_step_id = fr_step_id r, cf_fallback_step_id = fr_fallback_step_id r\<rparr>"
  have "inj ?step" "inj ?ref" "inj (\<lambda>r :: canonical_fallback_reference. (cf_step_id r, cf_fallback_step_id r))"
    using assms
    by (auto simp: inj_def intro!: execution_plan_step.equality fallback_reference.equality
        canonical_fallback_reference.equality)
  then show ?thesis
    using assms inj_side_effect_class_label
    by (simp add: canonical_plan_def same_content_def sort_mset_eq_iff sort_key_mset_eq_iff
        mset_map_inj_eq_iff del: mset_map)
qed

lemma canonical_plan_cong: "same_content p q \<Longrightarrow> canonical_plan f p = canonical_plan f q"
  by (auto simp: canonical_plan_def same_content_def sort_mset_eq_iff sort_key_mset_eq_iff inj_def)

lemma plan_structure_valid_cong:
  "same_content p q \<Longrightarrow> plan_structure_valid registry p \<longleftrightarrow> plan_structure_valid registry q"
proof -
  assume c: "same_content p q"
  then have "set (pl_referenced_capabilities p) = set (pl_referenced_capabilities q)"
    "set (pl_declared_side_effect_classes p) = set (pl_declared_side_effect_classes q)"
    "set (pl_fallback_references p) = set (pl_fallback_references q)"
    by (auto simp: same_content_def dest: mset_eq_setD)
  moreover from this(3) have "pl_fallback_references p = [] \<longleftrightarrow> pl_fallback_references q = []"
    by (metis set_empty)
  ultimately show ?thesis
    using c by (simp add: plan_structure_valid_def step_declared_def same_content_def)
qed

section \<open>Properties\<close>

text \<open>C16: Plan validation. A plan is accepted, unchanged and with its computed hash, exactly when it
declares between one and its declared number of steps with distinct identifiers, references usable
capabilities only, keeps every step within its capability's side effect and timeout, keeps the sum of
the timeouts (as unbounded numbers) within its duration budget, declares every fallback later than
its primary under a fallback-aware policy, and carries the hash of its own canonical form.\<close>

theorem plan_validation_decides:
  "validate_plan env now plan registry = Ok v \<longleftrightarrow>
     plan_structure_valid registry plan \<and>
     pl_stable_plan_hash plan = compute_stable_plan_hash env plan \<and>
     v = \<lparr>vp_plan = plan, vp_stable_plan_hash = compute_stable_plan_hash env plan\<rparr>"
  by (rule validate_plan_Ok)

end
