(* ===== verification/Routing.thy ===== *)
theory Routing
  imports Posture Execution_Plan
begin

text \<open>
  The routing service, \<open>src/app/routing_service.rs\<close>: the checked pairing of a route decision with a
  validated plan, and the selection of the execution route that delivery may act on.
\<close>

section \<open>Routing inputs\<close>

datatype route_path_kind =
  NonExecutableDenied | NonExecutableReviewRequired | AwaitExplicitApproval
| ExternalAdapterBoundedExecution

record routing_input =
  ro_route_decision :: route_decision
  ro_validated_plan :: "validated_execution_plan option"

text \<open>
  Routing and coordination check a decision's flags against its posture with the same body and
  their own message; \<open>whose\<close> is the end of the message.
\<close>

definition check_decision_surface :: "string \<Rightarrow> route_decision \<Rightarrow> unit fa_local_result" where
  "check_decision_surface whose d =
     (case rd_resolved_approval_posture d of
        approval_posture.Denied \<Rightarrow>
          fail_if (rd_execution_allowed d \<or> rd_review_required d \<or> rd_explicit_approval_required d)
            (contract_invalid (''denied route decision is inconsistent with '' @ whose))
      | approval_posture.ReviewRequired \<Rightarrow>
          fail_if (rd_execution_allowed d \<or> \<not> rd_review_required d \<or> rd_explicit_approval_required d)
            (contract_invalid (''review_required route decision is inconsistent with '' @ whose))
      | ExplicitOperatorApproval \<Rightarrow>
          fail_if (rd_execution_allowed d \<or> rd_review_required d \<or> \<not> rd_explicit_approval_required d)
            (contract_invalid
              (''explicit_operator_approval route decision is inconsistent with '' @ whose))
      | _ \<Rightarrow>
          fail_if (\<not> rd_execution_allowed d \<or> rd_review_required d \<or> rd_explicit_approval_required d)
            (contract_invalid (''admitted route decision is inconsistent with '' @ whose)))"

definition validate_routing_surface :: "route_decision \<Rightarrow> unit fa_local_result" where
  "validate_routing_surface d = check_decision_surface ''routing expectations'' d"

definition requested_capability :: "route_decision \<Rightarrow> capability_id" where
  "requested_capability d = cd_requested_capability_id (rd_capability_decision_summary d)"

definition validate_routing_plan :: "route_decision \<Rightarrow> validated_execution_plan \<Rightarrow> unit fa_local_result"
where
  "validate_routing_plan d plan = checks
     [fail_if (pl_correlation_id (vp_plan plan) \<noteq> rd_correlation_id d) (contract_invalid
        ''routing plan correlation_id does not match route decision''),
      fail_if (pl_originating_request_id (vp_plan plan) \<noteq> rd_request_id d) (contract_invalid
        ''routing plan request_id does not match route decision''),
      fail_if (requested_capability d \<notin> set (pl_referenced_capabilities (vp_plan plan)))
        (contract_invalid ''routing plan does not include route decision requested capability'')]"

definition new_routing_input ::
  "route_decision \<Rightarrow> validated_execution_plan option \<Rightarrow> routing_input fa_local_result" where
  "new_routing_input d plan = and_then (checks
     [validate_routing_surface d,
      (if rd_resolved_approval_posture d \<in> {approval_posture.Denied, approval_posture.ReviewRequired}
       then fail_if (plan \<noteq> None) (contract_invalid
         ''non-executable routing input must not include validated execution plan'')
       else and_then (ok_or plan (contract_invalid
         ''routable execution input requires validated execution plan''))
         (validate_routing_plan d))])
     (\<lambda>_. Ok \<lparr>ro_route_decision = d, ro_validated_plan = plan\<rparr>)"

section \<open>Route selection\<close>

record selected_execution_route =
  sr_route_path_kind :: route_path_kind
  sr_route_decision_id :: route_decision_id
  sr_correlation_id :: correlation_id
  sr_request_id :: request_id
  sr_resolved_approval_posture :: approval_posture
  sr_requested_capability_id :: capability_id
  sr_execution_plan_id :: "execution_plan_id option"
  sr_stable_plan_hash :: "string option"
  sr_declared_step_ids :: "string list"
  sr_declared_capability_ids :: "capability_id list"
  sr_declared_fallback_references :: "fallback_reference list"
  sr_executable :: bool
  sr_explicit_approval_required :: bool
  sr_operator_visible_summary :: string

definition non_executable_route ::
  "route_decision \<Rightarrow> route_path_kind \<Rightarrow> bool \<Rightarrow> selected_execution_route" where
  "non_executable_route d kind explicit_approval =
     \<lparr>sr_route_path_kind = kind,
      sr_route_decision_id = rd_route_decision_id d,
      sr_correlation_id = rd_correlation_id d,
      sr_request_id = rd_request_id d,
      sr_resolved_approval_posture = rd_resolved_approval_posture d,
      sr_requested_capability_id = requested_capability d,
      sr_execution_plan_id = None,
      sr_stable_plan_hash = None,
      sr_declared_step_ids = [],
      sr_declared_capability_ids = [],
      sr_declared_fallback_references = [],
      sr_executable = False,
      sr_explicit_approval_required = explicit_approval,
      sr_operator_visible_summary = rd_operator_visible_summary d\<rparr>"

definition routable_plan_selection ::
  "route_decision \<Rightarrow> validated_execution_plan \<Rightarrow> route_path_kind \<Rightarrow> bool \<Rightarrow> bool \<Rightarrow> selected_execution_route"
where
  "routable_plan_selection d plan kind executable explicit_approval =
     \<lparr>sr_route_path_kind = kind,
      sr_route_decision_id = rd_route_decision_id d,
      sr_correlation_id = rd_correlation_id d,
      sr_request_id = rd_request_id d,
      sr_resolved_approval_posture = rd_resolved_approval_posture d,
      sr_requested_capability_id = requested_capability d,
      sr_execution_plan_id = Some (pl_execution_plan_id (vp_plan plan)),
      sr_stable_plan_hash = Some (vp_stable_plan_hash plan),
      sr_declared_step_ids = map step_id (pl_steps (vp_plan plan)),
      sr_declared_capability_ids = pl_referenced_capabilities (vp_plan plan),
      sr_declared_fallback_references = pl_fallback_references (vp_plan plan),
      sr_executable = executable,
      sr_explicit_approval_required = explicit_approval,
      sr_operator_visible_summary = rd_operator_visible_summary d\<rparr>"

definition select_route :: "routing_input \<Rightarrow> selected_execution_route fa_local_result" where
  "select_route input =
     (let d = ro_route_decision input; plan = ro_validated_plan input in
      case rd_resolved_approval_posture d of
        approval_posture.Denied \<Rightarrow> Ok (non_executable_route d NonExecutableDenied False)
      | approval_posture.ReviewRequired \<Rightarrow>
          Ok (non_executable_route d NonExecutableReviewRequired False)
      | ExplicitOperatorApproval \<Rightarrow>
          and_then (ok_or plan (contract_invalid
            ''explicit approval route selection requires validated plan''))
            (\<lambda>plan. Ok (routable_plan_selection d plan AwaitExplicitApproval False True))
      | _ \<Rightarrow>
          and_then (ok_or plan (contract_invalid
            ''admitted route selection requires validated plan''))
            (\<lambda>plan. Ok (routable_plan_selection d plan ExternalAdapterBoundedExecution True False)))"

section \<open>What an input and a route are\<close>

definition routable_posture :: "approval_posture \<Rightarrow> bool" where
  "routable_posture p \<longleftrightarrow> p \<in> {ExplicitOperatorApproval, PolicyPreapproved, ExecuteAllowed}"

definition plan_answers :: "route_decision \<Rightarrow> validated_execution_plan \<Rightarrow> bool" where
  "plan_answers d plan \<longleftrightarrow>
     pl_correlation_id (vp_plan plan) = rd_correlation_id d \<and>
     pl_originating_request_id (vp_plan plan) = rd_request_id d \<and>
     requested_capability d \<in> set (pl_referenced_capabilities (vp_plan plan))"

lemma check_decision_surface_Ok [result_simps]: "check_decision_surface whose d = Ok u \<longleftrightarrow> coherent d"
  by (cases "rd_resolved_approval_posture d")
    (auto simp: check_decision_surface_def coherent_def result_simps)

lemma validate_routing_plan_Ok [result_simps]:
  "validate_routing_plan d plan = Ok u \<longleftrightarrow> plan_answers d plan"
  by (auto simp: validate_routing_plan_def plan_answers_def result_simps)

lemma new_routing_input_Ok:
  "new_routing_input d plan = Ok input \<longleftrightarrow>
     coherent d \<and> (routable_posture (rd_resolved_approval_posture d) \<longleftrightarrow> plan \<noteq> None) \<and>
     pred_option (plan_answers d) plan \<and>
     input = \<lparr>ro_route_decision = d, ro_validated_plan = plan\<rparr>"
  by (cases plan; cases "rd_resolved_approval_posture d")
    (auto simp: new_routing_input_def validate_routing_surface_def routable_posture_def result_simps)

definition route_of :: "route_decision \<Rightarrow> validated_execution_plan option \<Rightarrow> selected_execution_route" where
  "route_of d plan =
     (case (rd_resolved_approval_posture d, plan) of
        (ExplicitOperatorApproval, Some plan) \<Rightarrow>
          routable_plan_selection d plan AwaitExplicitApproval False True
      | (PolicyPreapproved, Some plan) \<Rightarrow>
          routable_plan_selection d plan ExternalAdapterBoundedExecution True False
      | (ExecuteAllowed, Some plan) \<Rightarrow>
          routable_plan_selection d plan ExternalAdapterBoundedExecution True False
      | (approval_posture.ReviewRequired, _) \<Rightarrow>
          non_executable_route d NonExecutableReviewRequired False
      | _ \<Rightarrow> non_executable_route d NonExecutableDenied False)"

lemma select_route_Ok:
  assumes "new_routing_input d plan = Ok input"
  shows "select_route input = Ok (route_of d plan)"
  using assms
  by (cases plan; cases "rd_resolved_approval_posture d")
    (auto simp: new_routing_input_Ok select_route_def route_of_def routable_posture_def)

lemma select_route_new:
  assumes "new_routing_input d plan = Ok input"
  shows "\<exists>route. select_route input = Ok route \<and>
    (sr_executable route \<longleftrightarrow> admitted_posture (rd_resolved_approval_posture d)) \<and>
    (sr_explicit_approval_required route \<longleftrightarrow> rd_resolved_approval_posture d = ExplicitOperatorApproval) \<and>
    sr_execution_plan_id route = map_option (\<lambda>p. pl_execution_plan_id (vp_plan p)) plan \<and>
    sr_stable_plan_hash route = map_option vp_stable_plan_hash plan \<and>
    sr_declared_step_ids route =
      (case plan of None \<Rightarrow> [] | Some p \<Rightarrow> map step_id (pl_steps (vp_plan p)))"
  using assms unfolding select_route_Ok [OF assms]
  by (cases plan; cases "rd_resolved_approval_posture d")
    (auto simp: new_routing_input_Ok route_of_def routable_posture_def non_executable_route_def
      routable_plan_selection_def)

end
