(* ===== verification/Execution_Status.thy ===== *)
theory Execution_Status
  imports Contracts
begin

text \<open>
  Execution statuses, \<open>src/domain/status\<close>: the record every surface reports, its validation state
  by state, and the table of field presences that the validation decides.
\<close>

section \<open>Statuses\<close>

record execution_status =
  st_request_id :: request_id
  st_correlation_id :: correlation_id
  st_execution_plan_id :: "execution_plan_id option"
  st_stable_plan_hash :: "string option"
  st_current_posture :: approval_posture
  st_state :: execution_state
  st_degraded_subtype :: "degraded_subtype option"
  st_started_at_utc :: "timestamp option"
  st_updated_at_utc :: timestamp
  st_completed_at_utc :: "timestamp option"
  st_current_step :: "string option"
  st_completion_summary :: "string option"
  st_failure_summary :: "string option"
  st_truthful_user_visible_summary :: string

record validated_execution_status =
  vs_status :: execution_status

definition load_execution_status ::
  "contract_env \<Rightarrow> (json \<Rightarrow> (execution_status, string) result) \<Rightarrow> json \<Rightarrow>
   execution_status fa_local_result" where
  "load_execution_status env decode v = deserialize_contract_value env decode ExecutionStatus v"

section \<open>The checks the validation is made of\<close>

fun validate_optional_plan_link :: "execution_plan_id option \<Rightarrow> string option \<Rightarrow> unit fa_local_result" where
  "validate_optional_plan_link (Some _) (Some _) = Ok ()"
| "validate_optional_plan_link None None = Ok ()"
| "validate_optional_plan_link _ _ = Err (contract_invalid
     ''execution status must carry execution_plan_id and stable_plan_hash together'')"

fun require_plan_link :: "execution_plan_id option \<Rightarrow> string option \<Rightarrow> unit fa_local_result" where
  "require_plan_link (Some _) (Some _) = Ok ()"
| "require_plan_link _ _ = Err (contract_invalid
     ''execution status state requires execution_plan_id and stable_plan_hash'')"

fun require_no_plan_link :: "execution_plan_id option \<Rightarrow> string option \<Rightarrow> unit fa_local_result" where
  "require_no_plan_link None None = Ok ()"
| "require_no_plan_link _ _ = Err (contract_invalid
     ''pre-execution status must not include execution_plan_id or stable_plan_hash'')"

definition require_posture :: "approval_posture \<Rightarrow> approval_posture list \<Rightarrow> string \<Rightarrow> unit fa_local_result" where
  "require_posture posture allowed message =
     (if posture \<in> set allowed then Ok () else Err (contract_invalid message))"

definition require_admitted_posture :: "approval_posture \<Rightarrow> string \<Rightarrow> unit fa_local_result" where
  "require_admitted_posture posture state_label =
     require_posture posture [PolicyPreapproved, ExecuteAllowed]
       (state_label @ '' status must use policy_preapproved or execute_allowed posture'')"

definition require_some :: "'a option \<Rightarrow> string \<Rightarrow> 'a fa_local_result" where
  "require_some v message = ok_or v (contract_invalid message)"

definition require_none :: "'a option \<Rightarrow> string \<Rightarrow> unit fa_local_result" where
  "require_none v message = (if v = None then Ok () else Err (contract_invalid message))"

definition is_valid_step_id :: "string \<Rightarrow> bool" where
  "is_valid_step_id v =
     (if \<not> (1 \<le> length v \<and> length v \<le> 48) then False
      else case v of
        [] \<Rightarrow> False
      | first # rest \<Rightarrow>
          if \<not> is_ascii_lowercase first \<and> \<not> is_ascii_digit first then False
          else list_all (\<lambda>c. is_ascii_lowercase c \<or> is_ascii_digit c \<or> c \<in> {CHR ''_'', CHR ''-''}) rest)"

definition validate_optional_step :: "string option \<Rightarrow> unit fa_local_result" where
  "validate_optional_step current_step =
     (case current_step of
        None \<Rightarrow> Ok ()
      | Some step \<Rightarrow> fail_if (\<not> is_valid_step_id step) (contract_invalid
          ''execution status current_step must match the bounded step id pattern''))"

definition validate_required_summary :: "string \<Rightarrow> string \<Rightarrow> unit fa_local_result" where
  "validate_required_summary summary field_name =
     fail_if (summary = [] \<or> length summary > 160) (contract_invalid
       (''execution status '' @ field_name @ '' must be between 1 and 160 characters''))"

definition validate_optional_summary :: "string option \<Rightarrow> string \<Rightarrow> unit fa_local_result" where
  "validate_optional_summary summary field_name =
     (case summary of None \<Rightarrow> Ok () | Some s \<Rightarrow> validate_required_summary s field_name)"

text \<open>
  \<open>require_some(field, "<label> status must include <name>")?;\<close> as a statement, and its opposite.
\<close>

definition must_include :: "string \<Rightarrow> string \<Rightarrow> 'a option \<Rightarrow> unit fa_local_result" where
  "must_include label name v =
     and_then (require_some v (label @ '' status must include '' @ name)) (\<lambda>_. Ok ())"

definition must_not_include :: "string \<Rightarrow> string \<Rightarrow> 'a option \<Rightarrow> unit fa_local_result" where
  "must_not_include label name v = require_none v (label @ '' status must not include '' @ name)"

section \<open>Validation\<close>

definition validate_pre_execution ::
  "string \<Rightarrow> approval_posture \<Rightarrow> string \<Rightarrow> execution_status \<Rightarrow> unit fa_local_result" where
  "validate_pre_execution label posture posture_message s = checks
     [require_posture (st_current_posture s) [posture] posture_message,
      require_no_plan_link (st_execution_plan_id s) (st_stable_plan_hash s),
      must_not_include label ''started_at_utc'' (st_started_at_utc s),
      must_not_include label ''completed_at_utc'' (st_completed_at_utc s),
      must_not_include label ''current_step'' (st_current_step s),
      must_not_include label ''completion_summary'' (st_completion_summary s),
      must_not_include label ''failure_summary'' (st_failure_summary s),
      must_not_include label ''degraded_subtype'' (st_degraded_subtype s)]"

definition validate_degraded :: "execution_status \<Rightarrow> unit fa_local_result" where
  "validate_degraded s =
     and_then (checks
       [require_admitted_posture (st_current_posture s) ''degraded'',
        require_plan_link (st_execution_plan_id s) (st_stable_plan_hash s)]) (\<lambda>_.
     and_then (require_some (st_degraded_subtype s)
       ''degraded status must include degraded_subtype'') (\<lambda>subtype.
     and_then (checks
       [must_not_include ''degraded'' ''completed_at_utc'' (st_completed_at_utc s),
        must_not_include ''degraded'' ''completion_summary'' (st_completion_summary s),
        must_not_include ''degraded'' ''failure_summary'' (st_failure_summary s)]) (\<lambda>_.
       if subtype \<in> {DegradedPreStart, UnavailableDependencyBlock} then checks
         [must_not_include ''pre-start degraded'' ''started_at_utc'' (st_started_at_utc s),
          must_not_include ''pre-start degraded'' ''current_step'' (st_current_step s)]
       else must_include ''in-flight degraded'' ''started_at_utc'' (st_started_at_utc s))))"

fun validate_state :: "execution_state \<Rightarrow> execution_status \<Rightarrow> unit fa_local_result" where
  "validate_state execution_state.Denied s =
     validate_pre_execution ''denied'' approval_posture.Denied
       ''denied status must use denied posture'' s"
| "validate_state execution_state.ReviewRequired s =
     validate_pre_execution ''review_required'' approval_posture.ReviewRequired
       ''review_required status must use review_required posture'' s"
| "validate_state WaitingExplicitApproval s =
     validate_pre_execution ''waiting_explicit_approval'' ExplicitOperatorApproval
       ''waiting_explicit_approval status must use explicit_operator_approval posture'' s"
| "validate_state AdmittedNotStarted s = checks
     [require_admitted_posture (st_current_posture s) ''admitted_not_started'',
      require_plan_link (st_execution_plan_id s) (st_stable_plan_hash s),
      must_not_include ''admitted_not_started'' ''started_at_utc'' (st_started_at_utc s),
      must_not_include ''admitted_not_started'' ''completed_at_utc'' (st_completed_at_utc s),
      must_not_include ''admitted_not_started'' ''current_step'' (st_current_step s),
      must_not_include ''admitted_not_started'' ''completion_summary'' (st_completion_summary s),
      must_not_include ''admitted_not_started'' ''failure_summary'' (st_failure_summary s),
      must_not_include ''admitted_not_started'' ''degraded_subtype'' (st_degraded_subtype s)]"
| "validate_state InProgress s = checks
     [require_admitted_posture (st_current_posture s) ''in_progress'',
      require_plan_link (st_execution_plan_id s) (st_stable_plan_hash s),
      must_include ''in_progress'' ''started_at_utc'' (st_started_at_utc s),
      must_not_include ''in_progress'' ''completed_at_utc'' (st_completed_at_utc s),
      must_include ''in_progress'' ''current_step'' (st_current_step s),
      must_not_include ''in_progress'' ''completion_summary'' (st_completion_summary s),
      must_not_include ''in_progress'' ''failure_summary'' (st_failure_summary s),
      must_not_include ''in_progress'' ''degraded_subtype'' (st_degraded_subtype s)]"
| "validate_state Degraded s = validate_degraded s"
| "validate_state PartialSuccess s = checks
     [require_admitted_posture (st_current_posture s) ''partial_success'',
      require_plan_link (st_execution_plan_id s) (st_stable_plan_hash s),
      must_include ''partial_success'' ''started_at_utc'' (st_started_at_utc s),
      must_include ''partial_success'' ''completed_at_utc'' (st_completed_at_utc s),
      must_not_include ''partial_success'' ''current_step'' (st_current_step s),
      must_include ''partial_success'' ''completion_summary'' (st_completion_summary s),
      must_include ''partial_success'' ''failure_summary'' (st_failure_summary s),
      fail_if (st_degraded_subtype s \<noteq> Some DegradedPartial) (contract_invalid
        ''partial_success status must use degraded_partial degraded_subtype'')]"
| "validate_state CompletedWithConstraints s = checks
     [require_admitted_posture (st_current_posture s) ''completed_with_constraints'',
      require_plan_link (st_execution_plan_id s) (st_stable_plan_hash s),
      must_include ''completed_with_constraints'' ''started_at_utc'' (st_started_at_utc s),
      must_include ''completed_with_constraints'' ''completed_at_utc'' (st_completed_at_utc s),
      must_not_include ''completed_with_constraints'' ''current_step'' (st_current_step s),
      must_include ''completed_with_constraints'' ''completion_summary'' (st_completion_summary s),
      must_not_include ''completed_with_constraints'' ''failure_summary'' (st_failure_summary s),
      fail_if (st_degraded_subtype s \<notin>
          {Some DegradedFallbackEquivalent, Some DegradedFallbackLimited}) (contract_invalid
        ''completed_with_constraints status must include an explicit fallback degraded_subtype'')]"
| "validate_state Completed s = checks
     [require_admitted_posture (st_current_posture s) ''completed'',
      require_plan_link (st_execution_plan_id s) (st_stable_plan_hash s),
      must_include ''completed'' ''started_at_utc'' (st_started_at_utc s),
      must_include ''completed'' ''completed_at_utc'' (st_completed_at_utc s),
      must_not_include ''completed'' ''current_step'' (st_current_step s),
      must_include ''completed'' ''completion_summary'' (st_completion_summary s),
      must_not_include ''completed'' ''failure_summary'' (st_failure_summary s),
      must_not_include ''completed'' ''degraded_subtype'' (st_degraded_subtype s)]"
| "validate_state Failed s = checks
     [require_admitted_posture (st_current_posture s) ''failed'',
      require_plan_link (st_execution_plan_id s) (st_stable_plan_hash s),
      must_include ''failed'' ''started_at_utc'' (st_started_at_utc s),
      must_include ''failed'' ''completed_at_utc'' (st_completed_at_utc s),
      must_not_include ''failed'' ''current_step'' (st_current_step s),
      must_not_include ''failed'' ''completion_summary'' (st_completion_summary s),
      must_include ''failed'' ''failure_summary'' (st_failure_summary s),
      must_not_include ''failed'' ''degraded_subtype'' (st_degraded_subtype s)]"
| "validate_state Canceled s = checks
     [require_admitted_posture (st_current_posture s) ''canceled'',
      require_plan_link (st_execution_plan_id s) (st_stable_plan_hash s),
      must_include ''canceled'' ''completed_at_utc'' (st_completed_at_utc s),
      must_not_include ''canceled'' ''current_step'' (st_current_step s),
      must_not_include ''canceled'' ''completion_summary'' (st_completion_summary s),
      must_not_include ''canceled'' ''failure_summary'' (st_failure_summary s),
      must_not_include ''canceled'' ''degraded_subtype'' (st_degraded_subtype s)]"

definition validate_status :: "execution_status \<Rightarrow> unit fa_local_result" where
  "validate_status s = checks
     [validate_optional_plan_link (st_execution_plan_id s) (st_stable_plan_hash s),
      validate_optional_step (st_current_step s),
      validate_optional_summary (st_completion_summary s) ''completion_summary'',
      validate_optional_summary (st_failure_summary s) ''failure_summary'',
      validate_required_summary (st_truthful_user_visible_summary s)
        ''truthful_user_visible_summary'',
      (case st_stable_plan_hash s of
         None \<Rightarrow> Ok ()
       | Some hash \<Rightarrow> fail_if (\<not> is_valid_hash hash) (contract_invalid
           ''execution status stable_plan_hash must be a 64-character lowercase hex digest'')),
      (case st_started_at_utc s of
         None \<Rightarrow> Ok ()
       | Some started \<Rightarrow> fail_if (st_updated_at_utc s < started) (contract_invalid
           ''execution status updated_at_utc must not precede started_at_utc'')),
      (case st_completed_at_utc s of
         None \<Rightarrow> Ok ()
       | Some completed \<Rightarrow> checks
           [fail_if (st_updated_at_utc s < completed) (contract_invalid
              ''execution status updated_at_utc must not precede completed_at_utc''),
            (case st_started_at_utc s of
               None \<Rightarrow> Ok ()
             | Some started \<Rightarrow> fail_if (completed < started) (contract_invalid
                 ''execution status completed_at_utc must not precede started_at_utc''))]),
      validate_state (st_state s) s]"

text \<open>\<open>ExecutionStatus::new\<close>, \<open>validated\<close> and \<open>ValidatedExecutionStatus::new\<close>.\<close>

definition new_execution_status :: "execution_status \<Rightarrow> execution_status fa_local_result" where
  "new_execution_status status = and_then (validate_status status) (\<lambda>_. Ok status)"

definition validated_status :: "execution_status \<Rightarrow> validated_execution_status fa_local_result" where
  "validated_status status = and_then (validate_status status) (\<lambda>_. Ok \<lparr>vs_status = status\<rparr>)"

definition new_validated_status :: "execution_status \<Rightarrow> validated_execution_status fa_local_result" where
  "new_validated_status status = validated_status status"

section \<open>The table the validation decides\<close>

text \<open>
  For each state, which postures it may carry, which fields are absent, present or free, and which
  degraded subtypes it may name. The rows are the contract of \<open>execution-status.schema.json\<close> in
  short; the only state whose row depends on its subtype is \<open>Degraded\<close>.
\<close>

datatype presence = Absent | Present | Free

fun fits :: "presence \<Rightarrow> 'a option \<Rightarrow> bool" where
  "fits Absent v \<longleftrightarrow> v = None"
| "fits Present v \<longleftrightarrow> v \<noteq> None"
| "fits Free v \<longleftrightarrow> True"

record status_row =
  row_postures :: "approval_posture set"
  row_plan :: presence
  row_started :: presence
  row_completed :: presence
  row_step :: presence
  row_completion :: presence
  row_failure :: presence
  row_degraded :: "degraded_subtype option set"

definition pre_execution_row :: "approval_posture \<Rightarrow> status_row" where
  "pre_execution_row p =
     \<lparr>row_postures = {p}, row_plan = Absent, row_started = Absent, row_completed = Absent,
      row_step = Absent, row_completion = Absent, row_failure = Absent, row_degraded = {None}\<rparr>"

definition admitted_row ::
  "presence \<Rightarrow> presence \<Rightarrow> presence \<Rightarrow> presence \<Rightarrow> presence \<Rightarrow> degraded_subtype option set \<Rightarrow> status_row" where
  "admitted_row started completed step completion failure degraded =
     \<lparr>row_postures = {PolicyPreapproved, ExecuteAllowed}, row_plan = Present,
      row_started = started, row_completed = completed, row_step = step,
      row_completion = completion, row_failure = failure, row_degraded = degraded\<rparr>"

fun status_row_of :: "execution_state \<Rightarrow> degraded_subtype option \<Rightarrow> status_row" where
  "status_row_of execution_state.Denied d = pre_execution_row approval_posture.Denied"
| "status_row_of execution_state.ReviewRequired d = pre_execution_row approval_posture.ReviewRequired"
| "status_row_of WaitingExplicitApproval d = pre_execution_row ExplicitOperatorApproval"
| "status_row_of AdmittedNotStarted d = admitted_row Absent Absent Absent Absent Absent {None}"
| "status_row_of InProgress d = admitted_row Present Absent Present Absent Absent {None}"
| "status_row_of Degraded d =
     (if d \<in> {Some DegradedPreStart, Some UnavailableDependencyBlock}
      then admitted_row Absent Absent Absent Absent Absent
             {Some DegradedPreStart, Some UnavailableDependencyBlock}
      else admitted_row Present Absent Free Absent Absent (- {None}))"
| "status_row_of PartialSuccess d =
     admitted_row Present Present Absent Present Present {Some DegradedPartial}"
| "status_row_of CompletedWithConstraints d =
     admitted_row Present Present Absent Present Absent
       {Some DegradedFallbackEquivalent, Some DegradedFallbackLimited}"
| "status_row_of Completed d = admitted_row Present Present Absent Present Absent {None}"
| "status_row_of Failed d = admitted_row Present Present Absent Absent Present {None}"
| "status_row_of Canceled d = admitted_row Free Present Absent Absent Absent {None}"

definition fits_row :: "status_row \<Rightarrow> execution_status \<Rightarrow> bool" where
  "fits_row row s \<longleftrightarrow>
     st_current_posture s \<in> row_postures row \<and>
     fits (row_plan row) (st_execution_plan_id s) \<and>
     fits (row_plan row) (st_stable_plan_hash s) \<and>
     fits (row_started row) (st_started_at_utc s) \<and>
     fits (row_completed row) (st_completed_at_utc s) \<and>
     fits (row_step row) (st_current_step s) \<and>
     fits (row_completion row) (st_completion_summary s) \<and>
     fits (row_failure row) (st_failure_summary s) \<and>
     st_degraded_subtype s \<in> row_degraded row"

definition texts_bounded :: "execution_status \<Rightarrow> bool" where
  "texts_bounded s \<longleftrightarrow>
     pred_option is_valid_step_id (st_current_step s) \<and>
     pred_option bounded_text (st_completion_summary s) \<and>
     pred_option bounded_text (st_failure_summary s) \<and>
     bounded_text (st_truthful_user_visible_summary s) \<and>
     pred_option is_valid_hash (st_stable_plan_hash s)"

definition times_ordered :: "execution_status \<Rightarrow> bool" where
  "times_ordered s \<longleftrightarrow>
     pred_option (\<lambda>started. started \<le> st_updated_at_utc s) (st_started_at_utc s) \<and>
     pred_option (\<lambda>completed. completed \<le> st_updated_at_utc s \<and>
       pred_option (\<lambda>started. started \<le> completed) (st_started_at_utc s)) (st_completed_at_utc s)"

definition status_wf :: "execution_status \<Rightarrow> bool" where
  "status_wf s \<longleftrightarrow>
     texts_bounded s \<and> times_ordered s \<and> fits_row (status_row_of (st_state s) (st_degraded_subtype s)) s"

section \<open>Validation decides the table\<close>

lemma require_plan_link_Ok [result_simps]:
  "require_plan_link p h = Ok u \<longleftrightarrow> p \<noteq> None \<and> h \<noteq> None"
  "require_no_plan_link p h = Ok u \<longleftrightarrow> p = None \<and> h = None"
  "validate_optional_plan_link p h = Ok u \<longleftrightarrow> (p = None \<longleftrightarrow> h = None)"
  by (cases p; cases h; simp)+

lemma require_posture_Ok [result_simps]:
  "require_posture p ps m = Ok u \<longleftrightarrow> p \<in> set ps"
  "require_admitted_posture p l = Ok u \<longleftrightarrow> admitted_posture p"
  by (simp_all add: require_posture_def require_admitted_posture_def)

lemma must_include_Ok [result_simps]:
  "must_include l n v = Ok u \<longleftrightarrow> v \<noteq> None"
  "must_not_include l n v = Ok u \<longleftrightarrow> v = None"
  by (auto simp: must_include_def must_not_include_def require_some_def require_none_def result_simps)

lemma require_some_Ok [result_simps]: "require_some v m = Ok x \<longleftrightarrow> v = Some x"
  by (simp add: require_some_def result_simps)

lemma summary_checks_Ok [result_simps]:
  "validate_required_summary s n = Ok u \<longleftrightarrow> bounded_text s"
  "validate_optional_summary t n = Ok u \<longleftrightarrow> pred_option bounded_text t"
  "validate_optional_step c = Ok u \<longleftrightarrow> pred_option is_valid_step_id c"
  by (auto simp: validate_required_summary_def validate_optional_summary_def
      validate_optional_step_def result_simps not_less split: option.splits)

lemma option_check_Ok [result_simps]:
  "(case v of None \<Rightarrow> Ok () | Some x \<Rightarrow> f x) = Ok () \<longleftrightarrow> pred_option (\<lambda>x. f x = Ok ()) v"
  by (cases v) simp_all

lemma validate_degraded_Ok:
  "validate_degraded s = Ok () \<longleftrightarrow> fits_row (status_row_of Degraded (st_degraded_subtype s)) s"
  by (cases "st_degraded_subtype s")
    (auto simp: validate_degraded_def fits_row_def admitted_row_def result_simps)

lemma validate_state_Ok:
  "validate_state state s = Ok () \<longleftrightarrow> fits_row (status_row_of state (st_degraded_subtype s)) s"
proof (cases "state = Degraded")
  case True
  then show ?thesis by (simp add: validate_degraded_Ok)
next
  case False
  then show ?thesis
    by (cases state) (auto simp: validate_pre_execution_def fits_row_def pre_execution_row_def
        admitted_row_def result_simps)
qed

lemma fits_row_plan:
  "fits_row (status_row_of state d) s \<Longrightarrow>
     st_execution_plan_id s = None \<longleftrightarrow> st_stable_plan_hash s = None"
  by (cases state) (auto simp: fits_row_def pre_execution_row_def admitted_row_def split: if_splits)

lemma validate_status_Ok: "validate_status s = Ok () \<longleftrightarrow> status_wf s"
  unfolding validate_status_def status_wf_def texts_bounded_def times_ordered_def
  by (auto simp: result_simps validate_state_Ok not_less option.pred_True dest: fits_row_plan)

interpretation status_wrapper: validated_type validate_status
    "\<lambda>s. \<lparr>vs_status = s\<rparr>" vs_status new_execution_status new_validated_status
  by unfold_locales
    (simp_all add: new_execution_status_def new_validated_status_def validated_status_def)

text \<open>A validated status is exactly a well-formed one, wrapped.\<close>

lemma new_validated_status_Ok:
  "new_validated_status s = Ok v \<longleftrightarrow> status_wf s \<and> v = \<lparr>vs_status = s\<rparr>"
  by (auto simp: status_wrapper.wrap_new_Ok validate_status_Ok)

lemma build_status_Ok:
  "and_then (new_execution_status s) new_validated_status = Ok v \<longleftrightarrow>
     status_wf s \<and> v = \<lparr>vs_status = s\<rparr>"
  by (auto simp: status_wrapper.build_twice status_wrapper.wrap_new_Ok validate_status_Ok)

section \<open>Properties\<close>

text \<open>C32: Status building. A status is built exactly when it fits the row of its state in the status
table (posture, plan link, times, step, summaries and degraded subtype present or absent as the state
demands), its texts are bounded and its times are ordered; the built value is the status itself.\<close>

theorem status_building_decides:
  "and_then (new_execution_status s) new_validated_status = Ok v \<longleftrightarrow>
     status_wf s \<and> v = \<lparr>vs_status = s\<rparr>"
  by (rule build_status_Ok)

end
