(* ===== verification/Coordination.thy ===== *)
theory Coordination
  imports Routing Execution_Status
begin

text \<open>
  The coordinator of \<open>src/app/execution_service.rs\<close> without adapters: its checked input, the status
  builders that read a route decision and a plan, and \<open>coordinate\<close>, which turns a directive into a
  trace of statuses. \<open>None\<close> is the panic of the source's \<open>expect\<close>.
\<close>

section \<open>Inputs\<close>

record coordination_context =
  cx_coordinated_at_utc :: timestamp
  cx_started_at_utc :: timestamp
  cx_completed_at_utc :: timestamp

datatype coordination_directive =
  NoExecution
| CompleteDeclaredPlan
| FailAtDeclaredStep string string
| CancelInFlight string
| UnsupportedRuntimeCondition string

fun requires_admitted_execution :: "coordination_directive \<Rightarrow> bool" where
  "requires_admitted_execution NoExecution = False"
| "requires_admitted_execution _ = True"

record coordination_input =
  ci_route_decision :: route_decision
  ci_validated_plan :: "validated_execution_plan option"
  ci_directive :: coordination_directive
  ci_context :: coordination_context

definition validate_coordination_surface :: "route_decision \<Rightarrow> unit fa_local_result" where
  "validate_coordination_surface d = check_decision_surface ''coordinator expectations'' d"

definition validate_coordination_plan :: "route_decision \<Rightarrow> validated_execution_plan \<Rightarrow> unit fa_local_result"
where
  "validate_coordination_plan d plan = checks
     [fail_if (pl_correlation_id (vp_plan plan) \<noteq> rd_correlation_id d) (contract_invalid
        ''execution coordinator plan correlation_id does not match route decision''),
      fail_if (pl_originating_request_id (vp_plan plan) \<noteq> rd_request_id d) (contract_invalid
        ''execution coordinator plan request_id does not match route decision'')]"

definition check_coordination_plan ::
  "route_decision \<Rightarrow> validated_execution_plan option \<Rightarrow> coordination_directive \<Rightarrow> unit fa_local_result"
where
  "check_coordination_plan d plan directive =
     (case rd_resolved_approval_posture d of
        ExplicitOperatorApproval \<Rightarrow>
          and_then (ok_or plan (contract_invalid
            ''explicit approval coordination requires validated execution plan'')) (\<lambda>plan. checks
            [validate_coordination_plan d plan,
             fail_if (requires_admitted_execution directive) (contract_invalid
               ''explicit approval route cannot enter execution progression without approval'')])
      | PolicyPreapproved \<Rightarrow>
          and_then (ok_or plan (contract_invalid
            ''admitted execution coordination requires validated execution plan''))
            (validate_coordination_plan d)
      | ExecuteAllowed \<Rightarrow>
          and_then (ok_or plan (contract_invalid
            ''admitted execution coordination requires validated execution plan''))
            (validate_coordination_plan d)
      | _ \<Rightarrow> checks
          [fail_if (plan \<noteq> None) (contract_invalid
             ''pre-execution denied or review routes must not enter coordinator with execution plan''),
           fail_if (requires_admitted_execution directive) (contract_invalid
             ''route posture does not admit execution coordination'')])"

definition new_coordination_input ::
  "route_decision \<Rightarrow> validated_execution_plan option \<Rightarrow> coordination_directive \<Rightarrow>
   coordination_context \<Rightarrow> coordination_input fa_local_result" where
  "new_coordination_input d plan directive ctx =
     and_then (checks [validate_coordination_surface d, check_coordination_plan d plan directive])
       (\<lambda>_. Ok \<lparr>ci_route_decision = d, ci_validated_plan = plan, ci_directive = directive,
               ci_context = ctx\<rparr>)"

section \<open>Traces\<close>

record execution_trace =
  tr_statuses :: "validated_execution_status list"

definition new_execution_trace :: "validated_execution_status list \<Rightarrow> execution_trace fa_local_result" where
  "new_execution_trace statuses = and_then (fail_if (statuses = []) (contract_invalid
       ''execution coordinator must emit at least one execution status''))
     (\<lambda>_. Ok \<lparr>tr_statuses = statuses\<rparr>)"

definition final_status :: "execution_trace \<Rightarrow> validated_execution_status option" where
  "final_status trace =
     (case tr_statuses trace of [] \<Rightarrow> None | s # ss \<Rightarrow> Some (last (s # ss)))"

section \<open>Statuses built from a decision\<close>

text \<open>
  Every builder passes fourteen arguments to \<open>ExecutionStatus::new\<close> and hands the result to
  \<open>ValidatedExecutionStatus::new\<close>. \<open>base_status\<close> has the arguments that every builder gives and
  \<open>None\<close> for the rest; a builder fills in its own.
\<close>

definition emit_status :: "execution_status \<Rightarrow> validated_execution_status fa_local_result" where
  "emit_status s = and_then (new_execution_status s) new_validated_status"

definition base_status ::
  "request_id \<Rightarrow> correlation_id \<Rightarrow> (execution_plan_id \<times> string) option \<Rightarrow> approval_posture \<Rightarrow>
   execution_state \<Rightarrow> timestamp \<Rightarrow> string \<Rightarrow> execution_status" where
  "base_status request_id correlation_id link posture state updated summary =
     \<lparr>st_request_id = request_id, st_correlation_id = correlation_id,
      st_execution_plan_id = map_option fst link, st_stable_plan_hash = map_option snd link,
      st_current_posture = posture, st_state = state, st_degraded_subtype = None,
      st_started_at_utc = None, st_updated_at_utc = updated, st_completed_at_utc = None,
      st_current_step = None, st_completion_summary = None, st_failure_summary = None,
      st_truthful_user_visible_summary = summary\<rparr>"

definition decision_status ::
  "route_decision \<Rightarrow> validated_execution_plan option \<Rightarrow> approval_posture \<Rightarrow> execution_state \<Rightarrow>
   timestamp \<Rightarrow> string \<Rightarrow> execution_status" where
  "decision_status d plan posture state updated summary =
     base_status (rd_request_id d) (rd_correlation_id d)
       (map_option (\<lambda>p. (pl_execution_plan_id (vp_plan p), vp_stable_plan_hash p)) plan)
       posture state updated summary"

definition build_denied_status ::
  "route_decision \<Rightarrow> timestamp \<Rightarrow> validated_execution_status fa_local_result" where
  "build_denied_status d updated = emit_status (decision_status d None approval_posture.Denied
     execution_state.Denied updated (rd_operator_visible_summary d))"

definition build_review_required_status ::
  "route_decision \<Rightarrow> timestamp \<Rightarrow> validated_execution_status fa_local_result" where
  "build_review_required_status d updated = emit_status (decision_status d None
     approval_posture.ReviewRequired execution_state.ReviewRequired updated
     (rd_operator_visible_summary d))"

definition build_waiting_approval_status ::
  "route_decision \<Rightarrow> timestamp \<Rightarrow> validated_execution_status fa_local_result" where
  "build_waiting_approval_status d updated = emit_status (decision_status d None
     ExplicitOperatorApproval WaitingExplicitApproval updated ''waiting for explicit operator approval'')"

definition build_admitted_not_started_status ::
  "route_decision \<Rightarrow> validated_execution_plan \<Rightarrow> timestamp \<Rightarrow> validated_execution_status fa_local_result"
where
  "build_admitted_not_started_status d plan updated = emit_status (decision_status d (Some plan)
     (rd_resolved_approval_posture d) AdmittedNotStarted updated
     ''execution admitted and bounded plan is ready to start'')"

definition build_in_progress_statuses ::
  "route_decision \<Rightarrow> validated_execution_plan \<Rightarrow> string list \<Rightarrow> timestamp \<Rightarrow>
   validated_execution_status list fa_local_result" where
  "build_in_progress_statuses d plan step_ids started = try_map (\<lambda>i. emit_status
     ((decision_status d (Some plan) (rd_resolved_approval_posture d) InProgress started
        (''executing declared step '' @ i))
       \<lparr>st_started_at_utc := Some started, st_current_step := Some i\<rparr>)) step_ids"

definition build_completed_status ::
  "route_decision \<Rightarrow> validated_execution_plan \<Rightarrow> timestamp \<Rightarrow> timestamp \<Rightarrow>
   validated_execution_status fa_local_result" where
  "build_completed_status d plan started completed =
     (let completion_summary = ''execution completed for all declared plan steps'' in
      emit_status ((decision_status d (Some plan) (rd_resolved_approval_posture d) Completed
          completed completion_summary)
        \<lparr>st_started_at_utc := Some started, st_completed_at_utc := Some completed,
         st_completion_summary := Some completion_summary\<rparr>))"

definition build_failed_status ::
  "route_decision \<Rightarrow> validated_execution_plan \<Rightarrow> timestamp \<Rightarrow> timestamp \<Rightarrow> string \<Rightarrow>
   validated_execution_status fa_local_result" where
  "build_failed_status d plan started completed failure_summary = emit_status
     ((decision_status d (Some plan) (rd_resolved_approval_posture d) Failed completed failure_summary)
       \<lparr>st_started_at_utc := Some started, st_completed_at_utc := Some completed,
        st_failure_summary := Some failure_summary\<rparr>)"

definition build_canceled_status ::
  "route_decision \<Rightarrow> validated_execution_plan \<Rightarrow> timestamp \<Rightarrow> timestamp \<Rightarrow> string \<Rightarrow>
   validated_execution_status fa_local_result" where
  "build_canceled_status d plan started completed target = emit_status
     ((decision_status d (Some plan) (rd_resolved_approval_posture d) Canceled completed
        (''execution canceled during declared step '' @ target))
       \<lparr>st_started_at_utc := Some started, st_completed_at_utc := Some completed\<rparr>)"

section \<open>Coordination\<close>

definition require_bounded_summary :: "string \<Rightarrow> string \<Rightarrow> unit fa_local_result" where
  "require_bounded_summary summary field_name =
     fail_if (summary = [] \<or> length summary > 160)
       (contract_invalid (field_name @ '' must be between 1 and 160 characters''))"

definition declared_steps_through ::
  "validated_execution_plan \<Rightarrow> string \<Rightarrow> string \<Rightarrow> string list fa_local_result" where
  "declared_steps_through plan target message =
     (case position (\<lambda>step. step_id step = target) (pl_steps (vp_plan plan)) of
        None \<Rightarrow> Err (contract_invalid message)
      | Some i \<Rightarrow> Ok (map step_id (take (i + 1) (pl_steps (vp_plan plan)))))"

definition coordinate_admitted_route ::
  "route_decision \<Rightarrow> validated_execution_plan \<Rightarrow> coordination_directive \<Rightarrow> coordination_context \<Rightarrow>
   execution_trace fa_local_result" where
  "coordinate_admitted_route d plan directive ctx =
     and_then (build_admitted_not_started_status d plan (cx_coordinated_at_utc ctx)) (\<lambda>admitted.
     case directive of
       NoExecution \<Rightarrow> new_execution_trace [admitted]
     | CompleteDeclaredPlan \<Rightarrow>
         and_then (build_in_progress_statuses d plan (map step_id (pl_steps (vp_plan plan)))
           (cx_started_at_utc ctx)) (\<lambda>progress.
         and_then (build_completed_status d plan (cx_started_at_utc ctx) (cx_completed_at_utc ctx))
           (\<lambda>completed. new_execution_trace ([admitted] @ progress @ [completed])))
     | FailAtDeclaredStep target failure_summary \<Rightarrow>
         and_then (require_bounded_summary failure_summary ''execution coordinator failure_summary'')
           (\<lambda>_.
         and_then (declared_steps_through plan target
           ''execution coordinator step is not declared in execution plan'') (\<lambda>step_ids.
         and_then (build_in_progress_statuses d plan step_ids (cx_started_at_utc ctx)) (\<lambda>progress.
         and_then (build_failed_status d plan (cx_started_at_utc ctx) (cx_completed_at_utc ctx)
           failure_summary) (\<lambda>failed.
           new_execution_trace ([admitted] @ progress @ [failed])))))
     | CancelInFlight target \<Rightarrow>
         and_then (declared_steps_through plan target
           ''execution coordinator step is not declared in execution plan'') (\<lambda>step_ids.
         and_then (build_in_progress_statuses d plan step_ids (cx_started_at_utc ctx)) (\<lambda>progress.
         and_then (build_canceled_status d plan (cx_started_at_utc ctx) (cx_completed_at_utc ctx)
           target) (\<lambda>canceled.
           new_execution_trace ([admitted] @ progress @ [canceled]))))
     | UnsupportedRuntimeCondition summary \<Rightarrow>
         and_then (require_bounded_summary summary
           ''execution coordinator unsupported runtime summary'') (\<lambda>_.
           Err (contract_invalid (''unsupported runtime condition: '' @ summary))))"

definition coordinate :: "coordination_input \<Rightarrow> execution_trace fa_local_result option" where
  "coordinate input =
     (let d = ci_route_decision input; ctx = ci_context input;
          single = (\<lambda>status. and_then status (\<lambda>s. new_execution_trace [s])) in
      case rd_resolved_approval_posture d of
        approval_posture.Denied \<Rightarrow>
          Some (single (build_denied_status d (cx_coordinated_at_utc ctx)))
      | approval_posture.ReviewRequired \<Rightarrow>
          Some (single (build_review_required_status d (cx_coordinated_at_utc ctx)))
      | ExplicitOperatorApproval \<Rightarrow>
          Some (single (build_waiting_approval_status d (cx_coordinated_at_utc ctx)))
      | _ \<Rightarrow> map_option (\<lambda>plan. coordinate_admitted_route d plan (ci_directive input) ctx)
          (ci_validated_plan input))"

section \<open>What a trace reports\<close>

text \<open>
  A trace is read by its states and steps; every status of it is well-formed and speaks of the same
  request, plan and posture.
\<close>

type_synonym trace_entry = "execution_state \<times> string option"

definition entry_of :: "validated_execution_status \<Rightarrow> trace_entry" where
  "entry_of v = (st_state (vs_status v), st_current_step (vs_status v))"

definition trace_entries :: "execution_trace \<Rightarrow> trace_entry list" where
  "trace_entries trace = map entry_of (tr_statuses trace)"

definition speaks_of ::
  "request_id \<Rightarrow> correlation_id \<Rightarrow> (execution_plan_id \<times> string) option \<Rightarrow> approval_posture \<Rightarrow>
   validated_execution_status \<Rightarrow> bool" where
  "speaks_of request_id correlation_id link posture v \<longleftrightarrow>
     (let s = vs_status v in
      status_wf s \<and> st_request_id s = request_id \<and> st_correlation_id s = correlation_id \<and>
      st_execution_plan_id s = map_option fst link \<and> st_stable_plan_hash s = map_option snd link \<and>
      st_current_posture s = posture)"

definition running :: "string list \<Rightarrow> trace_entry list" where
  "running ids = map (\<lambda>i. (InProgress, Some i)) ids"

definition steps_through :: "string \<Rightarrow> string list \<Rightarrow> string list" where
  "steps_through target ids = takeWhile (\<lambda>i. i \<noteq> target) ids @ [target]"

text \<open>
  The order of states in a trace, as a transition relation; an admitted trace starts in
  \<open>AdmittedNotStarted\<close> and ends where no transition leaves.
\<close>

inductive next_state :: "execution_state \<Rightarrow> execution_state \<Rightarrow> bool" where
  start: "next_state AdmittedNotStarted InProgress"
| step: "next_state InProgress InProgress"
| finish: "s \<in> {Completed, CompletedWithConstraints, PartialSuccess, Failed, Canceled, Degraded} \<Longrightarrow>
    next_state InProgress s"
| unavailable: "next_state AdmittedNotStarted Degraded"

code_pred next_state .

inductive_simps next_state_simps [simp]:
  "next_state AdmittedNotStarted s" "next_state InProgress s" "next_state Completed s"
  "next_state CompletedWithConstraints s" "next_state PartialSuccess s" "next_state Failed s"
  "next_state Canceled s" "next_state Degraded s"

definition lawful_run :: "trace_entry list \<Rightarrow> bool" where
  "lawful_run es \<longleftrightarrow> es \<noteq> [] \<and> fst (hd es) = AdmittedNotStarted \<and>
     successively next_state (map fst es)"

lemma successively_running:
  "successively next_state (InProgress # map fst (running ids))"
  by (induction ids) (auto simp: running_def)

lemma lawful_run_running:
  assumes "next_state InProgress final" and "ids \<noteq> [] \<or> next_state AdmittedNotStarted final"
  shows "lawful_run ((AdmittedNotStarted, None) # running ids @ [(final, x)])"
proof (cases ids)
  case Nil
  then show ?thesis using assms by (simp add: lawful_run_def running_def)
next
  case (Cons i js)
  have "successively next_state (InProgress # map fst (running js) @ [final])"
    using assms(1) successively_running [of js]
    by (induction js) (auto simp: running_def)
  then show ?thesis by (simp add: lawful_run_def Cons running_def)
qed

section \<open>The builders\<close>

lemma emit_status_Ok: "emit_status s = Ok v \<longleftrightarrow> status_wf s \<and> v = \<lparr>vs_status = s\<rparr>"
  by (simp add: emit_status_def build_status_Ok)

lemma require_bounded_summary_Ok [result_simps]:
  "require_bounded_summary s f = Ok u \<longleftrightarrow> bounded_text s"
  by (auto simp: require_bounded_summary_def result_simps not_less)

lemma new_execution_trace_Ok [result_simps]:
  "new_execution_trace ss = Ok t \<longleftrightarrow> ss \<noteq> [] \<and> t = \<lparr>tr_statuses = ss\<rparr>"
  by (auto simp: new_execution_trace_def result_simps)

lemma final_status_Some:
  "tr_statuses t \<noteq> [] \<Longrightarrow> final_status t = Some (last (tr_statuses t))"
  by (cases "tr_statuses t") (simp_all add: final_status_def)

lemma speaks_of_emit:
  assumes "emit_status s = Ok v" and "st_request_id s = r" "st_correlation_id s = c"
    "st_execution_plan_id s = map_option fst link" "st_stable_plan_hash s = map_option snd link"
    "st_current_posture s = p"
  shows "speaks_of r c link p v \<and> entry_of v = (st_state s, st_current_step s)"
  using assms by (auto simp: emit_status_Ok speaks_of_def entry_of_def)

lemma try_map_emit:
  assumes "try_map (\<lambda>i. emit_status (f i)) ids = Ok vs"
    and "\<And>i. st_request_id (f i) = r \<and> st_correlation_id (f i) = c \<and>
      st_execution_plan_id (f i) = map_option fst link \<and>
      st_stable_plan_hash (f i) = map_option snd link \<and> st_current_posture (f i) = p \<and>
      st_state (f i) = InProgress \<and> st_current_step (f i) = Some i"
  shows "list_all (speaks_of r c link p) vs \<and> map entry_of vs = running ids"
  using assms(1)
proof (induction ids arbitrary: vs)
  case Nil
  then show ?case by (simp add: running_def)
next
  case (Cons i ids)
  then obtain v us where v: "emit_status (f i) = Ok v" "try_map (\<lambda>i. emit_status (f i)) ids = Ok us"
    "vs = v # us"
    by (auto simp: result_simps)
  have "speaks_of r c link p v \<and> entry_of v = (InProgress, Some i)"
    using speaks_of_emit [OF v(1)] assms(2) [of i] by simp
  with Cons.IH [OF v(2)] v(3) show ?case by (simp add: running_def)
qed

lemma try_map_emit_total:
  "(\<And>i. i \<in> set ids \<Longrightarrow> status_wf (f i)) \<Longrightarrow> \<exists>vs. try_map (\<lambda>i. emit_status (f i)) ids = Ok vs"
  by (induction ids) (auto simp: result_simps emit_status_Ok)

lemma position_step_ids:
  "position (\<lambda>s. step_id s = target) steps = position (\<lambda>i. i = target) (map step_id steps)"
  by (simp add: position_map comp_def)

lemma steps_through_split: "target \<notin> set us \<Longrightarrow> steps_through target (us @ target # vs) = us @ [target]"
  by (auto simp: steps_through_def takeWhile_append)

lemma through_position:
  "(case position (\<lambda>i. i = target) ids of None \<Rightarrow> Err e | Some i \<Rightarrow> Ok (take (i + 1) ids)) =
     (if target \<in> set ids then Ok (steps_through target ids) else Err e)"
proof (cases "position (\<lambda>i. i = target) ids")
  case None
  then have "target \<notin> set ids" by (auto simp: position_None)
  with None show ?thesis by simp
next
  case (Some i)
  then obtain us vs where "ids = us @ target # vs" "target \<notin> set us" "i = length us"
    by (auto simp: position_split)
  with Some show ?thesis by (simp add: steps_through_split)
qed

definition plan_step_ids :: "validated_execution_plan \<Rightarrow> string list" where
  "plan_step_ids plan = map step_id (pl_steps (vp_plan plan))"

lemma declared_steps_through_eq:
  "declared_steps_through plan target m =
     (if target \<in> set (plan_step_ids plan) then Ok (steps_through target (plan_step_ids plan))
      else Err (contract_invalid m))"
  unfolding declared_steps_through_def position_step_ids plan_step_ids_def
    through_position [symmetric]
  by (simp add: take_map split: option.split)

section \<open>What coordination reports\<close>

fun planned_entries :: "string list \<Rightarrow> coordination_directive \<Rightarrow> trace_entry list" where
  "planned_entries ids NoExecution = [(AdmittedNotStarted, None)]"
| "planned_entries ids CompleteDeclaredPlan =
     (AdmittedNotStarted, None) # running ids @ [(Completed, None)]"
| "planned_entries ids (FailAtDeclaredStep target m) =
     (AdmittedNotStarted, None) # running (steps_through target ids) @ [(Failed, None)]"
| "planned_entries ids (CancelInFlight target) =
     (AdmittedNotStarted, None) # running (steps_through target ids) @ [(Canceled, None)]"
| "planned_entries ids (UnsupportedRuntimeCondition m) = []"

fun pre_execution_state :: "approval_posture \<Rightarrow> execution_state" where
  "pre_execution_state approval_posture.Denied = execution_state.Denied"
| "pre_execution_state approval_posture.ReviewRequired = execution_state.ReviewRequired"
| "pre_execution_state _ = WaitingExplicitApproval"

fun directive_feasible :: "string list \<Rightarrow> coordination_directive \<Rightarrow> bool" where
  "directive_feasible ids NoExecution = True"
| "directive_feasible ids CompleteDeclaredPlan = True"
| "directive_feasible ids (FailAtDeclaredStep target m) = (target \<in> set ids \<and> bounded_text m)"
| "directive_feasible ids (CancelInFlight target) = (target \<in> set ids)"
| "directive_feasible ids (UnsupportedRuntimeCondition m) = False"

definition plan_link :: "validated_execution_plan \<Rightarrow> execution_plan_id \<times> string" where
  "plan_link plan = (pl_execution_plan_id (vp_plan plan), vp_stable_plan_hash plan)"

lemma decision_status_simps [simp]:
  "st_request_id (decision_status d plan p s u m) = rd_request_id d"
  "st_correlation_id (decision_status d plan p s u m) = rd_correlation_id d"
  "st_execution_plan_id (decision_status d plan p s u m) = map_option (fst \<circ> plan_link) plan"
  "st_stable_plan_hash (decision_status d plan p s u m) = map_option (snd \<circ> plan_link) plan"
  "st_current_posture (decision_status d plan p s u m) = p"
  "st_state (decision_status d plan p s u m) = s"
  "st_degraded_subtype (decision_status d plan p s u m) = None"
  "st_started_at_utc (decision_status d plan p s u m) = None"
  "st_updated_at_utc (decision_status d plan p s u m) = u"
  "st_completed_at_utc (decision_status d plan p s u m) = None"
  "st_current_step (decision_status d plan p s u m) = None"
  "st_completion_summary (decision_status d plan p s u m) = None"
  "st_failure_summary (decision_status d plan p s u m) = None"
  "st_truthful_user_visible_summary (decision_status d plan p s u m) = m"
  by (simp_all add: decision_status_def base_status_def plan_link_def option.map_comp comp_def)

text \<open>Every builder speaks of the decision it was given.\<close>

abbreviation speaks_for :: "route_decision \<Rightarrow> validated_execution_plan option \<Rightarrow> validated_execution_status \<Rightarrow> bool"
where
  "speaks_for d plan \<equiv> speaks_of (rd_request_id d) (rd_correlation_id d) (map_option plan_link plan)
     (rd_resolved_approval_posture d)"

lemma single_status_speaks:
  assumes "emit_status s = Ok v" and "st_request_id s = rd_request_id d"
    "st_correlation_id s = rd_correlation_id d"
    "st_execution_plan_id s = map_option (fst \<circ> plan_link) plan"
    "st_stable_plan_hash s = map_option (snd \<circ> plan_link) plan"
    "st_current_posture s = rd_resolved_approval_posture d"
  shows "speaks_for d plan v \<and> entry_of v = (st_state s, st_current_step s)"
  using assms by (intro speaks_of_emit) (simp_all add: option.map_comp)

lemma builders_speak:
  "build_admitted_not_started_status d p u = Ok v \<Longrightarrow>
     speaks_for d (Some p) v \<and> entry_of v = (AdmittedNotStarted, None)"
  "build_completed_status d p st u = Ok v \<Longrightarrow>
     speaks_for d (Some p) v \<and> entry_of v = (Completed, None)"
  "build_failed_status d p st u m = Ok v \<Longrightarrow>
     speaks_for d (Some p) v \<and> entry_of v = (Failed, None)"
  "build_canceled_status d p st u i = Ok v \<Longrightarrow>
     speaks_for d (Some p) v \<and> entry_of v = (Canceled, None)"
  unfolding build_admitted_not_started_status_def build_completed_status_def Let_def
    build_failed_status_def build_canceled_status_def
  by (drule single_status_speaks [where d = d and plan = "Some p"]; simp)+

lemma in_progress_speak:
  "build_in_progress_statuses d p ids st = Ok vs \<Longrightarrow>
     list_all (speaks_for d (Some p)) vs \<and> map entry_of vs = running ids"
  unfolding build_in_progress_statuses_def
  by (erule try_map_emit) simp

lemma coordinate_admitted_entries:
  assumes "coordinate_admitted_route d plan directive ctx = Ok t"
  shows "trace_entries t = planned_entries (plan_step_ids plan) directive \<and>
    list_all (speaks_for d (Some plan)) (tr_statuses t)"
  using assms
  by (cases directive)
    (auto simp: coordinate_admitted_route_def trace_entries_def result_simps plan_step_ids_def
      declared_steps_through_eq dest!: builders_speak in_progress_speak split: if_splits)

lemma new_coordination_input_Ok:
  assumes "new_coordination_input d plan directive ctx = Ok input"
  shows "coherent d \<and> (routable_posture (rd_resolved_approval_posture d) \<longleftrightarrow> plan \<noteq> None) \<and>
    (admitted_posture (rd_resolved_approval_posture d) \<or> directive = NoExecution) \<and>
    input = \<lparr>ci_route_decision = d, ci_validated_plan = plan, ci_directive = directive, ci_context = ctx\<rparr>"
  using assms
  by (cases plan; cases "rd_resolved_approval_posture d"; cases directive)
    (auto simp: new_coordination_input_def check_coordination_plan_def routable_posture_def
      validate_coordination_surface_def result_simps)

lemma coordinate_admitted:
  assumes "new_coordination_input d (Some plan) directive ctx = Ok input"
    and "admitted_posture (rd_resolved_approval_posture d)"
  shows "coordinate input = Some (coordinate_admitted_route d plan directive ctx)"
  using new_coordination_input_Ok [OF assms(1)] assms(2)
  by (cases "rd_resolved_approval_posture d") (auto simp: coordinate_def)

lemma coordinate_entries:
  assumes "new_coordination_input d plan directive ctx = Ok input"
    and "coordinate input = Some (Ok t)"
  shows "trace_entries t =
      (case plan of
         Some p \<Rightarrow> if admitted_posture (rd_resolved_approval_posture d)
                   then planned_entries (plan_step_ids p) directive
                   else [(WaitingExplicitApproval, None)]
       | None \<Rightarrow> [(pre_execution_state (rd_resolved_approval_posture d), None)]) \<and>
    list_all (speaks_for d (if admitted_posture (rd_resolved_approval_posture d) then plan else None))
      (tr_statuses t)"
proof (cases "admitted_posture (rd_resolved_approval_posture d)")
  case True
  with new_coordination_input_Ok [OF assms(1)] obtain p where p: "plan = Some p"
    by (auto simp: routable_posture_def)
  with coordinate_admitted [of d p] assms True
  have "coordinate_admitted_route d p directive ctx = Ok t" by simp
  from coordinate_admitted_entries [OF this] True p show ?thesis by simp
next
  case False
  note d = new_coordination_input_Ok [OF assms(1)]
  show ?thesis
    using assms(2) d False
    by (cases "rd_resolved_approval_posture d"; cases plan)
      (auto simp: coordinate_def build_denied_status_def build_review_required_status_def
        build_waiting_approval_status_def trace_entries_def result_simps routable_posture_def
        dest!: single_status_speaks [where d = d and plan = None])
qed

lemma coordinate_never_panics:
  assumes "new_coordination_input d plan directive ctx = Ok input"
  shows "coordinate input \<noteq> None"
  using new_coordination_input_Ok [OF assms]
  by (cases "rd_resolved_approval_posture d") (auto simp: coordinate_def routable_posture_def Let_def)

section \<open>When coordination answers\<close>

text \<open>
  A plan whose hash and step identifiers the statuses can carry. The hash of a validated plan is a
  printed SHA-256 digest; the identifiers satisfy the pattern of the plan's schema.
\<close>

definition plan_reportable :: "validated_execution_plan \<Rightarrow> bool" where
  "plan_reportable plan \<longleftrightarrow>
     is_valid_hash (vp_stable_plan_hash plan) \<and> list_all is_valid_step_id (plan_step_ids plan)"

lemma is_valid_step_id_length: "is_valid_step_id i \<Longrightarrow> length i \<le> 48"
  by (simp add: is_valid_step_id_def split: if_splits)

lemmas status_wf_defs = status_wf_def texts_bounded_def times_ordered_def fits_row_def
  admitted_row_def pre_execution_row_def

lemma decision_builders_total:
  assumes "admitted_posture (rd_resolved_approval_posture d)" and "plan_reportable plan"
  shows "\<exists>v. build_admitted_not_started_status d plan u = Ok v"
    and "set ids \<subseteq> set (plan_step_ids plan) \<Longrightarrow> \<exists>vs. build_in_progress_statuses d plan ids u = Ok vs"
    and "st \<le> u \<Longrightarrow> \<exists>v. build_completed_status d plan st u = Ok v"
    and "st \<le> u \<Longrightarrow> bounded_text m \<Longrightarrow> \<exists>v. build_failed_status d plan st u m = Ok v"
    and "st \<le> u \<Longrightarrow> i \<in> set (plan_step_ids plan) \<Longrightarrow> \<exists>v. build_canceled_status d plan st u i = Ok v"
proof -
  have hash: "is_valid_hash (vp_stable_plan_hash plan)"
    and ids: "\<And>i. i \<in> set (plan_step_ids plan) \<Longrightarrow> is_valid_step_id i \<and> length i \<le> 48"
    using assms(2) by (auto simp: plan_reportable_def list_all_iff is_valid_step_id_length)
  note [simp] = emit_status_Ok status_wf_defs plan_link_def hash
  show "\<exists>v. build_admitted_not_started_status d plan u = Ok v"
    using assms(1) by (auto simp: build_admitted_not_started_status_def)
  show "\<exists>v. build_completed_status d plan st u = Ok v" if "st \<le> u"
    using assms(1) that by (auto simp: build_completed_status_def Let_def)
  show "\<exists>v. build_failed_status d plan st u m = Ok v" if "st \<le> u" "bounded_text m"
    using assms(1) that by (auto simp: build_failed_status_def)
  show "\<exists>v. build_canceled_status d plan st u i = Ok v"
    if "st \<le> u" "i \<in> set (plan_step_ids plan)"
    using assms(1) that(1) ids [OF that(2)] by (auto simp: build_canceled_status_def)
  show "\<exists>vs. build_in_progress_statuses d plan ids u = Ok vs" if "set ids \<subseteq> set (plan_step_ids plan)"
  proof -
    let ?s = "\<lambda>i. (decision_status d (Some plan) (rd_resolved_approval_posture d) InProgress u
        (''executing declared step '' @ i)) \<lparr>st_started_at_utc := Some u, st_current_step := Some i\<rparr>"
    have wf: "status_wf (?s i)" if "is_valid_step_id i" "length i \<le> 48" for i
      using assms(1) that by auto
    show ?thesis
      unfolding build_in_progress_statuses_def
      by (rule try_map_emit_total) (use ids that in \<open>blast intro: wf\<close>)
  qed
qed

lemma set_steps_through: "target \<in> set ids \<Longrightarrow> set (steps_through target ids) \<subseteq> set ids"
  by (auto simp: steps_through_def dest: set_takeWhileD)

lemma coordinate_admitted_total:
  assumes adm: "admitted_posture (rd_resolved_approval_posture d)" and plan: "plan_reportable plan"
    and time: "cx_started_at_utc ctx \<le> cx_completed_at_utc ctx"
  shows "(\<exists>t. coordinate_admitted_route d plan directive ctx = Ok t) \<longleftrightarrow>
    directive_feasible (plan_step_ids plan) directive"
proof -
  note total = decision_builders_total [OF adm plan]
  obtain a where a: "build_admitted_not_started_status d plan (cx_coordinated_at_utc ctx) = Ok a"
    using total(1) by blast
  show ?thesis
  proof (cases directive)
    case CompleteDeclaredPlan
    then show ?thesis
      using a total(2) [of "plan_step_ids plan" "cx_started_at_utc ctx"] total(3) [OF time]
      by (auto simp: coordinate_admitted_route_def result_simps simp flip: plan_step_ids_def)
  next
    case (FailAtDeclaredStep target m)
    then show ?thesis
      using a total(2) [OF set_steps_through [of target], of "cx_started_at_utc ctx"] total(4) [OF time, of m]
      by (auto simp: coordinate_admitted_route_def declared_steps_through_eq result_simps)
  next
    case (CancelInFlight target)
    then show ?thesis
      using a total(2) [OF set_steps_through [of target], of "cx_started_at_utc ctx"] total(5) [OF time, of target]
      by (auto simp: coordinate_admitted_route_def declared_steps_through_eq result_simps)
  qed (use a in \<open>auto simp: coordinate_admitted_route_def new_execution_trace_def result_simps\<close>)
qed

text \<open>An admitted trace is a lawful run whenever the plan has a step.\<close>

lemma planned_entries_lawful:
  assumes "ids \<noteq> []" and "directive_feasible ids directive"
  shows "lawful_run (planned_entries ids directive)"
  using assms
  by (cases directive) (auto simp: lawful_run_def [of "[_]"] steps_through_def intro!: lawful_run_running)

lemma coordinate_admitted_feasible:
  "coordinate_admitted_route d plan directive ctx = Ok t \<Longrightarrow>
     directive_feasible (plan_step_ids plan) directive"
  by (cases directive)
    (auto simp: coordinate_admitted_route_def declared_steps_through_eq result_simps split: if_splits)

end
