(* ===== verification/Delivery.thy ===== *)
theory Delivery
  imports Execution_Plan "HOL-Library.Mapping"
begin

text \<open>
  Execution delivery, \<open>src/adapters/execution_delivery\<close>: the adapter trait, the registry that
  dispatches capabilities to adapters, and the nmap-preflight and local-file-write adapters.

  An adapter acts on a world \<open>'w\<close>, which it returns with its result; \<open>None\<close> is a panic. The file
  system operations an adapter calls are the fields of \<open>fs_env\<close>.
\<close>

section \<open>The adapter trait\<close>

record adapter_delivery_request =
  dr_route_decision_id :: route_decision_id
  dr_correlation_id :: correlation_id
  dr_request_id :: request_id
  dr_resolved_approval_posture :: approval_posture
  dr_requested_capability_id :: capability_id
  dr_execution_plan_id :: execution_plan_id
  dr_stable_plan_hash :: string
  dr_declared_step_ids :: "string list"
  dr_declared_capability_ids :: "capability_id list"
  dr_declared_fallback_references :: "fallback_reference list"

datatype adapter_delivery_result =
  DeliveredAllSteps
| CompletedWithDeclaredFallback string string degraded_subtype
| FailedAtDeclaredStep string string
| CanceledAtDeclaredStep string
| DependencyUnavailable string
| Unsupported string

record 'w delivery_adapter =
  da_adapter_id :: string
  da_deliver_route :: "adapter_delivery_request \<Rightarrow> 'w \<Rightarrow> ('w \<times> adapter_delivery_result) option"

text \<open>
  Code that calls adapters: it reads and returns the world, also when it leaves with an error, and
  \<open>and_do\<close> is the \<open>?\<close> operator on it.
\<close>

type_synonym ('w, 'v) effect = "'w \<Rightarrow> ('w \<times> 'v fa_local_result) option"

definition pure_do :: "'v fa_local_result \<Rightarrow> ('w, 'v) effect" where
  "pure_do r w = Some (w, r)"

definition and_do :: "('w, 'v) effect \<Rightarrow> ('v \<Rightarrow> ('w, 'u) effect) \<Rightarrow> ('w, 'u) effect" where
  "and_do m f w =
     (case m w of
        None \<Rightarrow> None
      | Some (w', Ok v) \<Rightarrow> f v w'
      | Some (w', Err e) \<Rightarrow> Some (w', Err e))"

text \<open>A call that may panic but does not touch the world.\<close>

definition partial_do :: "'v fa_local_result option \<Rightarrow> ('w, 'v) effect" where
  "partial_do r w = map_option (Pair w) r"

definition call_adapter ::
  "'w delivery_adapter \<Rightarrow> adapter_delivery_request \<Rightarrow> ('w, adapter_delivery_result) effect" where
  "call_adapter adapter request w =
     map_option (\<lambda>(w', r). (w', Ok r)) (da_deliver_route adapter request w)"

lemma pure_do_simps [simp]:
  "pure_do r w = Some (w', r') \<longleftrightarrow> w = w' \<and> r = r'" "pure_do r w \<noteq> None"
  by (auto simp: pure_do_def)

lemma and_do_pure [simp]:
  "and_do (pure_do (Ok v)) f = f v" "and_do (pure_do (Err e)) f = pure_do (Err e)"
  by (simp_all add: fun_eq_iff and_do_def pure_do_def)

lemma and_do_Ok:
  "and_do m f w = Some (w', Ok u) \<longleftrightarrow> (\<exists>v w1. m w = Some (w1, Ok v) \<and> f v w1 = Some (w', Ok u))"
  by (auto simp: and_do_def split: option.splits result.splits)

lemma and_do_Err:
  "and_do m f w = Some (w', Err e) \<longleftrightarrow>
     m w = Some (w', Err e) \<or> (\<exists>v w1. m w = Some (w1, Ok v) \<and> f v w1 = Some (w', Err e))"
  by (auto simp: and_do_def split: option.splits result.splits)

lemma and_do_None:
  "and_do m f w = None \<longleftrightarrow> m w = None \<or> (\<exists>v w1. m w = Some (w1, Ok v) \<and> f v w1 = None)"
  by (auto simp: and_do_def split: option.splits result.splits)

text \<open>
  Rules for what holds after a run: \<open>ends_in m w Q\<close> says that every run of \<open>m\<close> from \<open>w\<close> that does
  not panic ends in a world and a result that satisfy \<open>Q\<close>, errors included.
\<close>

definition ends_in :: "('w, 'v) effect \<Rightarrow> 'w \<Rightarrow> ('w \<Rightarrow> 'v fa_local_result \<Rightarrow> bool) \<Rightarrow> bool" where
  "ends_in m w Q \<longleftrightarrow> (\<forall>w' r. m w = Some (w', r) \<longrightarrow> Q w' r)"

lemma ends_in_pure [simp]: "ends_in (pure_do r) w Q \<longleftrightarrow> Q w r"
  by (simp add: ends_in_def)

lemma ends_in_and_do:
  assumes "ends_in m w (\<lambda>w1 r. case r of Ok v \<Rightarrow> ends_in (f v) w1 Q | Err e \<Rightarrow> Q w1 (Err e))"
  shows "ends_in (and_do m f) w Q"
  using assms by (auto simp: ends_in_def and_do_def split: option.splits result.splits prod.splits)

section \<open>The adapter contract\<close>

text \<open>
  A result that names only what the request declared, with texts the statuses can carry.
\<close>

fun result_wf :: "adapter_delivery_request \<Rightarrow> adapter_delivery_result \<Rightarrow> bool" where
  "result_wf request DeliveredAllSteps \<longleftrightarrow> True"
| "result_wf request (CompletedWithDeclaredFallback s f d) \<longleftrightarrow>
     d \<in> {DegradedFallbackEquivalent, DegradedFallbackLimited} \<and>
     s \<in> set (dr_declared_step_ids request) \<and> f \<in> set (dr_declared_step_ids request) \<and>
     \<lparr>fr_step_id = s, fr_fallback_step_id = f\<rparr> \<in> set (dr_declared_fallback_references request)"
| "result_wf request (FailedAtDeclaredStep s m) \<longleftrightarrow>
     s \<in> set (dr_declared_step_ids request) \<and> bounded_text m"
| "result_wf request (CanceledAtDeclaredStep s) \<longleftrightarrow> s \<in> set (dr_declared_step_ids request)"
| "result_wf request (DependencyUnavailable m) \<longleftrightarrow> bounded_text m"
| "result_wf request (Unsupported m) \<longleftrightarrow> bounded_text m"

fun is_unsupported :: "adapter_delivery_result \<Rightarrow> bool" where
  "is_unsupported (Unsupported m) = True"
| "is_unsupported _ = False"

lemma is_unsupported_iff: "is_unsupported r \<longleftrightarrow> (\<exists>m. r = Unsupported m)"
  by (cases r) simp_all

text \<open>
  What the coordinator may rely on: the adapter always answers, in the terms of the request; it
  refuses exactly the requests it does not support, and then leaves the world alone.
\<close>

locale lawful_adapter =
  fixes adapter :: "'w delivery_adapter"
    and supports :: "adapter_delivery_request \<Rightarrow> bool"
  assumes always_answers: "\<exists>w' r. da_deliver_route adapter request w = Some (w', r) \<and> result_wf request r"
    and unsupported_iff: "da_deliver_route adapter request w = Some (w', r) \<Longrightarrow>
      is_unsupported r \<longleftrightarrow> \<not> supports request"
    and unsupported_inert: "da_deliver_route adapter request w = Some (w', Unsupported m) \<Longrightarrow> w' = w"
begin

lemma never_panics: "da_deliver_route adapter request w \<noteq> None"
  using always_answers by fastforce

lemma delivered_wf: "da_deliver_route adapter request w = Some (w', r) \<Longrightarrow> result_wf request r"
  using always_answers [of request w] by auto

lemma supported_cases:
  assumes "supports request"
  obtains w' r where "da_deliver_route adapter request w = Some (w', r)" "result_wf request r"
    "\<not> is_unsupported r"
  using always_answers [of request w] unsupported_iff assms by blast

lemma refused:
  assumes "\<not> supports request"
  shows "\<exists>m. da_deliver_route adapter request w = Some (w, Unsupported m) \<and> bounded_text m"
proof -
  obtain w' r where r: "da_deliver_route adapter request w = Some (w', r)" "result_wf request r"
    using always_answers by blast
  with assms obtain m where "r = Unsupported m"
    using unsupported_iff [OF r(1)] by (auto simp: is_unsupported_iff)
  with r show ?thesis using unsupported_inert by auto
qed

end

section \<open>The registry\<close>

type_synonym 'w adapter_registry = "(capability_id, 'w delivery_adapter) mapping"

definition new_registry :: "'w adapter_registry" where
  "new_registry = Mapping.empty"

definition resolve_adapter :: "'w adapter_registry \<Rightarrow> capability_id \<Rightarrow> 'w delivery_adapter option" where
  "resolve_adapter registry cap = Mapping.lookup registry cap"

definition register ::
  "(uuid \<Rightarrow> string) \<Rightarrow> 'w adapter_registry \<Rightarrow> capability_id \<Rightarrow> 'w delivery_adapter \<Rightarrow>
   'w adapter_registry fa_local_result" where
  "register show_uuid registry cap adapter =
     (if Mapping.lookup registry cap \<noteq> None
      then Err (fa_local_error.ContractInvalid
             (''adapter already registered for capability '' @ show_uuid cap))
      else Ok (Mapping.update cap adapter registry))"

definition registered_capability_ids :: "'w adapter_registry \<Rightarrow> capability_id list" where
  "registered_capability_ids registry = Mapping.ordered_keys registry"

text \<open>
  The contract of a dispatch table in which the first registration of a key stands: a second one is
  an error and changes nothing.
\<close>

locale dispatch_table =
  fixes start :: 't
    and insert_new :: "'t \<Rightarrow> 'k \<Rightarrow> 'a \<Rightarrow> ('t, 'e) result"
    and find_entry :: "'t \<Rightarrow> 'k \<Rightarrow> 'a option"
  assumes find_start: "find_entry start k = None"
    and insert_fresh: "find_entry t k = None \<Longrightarrow>
      \<exists>t'. insert_new t k a = Ok t' \<and> find_entry t' = (find_entry t)(k \<mapsto> a)"
    and insert_taken: "find_entry t k \<noteq> None \<Longrightarrow> \<exists>e. insert_new t k a = Err e"
begin

lemma insert_Ok_iff: "(\<exists>t'. insert_new t k a = Ok t') \<longleftrightarrow> find_entry t k = None"
  using insert_fresh [of t k a] insert_taken [of t k a] by (cases "find_entry t k = None") auto

lemma insert_OkD:
  assumes "insert_new t k a = Ok t'"
  shows "find_entry t k = None" "find_entry t' = (find_entry t)(k \<mapsto> a)"
  using assms insert_fresh [of t k a] insert_taken [of t k a]
  by (cases "find_entry t k = None"; auto)+

lemma insert_preserves:
  "insert_new t k a = Ok t' \<Longrightarrow> find_entry t j = Some b \<Longrightarrow> find_entry t' j = Some b"
  using insert_OkD [of t k a t'] by (auto simp: fun_upd_def)

primrec insert_all :: "'t \<Rightarrow> ('k \<times> 'a) list \<Rightarrow> ('t, 'e) result" where
  "insert_all t [] = Ok t"
| "insert_all t (e # es) = and_then (insert_new t (fst e) (snd e)) (\<lambda>t'. insert_all t' es)"

text \<open>A table filled from a list of distinct new keys finds exactly the list.\<close>

lemma insert_all_Ok:
  assumes "distinct (map fst es)" and "\<forall>e \<in> set es. find_entry t (fst e) = None"
  shows "\<exists>t'. insert_all t es = Ok t' \<and> find_entry t' = find_entry t ++ map_of es"
  using assms
proof (induction es arbitrary: t)
  case Nil
  then show ?case by simp
next
  case (Cons e es)
  obtain t1 where t1: "insert_new t (fst e) (snd e) = Ok t1"
    "find_entry t1 = (find_entry t)(fst e \<mapsto> snd e)"
    using insert_fresh [of t "fst e" "snd e"] Cons.prems(2) by auto
  have "\<forall>x \<in> set es. find_entry t1 (fst x) = None"
    using Cons.prems t1(2) by (auto simp: image_iff)
  then obtain t2 where t2: "insert_all t1 es = Ok t2" "find_entry t2 = find_entry t1 ++ map_of es"
    using Cons.IH [of t1] Cons.prems(1) by auto
  have "fst e \<notin> dom (map_of es)"
    using Cons.prems(1) by (simp add: dom_map_of_conv_image_fst)
  then have "find_entry t2 = find_entry t ++ (map_of es)(fst e \<mapsto> snd e)"
    by (simp add: t1(2) t2(2) map_add_upd_left)
  then have "find_entry t2 = find_entry t ++ map_of (e # es)"
    by (cases e) (auto simp: fun_eq_iff map_add_def)
  with t1(1) t2(1) show ?case by (auto simp del: map_of.simps)
qed

text \<open>A list that repeats a key is refused, whatever the table already holds.\<close>

lemma insert_all_repeated:
  assumes "\<not> distinct (map fst es)"
  shows "\<exists>e. insert_all t es = Err e"
  using assms
proof (induction es arbitrary: t)
  case Nil
  then show ?case by simp
next
  case (Cons e es)
  have taken: "\<exists>err. insert_all t' es = Err err" if "find_entry t' (fst e) \<noteq> None" "fst e \<in> fst ` set es" for t'
    using that
  proof (induction es arbitrary: t')
    case Nil
    then show ?case by simp
  next
    case (Cons x xs)
    show ?case
    proof (cases "insert_new t' (fst x) (snd x)")
      case (Ok t2)
      have "fst x \<noteq> fst e" "find_entry t2 (fst e) \<noteq> None"
        using insert_OkD [OF Ok] Cons.prems(1) by auto
      then show ?thesis using Cons.IH [of t2] Cons.prems(2) Ok by auto
    qed simp
  qed
  show ?case
  proof (cases "insert_new t (fst e) (snd e)")
    case (Ok t1)
    then show ?thesis
      using taken [of t1] Cons.IH [of t1] Cons.prems insert_OkD [OF Ok] by auto
  qed simp
qed

end

interpretation registry: dispatch_table new_registry "register show_uuid" resolve_adapter
  for show_uuid
  by unfold_locales
    (auto simp: new_registry_def register_def resolve_adapter_def lookup_update' fun_eq_iff)

lemma resolve_adapter_update:
  "resolve_adapter (Mapping.update c a r) d = (if d = c then Some a else resolve_adapter r d)"
  by (simp add: resolve_adapter_def lookup_update')

section \<open>The file system\<close>

datatype io_error_kind = NotFound | OtherIo

record 'w fs_env =
  fs_is_dir :: "string \<Rightarrow> 'w \<Rightarrow> bool"
  fs_is_file :: "string \<Rightarrow> 'w \<Rightarrow> bool"
  fs_exists :: "string \<Rightarrow> 'w \<Rightarrow> bool"
  fs_write :: "string \<Rightarrow> string \<Rightarrow> 'w \<Rightarrow> 'w \<times> (unit, io_error_kind) result"

text \<open>\<open>Path::join\<close> on a POSIX path.\<close>

definition path_join :: "string \<Rightarrow> string \<Rightarrow> string" where
  "path_join root name =
     (if str_starts_with name ''/'' then name
      else if root = [] \<or> last root = CHR ''/'' then root @ name
      else root @ ''/'' @ name)"

section \<open>The nmap preflight adapter\<close>

datatype nmap_scan_profile = LoopbackTcpConnectV1 | AuthorizedPrivateSubnetTcpConnectV1

fun nmap_scan_profile_str :: "nmap_scan_profile \<Rightarrow> string" where
  "nmap_scan_profile_str LoopbackTcpConnectV1 = ''loopback_tcp_connect_v1''"
| "nmap_scan_profile_str AuthorizedPrivateSubnetTcpConnectV1 =
     ''authorized_private_subnet_tcp_connect_v1''"

record nmap_preflight_adapter_config =
  nm_supported_capability_id :: capability_id
  nm_nmap_binary :: string
  nm_scan_profile :: nmap_scan_profile

definition nmap_validate_request ::
  "nmap_preflight_adapter_config \<Rightarrow> adapter_delivery_request \<Rightarrow> (unit, string) result" where
  "nmap_validate_request config request = checks
     [fail_if (\<not> admitted_posture (dr_resolved_approval_posture request))
        ''nmap preflight adapter requires admitted posture'',
      fail_if (dr_requested_capability_id request \<noteq> nm_supported_capability_id config)
        ''nmap preflight adapter capability mismatch'',
      fail_if (length (dr_declared_capability_ids request) \<noteq> 1 \<or>
               dr_declared_capability_ids request ! 0 \<noteq> nm_supported_capability_id config)
        ''nmap preflight adapter requires one declared capability'',
      fail_if (length (dr_declared_step_ids request) \<noteq> 1)
        ''nmap preflight adapter requires one declared step'',
      fail_if (dr_declared_fallback_references request \<noteq> [])
        ''nmap preflight adapter does not support fallbacks'']"

definition nmap_deliver_route ::
  "'w fs_env \<Rightarrow> nmap_preflight_adapter_config \<Rightarrow> adapter_delivery_request \<Rightarrow> 'w \<Rightarrow>
   ('w \<times> adapter_delivery_result) option" where
  "nmap_deliver_route fs config request w = Some (w,
     (case nmap_validate_request config request of
        Err summary \<Rightarrow> Unsupported summary
      | Ok _ \<Rightarrow>
          if \<not> fs_is_file fs (nm_nmap_binary config) w
          then DependencyUnavailable ''nmap runtime is unavailable for declared scan profile''
          else DeliveredAllSteps))"

definition nmap_adapter :: "'w fs_env \<Rightarrow> nmap_preflight_adapter_config \<Rightarrow> 'w delivery_adapter" where
  "nmap_adapter fs config =
     \<lparr>da_adapter_id = ''nmap-preflight-delivery'', da_deliver_route = nmap_deliver_route fs config\<rparr>"

section \<open>The local file write adapter\<close>

definition REFUSAL_MARKER_FILE_NAME :: string where
  "REFUSAL_MARKER_FILE_NAME = ''.fa_local_refuse_delivery''"

record local_file_write_adapter_config =
  lf_supported_capability_id :: capability_id
  lf_delivery_root :: string

definition refusal_marker_path :: "local_file_write_adapter_config \<Rightarrow> string" where
  "refusal_marker_path config = path_join (lf_delivery_root config) REFUSAL_MARKER_FILE_NAME"

definition receipt_path_for ::
  "(uuid \<Rightarrow> string) \<Rightarrow> local_file_write_adapter_config \<Rightarrow> request_id \<Rightarrow> string \<Rightarrow> string" where
  "receipt_path_for show_uuid config request_id hash =
     path_join (lf_delivery_root config)
       (''fa_local_delivery_'' @ show_uuid request_id @ ''_'' @ chars_take 12 hash @ ''.receipt'')"

definition local_file_validate_request ::
  "local_file_write_adapter_config \<Rightarrow> adapter_delivery_request \<Rightarrow> (unit, string) result" where
  "local_file_validate_request config request = checks
     [fail_if (\<not> admitted_posture (dr_resolved_approval_posture request))
        ''local file write adapter requires admitted posture'',
      fail_if (dr_requested_capability_id request \<noteq> lf_supported_capability_id config)
        ''local file write adapter capability mismatch'',
      fail_if (length (dr_declared_capability_ids request) \<noteq> 1 \<or>
               dr_declared_capability_ids request ! 0 \<noteq> lf_supported_capability_id config)
        ''local file write adapter requires one declared capability'',
      fail_if (dr_declared_step_ids request = [])
        ''local file write adapter requires declared steps'',
      fail_if (dr_declared_fallback_references request \<noteq> [])
        ''local file write adapter does not support fallbacks'']"

definition newline :: string where
  "newline = [CHR 0x0A]"

definition receipt_contents :: "(uuid \<Rightarrow> string) \<Rightarrow> adapter_delivery_request \<Rightarrow> string" where
  "receipt_contents show_uuid request = concat
     [''adapter_id='', ''local-file-write-delivery'', newline,
      ''route_decision_id='', show_uuid (dr_route_decision_id request), newline,
      ''correlation_id='', show_uuid (dr_correlation_id request), newline,
      ''request_id='', show_uuid (dr_request_id request), newline,
      ''execution_plan_id='', show_uuid (dr_execution_plan_id request), newline,
      ''stable_plan_hash='', dr_stable_plan_hash request, newline,
      ''requested_capability_id='', show_uuid (dr_requested_capability_id request), newline,
      ''declared_step_ids='', str_join '','' (dr_declared_step_ids request), newline]"

definition local_file_deliver_route ::
  "'w fs_env \<Rightarrow> (uuid \<Rightarrow> string) \<Rightarrow> local_file_write_adapter_config \<Rightarrow> adapter_delivery_request \<Rightarrow>
   'w \<Rightarrow> ('w \<times> adapter_delivery_result) option" where
  "local_file_deliver_route fs show_uuid config request w =
     (case local_file_validate_request config request of
        Err summary \<Rightarrow> Some (w, Unsupported summary)
      | Ok _ \<Rightarrow>
          if \<not> fs_is_dir fs (lf_delivery_root config) w
          then Some (w, DependencyUnavailable ''local file write delivery root is unavailable'')
          else (case dr_declared_step_ids request of
            [] \<Rightarrow> None
          | first_step_id # _ \<Rightarrow>
              if fs_exists fs (refusal_marker_path config) w
              then Some (w, FailedAtDeclaredStep first_step_id
                ''local file write delivery refused by operator marker'')
              else (case fs_write fs
                  (receipt_path_for show_uuid config (dr_request_id request) (dr_stable_plan_hash request))
                  (receipt_contents show_uuid request) w of
                (w', Ok _) \<Rightarrow> Some (w', DeliveredAllSteps)
              | (w', Err NotFound) \<Rightarrow> Some (w',
                  DependencyUnavailable ''local file write delivery root is unavailable'')
              | (w', Err OtherIo) \<Rightarrow> Some (w', FailedAtDeclaredStep first_step_id
                  ''local file write receipt write failed''))))"

definition local_file_adapter ::
  "'w fs_env \<Rightarrow> (uuid \<Rightarrow> string) \<Rightarrow> local_file_write_adapter_config \<Rightarrow> 'w delivery_adapter" where
  "local_file_adapter fs show_uuid config =
     \<lparr>da_adapter_id = ''local-file-write-delivery'',
      da_deliver_route = local_file_deliver_route fs show_uuid config\<rparr>"

section \<open>Both adapters keep the contract\<close>

definition scoped_to :: "capability_id \<Rightarrow> adapter_delivery_request \<Rightarrow> bool" where
  "scoped_to cap request \<longleftrightarrow>
     admitted_posture (dr_resolved_approval_posture request) \<and>
     dr_requested_capability_id request = cap \<and> dr_declared_capability_ids request = [cap] \<and>
     dr_declared_fallback_references request = []"

lemma singleton_iff: "length xs = 1 \<and> xs ! 0 = x \<longleftrightarrow> xs = [x]"
  by (cases xs) auto

lemma nmap_validate_request_Ok:
  "nmap_validate_request config request = Ok () \<longleftrightarrow>
     scoped_to (nm_supported_capability_id config) request \<and>
     length (dr_declared_step_ids request) = 1"
  by (auto simp: nmap_validate_request_def scoped_to_def result_simps singleton_iff [symmetric])

lemma local_file_validate_request_Ok:
  "local_file_validate_request config request = Ok () \<longleftrightarrow>
     scoped_to (lf_supported_capability_id config) request \<and> dr_declared_step_ids request \<noteq> []"
  by (auto simp: local_file_validate_request_def scoped_to_def result_simps singleton_iff [symmetric])

lemma nmap_validate_request_Err: "nmap_validate_request config request = Err m \<Longrightarrow> bounded_text m"
  unfolding nmap_validate_request_def by (auto simp: result_errs dest!: checks_Err_in)

lemma local_file_validate_request_Err:
  "local_file_validate_request config request = Err m \<Longrightarrow> bounded_text m"
  unfolding local_file_validate_request_def by (auto simp: result_errs dest!: checks_Err_in)

interpretation nmap: lawful_adapter "nmap_adapter fs config"
    "\<lambda>request. nmap_validate_request config request = Ok ()"
  for fs :: "'w fs_env" and config
proof unfold_locales
  fix request and w :: 'w
  show "\<exists>w' r. da_deliver_route (nmap_adapter fs config) request w = Some (w', r) \<and> result_wf request r"
    using nmap_validate_request_Err [of config request]
    by (auto simp: nmap_adapter_def nmap_deliver_route_def split: result.split)
qed (auto simp: nmap_adapter_def nmap_deliver_route_def split: result.splits if_splits)

lemma local_file_deliver_Ok:
  assumes "local_file_validate_request config request = Ok ()"
  shows "\<exists>w' r. local_file_deliver_route fs show_uuid config request w = Some (w', r) \<and>
    result_wf request r \<and> \<not> is_unsupported r"
proof -
  from assms obtain s ss where "dr_declared_step_ids request = s # ss"
    by (auto simp: local_file_validate_request_Ok neq_Nil_conv)
  with assms show ?thesis
    by (simp add: local_file_deliver_route_def split: result.split prod.split io_error_kind.split)
qed

lemma local_file_deliver_Err:
  "local_file_validate_request config request = Err m \<Longrightarrow>
     local_file_deliver_route fs show_uuid config request w = Some (w, Unsupported m)"
  by (simp add: local_file_deliver_route_def)

interpretation local_file: lawful_adapter "local_file_adapter fs show_uuid config"
    "\<lambda>request. local_file_validate_request config request = Ok ()"
  for fs :: "'w fs_env" and show_uuid config
proof unfold_locales
  fix request and w w' :: 'w and r m
  note Ok = local_file_deliver_Ok [of config request fs show_uuid w]
  note Err = local_file_deliver_Err [of config request _ fs show_uuid w]
  show "\<exists>w' r. da_deliver_route (local_file_adapter fs show_uuid config) request w = Some (w', r) \<and>
      result_wf request r"
    using Ok Err local_file_validate_request_Err [of config request]
    by (cases "local_file_validate_request config request") (auto simp: local_file_adapter_def)
  show "is_unsupported r \<longleftrightarrow> \<not> local_file_validate_request config request = Ok ()"
    if "da_deliver_route (local_file_adapter fs show_uuid config) request w = Some (w', r)"
    using Ok Err that
    by (cases "local_file_validate_request config request") (auto simp: local_file_adapter_def)
  show "w' = w"
    if "da_deliver_route (local_file_adapter fs show_uuid config) request w = Some (w', Unsupported m)"
    using Ok Err that
    by (cases "local_file_validate_request config request") (auto simp: local_file_adapter_def)
qed

section \<open>Properties\<close>

text \<open>The adapter registry fails closed. Registering an adapter succeeds exactly when the capability
has none; then the capability, and only it, resolves to the new adapter. Filling a new registry from
a list succeeds exactly when the list names no capability twice.\<close>

theorem registry_fails_closed:
  "((\<exists>registry'. register show_uuid registry cap adapter = Ok registry') \<longleftrightarrow>
      resolve_adapter registry cap = None) \<and>
   resolve_adapter (Mapping.update cap adapter registry) =
     (resolve_adapter registry)(cap \<mapsto> adapter) \<and>
   ((\<exists>registry'. registry.insert_all show_uuid new_registry entries = Ok registry') \<longleftrightarrow>
      distinct (map fst entries))"
  using registry.insert_Ok_iff [of show_uuid registry cap adapter]
    registry.insert_all_Ok [of entries new_registry show_uuid]
    registry.insert_all_repeated [of entries show_uuid new_registry]
  by (cases "distinct (map fst entries)")
    (auto simp: registry.find_start fun_eq_iff resolve_adapter_update)

end
