(* ===== verification/Route_Delivery.thy ===== *)
theory Route_Delivery
  imports Coordination Delivery
begin

text \<open>
  Delivery of a whole selected route through one adapter, in \<open>src/app/execution_service.rs\<close>: the
  check of the route, the adapter request, the status builders that read a route, and the report
  of the adapter's result as a trace.
\<close>

section \<open>The route check and the request\<close>

definition validate_selected_route_for_delivery :: "selected_execution_route \<Rightarrow> unit fa_local_result" where
  "validate_selected_route_for_delivery route =
     (case sr_route_path_kind route of
        AwaitExplicitApproval \<Rightarrow>
          Err (contract_invalid ''explicit approval route must not reach adapter delivery'')
      | ExternalAdapterBoundedExecution \<Rightarrow> checks
          [fail_if (\<not> sr_executable route \<or> sr_explicit_approval_required route) (contract_invalid
             ''external adapter route is inconsistent with delivery expectations''),
           fail_if (\<not> admitted_posture (sr_resolved_approval_posture route)) (contract_invalid
             ''external adapter delivery requires admitted posture''),
           fail_if (sr_execution_plan_id route = None \<or> sr_stable_plan_hash route = None)
             (contract_invalid
               ''external adapter delivery route must include execution_plan_id and stable_plan_hash''),
           fail_if (sr_declared_step_ids route = [] \<or> sr_declared_capability_ids route = [])
             (contract_invalid
               ''external adapter delivery route must include declared steps and capabilities''),
           fail_if (sr_requested_capability_id route \<notin> set (sr_declared_capability_ids route))
             (contract_invalid
               ''external adapter delivery route must remain capability-scoped to declared capability set'')]
      | _ \<Rightarrow> Err (contract_invalid ''non-executable route must not reach adapter delivery''))"

definition adapter_request_for :: "selected_execution_route \<Rightarrow> adapter_delivery_request fa_local_result" where
  "adapter_request_for route =
     and_then (validate_selected_route_for_delivery route) (\<lambda>_.
     and_then (ok_or (sr_execution_plan_id route) (contract_invalid
       ''external adapter delivery route must include execution_plan_id'')) (\<lambda>plan_id.
     and_then (ok_or (sr_stable_plan_hash route) (contract_invalid
       ''external adapter delivery route must include stable_plan_hash'')) (\<lambda>hash.
     Ok \<lparr>dr_route_decision_id = sr_route_decision_id route,
         dr_correlation_id = sr_correlation_id route,
         dr_request_id = sr_request_id route,
         dr_resolved_approval_posture = sr_resolved_approval_posture route,
         dr_requested_capability_id = sr_requested_capability_id route,
         dr_execution_plan_id = plan_id,
         dr_stable_plan_hash = hash,
         dr_declared_step_ids = sr_declared_step_ids route,
         dr_declared_capability_ids = sr_declared_capability_ids route,
         dr_declared_fallback_references = sr_declared_fallback_references route\<rparr>)))"

definition declared_steps_through_route ::
  "selected_execution_route \<Rightarrow> string \<Rightarrow> string \<Rightarrow> string list fa_local_result" where
  "declared_steps_through_route route target message =
     (case position (\<lambda>i. i = target) (sr_declared_step_ids route) of
        None \<Rightarrow> Err (contract_invalid message)
      | Some i \<Rightarrow> Ok (take (i + 1) (sr_declared_step_ids route)))"

definition validate_fallback_result ::
  "selected_execution_route \<Rightarrow> string \<Rightarrow> string \<Rightarrow> degraded_subtype \<Rightarrow> unit fa_local_result" where
  "validate_fallback_result route primary fallback subtype = checks
     [fail_if (subtype \<notin> {DegradedFallbackEquivalent, DegradedFallbackLimited}) (contract_invalid
        ''adapter fallback completion must use an explicit fallback degraded_subtype''),
      fail_if (primary \<notin> set (sr_declared_step_ids route)) (contract_invalid
        ''adapter reported primary step that is not declared in execution route''),
      fail_if (\<not> list_ex (\<lambda>r. fr_step_id r = primary \<and> fr_fallback_step_id r = fallback)
                 (sr_declared_fallback_references route)) (contract_invalid
        ''adapter reported fallback that is not declared in execution route'')]"

section \<open>Statuses built from a route\<close>

text \<open>Every builder first takes the plan link out of the route.\<close>

definition route_link :: "selected_execution_route \<Rightarrow> (execution_plan_id \<times> string) fa_local_result" where
  "route_link route =
     and_then (ok_or (sr_execution_plan_id route)
       (contract_invalid ''external delivery route must include execution_plan_id'')) (\<lambda>plan_id.
     and_then (ok_or (sr_stable_plan_hash route)
       (contract_invalid ''external delivery route must include stable_plan_hash'')) (\<lambda>hash.
     Ok (plan_id, hash)))"

definition route_status ::
  "selected_execution_route \<Rightarrow> execution_plan_id \<times> string \<Rightarrow> execution_state \<Rightarrow> timestamp \<Rightarrow> string \<Rightarrow>
   execution_status" where
  "route_status route link state updated summary =
     base_status (sr_request_id route) (sr_correlation_id route) (Some link)
       (sr_resolved_approval_posture route) state updated summary"

definition build_admitted_not_started_status_from_route ::
  "selected_execution_route \<Rightarrow> timestamp \<Rightarrow> validated_execution_status fa_local_result" where
  "build_admitted_not_started_status_from_route route updated =
     and_then (route_link route) (\<lambda>link. emit_status (route_status route link AdmittedNotStarted
       updated ''execution admitted for external bounded delivery''))"

definition build_in_progress_statuses_from_route ::
  "selected_execution_route \<Rightarrow> string list \<Rightarrow> timestamp \<Rightarrow> validated_execution_status list fa_local_result"
where
  "build_in_progress_statuses_from_route route step_ids started =
     and_then (route_link route) (\<lambda>link. try_map (\<lambda>i. emit_status
       ((route_status route link InProgress started
          (''executing externally delivered step '' @ i))
         \<lparr>st_started_at_utc := Some started, st_current_step := Some i\<rparr>)) step_ids)"

definition build_completed_status_from_route ::
  "selected_execution_route \<Rightarrow> timestamp \<Rightarrow> timestamp \<Rightarrow> validated_execution_status fa_local_result" where
  "build_completed_status_from_route route started completed =
     and_then (route_link route) (\<lambda>link.
       let completion_summary = ''external delivery completed for all declared plan steps'' in
       emit_status ((route_status route link Completed completed completion_summary)
         \<lparr>st_started_at_utc := Some started, st_completed_at_utc := Some completed,
          st_completion_summary := Some completion_summary\<rparr>))"

definition build_completed_with_constraints_status_from_route ::
  "selected_execution_route \<Rightarrow> timestamp \<Rightarrow> timestamp \<Rightarrow> degraded_subtype \<Rightarrow>
   validated_execution_status fa_local_result" where
  "build_completed_with_constraints_status_from_route route started completed subtype =
     and_then (route_link route) (\<lambda>link.
       let completion_summary = ''external delivery completed with declared fallback path'' in
       emit_status ((route_status route link CompletedWithConstraints completed completion_summary)
         \<lparr>st_degraded_subtype := Some subtype, st_started_at_utc := Some started,
          st_completed_at_utc := Some completed,
          st_completion_summary := Some completion_summary\<rparr>))"

definition build_failed_status_from_route ::
  "selected_execution_route \<Rightarrow> timestamp \<Rightarrow> timestamp \<Rightarrow> string \<Rightarrow>
   validated_execution_status fa_local_result" where
  "build_failed_status_from_route route started completed failure_summary =
     and_then (route_link route) (\<lambda>link.
       emit_status ((route_status route link Failed completed failure_summary)
         \<lparr>st_started_at_utc := Some started, st_completed_at_utc := Some completed,
          st_failure_summary := Some failure_summary\<rparr>))"

definition build_canceled_status_from_route ::
  "selected_execution_route \<Rightarrow> timestamp \<Rightarrow> timestamp \<Rightarrow> string \<Rightarrow>
   validated_execution_status fa_local_result" where
  "build_canceled_status_from_route route started completed target =
     and_then (route_link route) (\<lambda>link.
       emit_status ((route_status route link Canceled completed
           (''external delivery canceled during declared step '' @ target))
         \<lparr>st_started_at_utc := Some started, st_completed_at_utc := Some completed\<rparr>))"

definition build_unavailable_dependency_status_from_route ::
  "selected_execution_route \<Rightarrow> timestamp \<Rightarrow> string \<Rightarrow> validated_execution_status fa_local_result" where
  "build_unavailable_dependency_status_from_route route updated summary =
     and_then (route_link route) (\<lambda>link.
       emit_status ((route_status route link Degraded updated summary)
         \<lparr>st_degraded_subtype := Some UnavailableDependencyBlock\<rparr>))"

section \<open>Delivery\<close>

text \<open>The \<open>match\<close> of \<open>deliver_via_adapter\<close> on the adapter's result.\<close>

definition report_delivery ::
  "selected_execution_route \<Rightarrow> string \<Rightarrow> coordination_context \<Rightarrow> validated_execution_status \<Rightarrow>
   adapter_delivery_result \<Rightarrow> execution_trace fa_local_result" where
  "report_delivery route adapter_id ctx admitted result =
     (let started = cx_started_at_utc ctx; completed = cx_completed_at_utc ctx;
          progress_then = (\<lambda>step_ids final.
            and_then (build_in_progress_statuses_from_route route step_ids started) (\<lambda>progress.
            and_then final (\<lambda>last. new_execution_trace ([admitted] @ progress @ [last])))) in
      case result of
        DeliveredAllSteps \<Rightarrow>
          progress_then (sr_declared_step_ids route)
            (build_completed_status_from_route route started completed)
      | CompletedWithDeclaredFallback primary fallback subtype \<Rightarrow>
          and_then (validate_fallback_result route primary fallback subtype) (\<lambda>_.
          and_then (declared_steps_through_route route fallback
            ''adapter reported fallback step that is not declared in execution route'')
            (\<lambda>step_ids. progress_then step_ids
              (build_completed_with_constraints_status_from_route route started completed subtype)))
      | FailedAtDeclaredStep target failure_summary \<Rightarrow>
          and_then (require_bounded_summary failure_summary ''adapter delivery failure_summary'') (\<lambda>_.
          and_then (declared_steps_through_route route target
            ''adapter reported step that is not declared in execution route'')
            (\<lambda>step_ids. progress_then step_ids
              (build_failed_status_from_route route started completed failure_summary)))
      | CanceledAtDeclaredStep target \<Rightarrow>
          and_then (declared_steps_through_route route target
            ''adapter reported step that is not declared in execution route'')
            (\<lambda>step_ids. progress_then step_ids
              (build_canceled_status_from_route route started completed target))
      | DependencyUnavailable summary \<Rightarrow>
          and_then (require_bounded_summary summary ''adapter delivery dependency summary'') (\<lambda>_.
          and_then (build_unavailable_dependency_status_from_route route completed summary)
            (\<lambda>last. new_execution_trace [admitted, last]))
      | Unsupported summary \<Rightarrow>
          and_then (require_bounded_summary summary ''adapter delivery unsupported summary'') (\<lambda>_.
          Err (contract_invalid
            (''unsupported adapter condition from '' @ adapter_id @ '': '' @ summary))))"

definition deliver_via_adapter ::
  "selected_execution_route \<Rightarrow> 'w delivery_adapter \<Rightarrow> coordination_context \<Rightarrow> ('w, execution_trace) effect"
where
  "deliver_via_adapter route adapter ctx =
     and_do (pure_do (validate_selected_route_for_delivery route)) (\<lambda>_.
     and_do (pure_do (adapter_request_for route)) (\<lambda>request.
     and_do (pure_do (build_admitted_not_started_status_from_route route (cx_coordinated_at_utc ctx)))
       (\<lambda>admitted.
     and_do (call_adapter adapter request) (\<lambda>result.
       pure_do (report_delivery route (da_adapter_id adapter) ctx admitted result)))))"

definition deliver_selected_route ::
  "selected_execution_route \<Rightarrow> 'w delivery_adapter \<Rightarrow> coordination_context \<Rightarrow> ('w, execution_trace) effect"
where
  "deliver_selected_route route adapter ctx = deliver_via_adapter route adapter ctx"

definition no_adapter_summary :: "(uuid \<Rightarrow> string) \<Rightarrow> capability_id \<Rightarrow> string" where
  "no_adapter_summary show_uuid cap =
     ''no delivery adapter registered for capability '' @ show_uuid cap"

definition deliver_selected_route_via_registry ::
  "(uuid \<Rightarrow> string) \<Rightarrow> selected_execution_route \<Rightarrow> 'w adapter_registry \<Rightarrow> coordination_context \<Rightarrow>
   ('w, execution_trace) effect" where
  "deliver_selected_route_via_registry show_uuid route registry ctx =
     and_do (pure_do (validate_selected_route_for_delivery route)) (\<lambda>_.
     case resolve_adapter registry (sr_requested_capability_id route) of
       Some adapter \<Rightarrow> deliver_via_adapter route adapter ctx
     | None \<Rightarrow> pure_do (
         and_then (build_admitted_not_started_status_from_route route (cx_coordinated_at_utc ctx))
           (\<lambda>admitted.
         and_then (build_unavailable_dependency_status_from_route route (cx_completed_at_utc ctx)
             (no_adapter_summary show_uuid (sr_requested_capability_id route)))
           (\<lambda>last. new_execution_trace [admitted, last]))))"

section \<open>Deliverable routes\<close>

definition deliverable :: "selected_execution_route \<Rightarrow> bool" where
  "deliverable route \<longleftrightarrow>
     sr_route_path_kind route = ExternalAdapterBoundedExecution \<and>
     sr_executable route \<and> \<not> sr_explicit_approval_required route \<and>
     admitted_posture (sr_resolved_approval_posture route) \<and>
     sr_execution_plan_id route \<noteq> None \<and> sr_stable_plan_hash route \<noteq> None \<and>
     sr_declared_step_ids route \<noteq> [] \<and>
     sr_requested_capability_id route \<in> set (sr_declared_capability_ids route)"

lemma validate_selected_route_Ok [result_simps]:
  "validate_selected_route_for_delivery route = Ok u \<longleftrightarrow> deliverable route"
  by (cases "sr_route_path_kind route")
    (auto simp: validate_selected_route_for_delivery_def deliverable_def result_simps)

text \<open>Selection never hands delivery a route that the route check refuses, nor the reverse.\<close>

lemma selected_deliverable:
  assumes "new_routing_input d plan = Ok input" and "select_route input = Ok route"
    and "pred_option (\<lambda>p. pl_steps (vp_plan p) \<noteq> []) plan"
  shows "deliverable route \<longleftrightarrow> admitted_posture (rd_resolved_approval_posture d)"
proof -
  have "route = route_of d plan"
    using assms(1,2) by (simp add: select_route_Ok)
  with assms(1,3) show ?thesis
    by (cases plan; cases "rd_resolved_approval_posture d")
      (auto simp: new_routing_input_Ok route_of_def deliverable_def routable_posture_def
        non_executable_route_def routable_plan_selection_def plan_answers_def)
qed

definition route_request :: "selected_execution_route \<Rightarrow> adapter_delivery_request" where
  "route_request route =
     \<lparr>dr_route_decision_id = sr_route_decision_id route,
      dr_correlation_id = sr_correlation_id route,
      dr_request_id = sr_request_id route,
      dr_resolved_approval_posture = sr_resolved_approval_posture route,
      dr_requested_capability_id = sr_requested_capability_id route,
      dr_execution_plan_id = the (sr_execution_plan_id route),
      dr_stable_plan_hash = the (sr_stable_plan_hash route),
      dr_declared_step_ids = sr_declared_step_ids route,
      dr_declared_capability_ids = sr_declared_capability_ids route,
      dr_declared_fallback_references = sr_declared_fallback_references route\<rparr>"

lemma adapter_request_for_Ok [result_simps]:
  "adapter_request_for route = Ok request \<longleftrightarrow> deliverable route \<and> request = route_request route"
  by (auto simp: adapter_request_for_def route_request_def result_simps deliverable_def)

section \<open>What the builders report\<close>

definition link_of :: "selected_execution_route \<Rightarrow> (execution_plan_id \<times> string) option" where
  "link_of route =
     (case (sr_execution_plan_id route, sr_stable_plan_hash route) of
        (Some p, Some h) \<Rightarrow> Some (p, h) | _ \<Rightarrow> None)"

abbreviation speaks_for_route :: "selected_execution_route \<Rightarrow> validated_execution_status \<Rightarrow> bool" where
  "speaks_for_route route \<equiv> speaks_of (sr_request_id route) (sr_correlation_id route) (link_of route)
     (sr_resolved_approval_posture route)"

lemma route_link_Ok [result_simps]: "route_link route = Ok link \<longleftrightarrow> link_of route = Some link"
  by (cases "sr_execution_plan_id route"; cases "sr_stable_plan_hash route")
    (simp_all add: route_link_def link_of_def)

lemma deliverable_link: "deliverable route \<Longrightarrow> \<exists>link. link_of route = Some link"
  by (auto simp: deliverable_def link_of_def)

lemma route_status_simps [simp]:
  "st_request_id (route_status r link s u m) = sr_request_id r"
  "st_correlation_id (route_status r link s u m) = sr_correlation_id r"
  "st_execution_plan_id (route_status r link s u m) = Some (fst link)"
  "st_stable_plan_hash (route_status r link s u m) = Some (snd link)"
  "st_current_posture (route_status r link s u m) = sr_resolved_approval_posture r"
  "st_state (route_status r link s u m) = s"
  "st_degraded_subtype (route_status r link s u m) = None"
  "st_started_at_utc (route_status r link s u m) = None"
  "st_updated_at_utc (route_status r link s u m) = u"
  "st_completed_at_utc (route_status r link s u m) = None"
  "st_current_step (route_status r link s u m) = None"
  "st_completion_summary (route_status r link s u m) = None"
  "st_failure_summary (route_status r link s u m) = None"
  "st_truthful_user_visible_summary (route_status r link s u m) = m"
  by (simp_all add: route_status_def base_status_def)

lemma route_emit_speaks:
  assumes "link_of route = Some link" and "emit_status s = Ok v"
    and "st_request_id s = sr_request_id route" "st_correlation_id s = sr_correlation_id route"
    "st_execution_plan_id s = Some (fst link)" "st_stable_plan_hash s = Some (snd link)"
    "st_current_posture s = sr_resolved_approval_posture route"
  shows "speaks_for_route route v \<and> entry_of v = (st_state s, st_current_step s)"
  using assms by (intro speaks_of_emit) simp_all

lemma route_builders_speak:
  "build_admitted_not_started_status_from_route route u = Ok v \<Longrightarrow>
     speaks_for_route route v \<and> entry_of v = (AdmittedNotStarted, None)"
  "build_completed_status_from_route route st u = Ok v \<Longrightarrow>
     speaks_for_route route v \<and> entry_of v = (Completed, None)"
  "build_completed_with_constraints_status_from_route route st u d = Ok v \<Longrightarrow>
     speaks_for_route route v \<and> entry_of v = (CompletedWithConstraints, None)"
  "build_failed_status_from_route route st u m = Ok v \<Longrightarrow>
     speaks_for_route route v \<and> entry_of v = (Failed, None)"
  "build_canceled_status_from_route route st u i = Ok v \<Longrightarrow>
     speaks_for_route route v \<and> entry_of v = (Canceled, None)"
  "build_unavailable_dependency_status_from_route route u m = Ok v \<Longrightarrow>
     speaks_for_route route v \<and> entry_of v = (Degraded, None)"
  by (auto simp: build_admitted_not_started_status_from_route_def
      build_completed_status_from_route_def build_completed_with_constraints_status_from_route_def
      build_failed_status_from_route_def build_canceled_status_from_route_def Let_def
      build_unavailable_dependency_status_from_route_def result_simps dest!: route_emit_speaks)

lemma route_in_progress_speak:
  assumes "build_in_progress_statuses_from_route route ids st = Ok vs"
  shows "list_all (speaks_for_route route) vs \<and> map entry_of vs = running ids"
proof -
  from assms obtain link where link: "link_of route = Some link" and run:
    "try_map (\<lambda>i. emit_status ((route_status route link InProgress st
        (''executing externally delivered step '' @ i))
      \<lparr>st_started_at_utc := Some st, st_current_step := Some i\<rparr>)) ids = Ok vs"
    by (auto simp: build_in_progress_statuses_from_route_def result_simps)
  from run show ?thesis by (rule try_map_emit) (simp add: link)
qed

section \<open>When the builders answer\<close>

definition route_reportable :: "selected_execution_route \<Rightarrow> bool" where
  "route_reportable route \<longleftrightarrow>
     deliverable route \<and> pred_option is_valid_hash (sr_stable_plan_hash route) \<and>
     list_all is_valid_step_id (sr_declared_step_ids route)"

lemma route_reportable_link:
  assumes "route_reportable route"
  obtains link where "link_of route = Some link" "is_valid_hash (snd link)"
    "admitted_posture (sr_resolved_approval_posture route)"
  using assms by (auto simp: route_reportable_def deliverable_def link_of_def)

lemma route_builders_total:
  assumes "route_reportable route"
  shows "\<exists>v. build_admitted_not_started_status_from_route route u = Ok v"
    and "st \<le> u \<Longrightarrow> \<exists>v. build_completed_status_from_route route st u = Ok v"
    and "st \<le> u \<Longrightarrow> d \<in> {DegradedFallbackEquivalent, DegradedFallbackLimited} \<Longrightarrow>
      \<exists>v. build_completed_with_constraints_status_from_route route st u d = Ok v"
    and "st \<le> u \<Longrightarrow> bounded_text m \<Longrightarrow> \<exists>v. build_failed_status_from_route route st u m = Ok v"
    and "st \<le> u \<Longrightarrow> length i \<le> 48 \<Longrightarrow> \<exists>v. build_canceled_status_from_route route st u i = Ok v"
    and "bounded_text m \<Longrightarrow> \<exists>v. build_unavailable_dependency_status_from_route route u m = Ok v"
proof -
  obtain link where link: "link_of route = Some link" "is_valid_hash (snd link)"
    "admitted_posture (sr_resolved_approval_posture route)"
    using assms by (rule route_reportable_link)
  then have ok: "route_link route = Ok link"
    by (simp add: route_link_Ok)
  note [simp] = ok emit_status_Ok status_wf_defs link(2)
  note p = link(3)
  show "\<exists>v. build_admitted_not_started_status_from_route route u = Ok v"
    using p by (auto simp: build_admitted_not_started_status_from_route_def)
  show "\<exists>v. build_completed_status_from_route route st u = Ok v" if "st \<le> u"
    using p that by (auto simp: build_completed_status_from_route_def Let_def)
  show "\<exists>v. build_completed_with_constraints_status_from_route route st u d = Ok v"
    if "st \<le> u" "d \<in> {DegradedFallbackEquivalent, DegradedFallbackLimited}"
    using p that by (auto simp: build_completed_with_constraints_status_from_route_def Let_def)
  show "\<exists>v. build_failed_status_from_route route st u m = Ok v" if "st \<le> u" "bounded_text m"
    using p that by (auto simp: build_failed_status_from_route_def)
  show "\<exists>v. build_canceled_status_from_route route st u i = Ok v" if "st \<le> u" "length i \<le> 48"
    using p that by (auto simp: build_canceled_status_from_route_def)
  show "\<exists>v. build_unavailable_dependency_status_from_route route u m = Ok v" if "bounded_text m"
    using p that by (auto simp: build_unavailable_dependency_status_from_route_def)
qed

lemma route_in_progress_total:
  assumes "route_reportable route" and "list_all is_valid_step_id ids"
  shows "\<exists>vs. build_in_progress_statuses_from_route route ids st = Ok vs"
proof -
  obtain link where link: "link_of route = Some link" "is_valid_hash (snd link)"
    "admitted_posture (sr_resolved_approval_posture route)"
    using assms(1) by (rule route_reportable_link)
  let ?s = "\<lambda>i. (route_status route link InProgress st
      (''executing externally delivered step '' @ i))
    \<lparr>st_started_at_utc := Some st, st_current_step := Some i\<rparr>"
  have wf: "status_wf (?s i)" if "is_valid_step_id i" for i
    using link(2,3) that is_valid_step_id_length [OF that] by (auto simp: status_wf_defs)
  have "\<exists>vs. try_map (\<lambda>i. emit_status (?s i)) ids = Ok vs"
    by (rule try_map_emit_total, rule wf) (use assms(2) in \<open>simp add: list_all_iff\<close>)
  with link(1) show ?thesis
    by (simp add: build_in_progress_statuses_from_route_def route_link_Ok [THEN iffD2])
qed

section \<open>What a delivery reports\<close>

fun delivery_entries :: "string list \<Rightarrow> adapter_delivery_result \<Rightarrow> trace_entry list" where
  "delivery_entries ids DeliveredAllSteps =
     (AdmittedNotStarted, None) # running ids @ [(Completed, None)]"
| "delivery_entries ids (CompletedWithDeclaredFallback s f d) =
     (AdmittedNotStarted, None) # running (steps_through f ids) @ [(CompletedWithConstraints, None)]"
| "delivery_entries ids (FailedAtDeclaredStep s m) =
     (AdmittedNotStarted, None) # running (steps_through s ids) @ [(Failed, None)]"
| "delivery_entries ids (CanceledAtDeclaredStep s) =
     (AdmittedNotStarted, None) # running (steps_through s ids) @ [(Canceled, None)]"
| "delivery_entries ids (DependencyUnavailable m) =
     [(AdmittedNotStarted, None), (Degraded, None)]"
| "delivery_entries ids (Unsupported m) = []"

lemma declared_steps_through_route_eq:
  "declared_steps_through_route route target m =
     (if target \<in> set (sr_declared_step_ids route)
      then Ok (steps_through target (sr_declared_step_ids route)) else Err (contract_invalid m))"
  unfolding declared_steps_through_route_def by (rule through_position)

lemma report_delivery_entries:
  assumes "report_delivery route aid ctx admitted result = Ok t"
    and "build_admitted_not_started_status_from_route route u = Ok admitted"
  shows "trace_entries t = delivery_entries (sr_declared_step_ids route) result \<and>
    list_all (speaks_for_route route) (tr_statuses t)"
  using assms(1) route_builders_speak(1) [OF assms(2)]
  by (cases result)
    (auto simp: report_delivery_def Let_def trace_entries_def result_simps
      declared_steps_through_route_eq dest!: route_builders_speak route_in_progress_speak split: if_splits)

lemma validate_fallback_result_Ok [result_simps]:
  "validate_fallback_result route s f d = Ok u \<longleftrightarrow>
     d \<in> {DegradedFallbackEquivalent, DegradedFallbackLimited} \<and>
     s \<in> set (sr_declared_step_ids route) \<and>
     \<lparr>fr_step_id = s, fr_fallback_step_id = f\<rparr> \<in> set (sr_declared_fallback_references route)"
proof -
  have "list_ex (\<lambda>r. fr_step_id r = s \<and> fr_fallback_step_id r = f) rs \<longleftrightarrow>
      \<lparr>fr_step_id = s, fr_fallback_step_id = f\<rparr> \<in> set rs" for rs :: "fallback_reference list"
  proof -
    have "fr_step_id r = s \<and> fr_fallback_step_id r = f \<longleftrightarrow> r = \<lparr>fr_step_id = s, fr_fallback_step_id = f\<rparr>"
      for r :: fallback_reference by (cases r) auto
    then show ?thesis by (auto simp: list_ex_iff)
  qed
  then show ?thesis by (auto simp: validate_fallback_result_def result_simps)
qed

text \<open>A result in the terms of the request is always reported.\<close>

lemma report_delivery_total:
  assumes rep: "route_reportable route"
    and time: "cx_started_at_utc ctx \<le> cx_completed_at_utc ctx"
    and wf: "result_wf (route_request route) result" and "\<not> is_unsupported result"
  shows "\<exists>t. report_delivery route aid ctx admitted result = Ok t"
proof -
  have ids: "list_all is_valid_step_id (sr_declared_step_ids route)"
    using rep by (simp add: route_reportable_def)
  have through: "list_all is_valid_step_id (steps_through s (sr_declared_step_ids route))"
    if "s \<in> set (sr_declared_step_ids route)" for s
    using ids set_steps_through [OF that] by (auto simp: list_all_iff)
  note total = route_builders_total [OF rep] and progress = route_in_progress_total [OF rep]
  note [simp] = report_delivery_def Let_def result_simps declared_steps_through_route_eq
    new_execution_trace_def route_request_def
  show ?thesis
  proof (cases result)
    case DeliveredAllSteps
    then show ?thesis
      using progress [OF ids, of "cx_started_at_utc ctx"] total(2) [OF time] by auto
  next
    case (CompletedWithDeclaredFallback s f d)
    with wf have "f \<in> set (sr_declared_step_ids route)" "d \<in> {DegradedFallbackEquivalent, DegradedFallbackLimited}"
      by simp_all
    then show ?thesis
      using wf CompletedWithDeclaredFallback total(3) [OF time]
        progress [OF through, of f "cx_started_at_utc ctx"] by auto
  next
    case (FailedAtDeclaredStep s m)
    then show ?thesis
      using wf total(4) [OF time, of m] progress [OF through, of s "cx_started_at_utc ctx"] by auto
  next
    case (CanceledAtDeclaredStep s)
    with wf ids have "s \<in> set (sr_declared_step_ids route)" "length s \<le> 48"
      by (auto simp: list_all_iff is_valid_step_id_length)
    with CanceledAtDeclaredStep show ?thesis
      using total(5) [OF time, of s] progress [OF through, of s "cx_started_at_utc ctx"] by auto
  next
    case (DependencyUnavailable m)
    with wf show ?thesis using total(6) [of m "cx_completed_at_utc ctx"] by auto
  next
    case (Unsupported m)
    with assms(4) show ?thesis by simp
  qed
qed

lemma delivery_entries_lawful:
  assumes "ids \<noteq> []" and "\<not> is_unsupported result"
  shows "lawful_run (delivery_entries ids result)"
  using assms
  by (cases result)
    (auto simp: lawful_run_def [of "[_, _]"] steps_through_def intro!: lawful_run_running)

section \<open>Watching the adapter calls\<close>

text \<open>
  To state which adapter calls a delivery makes, an adapter is wrapped so that its world carries
  the list of the requests it was given with its answers; the wrapped registry dispatches the same
  capabilities.
\<close>

type_synonym call_log = "(adapter_delivery_request \<times> adapter_delivery_result) list"

definition logged :: "'w delivery_adapter \<Rightarrow> ('w \<times> call_log) delivery_adapter" where
  "logged adapter =
     \<lparr>da_adapter_id = da_adapter_id adapter,
      da_deliver_route = (\<lambda>request (w, calls).
        map_option (\<lambda>(w', r). ((w', calls @ [(request, r)]), r)) (da_deliver_route adapter request w))\<rparr>"

definition logged_registry :: "'w adapter_registry \<Rightarrow> ('w \<times> call_log) adapter_registry" where
  "logged_registry registry = Mapping.map_values (\<lambda>_. logged) registry"

lemma resolve_logged [simp]:
  "resolve_adapter (logged_registry registry) cap = map_option logged (resolve_adapter registry cap)"
  by (simp add: resolve_adapter_def logged_registry_def lookup_map_values)

lemma call_logged:
  "call_adapter (logged adapter) request (w, calls) =
     map_option (\<lambda>(w', r). ((w', calls @ [(request, r)]), Ok r)) (da_deliver_route adapter request w)"
  by (simp add: call_adapter_def logged_def option.map_comp comp_def case_prod_unfold)

lemma call_logged_Some:
  "call_adapter (logged adapter) request (w, calls) = Some (w', r) \<longleftrightarrow>
     (\<exists>w1 a. da_deliver_route adapter request w = Some (w1, a) \<and> r = Ok a \<and>
        w' = (w1, calls @ [(request, a)]))"
  by (auto simp: call_logged)

lemma deliver_via_logged:
  "deliver_via_adapter route (logged adapter) ctx (w, calls) = Some ((w', calls'), r) \<Longrightarrow>
     calls' = calls \<or> deliverable route \<and> (\<exists>a. calls' = calls @ [(route_request route, a)])"
  by (auto simp: deliver_via_adapter_def and_do_def pure_do_def call_logged result_simps
      split: option.splits result.splits)

lemma deliver_route_logged:
  assumes "deliver_selected_route_via_registry show_uuid route (logged_registry registry) ctx (w, []) =
    Some ((w', calls), r)"
  shows "calls = [] \<or> deliverable route \<and> (\<exists>a. calls = [(route_request route, a)]) \<and>
    resolve_adapter registry (sr_requested_capability_id route) \<noteq> None"
proof (cases "validate_selected_route_for_delivery route")
  case (Err e)
  with assms show ?thesis by (simp add: deliver_selected_route_via_registry_def)
next
  case (Ok u)
  with assms show ?thesis
    by (cases "resolve_adapter registry (sr_requested_capability_id route)")
      (auto simp: deliver_selected_route_via_registry_def dest!: deliver_via_logged)
qed

section \<open>Delivery through a lawful adapter\<close>

lemma deliver_via_adapter_Ok:
  "deliver_via_adapter route adapter ctx w = Some (w', Ok t) \<longleftrightarrow> deliverable route \<and>
     (\<exists>admitted r.
       build_admitted_not_started_status_from_route route (cx_coordinated_at_utc ctx) = Ok admitted \<and>
       da_deliver_route adapter (route_request route) w = Some (w', r) \<and>
       report_delivery route (da_adapter_id adapter) ctx admitted r = Ok t)"
  by (auto simp: deliver_via_adapter_def and_do_Ok call_adapter_def result_simps)

lemma report_unsupported: "\<exists>e. report_delivery route aid ctx admitted (Unsupported m) = Err e"
  by (simp add: report_delivery_def Let_def and_then_Err)
    (cases "require_bounded_summary m ''adapter delivery unsupported summary''"; simp)

lemma deliver_via_adapter_trace:
  assumes "deliver_via_adapter route adapter ctx w = Some (w', Ok t)"
  obtains r where "da_deliver_route adapter (route_request route) w = Some (w', r)"
    "\<not> is_unsupported r" "trace_entries t = delivery_entries (sr_declared_step_ids route) r"
    "lawful_run (trace_entries t)" "list_all (speaks_for_route route) (tr_statuses t)"
proof -
  from assms obtain admitted r where deliverable: "deliverable route"
    and b: "build_admitted_not_started_status_from_route route (cx_coordinated_at_utc ctx) = Ok admitted"
    and d: "da_deliver_route adapter (route_request route) w = Some (w', r)"
    and rep: "report_delivery route (da_adapter_id adapter) ctx admitted r = Ok t"
    by (auto simp: deliver_via_adapter_Ok)
  have "\<not> is_unsupported r"
    using rep by (auto simp: is_unsupported_iff report_delivery_def Let_def result_simps)
  moreover from deliverable have "sr_declared_step_ids route \<noteq> []"
    by (simp add: deliverable_def)
  ultimately show thesis
    using that [OF d] report_delivery_entries [OF rep b] delivery_entries_lawful by metis
qed

context lawful_adapter
begin

lemma delivery_answers:
  assumes "route_reportable route" and "cx_started_at_utc ctx \<le> cx_completed_at_utc ctx"
    and "supports (route_request route)"
  shows "\<exists>w' r t. deliver_via_adapter route adapter ctx w = Some (w', Ok t) \<and>
    da_deliver_route adapter (route_request route) w = Some (w', r) \<and>
    trace_entries t = delivery_entries (sr_declared_step_ids route) r \<and> lawful_run (trace_entries t)"
proof -
  obtain w' r where d: "da_deliver_route adapter (route_request route) w = Some (w', r)"
    "result_wf (route_request route) r" "\<not> is_unsupported r"
    using assms(3) by (rule supported_cases)
  obtain admitted where b:
    "build_admitted_not_started_status_from_route route (cx_coordinated_at_utc ctx) = Ok admitted"
    using route_builders_total(1) [OF assms(1)] by blast
  obtain t where t: "report_delivery route (da_adapter_id adapter) ctx admitted r = Ok t"
    using report_delivery_total [OF assms(1,2) d(2,3)] by blast
  have "deliverable route"
    using assms(1) by (simp add: route_reportable_def)
  with b d t have ok: "deliver_via_adapter route adapter ctx w = Some (w', Ok t)"
    by (auto simp: deliver_via_adapter_Ok)
  from ok obtain r' where "da_deliver_route adapter (route_request route) w = Some (w', r')"
    "trace_entries t = delivery_entries (sr_declared_step_ids route) r'" "lawful_run (trace_entries t)"
    by (rule deliver_via_adapter_trace)
  with ok show ?thesis by blast
qed

lemma delivery_refused:
  assumes "\<not> supports (route_request route)"
    and "deliver_via_adapter route adapter ctx w = Some (w', r)"
  shows "w' = w \<and> (\<exists>e. r = Err e)"
proof -
  obtain m where "da_deliver_route adapter (route_request route) w = Some (w, Unsupported m)"
    using refused [OF assms(1)] by blast
  with assms(2) show ?thesis
    using report_unsupported [of route "da_adapter_id adapter" ctx _ m]
    by (auto simp: deliver_via_adapter_def and_do_def pure_do_def call_adapter_def result_simps
        split: result.splits)
qed

end

end
