(* ===== verification/Step_Delivery.thy ===== *)
theory Step_Delivery
  imports Route_Delivery
begin

text \<open>
  Delivery of a validated plan step by step, in \<open>src/app/execution_service.rs\<close>: each declared step
  goes to the adapter of its own capability, a failed step to its declared fallback, and the
  outcomes are aggregated into one final status. The loop of the source carries four mutable
  variables, here the record \<open>per_step_run\<close>.
\<close>

section \<open>Outcomes\<close>

datatype step_delivery_outcome =
  Completed
| CompletedViaFallback string
| Failed string
| Canceled
| Unavailable string
| Skipped

text \<open>\<open>matches!(outcome, Failed { .. } | Unavailable { .. } | Canceled)\<close>.\<close>

fun did_not_complete :: "step_delivery_outcome \<Rightarrow> bool" where
  "did_not_complete (step_delivery_outcome.Failed m) = True"
| "did_not_complete (Unavailable m) = True"
| "did_not_complete step_delivery_outcome.Canceled = True"
| "did_not_complete _ = False"

text \<open>\<open>matches!(outcome, Completed | CompletedViaFallback { .. })\<close>.\<close>

fun is_completed :: "step_delivery_outcome \<Rightarrow> bool" where
  "is_completed step_delivery_outcome.Completed = True"
| "is_completed (CompletedViaFallback f) = True"
| "is_completed _ = False"

fun used_fallback :: "step_delivery_outcome \<Rightarrow> string option" where
  "used_fallback (CompletedViaFallback f) = Some f"
| "used_fallback _ = None"

section \<open>One step\<close>

definition step_request ::
  "selected_execution_route \<Rightarrow> validated_execution_plan \<Rightarrow> execution_plan_step \<Rightarrow> adapter_delivery_request"
where
  "step_request route plan step =
     \<lparr>dr_route_decision_id = sr_route_decision_id route,
      dr_correlation_id = sr_correlation_id route,
      dr_request_id = sr_request_id route,
      dr_resolved_approval_posture = sr_resolved_approval_posture route,
      dr_requested_capability_id = step_capability_id step,
      dr_execution_plan_id = pl_execution_plan_id (vp_plan plan),
      dr_stable_plan_hash = vp_stable_plan_hash plan,
      dr_declared_step_ids = [step_id step],
      dr_declared_capability_ids = [step_capability_id step],
      dr_declared_fallback_references = []\<rparr>"

definition step_outcome :: "string \<Rightarrow> adapter_delivery_result \<Rightarrow> step_delivery_outcome fa_local_result" where
  "step_outcome adapter_id result =
     (case result of
        DeliveredAllSteps \<Rightarrow> Ok step_delivery_outcome.Completed
      | FailedAtDeclaredStep _ failure_summary \<Rightarrow>
          and_then (require_bounded_summary failure_summary ''adapter delivery failure_summary'')
            (\<lambda>_. Ok (step_delivery_outcome.Failed failure_summary))
      | CanceledAtDeclaredStep _ \<Rightarrow> Ok step_delivery_outcome.Canceled
      | DependencyUnavailable summary \<Rightarrow>
          and_then (require_bounded_summary summary ''adapter delivery dependency summary'')
            (\<lambda>_. Ok (Unavailable summary))
      | CompletedWithDeclaredFallback _ _ _ \<Rightarrow> Err (contract_invalid
          ''declared fallback completion is not supported in per-step delivery'')
      | Unsupported summary \<Rightarrow> Err (contract_invalid
          (''unsupported adapter condition from '' @ adapter_id @ '': '' @ summary)))"

definition dispatch_one_step ::
  "(uuid \<Rightarrow> string) \<Rightarrow> selected_execution_route \<Rightarrow> validated_execution_plan \<Rightarrow> 'w adapter_registry \<Rightarrow>
   execution_plan_step \<Rightarrow> ('w, step_delivery_outcome) effect" where
  "dispatch_one_step show_uuid route plan registry step =
     (case resolve_adapter registry (step_capability_id step) of
        None \<Rightarrow> pure_do (Ok (Unavailable (no_adapter_summary show_uuid (step_capability_id step))))
      | Some adapter \<Rightarrow>
          and_do (call_adapter adapter (step_request route plan step))
            (\<lambda>result. pure_do (step_outcome (da_adapter_id adapter) result)))"

definition declared_fallback_step ::
  "validated_execution_plan \<Rightarrow> string \<Rightarrow> (string \<rightharpoonup> step_delivery_outcome) \<Rightarrow> execution_plan_step option"
where
  "declared_fallback_step plan target already_consumed = do {
     reference \<leftarrow> find (\<lambda>r. fr_step_id r = target) (pl_fallback_references (vp_plan plan));
     if already_consumed (fr_fallback_step_id reference) \<noteq> None then None
     else find (\<lambda>s. step_id s = fr_fallback_step_id reference) (pl_steps (vp_plan plan)) }"

section \<open>The loop\<close>

record per_step_run =
  run_statuses :: "validated_execution_status list"
  run_outcomes :: "(string \<times> step_delivery_outcome) list"
  run_stop_dispatching :: bool
  run_fallback_results :: "string \<rightharpoonup> step_delivery_outcome"

definition attempt_fallback ::
  "(uuid \<Rightarrow> string) \<Rightarrow> selected_execution_route \<Rightarrow> validated_execution_plan \<Rightarrow> 'w adapter_registry \<Rightarrow>
   timestamp \<Rightarrow> execution_plan_step \<Rightarrow> step_delivery_outcome \<Rightarrow> per_step_run \<Rightarrow>
   ('w, step_delivery_outcome \<times> per_step_run) effect" where
  "attempt_fallback show_uuid route plan registry started step outcome run =
     (case (if did_not_complete outcome
            then declared_fallback_step plan (step_id step) (run_fallback_results run) else None) of
        None \<Rightarrow> pure_do (Ok (outcome, run))
      | Some fallback_step \<Rightarrow>
          and_do (pure_do (build_in_progress_statuses_from_route route [step_id fallback_step] started))
            (\<lambda>progress.
          and_do (dispatch_one_step show_uuid route plan registry fallback_step) (\<lambda>fallback_outcome.
          pure_do (Ok
            (if fallback_outcome = step_delivery_outcome.Completed
             then CompletedViaFallback (step_id fallback_step) else outcome,
             run\<lparr>run_statuses := run_statuses run @ progress,
                 run_fallback_results :=
                   (run_fallback_results run)(step_id fallback_step \<mapsto> fallback_outcome)\<rparr>)))))"

definition deliver_step ::
  "(uuid \<Rightarrow> string) \<Rightarrow> selected_execution_route \<Rightarrow> validated_execution_plan \<Rightarrow> 'w adapter_registry \<Rightarrow>
   timestamp \<Rightarrow> execution_plan_step \<Rightarrow> per_step_run \<Rightarrow> ('w, per_step_run) effect" where
  "deliver_step show_uuid route plan registry started step run =
     (case run_fallback_results run (step_id step) of
        Some outcome \<Rightarrow> pure_do (Ok (run\<lparr>
          run_outcomes := run_outcomes run @ [(step_id step, outcome)],
          run_fallback_results := (run_fallback_results run)(step_id step := None)\<rparr>))
      | None \<Rightarrow>
          if run_stop_dispatching run
          then pure_do (Ok (run\<lparr>run_outcomes := run_outcomes run @ [(step_id step, Skipped)]\<rparr>))
          else
            and_do (pure_do (build_in_progress_statuses_from_route route [step_id step] started))
              (\<lambda>progress.
            and_do (dispatch_one_step show_uuid route plan registry step) (\<lambda>outcome.
            and_do (attempt_fallback show_uuid route plan registry started step outcome
              (run\<lparr>run_statuses := run_statuses run @ progress\<rparr>)) (\<lambda>(outcome, run).
            pure_do (Ok (run\<lparr>
              run_stop_dispatching := run_stop_dispatching run \<or>
                (did_not_complete outcome \<and>
                 pl_cancellation_policy (vp_plan plan) = CancelRemainingSteps),
              run_outcomes := run_outcomes run @ [(step_id step, outcome)]\<rparr>))))))"

fun deliver_steps ::
  "(uuid \<Rightarrow> string) \<Rightarrow> selected_execution_route \<Rightarrow> validated_execution_plan \<Rightarrow> 'w adapter_registry \<Rightarrow>
   timestamp \<Rightarrow> execution_plan_step list \<Rightarrow> per_step_run \<Rightarrow> ('w, per_step_run) effect" where
  "deliver_steps show_uuid route plan registry started [] run = pure_do (Ok run)"
| "deliver_steps show_uuid route plan registry started (step # steps) run =
     and_do (deliver_step show_uuid route plan registry started step run)
       (deliver_steps show_uuid route plan registry started steps)"

section \<open>The final status\<close>

fun find_map :: "('a \<Rightarrow> 'b option) \<Rightarrow> 'a list \<Rightarrow> 'b option" where
  "find_map f [] = None"
| "find_map f (x # xs) = (case f x of None \<Rightarrow> find_map f xs | Some y \<Rightarrow> Some y)"

fun incomplete_detail :: "string \<times> step_delivery_outcome \<Rightarrow> (string \<times> string) option" where
  "incomplete_detail (i, step_delivery_outcome.Failed m) = Some (i, m)"
| "incomplete_detail (i, Unavailable m) = Some (i, m)"
| "incomplete_detail (i, step_delivery_outcome.Canceled) = Some (i, ''step was canceled'')"
| "incomplete_detail (i, Skipped) =
     Some (i, ''step was skipped after an earlier step did not complete'')"
| "incomplete_detail (i, _) = None"

fun failed_summary :: "string \<times> step_delivery_outcome \<Rightarrow> string option" where
  "failed_summary (i, step_delivery_outcome.Failed m) = Some m"
| "failed_summary _ = None"

definition partial_count_summary :: "nat \<Rightarrow> nat \<Rightarrow> string" where
  "partial_count_summary completed_count total_count =
     show_nat completed_count @ '' of '' @ show_nat total_count @ '' declared plan steps completed''"

definition partial_failure_summary :: "string \<Rightarrow> string \<Rightarrow> string" where
  "partial_failure_summary failed_step failure_detail =
     ''step '' @ failed_step @ '' did not complete: '' @ failure_detail"

definition build_partial_success_status_from_route ::
  "selected_execution_route \<Rightarrow> timestamp \<Rightarrow> timestamp \<Rightarrow> nat \<Rightarrow> nat \<Rightarrow> string \<Rightarrow> string \<Rightarrow>
   validated_execution_status fa_local_result" where
  "build_partial_success_status_from_route route started completed completed_count total_count
       failed_step failure_detail =
     and_then (route_link route) (\<lambda>link.
       let completion_summary = partial_count_summary completed_count total_count;
           failure_summary = partial_failure_summary failed_step failure_detail in
       emit_status ((route_status route link PartialSuccess completed completion_summary)
         \<lparr>st_degraded_subtype := Some DegradedPartial, st_started_at_utc := Some started,
          st_completed_at_utc := Some completed, st_completion_summary := Some completion_summary,
          st_failure_summary := Some failure_summary\<rparr>))"

definition fallback_pairs :: "(string \<times> step_delivery_outcome) list \<Rightarrow> string" where
  "fallback_pairs outcomes = str_join '', '' (List.map_filter (\<lambda>(i, outcome).
     map_option (\<lambda>f. i @ '' -> '' @ f) (used_fallback outcome)) outcomes)"

definition build_plan_completed_via_fallback_status_from_route ::
  "selected_execution_route \<Rightarrow> (string \<times> step_delivery_outcome) list \<Rightarrow> timestamp \<Rightarrow> timestamp \<Rightarrow>
   validated_execution_status fa_local_result" where
  "build_plan_completed_via_fallback_status_from_route route outcomes started completed =
     and_then (route_link route) (\<lambda>link.
       let completion_summary =
             ''all declared plan steps completed; used declared fallback for: '' @ fallback_pairs outcomes in
       emit_status ((route_status route link CompletedWithConstraints completed completion_summary)
         \<lparr>st_degraded_subtype := Some DegradedFallbackLimited, st_started_at_utc := Some started,
          st_completed_at_utc := Some completed,
          st_completion_summary := Some completion_summary\<rparr>))"

text \<open>\<open>None\<close> is the panic of \<open>expect("mixed outcome always has at least one non-completed step")\<close>.\<close>

definition build_plan_outcome_status_from_route ::
  "selected_execution_route \<Rightarrow> (string \<times> step_delivery_outcome) list \<Rightarrow> timestamp \<Rightarrow> timestamp \<Rightarrow>
   validated_execution_status fa_local_result option" where
  "build_plan_outcome_status_from_route route outcomes started completed =
     (let completed_count = length (filter (is_completed \<circ> snd) outcomes);
          attempted = filter (\<lambda>(i, outcome). outcome \<noteq> Skipped) outcomes in
      if completed_count = length outcomes then Some
        (if list_ex (\<lambda>(i, outcome). used_fallback outcome \<noteq> None) outcomes
         then build_plan_completed_via_fallback_status_from_route route outcomes started completed
         else build_completed_status_from_route route started completed)
      else if completed_count > 0 then
        map_option (\<lambda>(failed_step, failure_detail).
          build_partial_success_status_from_route route started completed completed_count
            (length outcomes) failed_step failure_detail) (find_map incomplete_detail outcomes)
      else case find_map failed_summary attempted of
        Some summary \<Rightarrow> Some (build_failed_status_from_route route started completed summary)
      | None \<Rightarrow> (case find (\<lambda>(i, outcome). outcome = step_delivery_outcome.Canceled) attempted of
          Some (i, _) \<Rightarrow> Some (build_canceled_status_from_route route started completed i)
        | None \<Rightarrow> Some (build_unavailable_dependency_status_from_route route completed
            ''no delivery adapter registered for any declared step'')))"

definition deliver_plan_per_step_via_registry ::
  "(uuid \<Rightarrow> string) \<Rightarrow> selected_execution_route \<Rightarrow> validated_execution_plan \<Rightarrow> 'w adapter_registry \<Rightarrow>
   coordination_context \<Rightarrow> ('w, execution_trace) effect" where
  "deliver_plan_per_step_via_registry show_uuid route plan registry ctx =
     and_do (pure_do (validate_selected_route_for_delivery route)) (\<lambda>_.
     and_do (pure_do (fail_if
       (Some (pl_execution_plan_id (vp_plan plan)) \<noteq> sr_execution_plan_id route \<or>
        Some (vp_stable_plan_hash plan) \<noteq> sr_stable_plan_hash route)
       (contract_invalid ''per-step delivery plan does not match the selected route's plan''))) (\<lambda>_.
     and_do (pure_do (build_admitted_not_started_status_from_route route (cx_coordinated_at_utc ctx)))
       (\<lambda>admitted.
     and_do (deliver_steps show_uuid route plan registry (cx_started_at_utc ctx) (pl_steps (vp_plan plan))
       \<lparr>run_statuses = [admitted], run_outcomes = [], run_stop_dispatching = False,
        run_fallback_results = Map.empty\<rparr>) (\<lambda>run.
     and_do (partial_do (build_plan_outcome_status_from_route route (run_outcomes run)
       (cx_started_at_utc ctx) (cx_completed_at_utc ctx))) (\<lambda>final.
     pure_do (new_execution_trace (run_statuses run @ [final])))))))"

section \<open>The loop invariant rule\<close>

text \<open>
  A run keeps \<open>J\<close> when it succeeds, and leaves a world that satisfies \<open>E\<close> when it stops with an
  error.
\<close>

definition keeps :: "('v \<Rightarrow> 'w \<Rightarrow> bool) \<Rightarrow> ('w \<Rightarrow> bool) \<Rightarrow> 'w \<Rightarrow> 'v fa_local_result \<Rightarrow> bool" where
  "keeps J E w r \<longleftrightarrow> (case r of Ok v \<Rightarrow> J v w | Err e \<Rightarrow> E w)"

lemma keeps_simps [simp]: "keeps J E w (Ok v) \<longleftrightarrow> J v w" "keeps J E w (Err e) \<longleftrightarrow> E w"
  by (simp_all add: keeps_def)

lemma keeps_and_do:
  assumes "ends_in m w (keeps J E)" and "\<And>v w1. J v w1 \<Longrightarrow> ends_in (f v) w1 (keeps K E)"
  shows "ends_in (and_do m f) w (keeps K E)"
proof (intro ends_in_and_do)
  show "ends_in m w (\<lambda>w1 r. case r of Ok v \<Rightarrow> ends_in (f v) w1 (keeps K E) | Err e \<Rightarrow> keeps K E w1 (Err e))"
    unfolding ends_in_def [of m]
  proof (intro allI impI)
    fix w1 r
    assume "m w = Some (w1, r)"
    with assms(1) have "keeps J E w1 r" by (simp add: ends_in_def)
    then show "case r of Ok v \<Rightarrow> ends_in (f v) w1 (keeps K E) | Err e \<Rightarrow> keeps K E w1 (Err e)"
      using assms(2) by (cases r) auto
  qed
qed

lemma keeps_pure: "(\<And>v. r = Ok v \<Longrightarrow> J v w) \<Longrightarrow> E w \<Longrightarrow> ends_in (pure_do r) w (keeps J E)"
  by (cases r) auto

lemma deliver_steps_invariant:
  assumes step: "\<And>pre s post run w. steps = pre @ s # post \<Longrightarrow> I pre run w \<Longrightarrow>
      ends_in (deliver_step show_uuid route plan registry started s run) w (keeps (I (pre @ [s])) E)"
    and "steps = pre @ post" and "I pre run w"
  shows "ends_in (deliver_steps show_uuid route plan registry started post run) w (keeps (I steps) E)"
  using assms(2,3)
proof (induction post arbitrary: pre run w)
  case Nil
  then show ?case by simp
next
  case (Cons s post)
  show ?case
    unfolding deliver_steps.simps
    using Cons.IH [of "pre @ [s]"] Cons.prems
    by (intro keeps_and_do [OF step [OF Cons.prems]]) simp
qed

section \<open>The calls of a run\<close>

text \<open>The steps a log of calls was made for, and the log of the calls made for a plan.\<close>

definition called_steps :: "call_log \<Rightarrow> string list" where
  "called_steps calls = concat (map (dr_declared_step_ids \<circ> fst) calls)"

definition calls_for ::
  "selected_execution_route \<Rightarrow> validated_execution_plan \<Rightarrow> call_log \<Rightarrow> bool" where
  "calls_for route plan calls \<longleftrightarrow>
     distinct (called_steps calls) \<and>
     (\<forall>c \<in> set calls. \<exists>s \<in> set (pl_steps (vp_plan plan)). fst c = step_request route plan s)"

text \<open>An outcome that claims completion is backed by a call that was answered so.\<close>

definition delivered ::
  "selected_execution_route \<Rightarrow> validated_execution_plan \<Rightarrow> call_log \<Rightarrow> string \<Rightarrow> bool" where
  "delivered route plan calls i \<longleftrightarrow>
     (\<exists>s \<in> set (pl_steps (vp_plan plan)). step_id s = i \<and>
        (step_request route plan s, DeliveredAllSteps) \<in> set calls)"

fun backed ::
  "selected_execution_route \<Rightarrow> validated_execution_plan \<Rightarrow> call_log \<Rightarrow>
   string \<times> step_delivery_outcome \<Rightarrow> bool" where
  "backed route plan calls (i, step_delivery_outcome.Completed) = delivered route plan calls i"
| "backed route plan calls (i, CompletedViaFallback f) =
     (delivered route plan calls f \<and>
      \<lparr>fr_step_id = i, fr_fallback_step_id = f\<rparr> \<in> set (pl_fallback_references (vp_plan plan)))"
| "backed route plan calls (i, _) = True"

lemma called_steps_append [simp]: "called_steps (xs @ ys) = called_steps xs @ called_steps ys"
  by (simp add: called_steps_def)

lemma called_steps_step [simp]: "called_steps [(step_request route plan s, a)] = [step_id s]"
  by (simp add: called_steps_def step_request_def)

lemma called_steps_Nil [simp]: "called_steps [] = []"
  by (simp add: called_steps_def)

lemma delivered_mono: "delivered route plan calls i \<Longrightarrow> delivered route plan (calls @ extra) i"
  by (auto simp: delivered_def)

lemma backed_mono: "backed route plan calls x \<Longrightarrow> backed route plan (calls @ extra) x"
  by (induction route plan calls x rule: backed.induct) (auto simp: delivered_mono)

text \<open>What one dispatch does to the log.\<close>

lemma dispatch_logged:
  assumes "dispatch_one_step show_uuid route plan (logged_registry registry) s (w, calls) =
      Some ((w', calls'), r)"
  obtains (unavailable) m where "calls' = calls" "r = Ok (Unavailable m)"
  | (called) aid a where "calls' = calls @ [(step_request route plan s, a)]"
    "r = step_outcome aid a"
  using assms
  by (cases "resolve_adapter registry (step_capability_id s)")
    (auto simp: dispatch_one_step_def and_do_def pure_do_def call_logged split: option.splits)

lemma step_outcome_Completed [simp]:
  "step_outcome aid a = Ok step_delivery_outcome.Completed \<longleftrightarrow> a = DeliveredAllSteps"
  by (cases a) (auto simp: step_outcome_def result_simps)

lemma step_outcome_direct: "step_outcome aid a = Ok (CompletedViaFallback f) \<longleftrightarrow> False"
  by (cases a) (auto simp: step_outcome_def result_simps)

text \<open>The calls of a run after the dispatch of one more step.\<close>

definition dispatched ::
  "selected_execution_route \<Rightarrow> validated_execution_plan \<Rightarrow> call_log \<Rightarrow> string \<Rightarrow>
   step_delivery_outcome \<Rightarrow> call_log \<Rightarrow> bool" where
  "dispatched route plan calls i outcome calls' \<longleftrightarrow>
     calls_for route plan calls' \<and>
     (\<exists>extra. calls' = calls @ extra \<and> set (called_steps extra) \<subseteq> {i}) \<and>
     used_fallback outcome = None \<and> backed route plan calls' (i, outcome) \<and>
     (\<forall>j. delivered route plan calls' j \<longrightarrow>
        delivered route plan calls j \<or> outcome = step_delivery_outcome.Completed)"

lemma step_request_step_id:
  "step_request route plan s = step_request route plan t \<Longrightarrow> step_id s = step_id t"
  by (simp add: step_request_def)

lemma delivered_append_call:
  assumes "s \<in> set (pl_steps (vp_plan plan))"
  shows "delivered route plan (calls @ [(step_request route plan s, a)]) j \<longleftrightarrow>
    delivered route plan calls j \<or> j = step_id s \<and> a = DeliveredAllSteps"
  using assms by (auto simp: delivered_def dest: step_request_step_id)

lemma step_outcome_used_fallback: "step_outcome aid a = Ok outcome \<Longrightarrow> used_fallback outcome = None"
  by (cases a) (auto simp: step_outcome_def result_simps)

lemma dispatch_logged_keeps:
  assumes s: "s \<in> set (pl_steps (vp_plan plan))" "step_id s \<notin> set (called_steps calls)"
    and calls: "calls_for route plan calls"
  shows "ends_in (dispatch_one_step show_uuid route plan (logged_registry registry) s) (w, calls)
    (keeps (\<lambda>outcome wc. dispatched route plan calls (step_id s) outcome (snd wc))
       (\<lambda>wc. calls_for route plan (snd wc)))"
  unfolding ends_in_def
proof (intro allI impI)
  fix wc r
  assume run: "dispatch_one_step show_uuid route plan (logged_registry registry) s (w, calls) = Some (wc, r)"
  obtain w' calls' where wc: "wc = (w', calls')" by (cases wc)
  from run [unfolded wc]
  show "keeps (\<lambda>outcome wc. dispatched route plan calls (step_id s) outcome (snd wc))
       (\<lambda>wc. calls_for route plan (snd wc)) wc r"
  proof (cases rule: dispatch_logged)
    case (unavailable m)
    then show ?thesis using calls by (simp add: wc dispatched_def)
  next
    case (called aid a)
    have "calls_for route plan calls'"
      using called(1) calls s by (auto simp: calls_for_def)
    moreover have "backed route plan calls' (step_id s, outcome) \<and> used_fallback outcome = None \<and>
        (a = DeliveredAllSteps \<longrightarrow> outcome = step_delivery_outcome.Completed)"
      if "step_outcome aid a = Ok outcome" for outcome
      using that called(1) s(1)
      by (cases a; cases outcome) (auto simp: step_outcome_def delivered_append_call result_simps)
    ultimately show ?thesis
      using called s(1) by (cases "step_outcome aid a") (auto simp: wc dispatched_def delivered_append_call)
  qed
qed

section \<open>The invariant of the calls\<close>

definition log_inv ::
  "selected_execution_route \<Rightarrow> validated_execution_plan \<Rightarrow> execution_plan_step list \<Rightarrow> per_step_run \<Rightarrow>
   call_log \<Rightarrow> bool" where
  "log_inv route plan pre run calls \<longleftrightarrow>
     calls_for route plan calls \<and>
     set (called_steps calls) \<subseteq> set (map step_id pre) \<union> dom (run_fallback_results run) \<and>
     dom (run_fallback_results run) \<subseteq>
       set (map step_id (pl_steps (vp_plan plan))) - set (map step_id pre) \<and>
     map fst (run_outcomes run) = map step_id pre \<and>
     (\<forall>x \<in> set (run_outcomes run). backed route plan calls x) \<and>
     (\<forall>i outcome. run_fallback_results run i = Some outcome \<longrightarrow> backed route plan calls (i, outcome)) \<and>
     (\<forall>i. delivered route plan calls i \<longrightarrow> (\<exists>x \<in> set (run_outcomes run). is_completed (snd x)))"

lemma find_Some_in: "find P xs = Some x \<Longrightarrow> x \<in> set xs \<and> P x"
  by (auto simp: find_Some_iff)

lemma declared_fallback_step_Some:
  assumes "declared_fallback_step plan i consumed = Some s"
  shows "s \<in> set (pl_steps (vp_plan plan))" "consumed (step_id s) = None"
    "\<lparr>fr_step_id = i, fr_fallback_step_id = step_id s\<rparr> \<in> set (pl_fallback_references (vp_plan plan))"
proof -
  from assms obtain r where r: "r \<in> set (pl_fallback_references (vp_plan plan))" "fr_step_id r = i"
    "consumed (fr_fallback_step_id r) = None"
    and s: "s \<in> set (pl_steps (vp_plan plan))" "step_id s = fr_fallback_step_id r"
    by (auto simp: declared_fallback_step_def bind_Some_iff dest!: find_Some_in split: if_splits)
  then show "s \<in> set (pl_steps (vp_plan plan))" "consumed (step_id s) = None"
    by simp_all
  have "r = \<lparr>fr_step_id = i, fr_fallback_step_id = step_id s\<rparr>"
    using r(2) s(2) by (cases r) simp
  with r(1) show "\<lparr>fr_step_id = i, fr_fallback_step_id = step_id s\<rparr> \<in> set (pl_fallback_references (vp_plan plan))"
    by simp
qed

text \<open>A plan's fallback targets come later, so a target is never a step already passed.\<close>

lemma declares_later_after:
  assumes "distinct (map step_id (pre @ s # post))" and "declares_later (pre @ s # post) r"
    and "fr_step_id r = step_id s"
  shows "fr_fallback_step_id r \<notin> set (map step_id (pre @ [s]))"
proof
  let ?ss = "pre @ s # post"
  assume "fr_fallback_step_id r \<in> set (map step_id (pre @ [s]))"
  then obtain k where k: "k < length (pre @ [s])" "step_id ((pre @ [s]) ! k) = fr_fallback_step_id r"
    unfolding in_set_conv_nth by (metis length_map nth_map)
  have at_k: "?ss ! k = (pre @ [s]) ! k"
    using nth_append [of "pre @ [s]" post k] k(1) by simp
  from assms(2) obtain i j where ij: "i < j" "j < length ?ss" "step_id (?ss ! i) = fr_step_id r"
    "step_id (?ss ! j) = fr_fallback_step_id r"
    by (auto simp: declares_later_def)
  have inj: "a = b" if "step_id (?ss ! a) = step_id (?ss ! b)" "a < length ?ss" "b < length ?ss" for a b
    using nth_eq_iff_index_eq [OF assms(1), of a b] that by (simp del: map_append)
  have "i = length pre"
    using ij assms(3) by (intro inj) simp_all
  moreover have "j = k"
    using ij k by (intro inj) (simp_all add: at_k)
  ultimately show False using ij(1) k(1) by simp
qed

text \<open>The steps of a validated plan, as the loop meets them.\<close>

definition plan_at ::
  "validated_execution_plan \<Rightarrow> execution_plan_step list \<Rightarrow> execution_plan_step \<Rightarrow>
   execution_plan_step list \<Rightarrow> bool" where
  "plan_at plan pre s post \<longleftrightarrow>
     pl_steps (vp_plan plan) = pre @ s # post \<and>
     distinct (map step_id (pl_steps (vp_plan plan))) \<and>
     (\<forall>r \<in> set (pl_fallback_references (vp_plan plan)).
        declares_later (pl_steps (vp_plan plan)) r)"

lemma log_inv_reuse:
  assumes "plan_at plan pre s post" and "log_inv route plan pre run calls"
    and "run_fallback_results run (step_id s) = Some outcome"
  shows "log_inv route plan (pre @ [s])
    (run\<lparr>run_outcomes := run_outcomes run @ [(step_id s, outcome)],
         run_fallback_results := (run_fallback_results run)(step_id s := None)\<rparr>) calls"
  using assms by (auto simp: log_inv_def)

lemma log_inv_skip:
  assumes "plan_at plan pre s post" and "log_inv route plan pre run calls"
    and "run_fallback_results run (step_id s) = None"
  shows "log_inv route plan (pre @ [s])
    (run\<lparr>run_outcomes := run_outcomes run @ [(step_id s, Skipped)]\<rparr>) calls"
  using assms by (auto simp: log_inv_def)

lemma dispatched_backed:
  "dispatched route plan calls i outcome calls' \<Longrightarrow> backed route plan calls x \<Longrightarrow>
     backed route plan calls' x"
  by (auto simp: dispatched_def backed_mono)

text \<open>The state between the dispatch of a step and the record of its outcome.\<close>

abbreviation recorded :: "execution_plan_step \<Rightarrow> step_delivery_outcome \<Rightarrow> per_step_run \<Rightarrow> per_step_run" where
  "recorded s outcome run \<equiv> run\<lparr>run_outcomes := run_outcomes run @ [(step_id s, outcome)]\<rparr>"

lemma log_inv_dispatched:
  assumes "plan_at plan pre s post" and "log_inv route plan pre run calls"
    and "run_fallback_results run (step_id s) = None"
    and "dispatched route plan calls (step_id s) outcome calls'"
  shows "log_inv route plan (pre @ [s]) (recorded s outcome run) calls'"
proof -
  obtain extra where extra: "calls' = calls @ extra" "set (called_steps extra) \<subseteq> {step_id s}"
    using assms(4) by (auto simp: dispatched_def)
  have "is_completed outcome \<or> (\<exists>x \<in> set (run_outcomes run). is_completed (snd x))"
    if "delivered route plan calls' i" for i
    using assms(2,4) that by (auto simp: dispatched_def log_inv_def)
  note completed = this
  have now: "backed route plan calls' (step_id s, outcome)" "calls_for route plan calls'"
    using assms(4) by (simp_all add: dispatched_def)
  note inv = assms(2) [unfolded log_inv_def]
  have old: "\<And>x. backed route plan calls x \<Longrightarrow> backed route plan calls' x"
    using assms(4) by (rule dispatched_backed)
  show ?thesis
    unfolding log_inv_def
  proof (intro conjI)
    show "set (called_steps calls') \<subseteq>
        set (map step_id (pre @ [s])) \<union> dom (run_fallback_results (recorded s outcome run))"
      using inv extra by auto
    show "dom (run_fallback_results (recorded s outcome run)) \<subseteq>
        set (map step_id (pl_steps (vp_plan plan))) - set (map step_id (pre @ [s]))"
      using inv assms(3) by auto
    show "\<forall>x \<in> set (run_outcomes (recorded s outcome run)). backed route plan calls' x"
      using inv old now(1) by simp
    show "\<forall>i. delivered route plan calls' i \<longrightarrow>
        (\<exists>x \<in> set (run_outcomes (recorded s outcome run)). is_completed (snd x))"
      using completed by simp
  qed (use inv old now(2) in simp_all)
qed

lemma log_inv_fallback:
  assumes inv: "log_inv route plan (pre @ [s]) (recorded s outcome run) calls"
    and t: "t \<in> set (pl_steps (vp_plan plan))" "step_id t \<notin> set (map step_id (pre @ [s]))"
      "run_fallback_results run (step_id t) = None"
      "\<lparr>fr_step_id = step_id s, fr_fallback_step_id = step_id t\<rparr> \<in> set (pl_fallback_references (vp_plan plan))"
    and incomplete: "did_not_complete outcome"
    and disp: "dispatched route plan calls (step_id t) fallback_outcome calls'"
  shows "log_inv route plan (pre @ [s])
    (recorded s (if fallback_outcome = step_delivery_outcome.Completed
                 then CompletedViaFallback (step_id t) else outcome)
       (run\<lparr>run_fallback_results := (run_fallback_results run)(step_id t \<mapsto> fallback_outcome)\<rparr>)) calls'"
proof -
  let ?outcome = "if fallback_outcome = step_delivery_outcome.Completed
      then CompletedViaFallback (step_id t) else outcome"
  obtain extra where extra: "calls' = calls @ extra" "set (called_steps extra) \<subseteq> {step_id t}"
    using disp by (auto simp: dispatched_def)
  have old: "\<And>x. backed route plan calls x \<Longrightarrow> backed route plan calls' x"
    using disp by (rule dispatched_backed)
  have now: "backed route plan calls' (step_id t, fallback_outcome)" "calls_for route plan calls'"
    using disp by (simp_all add: dispatched_def)
  note inv' = inv [unfolded log_inv_def]
  have here: "backed route plan calls' (step_id s, ?outcome)"
    using inv' old t(4) now(1) by auto
  have completed: "is_completed ?outcome \<or> (\<exists>x \<in> set (run_outcomes run). is_completed (snd x))"
    if d: "delivered route plan calls' i" for i
  proof -
    have "\<not> is_completed outcome"
      using incomplete by (cases outcome) simp_all
    with d show ?thesis
      using inv' disp by (auto simp: dispatched_def)
  qed
  show ?thesis
    unfolding log_inv_def
  proof (intro conjI)
    show "set (called_steps calls') \<subseteq> set (map step_id (pre @ [s])) \<union> dom (run_fallback_results
        (recorded s ?outcome (run\<lparr>run_fallback_results :=
          (run_fallback_results run)(step_id t \<mapsto> fallback_outcome)\<rparr>)))"
      using inv' extra by auto
    show "dom (run_fallback_results (recorded s ?outcome (run\<lparr>run_fallback_results :=
          (run_fallback_results run)(step_id t \<mapsto> fallback_outcome)\<rparr>))) \<subseteq>
        set (map step_id (pl_steps (vp_plan plan))) - set (map step_id (pre @ [s]))"
      using inv' t(1,2) by auto
    show "\<forall>x \<in> set (run_outcomes (recorded s ?outcome (run\<lparr>run_fallback_results :=
          (run_fallback_results run)(step_id t \<mapsto> fallback_outcome)\<rparr>))). backed route plan calls' x"
      using inv' old here by simp
    show "\<forall>i. delivered route plan calls' i \<longrightarrow> (\<exists>x \<in> set (run_outcomes (recorded s ?outcome
          (run\<lparr>run_fallback_results :=
             (run_fallback_results run)(step_id t \<mapsto> fallback_outcome)\<rparr>))). is_completed (snd x))"
      using completed by simp
  qed (use inv' old now in simp_all)
qed

lemma log_inv_statuses [simp]:
  "log_inv route plan pre (run\<lparr>run_statuses := ss\<rparr>) calls \<longleftrightarrow> log_inv route plan pre run calls"
  "log_inv route plan pre (run\<lparr>run_stop_dispatching := b, run_outcomes := os\<rparr>) calls \<longleftrightarrow>
     log_inv route plan pre (run\<lparr>run_outcomes := os\<rparr>) calls"
  "log_inv route plan pre (run\<lparr>run_statuses := ss, run_outcomes := os\<rparr>) calls \<longleftrightarrow>
     log_inv route plan pre (run\<lparr>run_outcomes := os\<rparr>) calls"
  "log_inv route plan pre (run\<lparr>run_statuses := ss, run_fallback_results := fr, run_outcomes := os\<rparr>) calls \<longleftrightarrow>
     log_inv route plan pre (run\<lparr>run_fallback_results := fr, run_outcomes := os\<rparr>) calls"
  by (simp_all add: log_inv_def)

lemma log_inv_calls_for: "log_inv route plan pre run calls \<Longrightarrow> calls_for route plan calls"
  by (simp add: log_inv_def)

lemma attempt_fallback_keeps:
  assumes at: "plan_at plan pre s post"
    and inv: "log_inv route plan (pre @ [s]) (recorded s outcome run) calls"
  shows "ends_in (attempt_fallback show_uuid route plan (logged_registry registry) started s outcome run)
      (w, calls)
    (keeps (\<lambda>(outcome', run') wc.
        log_inv route plan (pre @ [s]) (recorded s outcome' run') (snd wc))
      (\<lambda>wc. calls_for route plan (snd wc)))"
proof (cases "if did_not_complete outcome
    then declared_fallback_step plan (step_id s) (run_fallback_results run) else None")
  case None
  with inv show ?thesis by (simp add: attempt_fallback_def)
next
  case (Some t)
  then have incomplete: "did_not_complete outcome"
    and t: "declared_fallback_step plan (step_id s) (run_fallback_results run) = Some t"
    by (simp_all split: if_splits)
  note decl = declared_fallback_step_Some [OF t]
  have later: "step_id t \<notin> set (map step_id (pre @ [s]))"
    using declares_later_after [of pre s post "\<lparr>fr_step_id = step_id s, fr_fallback_step_id = step_id t\<rparr>"]
      at decl(3) by (auto simp: plan_at_def)
  have fresh: "step_id t \<notin> set (called_steps calls)"
    using inv later decl(2) by (auto simp: log_inv_def)
  note calls = log_inv_calls_for [OF inv]
  show ?thesis
    unfolding attempt_fallback_def Some option.case
    by (rule keeps_and_do [OF keeps_pure [where J = "\<lambda>_ wc. wc = (w, calls)"]],
        simp, simp add: calls, simp, rule keeps_and_do [OF dispatch_logged_keeps [OF decl(1) fresh calls]])
      (use log_inv_fallback [OF inv decl(1) later decl(2,3) incomplete] in \<open>simp add: Let_def\<close>)
qed

lemma deliver_step_keeps_log:
  assumes at: "plan_at plan pre s post" and inv: "log_inv route plan pre run calls"
  shows "ends_in (deliver_step show_uuid route plan (logged_registry registry) started s run) (w, calls)
    (keeps (\<lambda>run' wc. log_inv route plan (pre @ [s]) run' (snd wc))
      (\<lambda>wc. calls_for route plan (snd wc)))"
proof (cases "run_fallback_results run (step_id s)")
  case (Some outcome)
  with log_inv_reuse [OF at inv Some] show ?thesis by (simp add: deliver_step_def)
next
  case None
  show ?thesis
  proof (cases "run_stop_dispatching run")
    case True
    with None log_inv_skip [OF at inv None] show ?thesis by (simp add: deliver_step_def)
  next
    case False
    have s: "s \<in> set (pl_steps (vp_plan plan))"
      using at by (simp add: plan_at_def)
    have "step_id s \<notin> set (map step_id pre)"
      using at by (auto simp: plan_at_def)
    with inv None have fresh: "step_id s \<notin> set (called_steps calls)"
      by (auto simp: log_inv_def)
    note calls = log_inv_calls_for [OF inv]
    show ?thesis
      unfolding deliver_step_def None option.case if_not_P [OF False]
    proof (rule keeps_and_do [OF keeps_pure [where J = "\<lambda>_ wc. wc = (w, calls)"]], goal_cases)
      case (3 progress wc)
      show ?case
        unfolding 3
      proof (rule keeps_and_do [OF dispatch_logged_keeps [OF s fresh calls]], goal_cases)
        case (1 outcome wc1)
        have "log_inv route plan (pre @ [s])
            (recorded s outcome (run\<lparr>run_statuses := run_statuses run @ progress\<rparr>)) (snd wc1)"
          using log_inv_dispatched [OF at inv None 1] by simp
        from attempt_fallback_keeps [OF at this, of show_uuid registry started "fst wc1"]
        show ?case unfolding prod.collapse by (rule keeps_and_do) auto
      qed
    qed (simp_all add: calls)
  qed
qed

section \<open>The invariant of the statuses\<close>

definition progress_inv ::
  "selected_execution_route \<Rightarrow> validated_execution_plan \<Rightarrow> execution_plan_step list \<Rightarrow> per_step_run \<Rightarrow> bool"
where
  "progress_inv route plan pre run \<longleftrightarrow>
     (\<exists>ids. map entry_of (run_statuses run) = (AdmittedNotStarted, None) # running ids \<and>
        set ids \<subseteq> set (map step_id (pl_steps (vp_plan plan))) \<and>
        (ids = [] \<longrightarrow> pre = [] \<and> \<not> run_stop_dispatching run \<and> run_fallback_results run = Map.empty)) \<and>
     list_all (speaks_for_route route) (run_statuses run) \<and>
     map fst (run_outcomes run) = map step_id pre"

lemma progress_inv_more:
  assumes "progress_inv route plan pre run"
    and "build_in_progress_statuses_from_route route [step_id s] started = Ok progress"
    and "s \<in> set (pl_steps (vp_plan plan))"
  shows "\<exists>ids. ids \<noteq> [] \<and> set ids \<subseteq> set (map step_id (pl_steps (vp_plan plan))) \<and>
      map entry_of (run_statuses run @ progress) = (AdmittedNotStarted, None) # running ids"
    and "list_all (speaks_for_route route) (run_statuses run @ progress)"
proof -
  from assms(1) obtain ids where
    "map entry_of (run_statuses run) = (AdmittedNotStarted, None) # running ids"
    "set ids \<subseteq> set (map step_id (pl_steps (vp_plan plan)))"
    by (auto simp: progress_inv_def)
  with route_in_progress_speak [OF assms(2)] assms(3)
  show "\<exists>ids. ids \<noteq> [] \<and> set ids \<subseteq> set (map step_id (pl_steps (vp_plan plan))) \<and>
      map entry_of (run_statuses run @ progress) = (AdmittedNotStarted, None) # running ids"
    by (intro exI [of _ "ids @ [step_id s]"]) (auto simp: running_def)
  show "list_all (speaks_for_route route) (run_statuses run @ progress)"
    using assms(1) route_in_progress_speak [OF assms(2)] by (simp add: progress_inv_def)
qed

text \<open>The statuses of a run that has reported at least one step.\<close>

definition under_way ::
  "selected_execution_route \<Rightarrow> validated_execution_plan \<Rightarrow> per_step_run \<Rightarrow> bool" where
  "under_way route plan run \<longleftrightarrow>
     (\<exists>ids. ids \<noteq> [] \<and> set ids \<subseteq> set (map step_id (pl_steps (vp_plan plan))) \<and>
        map entry_of (run_statuses run) = (AdmittedNotStarted, None) # running ids) \<and>
     list_all (speaks_for_route route) (run_statuses run)"

lemma under_way_more:
  assumes "under_way route plan run"
    and "build_in_progress_statuses_from_route route [step_id s] started = Ok progress"
    and "s \<in> set (pl_steps (vp_plan plan))"
  shows "under_way route plan (run\<lparr>run_statuses := run_statuses run @ progress\<rparr>)"
proof -
  from assms(1) obtain ids where "set ids \<subseteq> set (map step_id (pl_steps (vp_plan plan)))"
    "map entry_of (run_statuses run) = (AdmittedNotStarted, None) # running ids"
    "list_all (speaks_for_route route) (run_statuses run)"
    by (auto simp: under_way_def)
  with route_in_progress_speak [OF assms(2)] assms(3) show ?thesis
    unfolding under_way_def
    by (intro conjI exI [of _ "ids @ [step_id s]"]) (auto simp: running_def)
qed

lemma under_way_fields [simp]:
  "under_way route plan (run\<lparr>run_fallback_results := fr\<rparr>) = under_way route plan run"
  "under_way route plan (run\<lparr>run_stop_dispatching := b, run_outcomes := os\<rparr>) = under_way route plan run"
  "under_way route plan (run\<lparr>run_statuses := ss, run_fallback_results := fr\<rparr>) =
     under_way route plan (run\<lparr>run_statuses := ss\<rparr>)"
  by (simp_all add: under_way_def)

lemma ends_in_True: "ends_in m w (keeps (\<lambda>_ _. True) (\<lambda>_. True))"
  by (auto simp: ends_in_def keeps_def split: result.split)

lemma attempt_fallback_progress:
  assumes "under_way route plan run" and "run_outcomes run = os"
  shows "ends_in (attempt_fallback show_uuid route plan registry started s outcome run) w
    (keeps (\<lambda>(outcome', run') _. under_way route plan run' \<and> run_outcomes run' = os) (\<lambda>_. True))"
proof (cases "if did_not_complete outcome
    then declared_fallback_step plan (step_id s) (run_fallback_results run) else None")
  case None
  with assms show ?thesis by (simp add: attempt_fallback_def)
next
  case (Some t)
  then have "declared_fallback_step plan (step_id s) (run_fallback_results run) = Some t"
    by (simp split: if_splits)
  note t = declared_fallback_step_Some(1) [OF this]
  show ?thesis
    unfolding attempt_fallback_def Some option.case
    by (rule keeps_and_do [OF keeps_pure [where J = "\<lambda>progress _.
            build_in_progress_statuses_from_route route [step_id t] started = Ok progress"]],
        simp, simp, rule keeps_and_do [OF ends_in_True])
      (use under_way_more [OF assms(1) _ t] assms(2) in simp)
qed

lemma deliver_step_keeps_progress:
  assumes at: "plan_at plan pre s post" and inv: "progress_inv route plan pre run"
  shows "ends_in (deliver_step show_uuid route plan registry started s run) w
    (keeps (\<lambda>run' _. progress_inv route plan (pre @ [s]) run') (\<lambda>_. True))"
proof (cases "run_fallback_results run (step_id s)")
  case (Some outcome)
  with inv show ?thesis by (auto simp: deliver_step_def progress_inv_def)
next
  case None
  show ?thesis
  proof (cases "run_stop_dispatching run")
    case True
    with None inv show ?thesis by (auto simp: deliver_step_def progress_inv_def)
  next
    case False
    have s: "s \<in> set (pl_steps (vp_plan plan))"
      using at by (simp add: plan_at_def)
    show ?thesis
      unfolding deliver_step_def None option.case if_not_P [OF False]
    proof (rule keeps_and_do [OF keeps_pure [where J = "\<lambda>progress _.
            build_in_progress_statuses_from_route route [step_id s] started = Ok progress"]], goal_cases)
      case (3 progress w1)
      have run: "under_way route plan (run\<lparr>run_statuses := run_statuses run @ progress\<rparr>)"
        using progress_inv_more [OF inv 3 s] by (simp add: under_way_def)
      show ?case
      proof (rule keeps_and_do [OF ends_in_True], goal_cases)
        case (1 outcome w2)
        show ?case
          by (rule keeps_and_do [OF attempt_fallback_progress [OF run refl]])
            (use inv in \<open>auto simp: progress_inv_def under_way_def\<close>)
      qed
    qed simp_all
  qed
qed

section \<open>The final status is the aggregate of the outcomes\<close>

definition reported_state :: "step_delivery_outcome list \<Rightarrow> execution_state" where
  "reported_state outcomes =
     (if list_all is_completed outcomes then
        (if list_all (\<lambda>out. used_fallback out = None) outcomes then execution_state.Completed
         else CompletedWithConstraints)
      else if list_ex is_completed outcomes then PartialSuccess
      else if list_ex (\<lambda>out. \<exists>m. out = step_delivery_outcome.Failed m) outcomes then execution_state.Failed
      else if step_delivery_outcome.Canceled \<in> set outcomes then execution_state.Canceled
      else Degraded)"

lemma find_map_None: "find_map f xs = None \<longleftrightarrow> (\<forall>x \<in> set xs. f x = None)"
  by (induction xs) (auto split: option.splits)

lemma find_map_Some_in: "find_map f xs = Some y \<Longrightarrow> \<exists>x \<in> set xs. f x = Some y"
  by (induction xs) (auto split: option.splits)

lemma incomplete_detail_None: "incomplete_detail x = None \<longleftrightarrow> is_completed (snd x)"
  by (cases x; cases "snd x") auto

lemma failed_summary_None: "failed_summary x = None \<longleftrightarrow> (\<nexists>m. snd x = step_delivery_outcome.Failed m)"
  by (cases x; cases "snd x") auto

lemma all_completed_count:
  "length (filter P xs) = length xs \<longleftrightarrow> (\<forall>x \<in> set xs. P x)"
  by (metis filter_True length_filter_less less_irrefl)

lemma plan_outcome_never_panics:
  "build_plan_outcome_status_from_route route outcomes started completed \<noteq> None"
proof -
  have "find_map incomplete_detail outcomes \<noteq> None"
    if "length (filter (is_completed \<circ> snd) outcomes) \<noteq> length outcomes"
    using that by (auto simp: find_map_None incomplete_detail_None all_completed_count)
  then show ?thesis
    by (auto simp: build_plan_outcome_status_from_route_def Let_def split: option.split)
qed

lemma step_builders_speak:
  "build_partial_success_status_from_route route st u n k i m = Ok v \<Longrightarrow>
     speaks_for_route route v \<and> entry_of v = (PartialSuccess, None)"
  "build_plan_completed_via_fallback_status_from_route route outcomes st u = Ok v \<Longrightarrow>
     speaks_for_route route v \<and> entry_of v = (CompletedWithConstraints, None)"
  by (auto simp: build_partial_success_status_from_route_def Let_def
      build_plan_completed_via_fallback_status_from_route_def result_simps dest!: route_emit_speaks)

lemma plan_outcome_state:
  assumes "build_plan_outcome_status_from_route route outcomes started completed = Some (Ok v)"
  shows "speaks_for_route route v \<and> entry_of v = (reported_state (map snd outcomes), None)"
proof -
  let ?n = "length (filter (is_completed \<circ> snd) outcomes)"
  let ?attempted = "filter (\<lambda>(i, outcome). outcome \<noteq> Skipped) outcomes"
  consider (all) "?n = length outcomes" | (some) "?n \<noteq> length outcomes" "0 < ?n"
    | (none) "?n \<noteq> length outcomes" "?n = 0" by linarith
  then show ?thesis
  proof cases
    case all
    then have "list_all is_completed (map snd outcomes)"
      by (auto simp: all_completed_count list_all_iff)
    with all assms show ?thesis
      by (auto simp: build_plan_outcome_status_from_route_def reported_state_def list_all_iff list_ex_iff
          dest!: step_builders_speak route_builders_speak split: if_splits)
  next
    case some
    have "\<not> list_all is_completed (map snd outcomes)" "list_ex is_completed (map snd outcomes)"
      using some by (auto simp: all_completed_count list_all_iff list_ex_iff filter_empty_conv)
    with some assms show ?thesis
      by (auto simp: build_plan_outcome_status_from_route_def reported_state_def
          dest!: step_builders_speak)
  next
    case none
    then have n: "\<not> list_all is_completed (map snd outcomes)" "\<not> list_ex is_completed (map snd outcomes)"
      by (cases outcomes; auto simp: list_all_iff list_ex_iff filter_empty_conv split: if_splits)+
    have failed: "find_map failed_summary ?attempted = None \<longleftrightarrow>
        \<not> list_ex (\<lambda>out. \<exists>m. out = step_delivery_outcome.Failed m) (map snd outcomes)"
      by (fastforce simp: find_map_None failed_summary_None list_ex_iff)
    have canceled: "find (\<lambda>(i, outcome). outcome = step_delivery_outcome.Canceled) ?attempted = None \<longleftrightarrow>
        step_delivery_outcome.Canceled \<notin> set (map snd outcomes)"
      by (auto simp: find_None_iff case_prod_unfold image_iff)
    show ?thesis
    proof (cases "find_map failed_summary ?attempted")
      case (Some m)
      with none n failed assms show ?thesis
        by (auto simp: build_plan_outcome_status_from_route_def reported_state_def
            dest!: route_builders_speak)
    next
      case None
      with none n failed canceled assms show ?thesis
        by (cases "find (\<lambda>(i, outcome). outcome = step_delivery_outcome.Canceled) ?attempted")
          (auto simp: build_plan_outcome_status_from_route_def reported_state_def
            dest!: route_builders_speak)
    qed
  qed
qed

section \<open>What a per-step delivery does and reports\<close>

text \<open>A plan the validator accepted, as far as the loop depends on it.\<close>

definition plan_ordered :: "validated_execution_plan \<Rightarrow> bool" where
  "plan_ordered plan \<longleftrightarrow>
     pl_steps (vp_plan plan) \<noteq> [] \<and> distinct (map step_id (pl_steps (vp_plan plan))) \<and>
     (\<forall>r \<in> set (pl_fallback_references (vp_plan plan)). declares_later (pl_steps (vp_plan plan)) r)"

lemma validated_plan_ordered:
  assumes "validate_plan env now plan registry = Ok v"
  shows "plan_ordered v"
  using assms by (auto simp: validate_plan_Ok plan_ordered_def plan_structure_valid_def)

abbreviation start_run :: "validated_execution_status \<Rightarrow> per_step_run" where
  "start_run admitted \<equiv> \<lparr>run_statuses = [admitted], run_outcomes = [], run_stop_dispatching = False,
     run_fallback_results = Map.empty\<rparr>"

lemma deliver_steps_log:
  assumes "plan_ordered plan"
  shows "ends_in (deliver_steps show_uuid route plan (logged_registry registry) started
      (pl_steps (vp_plan plan)) (start_run admitted)) (w, [])
    (keeps (\<lambda>run wc. log_inv route plan (pl_steps (vp_plan plan)) run (snd wc))
      (\<lambda>wc. calls_for route plan (snd wc)))"
proof (rule deliver_steps_invariant [where pre = "[]"])
  fix pre s post run and wc :: "'a \<times> call_log"
  assume "pl_steps (vp_plan plan) = pre @ s # post" and inv: "log_inv route plan pre run (snd wc)"
  with assms have "plan_at plan pre s post"
    by (simp add: plan_at_def plan_ordered_def)
  from deliver_step_keeps_log [OF this inv, of show_uuid registry started "fst wc"]
  show "ends_in (deliver_step show_uuid route plan (logged_registry registry) started s run) wc
      (keeps (\<lambda>run' wc. log_inv route plan (pre @ [s]) run' (snd wc))
        (\<lambda>wc. calls_for route plan (snd wc)))"
    by simp
qed (simp_all add: log_inv_def calls_for_def delivered_def)

lemma deliver_steps_progress:
  assumes "plan_ordered plan" and "speaks_for_route route admitted"
    and "entry_of admitted = (AdmittedNotStarted, None)"
  shows "ends_in (deliver_steps show_uuid route plan registry started
      (pl_steps (vp_plan plan)) (start_run admitted)) w
    (keeps (\<lambda>run _. progress_inv route plan (pl_steps (vp_plan plan)) run) (\<lambda>_. True))"
proof (rule deliver_steps_invariant [where pre = "[]"])
  fix pre s post run and w :: 'a
  assume "pl_steps (vp_plan plan) = pre @ s # post" and inv: "progress_inv route plan pre run"
  with assms have "plan_at plan pre s post"
    by (simp add: plan_at_def plan_ordered_def)
  from deliver_step_keeps_progress [OF this inv]
  show "ends_in (deliver_step show_uuid route plan registry started s run) w
      (keeps (\<lambda>run' _. progress_inv route plan (pre @ [s]) run') (\<lambda>_. True))" .
qed (use assms(2,3) in \<open>simp_all add: progress_inv_def running_def\<close>)

text \<open>The parts of a successful delivery.\<close>

lemma deliver_plan_Ok:
  assumes "deliver_plan_per_step_via_registry show_uuid route plan registry ctx w = Some (w', Ok t)"
  obtains admitted run final where "deliverable route"
    "build_admitted_not_started_status_from_route route (cx_coordinated_at_utc ctx) = Ok admitted"
    "deliver_steps show_uuid route plan registry (cx_started_at_utc ctx) (pl_steps (vp_plan plan))
       (start_run admitted) w = Some (w', Ok run)"
    "build_plan_outcome_status_from_route route (run_outcomes run) (cx_started_at_utc ctx)
       (cx_completed_at_utc ctx) = Some (Ok final)"
    "tr_statuses t = run_statuses run @ [final]"
  using assms
  by (auto simp: deliver_plan_per_step_via_registry_def and_do_Ok partial_do_def result_simps)

lemma deliver_plan_calls:
  assumes "plan_ordered plan"
    and "deliver_plan_per_step_via_registry show_uuid route plan (logged_registry registry) ctx (w, []) =
      Some ((w', calls), r)"
  shows "calls_for route plan calls \<and> (calls \<noteq> [] \<longrightarrow> deliverable route)"
proof -
  have none: "calls_for route plan []"
    by (simp add: calls_for_def)
  have steps: "calls_for route plan calls"
    if "deliver_steps show_uuid route plan (logged_registry registry) started
          (pl_steps (vp_plan plan)) (start_run admitted) (w, []) = Some ((w', calls), r)"
    for started admitted r w' calls
    using deliver_steps_log [OF assms(1), of show_uuid route registry started admitted w] that
    by (cases r) (auto simp: ends_in_def dest!: log_inv_calls_for)
  show ?thesis
    using assms(2) none
    by (auto simp: deliver_plan_per_step_via_registry_def and_do_def pure_do_def partial_do_def
        result_simps steps split: option.splits result.splits)
qed

end
