(* ===== verification/Step_Facts.thy ===== *)
theory Step_Facts
  imports Step_Delivery
begin

text \<open>
  What a per-step delivery reports: its trace, the truth of its final status, and when the loop and
  the aggregation answer.
\<close>

section \<open>Traces and truth\<close>

lemma ends_in_keepsD: "ends_in m w (keeps J E) \<Longrightarrow> m w = Some (w', Ok v) \<Longrightarrow> J v w'"
  by (auto simp: ends_in_def)

lemma progress_entries:
  assumes "progress_inv route plan (pl_steps (vp_plan plan)) run" and "plan_ordered plan"
    and "entry_of final = (reported_state outcomes, None)"
  shows "\<exists>ids. ids \<noteq> [] \<and> set ids \<subseteq> set (plan_step_ids plan) \<and>
    map entry_of (run_statuses run @ [final]) =
      (AdmittedNotStarted, None) # running ids @ [(reported_state outcomes, None)]"
  using assms by (auto simp: progress_inv_def plan_ordered_def plan_step_ids_def)

lemma reported_state_final: "next_state InProgress (reported_state outcomes)"
  by (simp add: reported_state_def)

lemma deliver_plan_trace:
  assumes "plan_ordered plan"
    and "deliver_plan_per_step_via_registry show_uuid route plan registry ctx w = Some (w', Ok t)"
  shows "lawful_run (trace_entries t) \<and> list_all (speaks_for_route route) (tr_statuses t) \<and>
    (\<exists>ids final. set ids \<subseteq> set (plan_step_ids plan) \<and>
       trace_entries t = (AdmittedNotStarted, None) # running ids @ [(final, None)])"
proof -
  from assms(2) obtain admitted run final where
    b: "build_admitted_not_started_status_from_route route (cx_coordinated_at_utc ctx) = Ok admitted"
    and d: "deliver_steps show_uuid route plan registry (cx_started_at_utc ctx) (pl_steps (vp_plan plan))
       (start_run admitted) w = Some (w', Ok run)"
    and f: "build_plan_outcome_status_from_route route (run_outcomes run) (cx_started_at_utc ctx)
       (cx_completed_at_utc ctx) = Some (Ok final)"
    and t: "tr_statuses t = run_statuses run @ [final]"
    by (rule deliver_plan_Ok)
  note admitted = route_builders_speak(1) [OF b]
  have inv: "progress_inv route plan (pl_steps (vp_plan plan)) run"
    using admitted by (intro ends_in_keepsD [OF deliver_steps_progress [OF assms(1)] d]) simp_all
  note final = plan_outcome_state [OF f]
  obtain ids where ids: "ids \<noteq> []" "set ids \<subseteq> set (plan_step_ids plan)"
    "trace_entries t = (AdmittedNotStarted, None) # running ids @
       [(reported_state (map snd (run_outcomes run)), None)]"
    using progress_entries [OF inv assms(1) conjunct2 [OF final]] t by (auto simp: trace_entries_def)
  moreover have "list_all (speaks_for_route route) (tr_statuses t)"
    using inv final t by (simp add: progress_inv_def)
  ultimately show ?thesis
    using lawful_run_running [OF reported_state_final] by metis
qed

text \<open>A step is done when it was delivered, or when its declared fallback was.\<close>

definition done_by ::
  "selected_execution_route \<Rightarrow> validated_execution_plan \<Rightarrow> call_log \<Rightarrow> string \<Rightarrow> bool" where
  "done_by route plan calls i \<longleftrightarrow>
     delivered route plan calls i \<or>
     (\<exists>f. \<lparr>fr_step_id = i, fr_fallback_step_id = f\<rparr> \<in> set (pl_fallback_references (vp_plan plan)) \<and>
        delivered route plan calls f)"

fun truthful ::
  "selected_execution_route \<Rightarrow> validated_execution_plan \<Rightarrow> call_log \<Rightarrow> execution_state \<Rightarrow> bool" where
  "truthful route plan calls execution_state.Completed =
     (\<forall>i \<in> set (plan_step_ids plan). delivered route plan calls i)"
| "truthful route plan calls CompletedWithConstraints =
     (\<forall>i \<in> set (plan_step_ids plan). done_by route plan calls i)"
| "truthful route plan calls PartialSuccess =
     (\<exists>i \<in> set (plan_step_ids plan). done_by route plan calls i)"
| "truthful route plan calls _ = (\<forall>i. \<not> delivered route plan calls i)"

lemma backed_done:
  "backed route plan calls (i, outcome) \<Longrightarrow> is_completed outcome \<Longrightarrow> done_by route plan calls i"
  by (cases outcome) (auto simp: done_by_def)

lemma backed_delivered:
  "backed route plan calls (i, outcome) \<Longrightarrow> is_completed outcome \<Longrightarrow> used_fallback outcome = None \<Longrightarrow>
     delivered route plan calls i"
  by (cases outcome) auto

lemma log_inv_truthful:
  assumes inv: "log_inv route plan (pl_steps (vp_plan plan)) run calls"
  shows "truthful route plan calls (reported_state (map snd (run_outcomes run)))"
proof -
  let ?os = "run_outcomes run"
  have ids: "set (plan_step_ids plan) = fst ` set ?os"
    using inv by (simp add: log_inv_def plan_step_ids_def flip: set_map)
  have backed: "\<And>i out. (i, out) \<in> set ?os \<Longrightarrow> backed route plan calls (i, out)"
    and delivered: "\<And>i. delivered route plan calls i \<Longrightarrow> \<exists>x \<in> set ?os. is_completed (snd x)"
    using inv by (auto simp: log_inv_def)
  consider (all) "list_all is_completed (map snd ?os)"
    | (some) "\<not> list_all is_completed (map snd ?os)" "list_ex is_completed (map snd ?os)"
    | (none) "\<not> list_all is_completed (map snd ?os)" "\<not> list_ex is_completed (map snd ?os)" by blast
  then show ?thesis
  proof cases
    case all
    then have "\<And>i out. (i, out) \<in> set ?os \<Longrightarrow> is_completed out"
      by (force simp: list_all_iff)
    then have "done_by route plan calls i" if "(i, out) \<in> set ?os" for i out
      using that by (blast intro: backed_done [OF backed])
    moreover have "delivered route plan calls i"
      if "\<forall>x \<in> set ?os. used_fallback (snd x) = None" "(i, out) \<in> set ?os" for i out
      using that \<open>\<And>i out. (i, out) \<in> set ?os \<Longrightarrow> is_completed out\<close>
      by (intro backed_delivered [OF backed]) auto
    ultimately show ?thesis
      using all by (auto simp: reported_state_def ids list_all_iff)
  next
    case some
    then obtain i out where "(i, out) \<in> set ?os" "is_completed out"
      by (auto simp: list_ex_iff)
    then have "done_by route plan calls i" "i \<in> fst ` set ?os"
      by (auto intro: backed_done [OF backed] rev_image_eqI)
    with some show ?thesis by (auto simp: reported_state_def ids)
  next
    case none
    then have "\<not> delivered route plan calls i" for i
      using delivered [of i] by (auto simp: list_ex_iff)
    with none show ?thesis by (simp add: reported_state_def)
  qed
qed

lemma deliver_plan_truthful:
  assumes "plan_ordered plan"
    and "deliver_plan_per_step_via_registry show_uuid route plan (logged_registry registry) ctx (w, []) =
      Some ((w', calls), Ok t)"
  shows "truthful route plan calls (fst (last (trace_entries t)))"
proof -
  from assms(2) obtain admitted run final where
    d: "deliver_steps show_uuid route plan (logged_registry registry) (cx_started_at_utc ctx)
       (pl_steps (vp_plan plan)) (start_run admitted) (w, []) = Some ((w', calls), Ok run)"
    and f: "build_plan_outcome_status_from_route route (run_outcomes run) (cx_started_at_utc ctx)
       (cx_completed_at_utc ctx) = Some (Ok final)"
    and t: "tr_statuses t = run_statuses run @ [final]"
    by (rule deliver_plan_Ok)
  have "log_inv route plan (pl_steps (vp_plan plan)) run calls"
    using ends_in_keepsD [OF deliver_steps_log [OF assms(1)] d] by simp
  from log_inv_truthful [OF this] show ?thesis
    using plan_outcome_state [OF f] t by (simp add: trace_entries_def)
qed

section \<open>When the loop answers\<close>

text \<open>
  A registry serves a plan when the adapter registered for a step's capability answers the step's
  request, whatever the world, in the terms of the request.
\<close>

definition well_served ::
  "selected_execution_route \<Rightarrow> validated_execution_plan \<Rightarrow> 'w adapter_registry \<Rightarrow> bool" where
  "well_served route plan registry \<longleftrightarrow>
     (\<forall>cap adapter. resolve_adapter registry cap = Some adapter \<longrightarrow>
        (\<forall>s \<in> set (pl_steps (vp_plan plan)). step_capability_id s = cap \<longrightarrow>
           (\<forall>w. \<exists>w' r. da_deliver_route adapter (step_request route plan s) w = Some (w', r) \<and>
              result_wf (step_request route plan s) r \<and> \<not> is_unsupported r)))"

lemma step_outcome_total:
  assumes "result_wf (step_request route plan s) r" and "\<not> is_unsupported r"
  shows "\<exists>outcome. step_outcome aid r = Ok outcome"
  using assms by (cases r) (auto simp: step_outcome_def step_request_def require_bounded_summary_def)

lemma dispatch_total:
  assumes "well_served route plan registry" and "s \<in> set (pl_steps (vp_plan plan))"
  shows "\<exists>w' outcome. dispatch_one_step show_uuid route plan registry s w = Some (w', Ok outcome)"
proof (cases "resolve_adapter registry (step_capability_id s)")
  case None
  then show ?thesis by (simp add: dispatch_one_step_def pure_do_def)
next
  case (Some adapter)
  with assms obtain w' r where r: "da_deliver_route adapter (step_request route plan s) w = Some (w', r)"
    "result_wf (step_request route plan s) r" "\<not> is_unsupported r"
    unfolding well_served_def by blast
  from step_outcome_total [OF r(2,3), of "da_adapter_id adapter"] Some r(1) show ?thesis
    by (auto simp: dispatch_one_step_def and_do_def call_adapter_def pure_do_def)
qed

lemma attempt_fallback_total:
  assumes "well_served route plan registry" and "route_reportable route"
    and "list_all is_valid_step_id (plan_step_ids plan)"
  shows "\<exists>w' r. attempt_fallback show_uuid route plan registry started s outcome run w = Some (w', Ok r)"
proof (cases "if did_not_complete outcome
    then declared_fallback_step plan (step_id s) (run_fallback_results run) else None")
  case None
  then show ?thesis by (simp add: attempt_fallback_def pure_do_def)
next
  case (Some t)
  then have "declared_fallback_step plan (step_id s) (run_fallback_results run) = Some t"
    by (simp split: if_splits)
  note t = declared_fallback_step_Some(1) [OF this]
  then have "list_all is_valid_step_id [step_id t]"
    using assms(3) by (auto simp: list_all_iff plan_step_ids_def)
  from route_in_progress_total [OF assms(2) this, of started] dispatch_total [OF assms(1) t, of show_uuid w]
  show ?thesis
    unfolding attempt_fallback_def Some option.case by (auto simp: and_do_def pure_do_def)
qed

lemma deliver_step_total:
  assumes "well_served route plan registry" and "route_reportable route"
    and "list_all is_valid_step_id (plan_step_ids plan)" and s: "s \<in> set (pl_steps (vp_plan plan))"
  shows "\<exists>w' run'. deliver_step show_uuid route plan registry started s run w = Some (w', Ok run')"
proof (cases "run_fallback_results run (step_id s) \<noteq> None \<or> run_stop_dispatching run")
  case True
  then show ?thesis by (auto simp: deliver_step_def pure_do_def split: option.split)
next
  case False
  have "list_all is_valid_step_id [step_id s]"
    using assms(3) s by (auto simp: list_all_iff plan_step_ids_def)
  then obtain progress where
    "build_in_progress_statuses_from_route route [step_id s] started = Ok progress"
    using route_in_progress_total [OF assms(2)] by blast
  moreover obtain w1 outcome where
    "dispatch_one_step show_uuid route plan registry s w = Some (w1, Ok outcome)"
    using dispatch_total [OF assms(1) s] by blast
  moreover obtain w2 r where "attempt_fallback show_uuid route plan registry started s outcome
      (run\<lparr>run_statuses := run_statuses run @ progress\<rparr>) w1 = Some (w2, Ok r)"
    using attempt_fallback_total [OF assms(1-3)] by blast
  ultimately show ?thesis
    using False by (auto simp: deliver_step_def and_do_def pure_do_def split: prod.split)
qed

lemma deliver_steps_total:
  assumes "well_served route plan registry" and "route_reportable route"
    and "list_all is_valid_step_id (plan_step_ids plan)" and "set steps \<subseteq> set (pl_steps (vp_plan plan))"
  shows "\<exists>w' run'. deliver_steps show_uuid route plan registry started steps run w = Some (w', Ok run')"
  using assms(4)
proof (induction steps arbitrary: run w)
  case Nil
  then show ?case by (simp add: pure_do_def)
next
  case (Cons s steps)
  obtain w1 run1 where "deliver_step show_uuid route plan registry started s run w = Some (w1, Ok run1)"
    using deliver_step_total [OF assms(1-3), of s] Cons.prems by fastforce
  with Cons.IH [of run1 w1] Cons.prems show ?case by (simp add: and_do_def)
qed

section \<open>No panic\<close>

text \<open>A delivery panics only when an adapter does.\<close>

definition panic_free :: "'w adapter_registry \<Rightarrow> bool" where
  "panic_free registry \<longleftrightarrow> (\<forall>cap adapter. resolve_adapter registry cap = Some adapter \<longrightarrow>
     (\<forall>request w. da_deliver_route adapter request w \<noteq> None))"

lemma pure_do_not_None: "pure_do r w \<noteq> None"
  by (simp add: pure_do_def)

lemma and_do_not_None:
  assumes "m w \<noteq> None" and "\<And>v w1. f v w1 \<noteq> None"
  shows "and_do m f w \<noteq> None"
  using assms by (auto simp: and_do_None)

lemma dispatch_not_None:
  assumes "panic_free registry"
  shows "dispatch_one_step show_uuid route plan registry s w \<noteq> None"
proof (cases "resolve_adapter registry (step_capability_id s)")
  case None
  then show ?thesis by (simp add: dispatch_one_step_def pure_do_def)
next
  case (Some adapter)
  with assms have "call_adapter adapter (step_request route plan s) w \<noteq> None"
    unfolding panic_free_def call_adapter_def by blast
  with Some show ?thesis
    unfolding dispatch_one_step_def Some option.case
    by (intro and_do_not_None pure_do_not_None)
qed

lemma attempt_fallback_not_None:
  assumes "panic_free registry"
  shows "attempt_fallback show_uuid route plan registry started s outcome run w \<noteq> None"
proof (cases "if did_not_complete outcome
    then declared_fallback_step plan (step_id s) (run_fallback_results run) else None")
  case None
  show ?thesis unfolding attempt_fallback_def None option.case by (rule pure_do_not_None)
next
  case (Some t)
  show ?thesis
    unfolding attempt_fallback_def Some option.case
    by (intro and_do_not_None pure_do_not_None dispatch_not_None [OF assms])
qed

lemma deliver_step_not_None:
  assumes "panic_free registry"
  shows "deliver_step show_uuid route plan registry started s run w \<noteq> None"
proof (cases "run_fallback_results run (step_id s)")
  case None
  show ?thesis
    unfolding deliver_step_def None option.case case_prod_unfold
    by (simp only: split: if_split) (intro conjI impI and_do_not_None pure_do_not_None
      dispatch_not_None [OF assms] attempt_fallback_not_None [OF assms])
next
  case (Some outcome)
  show ?thesis unfolding deliver_step_def Some option.case by (rule pure_do_not_None)
qed

lemma deliver_steps_not_None:
  assumes "panic_free registry"
  shows "deliver_steps show_uuid route plan registry started steps run w \<noteq> None"
  by (induction steps arbitrary: run w)
    (simp_all add: pure_do_def and_do_None deliver_step_not_None [OF assms] del: not_None_eq)

lemma deliver_plan_not_None:
  assumes "panic_free registry"
  shows "deliver_plan_per_step_via_registry show_uuid route plan registry ctx w \<noteq> None"
  unfolding deliver_plan_per_step_via_registry_def
  by (intro and_do_not_None pure_do_not_None deliver_steps_not_None [OF assms])
    (simp add: partial_do_def plan_outcome_never_panics)

lemma deliver_route_not_None:
  assumes "panic_free registry"
  shows "deliver_selected_route_via_registry show_uuid route registry ctx w \<noteq> None"
proof (cases "resolve_adapter registry (sr_requested_capability_id route)")
  case None
  show ?thesis
    unfolding deliver_selected_route_via_registry_def None option.case
    by (intro and_do_not_None pure_do_not_None)
next
  case (Some adapter)
  with assms have "call_adapter adapter request w \<noteq> None" for request w
    unfolding panic_free_def call_adapter_def by blast
  then show ?thesis
    unfolding deliver_selected_route_via_registry_def deliver_via_adapter_def Some option.case
    by (intro and_do_not_None pure_do_not_None)
qed

lemma panic_free_logged: "panic_free registry \<Longrightarrow> panic_free (logged_registry registry)"
  by (auto simp: panic_free_def logged_def)

section \<open>When the aggregation answers\<close>

lemma length_show_nat: "n < 10 ^ k \<Longrightarrow> 0 < k \<Longrightarrow> length (show_nat n) \<le> k"
proof (induction k arbitrary: n)
  case 0
  then show ?case by simp
next
  case (Suc k)
  show ?case
  proof (cases "n < 10")
    case True
    then show ?thesis by (simp add: show_nat.simps [of n])
  next
    case False
    with Suc.prems have "k \<noteq> 0" by (cases k) simp_all
    moreover have "n div 10 < 10 ^ k"
      using Suc.prems(1) by (simp add: div_less_iff_less_mult)
    ultimately have "length (show_nat (n div 10)) \<le> k"
      using Suc.IH by simp
    then show ?thesis using False by (simp add: show_nat.simps [of n])
  qed
qed

lemma length_partial_count_summary:
  assumes "n \<le> k" and "k < 2 ^ 32"
  shows "bounded_text (partial_count_summary n k)"
proof -
  have "k < 10 ^ 10" "n < 10 ^ 10" using assms by simp_all
  then have "length (show_nat k) \<le> 10" "length (show_nat n) \<le> 10"
    by (auto intro: length_show_nat)
  then show ?thesis by (simp add: partial_count_summary_def)
qed

lemma length_partial_failure_summary:
  "length (partial_failure_summary i m) = 24 + length i + length m"
  by (simp add: partial_failure_summary_def)

text \<open>
  The partial-success report exists exactly when the text it composes for the first incomplete step
  fits. An adapter's own text may be as long as the whole report.
\<close>

lemma partial_success_answers:
  assumes rep: "route_reportable route" and "started \<le> completed"
    and mixed: "\<not> list_all is_completed (map snd outcomes)" "list_ex is_completed (map snd outcomes)"
    and "length outcomes < 2 ^ 32"
    and detail: "find_map incomplete_detail outcomes = Some (i, m)"
  shows "(\<exists>v. build_plan_outcome_status_from_route route outcomes started completed = Some (Ok v)) \<longleftrightarrow>
    length i + length m \<le> 136"
proof -
  let ?n = "length (filter (is_completed \<circ> snd) outcomes)"
  obtain link where link: "link_of route = Some link" "is_valid_hash (snd link)"
    "admitted_posture (sr_resolved_approval_posture route)"
    using rep by (rule route_reportable_link)
  have n: "?n \<noteq> length outcomes" "?n \<noteq> 0"
    using mixed by (auto simp: all_completed_count list_all_iff list_ex_iff filter_empty_conv)
  then have build: "build_plan_outcome_status_from_route route outcomes started completed =
      Some (build_partial_success_status_from_route route started completed ?n (length outcomes) i m)"
    by (simp add: build_plan_outcome_status_from_route_def detail)
  have "bounded_text (partial_count_summary ?n (length outcomes))"
    using assms(5) by (intro length_partial_count_summary) simp_all
  moreover have "partial_failure_summary i m \<noteq> []"
    by (simp add: partial_failure_summary_def)
  ultimately show ?thesis
    using link assms(2)
    by (auto simp: build build_partial_success_status_from_route_def Let_def route_link_Ok [THEN iffD2]
        emit_status_Ok status_wf_defs length_partial_failure_summary)
qed

text \<open>A lawful adapter that supports the plan's step requests serves the plan.\<close>

context lawful_adapter
begin

lemma serves_supported_steps:
  assumes "s \<in> set (pl_steps (vp_plan plan))" and "supports (step_request route plan s)"
  shows "\<exists>w' r. da_deliver_route adapter (step_request route plan s) w = Some (w', r) \<and>
    result_wf (step_request route plan s) r \<and> \<not> is_unsupported r"
  using assms(2) by (metis supported_cases)

end

lemma step_request_scoped:
  "scoped_to cap (step_request route plan s) \<longleftrightarrow>
     admitted_posture (sr_resolved_approval_posture route) \<and> step_capability_id s = cap"
  by (auto simp: scoped_to_def step_request_def)

text \<open>The two adapters of the crate serve every plan whose route is deliverable.\<close>

lemma crate_adapters_serve:
  assumes "deliverable route"
    and "\<And>cap adapter. resolve_adapter registry cap = Some adapter \<Longrightarrow>
      (\<exists>config. nm_supported_capability_id config = cap \<and> adapter = nmap_adapter fs config) \<or>
      (\<exists>config. lf_supported_capability_id config = cap \<and> adapter = local_file_adapter fs show_uuid config)"
  shows "well_served route plan registry"
  unfolding well_served_def
proof (intro allI ballI impI)
  fix cap adapter s w
  assume "resolve_adapter registry cap = Some adapter" and s: "s \<in> set (pl_steps (vp_plan plan))"
    and cap: "step_capability_id s = cap"
  have scoped: "scoped_to cap (step_request route plan s)" "length (dr_declared_step_ids (step_request route plan s)) = 1"
      "dr_declared_step_ids (step_request route plan s) \<noteq> []"
    using assms(1) cap by (simp_all add: step_request_scoped deliverable_def) (simp_all add: step_request_def)
  from assms(2) [OF \<open>resolve_adapter registry cap = Some adapter\<close>]
  show "\<exists>w' r. da_deliver_route adapter (step_request route plan s) w = Some (w', r) \<and>
      result_wf (step_request route plan s) r \<and> \<not> is_unsupported r"
  proof (elim disjE exE conjE)
    fix config
    assume "nm_supported_capability_id config = cap" "adapter = nmap_adapter fs config"
    with scoped s show ?thesis
      by (auto simp: nmap_validate_request_Ok intro: nmap.serves_supported_steps)
  next
    fix config
    assume "lf_supported_capability_id config = cap" "adapter = local_file_adapter fs show_uuid config"
    with scoped s show ?thesis
      by (auto simp: local_file_validate_request_Ok intro: local_file.serves_supported_steps)
  qed
qed

end
