(* ===== verification/Decision.thy ===== *)
theory Decision
  imports Posture
begin

text \<open>
  The decision service, \<open>src/app/decision_service.rs\<close>: intake, trust evaluation, policy loading and
  capability admission wired into one resolved route decision. The derived decoders of the four
  contracts are the fields of \<open>decoders\<close>.
\<close>

record decoders =
  dc_capability_registry :: "json \<Rightarrow> (capability_registry, string) result"
  dc_execution_request :: "json \<Rightarrow> (execution_request, string) result"
  dc_requester_trust :: "json \<Rightarrow> (requester_trust_envelope, string) result"
  dc_policy_artifact :: "json \<Rightarrow> (policy_artifact, string) result"

definition prerequisite_unavailable_denial :: "timestamp \<Rightarrow> denial_guard" where
  "prerequisite_unavailable_denial now = deny now CapabilityNotAdmitted Capability Contract
     ''capability admission requires successful requester trust and policy evaluation''"

definition resolve_route_decision ::
  "contract_env \<Rightarrow> decoders \<Rightarrow> (uuid \<Rightarrow> string) \<Rightarrow> timestamp \<Rightarrow> json \<Rightarrow> json \<Rightarrow> json \<Rightarrow> json \<Rightarrow>
   route_resolution_context \<Rightarrow> route_decision fa_local_result option" where
  "resolve_route_decision env dec show_uuid now request requester_trust policy registry ctx =
     (case and_then (load_registry env (dc_capability_registry dec) registry) (\<lambda>capability_registry.
           and_then (validate_request env (dc_execution_request dec) request) (\<lambda>intake.
             Ok (capability_registry, iv_request intake))) of
        Err e \<Rightarrow> Some (Err e)
      | Ok (capability_registry, request) \<Rightarrow>
          let trust_context = \<lparr>tc_expected_environment = er_environment_mode request,
                tc_now = rc_decided_at_utc ctx\<rparr>;
              trust_outcome =
                load_and_evaluate env (dc_requester_trust dec) now requester_trust trust_context;
              policy_outcome =
                load_required_value env (dc_policy_artifact dec) now (Some policy);
              admission_outcome =
                (case (trust_outcome, policy_outcome) of
                   (Ok requester, Ok policy) \<Rightarrow>
                     admit_execution_request now capability_registry policy requester request
                 | _ \<Rightarrow> Err (prerequisite_unavailable_denial now))
          in map_option Ok (resolve show_uuid
               \<lparr>ri_request = request, ri_requester_trust_outcome = trust_outcome,
                ri_policy_outcome = policy_outcome,
                ri_capability_admission_outcome = admission_outcome\<rparr> ctx))"

section \<open>What a decision that is not a denial rests on\<close>

text \<open>
  The inputs of an authorised decision: the four contracts decode, the envelope is trusted in the
  request's environment at the time of the decision, the registry admits the request under the
  policy, and the parts agree with each other.
\<close>

definition authorised ::
  "contract_env \<Rightarrow> decoders \<Rightarrow> json \<Rightarrow> json \<Rightarrow> json \<Rightarrow> json \<Rightarrow> timestamp \<Rightarrow> execution_request \<Rightarrow>
   requester_trust_envelope \<Rightarrow> policy_artifact \<Rightarrow> capability_record \<Rightarrow> bool" where
  "authorised env dec request trust policy registry at er r p c \<longleftrightarrow>
     load_execution_request env (dc_execution_request dec) request = Ok er \<and>
     json_is_object trust \<and> json_get trust ''trust_basis'' \<noteq> None \<and>
     load_envelope env (dc_requester_trust dec) trust = Ok r \<and>
     trusted_at r (er_environment_mode er) at \<and>
     load_policy env (dc_policy_artifact dec) policy = Ok p \<and>
     (\<exists>reg. load_registry env (dc_capability_registry dec) registry = Ok reg \<and>
        admissible reg p r er c) \<and>
     consistent er r p c"

lemma validate_request_Ok [result_simps]:
  "validate_request env decode v = Ok iv \<longleftrightarrow>
     load_execution_request env decode v = Ok (iv_request iv)"
  by (cases iv) (auto simp: validate_request_def result_simps)

lemma resolve_route_decision_Ok:
  assumes "resolve_route_decision env dec show_uuid now request trust policy registry ctx = Some (Ok d)"
  obtains er reg input where
    "load_execution_request env (dc_execution_request dec) request = Ok er"
    "load_registry env (dc_capability_registry dec) registry = Ok reg"
    "ri_request input = er"
    "ri_requester_trust_outcome input = load_and_evaluate env (dc_requester_trust dec) now trust
       \<lparr>tc_expected_environment = er_environment_mode er, tc_now = rc_decided_at_utc ctx\<rparr>"
    "ri_policy_outcome input = load_required_value env (dc_policy_artifact dec) now (Some policy)"
    "\<forall>r p. ri_requester_trust_outcome input = Ok r \<longrightarrow> ri_policy_outcome input = Ok p \<longrightarrow>
       ri_capability_admission_outcome input = admit_execution_request now reg p r er"
    "resolve show_uuid input ctx = Some d"
  using assms
  by (auto simp: resolve_route_decision_def Let_def result_simps split: result.splits prod.splits
      intro!: that)

lemma spec_posture_not_denied:
  assumes "spec_posture input \<noteq> approval_posture.Denied"
  obtains r p c rule approval where
    "ri_requester_trust_outcome input = Ok r" "ri_policy_outcome input = Ok p"
    "ri_capability_admission_outcome input = Ok c" "consistent (ri_request input) r p c"
    "capability_rule_for p (cap_capability_id c) = Some rule"
    "approval_rule_for p (rt_requester_class r) = Some approval"
    "spec_posture input = greatest_permitted approval rule c (ri_request input) r"
  using assms by (auto simp: spec_posture_def split: result.splits if_splits option.splits)

lemma decision_authorised:
  assumes "resolve_route_decision env dec show_uuid now request trust policy registry ctx = Some (Ok d)"
    and "rd_resolved_approval_posture d \<noteq> approval_posture.Denied"
  shows "\<exists>er r p c rule approval.
    authorised env dec request trust policy registry (rc_decided_at_utc ctx) er r p c \<and>
    capability_rule_for p (cap_capability_id c) = Some rule \<and>
    approval_rule_for p (rt_requester_class r) = Some approval \<and>
    rd_resolved_approval_posture d = greatest_permitted approval rule c er r \<and>
    coherent d \<and> rd_request_id d = er_request_id er \<and> rd_correlation_id d = er_correlation_id er \<and>
    cd_requested_capability_id (rd_capability_decision_summary d) = er_requested_capability_id er"
proof -
  from assms(1) obtain er reg input where
    loads: "load_execution_request env (dc_execution_request dec) request = Ok er"
      "load_registry env (dc_capability_registry dec) registry = Ok reg"
    and req: "ri_request input = er"
    and outcomes: "ri_requester_trust_outcome input = load_and_evaluate env (dc_requester_trust dec) now trust
       \<lparr>tc_expected_environment = er_environment_mode er, tc_now = rc_decided_at_utc ctx\<rparr>"
      "ri_policy_outcome input = load_required_value env (dc_policy_artifact dec) now (Some policy)"
    and admission: "\<forall>r p. ri_requester_trust_outcome input = Ok r \<longrightarrow> ri_policy_outcome input = Ok p \<longrightarrow>
       ri_capability_admission_outcome input = admit_execution_request now reg p r er"
    and res: "resolve show_uuid input ctx = Some d"
    by (rule resolve_route_decision_Ok)
  note d = resolve_Some [OF res]
  with assms(2) obtain r p c rule approval where
    ok: "ri_requester_trust_outcome input = Ok r" "ri_policy_outcome input = Ok p"
      "ri_capability_admission_outcome input = Ok c"
    and rest: "consistent er r p c" "capability_rule_for p (cap_capability_id c) = Some rule"
      "approval_rule_for p (rt_requester_class r) = Some approval"
      "rd_resolved_approval_posture d = greatest_permitted approval rule c er r"
    by (metis req spec_posture_not_denied)
  have "admit_execution_request now reg p r er = Ok c"
    using ok admission by simp
  then have "authorised env dec request trust policy registry (rc_decided_at_utc ctx) er r p c"
    using ok outcomes loads rest(1)
    by (simp add: authorised_def load_and_evaluate_Ok load_required_value_Ok admit_execution_request_Ok)
  then show ?thesis
    using rest d req by (intro exI [of _ er] exI [of _ r] exI [of _ p] exI [of _ c]
        exI [of _ rule] exI [of _ approval]) (simp add: answers_def)
qed

lemma resolve_route_decision_Err:
  "resolve_route_decision env dec show_uuid now request trust policy registry ctx = Some (Err e) \<longleftrightarrow>
     load_registry env (dc_capability_registry dec) registry = Err e \<or>
     (\<exists>reg. load_registry env (dc_capability_registry dec) registry = Ok reg \<and>
        load_execution_request env (dc_execution_request dec) request = Err e)"
  by (cases "load_registry env (dc_capability_registry dec) registry";
      cases "load_execution_request env (dc_execution_request dec) request")
    (auto simp: resolve_route_decision_def Let_def validate_request_def)

section \<open>Properties\<close>

text \<open>The decision service returns an error only for a registry or a request that does not load;
every failure of the requester's trust, of the policy or of the admission becomes a decision.\<close>

theorem decision_errors:
  "resolve_route_decision env dec show_uuid now request trust policy registry ctx = Some (Err e) \<longleftrightarrow>
     load_registry env (dc_capability_registry dec) registry = Err e \<or>
     (\<exists>reg. load_registry env (dc_capability_registry dec) registry = Ok reg \<and>
        load_execution_request env (dc_execution_request dec) request = Err e)"
  by (rule resolve_route_decision_Err)

end
