(* ===== verification/Samples.thy ===== *)
theory Samples
  imports Step_Facts Decision "HOL-Library.AList_Mapping"
begin

text \<open>
  Concrete inputs: a two-step plan whose first step has a declared fallback, its registry, its route
  and an adapter that fails once. They show that the hypotheses of the properties can hold, and
  what the code answers there.
\<close>

section \<open>A plan and its registry\<close>

definition sample_show_uuid :: "uuid \<Rightarrow> string" where
  "sample_show_uuid u = show_nat (unat u)"

definition sample_hash_env :: hash_env where
  "sample_hash_env =
     \<lparr>he_show_uuid = sample_show_uuid, he_to_vec = (\<lambda>_. []), he_sha256 = (\<lambda>_. replicate 32 0)\<rparr>"

definition sample_hash :: string where
  "sample_hash = replicate 64 CHR ''0''"

definition sample_capability :: capability_record where
  "sample_capability =
     \<lparr>cap_capability_id = 7, cap_owner_service = SERVICE_ID,
      cap_capability_type = capability_type.LocalFileWrite,
      cap_side_effect_class = side_effect_class.LocalFileWrite,
      cap_approval_posture = PolicyPreapproved,
      cap_allowed_requester_classes = [TrustedAppSurface], cap_timeout_budget_ms = 1000,
      cap_retry_budget = 0, cap_max_duration_budget_ms = 5000, cap_max_cpu_budget = None,
      cap_max_mem_budget_mb = None, cap_enabled_state = Enabled, cap_review_class = NoReview,
      cap_provenance = \<lparr>cp_source_kind = RegistryFile, cp_issued_at = 0\<rparr>,
      cap_revocation_state = Active, cap_version_range = None\<rparr>"

definition sample_registry :: capability_registry where
  "sample_registry = \<lparr>reg_registry_version = ''1'', reg_capabilities = [sample_capability]\<rparr>"

definition sample_step :: "string \<Rightarrow> execution_plan_step" where
  "sample_step i = \<lparr>step_id = i, step_capability_id = 7,
     step_declared_side_effect_class = side_effect_class.LocalFileWrite, step_timeout_budget_ms = 500\<rparr>"

definition sample_plan :: execution_plan where
  "sample_plan =
     \<lparr>pl_execution_plan_id = 3, pl_correlation_id = 2, pl_originating_request_id = 1,
      pl_steps = [sample_step ''write'', sample_step ''backup''],
      pl_referenced_capabilities = [7], pl_declared_max_step_count = 2,
      pl_declared_side_effect_classes = [side_effect_class.LocalFileWrite],
      pl_fallback_references = [\<lparr>fr_step_id = ''write'', fr_fallback_step_id = ''backup''\<rparr>],
      pl_cancellation_policy = CancelRemainingSteps,
      pl_completion_policy = AllowDeclaredFallbackCompletion, pl_max_duration_budget_ms = 1000,
      pl_stable_plan_hash = sample_hash, pl_planned_at_utc = 0\<rparr>"

definition sample_validated :: validated_execution_plan where
  "sample_validated = \<lparr>vp_plan = sample_plan, vp_stable_plan_hash = sample_hash\<rparr>"

lemmas sample_plan_defs = sample_plan_def sample_step_def sample_registry_def sample_capability_def

lemma sample_capability_for [simp]: "capability_for sample_registry 7 = Some sample_capability"
  by (simp add: capability_for_def sample_registry_def sample_capability_def)

lemma sample_hash_eq: "compute_stable_plan_hash sample_hash_env plan = sample_hash"
proof -
  have "concat (map hex_byte (replicate n 0)) = replicate (2 * n) CHR ''0''" for n
    by (induction n) (simp_all add: hex_byte_def digit_char_def char_of_def bit_0)
  from this [of 32] show ?thesis
    by (simp add: compute_stable_plan_hash_def sample_hash_env_def sample_hash_def)
qed

lemma sample_plan_structure: "plan_structure_valid sample_registry sample_plan"
proof -
  have "declares_later (pl_steps sample_plan) \<lparr>fr_step_id = ''write'', fr_fallback_step_id = ''backup''\<rparr>"
    unfolding declares_later_def by (rule exI [of _ 0], rule exI [of _ 1]) (simp add: sample_plan_defs)
  moreover have "capability_usable sample_registry 7"
    by (simp add: capability_usable_def) (simp add: sample_capability_def)
  moreover have "step_declared sample_registry sample_plan s" if "s \<in> set (pl_steps sample_plan)" for s
    using that by (auto simp: step_declared_def sample_plan_def sample_step_def)
      (simp_all add: sample_capability_def)
  ultimately show ?thesis
    by (simp add: plan_structure_valid_def) (simp add: sample_plan_defs timeout_sum_def)
qed

lemma sample_plan_valid: "validate_plan sample_hash_env 0 sample_plan sample_registry = Ok sample_validated"
  by (simp add: validate_plan_Ok sample_plan_structure sample_hash_eq sample_validated_def)
    (simp add: sample_plan_def)

section \<open>A decision, its route and an adapter that fails once\<close>

definition sample_decision :: route_decision where
  "sample_decision =
     \<lparr>rd_route_decision_id = 9, rd_correlation_id = 2, rd_request_id = 1,
      rd_resolved_approval_posture = PolicyPreapproved, rd_execution_allowed = True,
      rd_denial_guards = [], rd_review_required = False, rd_explicit_approval_required = False,
      rd_policy_reference = None,
      rd_capability_decision_summary =
        \<lparr>cd_requested_capability_id = 7, cd_capability_admitted = True,
         cd_capability_owner_service = Some SERVICE_ID,
         cd_requested_side_effect_class = side_effect_class.LocalFileWrite,
         cd_capability_approval_posture = Some PolicyPreapproved,
         cd_policy_required_approval_posture = Some PolicyPreapproved,
         cd_requester_max_approval_posture = Some ExecuteAllowed,
         cd_side_effect_minimum_approval_posture = PolicyPreapproved,
         cd_review_class = Some NoReview\<rparr>,
      rd_operator_visible_summary = ''admitted'', rd_degraded_subtype = None,
      rd_decided_at_utc = 0\<rparr>"

definition sample_route :: selected_execution_route where
  "sample_route = routable_plan_selection sample_decision sample_validated
     ExternalAdapterBoundedExecution True False"

definition sample_context :: coordination_context where
  "sample_context =
     \<lparr>cx_coordinated_at_utc = 0, cx_started_at_utc = 1, cx_completed_at_utc = 2\<rparr>"

lemma sample_hash_valid: "is_valid_hash sample_hash"
  by (simp add: is_valid_hash_def sample_hash_def list_all_iff ascii_defs)

lemma sample_steps_valid: "list_all is_valid_step_id (plan_step_ids sample_validated)"
  by (simp add: plan_step_ids_def sample_validated_def sample_plan_def sample_step_def
      is_valid_step_id_def ascii_defs)

lemma sample_deliverable: "deliverable sample_route"
  by (simp add: deliverable_def sample_route_def routable_plan_selection_def sample_decision_def
      requested_capability_def sample_validated_def sample_plan_def)

lemma sample_reportable: "route_reportable sample_route"
  using sample_deliverable sample_hash_valid sample_steps_valid
  by (simp add: route_reportable_def sample_route_def routable_plan_selection_def
      plan_step_ids_def sample_validated_def)

lemma sample_ordered: "plan_ordered sample_validated"
  using sample_plan_valid by (rule validated_plan_ordered)

definition flaky_adapter :: "nat delivery_adapter" where
  "flaky_adapter = \<lparr>da_adapter_id = ''flaky'',
     da_deliver_route = (\<lambda>request calls. Some (Suc calls,
       if calls = 0 then FailedAtDeclaredStep (hd (dr_declared_step_ids request)) ''refused''
       else DeliveredAllSteps))\<rparr>"

definition sample_adapters :: "nat adapter_registry" where
  "sample_adapters = Mapping.update 7 flaky_adapter new_registry"

lemma sample_resolve: "resolve_adapter sample_adapters c = (if c = 7 then Some flaky_adapter else None)"
  by (simp add: sample_adapters_def resolve_adapter_update new_registry_def resolve_adapter_def)

lemma sample_panic_free: "panic_free sample_adapters"
  by (auto simp: panic_free_def sample_resolve flaky_adapter_def split: if_splits)

text \<open>
  The first step is refused, its fallback is delivered in its place, and the trace says so; the
  fallback step is not delivered again in its own turn.
\<close>

abbreviation sample_delivery :: "((nat \<times> call_log) \<times> execution_trace fa_local_result) option" where
  "sample_delivery \<equiv> deliver_plan_per_step_via_registry sample_show_uuid sample_route sample_validated
     (logged_registry sample_adapters) sample_context (0, [])"

lemma sample_delivery_eval:
  "\<exists>t. sample_delivery = Some ((2,
       [(step_request sample_route sample_validated (sample_step ''write''),
         FailedAtDeclaredStep ''write'' ''refused''),
        (step_request sample_route sample_validated (sample_step ''backup''), DeliveredAllSteps)]), Ok t) \<and>
     trace_entries t = [(AdmittedNotStarted, None), (InProgress, Some ''write''),
       (InProgress, Some ''backup''), (CompletedWithConstraints, None)]"
proof -
  let ?run = "deliver_steps sample_show_uuid sample_route sample_validated
      (logged_registry sample_adapters) 1 [sample_step ''write'', sample_step ''backup'']"
  have ok: "\<exists>v. build_in_progress_statuses_from_route sample_route [i] u = Ok v"
    if "i \<in> {''write'', ''backup''}" for i u
    using route_in_progress_total [OF sample_reportable, of "[i]" u] sample_steps_valid that
    by (auto simp: plan_step_ids_def sample_validated_def sample_plan_def sample_step_def)
  obtain p1 where p1: "build_in_progress_statuses_from_route sample_route [''write''] 1 = Ok p1"
    using ok by blast
  obtain p2 where p2: "build_in_progress_statuses_from_route sample_route [''backup''] 1 = Ok p2"
    using ok by blast
  have dispatch: "dispatch_one_step sample_show_uuid sample_route sample_validated
        (logged_registry sample_adapters) (sample_step i) (n, calls) =
      Some ((Suc n, calls @ [(step_request sample_route sample_validated (sample_step i),
          if n = 0 then FailedAtDeclaredStep i ''refused'' else DeliveredAllSteps)]),
        Ok (if n = 0 then step_delivery_outcome.Failed ''refused'' else step_delivery_outcome.Completed))"
    for i n calls
    by (simp add: dispatch_one_step_def sample_resolve sample_step_def and_do_def call_logged
        flaky_adapter_def step_request_def step_outcome_def require_bounded_summary_def pure_do_def)
  have steps: "pl_steps (vp_plan sample_validated) = [sample_step ''write'', sample_step ''backup'']"
    by (simp add: sample_validated_def sample_plan_def)
  have ids [simp]: "step_id (sample_step i) = i" for i
    by (simp add: sample_step_def)
  have fallback: "declared_fallback_step sample_validated ''write'' Map.empty = Some (sample_step ''backup'')"
    by (simp add: declared_fallback_step_def steps) (simp add: sample_validated_def sample_plan_def)
  let ?outcomes = "[(''write'', CompletedViaFallback ''backup''), (''backup'', step_delivery_outcome.Completed)]"
  let ?calls = "[(step_request sample_route sample_validated (sample_step ''write''),
         FailedAtDeclaredStep ''write'' ''refused''),
        (step_request sample_route sample_validated (sample_step ''backup''), DeliveredAllSteps)]"
  obtain a where a: "build_admitted_not_started_status_from_route sample_route 0 = Ok a"
    using route_builders_total(1) [OF sample_reportable] by blast
  have run: "deliver_steps sample_show_uuid sample_route sample_validated (logged_registry sample_adapters)
      1 [sample_step ''write'', sample_step ''backup''] (start_run a) (0, []) = Some ((2, ?calls), Ok
        \<lparr>run_statuses = [a] @ p1 @ p2, run_outcomes = ?outcomes, run_stop_dispatching = False,
         run_fallback_results = Map.empty\<rparr>)"
    by (simp add: deliver_step_def attempt_fallback_def p1 p2 dispatch fallback and_do_def pure_do_def
        fun_upd_idem)
  obtain link where link: "link_of sample_route = Some link" "is_valid_hash (snd link)"
    "admitted_posture (sr_resolved_approval_posture sample_route)"
    using sample_reportable by (rule route_reportable_link)
  obtain f where f: "build_plan_outcome_status_from_route sample_route ?outcomes 1 2 = Some (Ok f)"
    using link by (auto simp: build_plan_outcome_status_from_route_def Let_def fallback_pairs_def
        build_plan_completed_via_fallback_status_from_route_def route_link_Ok [THEN iffD2]
        emit_status_Ok status_wf_defs)
  have valid: "validate_selected_route_for_delivery sample_route = Ok ()"
    by (simp add: validate_selected_route_Ok sample_deliverable)
  have link_fits: "Some (pl_execution_plan_id (vp_plan sample_validated)) = sr_execution_plan_id sample_route"
    "Some (vp_stable_plan_hash sample_validated) = sr_stable_plan_hash sample_route"
    by (simp_all add: sample_route_def routable_plan_selection_def)
  have "sample_delivery = Some ((2, ?calls), Ok \<lparr>tr_statuses = [a] @ p1 @ p2 @ [f]\<rparr>)"
    unfolding deliver_plan_per_step_via_registry_def steps
    by (simp add: valid link_fits a sample_context_def and_do_def run f partial_do_def pure_do_def
        new_execution_trace_def del: deliver_steps.simps)
  then show ?thesis
    using plan_outcome_state [OF f] route_builders_speak(1) [OF a]
      route_in_progress_speak [OF p1] route_in_progress_speak [OF p2]
    by (simp add: trace_entries_def running_def reported_state_def)
qed

section \<open>A file system\<close>

type_synonym sample_world = "string \<rightharpoonup> string"

definition sample_files :: sample_world where
  "sample_files = Map.empty"

definition sample_fs :: "sample_world fs_env" where
  "sample_fs =
     \<lparr>fs_is_dir = (\<lambda>p _. p = ''/data''), fs_is_file = (\<lambda>p w. w p \<noteq> None),
      fs_exists = (\<lambda>p w. w p \<noteq> None), fs_write = (\<lambda>p c w. (w(p \<mapsto> c), Ok ()))\<rparr>"

definition sample_file_config :: local_file_write_adapter_config where
  "sample_file_config = \<lparr>lf_supported_capability_id = 7, lf_delivery_root = ''/data''\<rparr>"

definition sample_nmap_config :: nmap_preflight_adapter_config where
  "sample_nmap_config = \<lparr>nm_supported_capability_id = 7, nm_nmap_binary = ''/usr/bin/nmap'',
     nm_scan_profile = LoopbackTcpConnectV1\<rparr>"

text \<open>The sample route without its fallback, which the file adapter supports.\<close>

definition sample_plain_route :: selected_execution_route where
  "sample_plain_route = sample_route\<lparr>sr_declared_fallback_references := []\<rparr>"

lemma sample_plain_steps: "sr_declared_step_ids sample_plain_route = [''write'', ''backup'']"
  by (simp add: sample_plain_route_def sample_route_def routable_plan_selection_def
      sample_validated_def sample_plan_def sample_step_def)

lemma sample_plain_reportable: "route_reportable sample_plain_route"
  using sample_reportable by (simp add: route_reportable_def deliverable_def sample_plain_route_def)

lemma sample_plain_supported:
  "local_file_validate_request sample_file_config (route_request sample_plain_route) = Ok ()"
  by (simp add: local_file_validate_request_Ok scoped_to_def route_request_def sample_file_config_def
      sample_plain_route_def sample_route_def routable_plan_selection_def sample_decision_def
      requested_capability_def sample_validated_def sample_plan_def)

lemma sample_step_supported:
  "local_file_validate_request sample_file_config
     (step_request sample_route sample_validated (sample_step i)) = Ok ()"
  by (simp add: local_file_validate_request_Ok scoped_to_def step_request_def sample_file_config_def
      sample_route_def routable_plan_selection_def sample_decision_def sample_step_def)

section \<open>A request that is admitted\<close>

definition sample_request :: execution_request where
  "sample_request =
     \<lparr>er_request_id = 1, er_correlation_id = 2, er_requester_id = 4, er_environment_mode = Prod,
      er_requested_capability_id = 7,
      er_requested_side_effect_class = side_effect_class.LocalFileWrite,
      er_intent = ExecuteCapability, er_intent_summary = ''write a file'', er_requested_at = 1\<rparr>"

definition sample_envelope :: requester_trust_envelope where
  "sample_envelope =
     \<lparr>rt_requester_id = 4, rt_requester_class = TrustedAppSurface,
      rt_app_context = \<lparr>ac_app_id = ''app'', ac_app_version = ''1'', ac_installation_id = 5\<rparr>,
      rt_environment_mode = Prod, rt_trust_basis = SignedLocalSurface,
      rt_trust_basis_provenance = SignedManifest, rt_user_intent_basis = Some ExplicitUserAction,
      rt_request_nonce_or_token = ''0123456789abcdef'', rt_issued_at = 0, rt_expires_at = 10\<rparr>"

definition sample_policy :: policy_artifact where
  "sample_policy =
     \<lparr>pa_policy_id = 6, pa_policy_version = ''1'',
      pa_scope = \<lparr>ps_service_id = SERVICE_ID, ps_environment_modes = [Prod]\<rparr>,
      pa_capability_rules = [\<lparr>cr_capability_id = 7, cr_allowed = True,
        cr_allowed_requester_classes = [TrustedAppSurface],
        cr_allowed_side_effect_classes = [side_effect_class.LocalFileWrite],
        cr_required_approval_posture = ExecuteAllowed\<rparr>],
      pa_side_effect_rules =
        [\<lparr>se_side_effect_class = side_effect_class.LocalFileWrite, se_allowed = True\<rparr>],
      pa_approval_rules =
        [\<lparr>ar_requester_class = TrustedAppSurface, ar_max_posture = ExecuteAllowed\<rparr>],
      pa_environment_conditions = [Prod],
      pa_dependency_readiness_conditions = [AllDependenciesReady], pa_failure_behavior = Deny,
      pa_policy_provenance = \<lparr>pp_source_kind = LocalGovernedFile, pp_issued_at = 0\<rparr>\<rparr>"

definition sample_contracts :: contract_env where
  "sample_contracts =
     \<lparr>ce_manifest_dir = ''.'', ce_read_to_string = (\<lambda>_. Ok ''{}''), ce_from_str = (\<lambda>_. Ok JNull), ce_from_slice = (\<lambda>_. Ok JNull),
      ce_build_validator = (\<lambda>_. Ok (\<lambda>_. [])), ce_debug_list = (\<lambda>_. ''[]'')\<rparr>"

definition sample_decoders :: decoders where
  "sample_decoders =
     \<lparr>dc_capability_registry = (\<lambda>_. Ok sample_registry), dc_execution_request = (\<lambda>_. Ok sample_request),
      dc_requester_trust = (\<lambda>_. Ok sample_envelope), dc_policy_artifact = (\<lambda>_. Ok sample_policy)\<rparr>"

definition sample_json :: json where
  "sample_json = JObject [(''trust_basis'', JString ''signed_local_surface'')]"

definition sample_resolution :: route_resolution_context where
  "sample_resolution =
     \<lparr>rc_route_decision_id = 9, rc_decided_at_utc = 5, rc_degraded_subtype = None\<rparr>"

definition sample_resolution_input :: route_resolution_input where
  "sample_resolution_input =
     \<lparr>ri_request = sample_request, ri_requester_trust_outcome = Ok sample_envelope,
      ri_policy_outcome = Ok sample_policy, ri_capability_admission_outcome = Ok sample_capability\<rparr>"

lemmas sample_input_defs = sample_request_def sample_envelope_def sample_policy_def sample_capability_def

lemma sample_rules:
  "capability_rule_for sample_policy (cap_capability_id sample_capability) =
     Some (hd (pa_capability_rules sample_policy))"
  "capability_rule_for sample_policy 7 = Some (hd (pa_capability_rules sample_policy))"
  "approval_rule_for sample_policy (rt_requester_class sample_envelope) =
     Some (hd (pa_approval_rules sample_policy))"
  "side_effect_rule_for sample_policy (er_requested_side_effect_class sample_request) =
     Some (hd (pa_side_effect_rules sample_policy))"
  by (simp_all add: sample_input_defs capability_rule_for_def approval_rule_for_def side_effect_rule_for_def)

lemma sample_consistent: "consistent sample_request sample_envelope sample_policy sample_capability"
  by (simp add: consistent_def sample_rules) (simp add: sample_input_defs)

lemma sample_spec_posture: "spec_posture sample_resolution_input = PolicyPreapproved"
  by (simp add: spec_posture_def sample_resolution_input_def sample_consistent sample_rules)
    (simp add: greatest_permitted_eq posture_factors_def sample_input_defs min_def less_eq_approval_posture_def)

lemma sample_admissible:
  "admissible sample_registry sample_policy sample_envelope sample_request sample_capability"
  by (simp add: admissible_def sample_rules sample_request_def)
    (simp add: sample_envelope_def sample_policy_def sample_capability_def)

lemma sample_trusted: "trusted_at sample_envelope Prod 5"
  by (simp add: trusted_at_def sample_envelope_def is_valid_nonce_or_token_def ascii_defs)

lemma sample_loads:
  "deserialize_contract_value sample_contracts decode name v = Ok x \<longleftrightarrow> decode v = Ok x"
  by (simp add: deserialize_Ok validate_contract_value_Ok sample_contracts_def)

lemma sample_resolve_for:
  assumes "is_ascii (show_uuid 7)"
  shows "\<exists>d. resolve show_uuid sample_resolution_input sample_resolution = Some d"
  using resolve_total [of sample_resolution_input show_uuid sample_resolution] assms
  by (auto simp: sample_resolution_input_def handed_texts_def sample_request_def)

lemma sample_show_ascii: "is_ascii (sample_show_uuid 7)"
  by (simp add: sample_show_uuid_def show_nat.simps [of 7] digit_char_def byte_def)

lemmas sample_resolve_eval = sample_resolve_for [where show_uuid = sample_show_uuid, OF sample_show_ascii]

lemma sample_decision_for:
  assumes "is_ascii (show_uuid 7)"
  shows "\<exists>d. resolve_route_decision sample_contracts sample_decoders show_uuid 0 sample_json
      sample_json sample_json sample_json sample_resolution = Some (Ok d) \<and>
    rd_resolved_approval_posture d = PolicyPreapproved"
proof -
  have registry: "load_registry sample_contracts (dc_capability_registry sample_decoders) v = Ok sample_registry"
    and request: "validate_request sample_contracts (dc_execution_request sample_decoders) v =
      Ok \<lparr>iv_request = sample_request\<rparr>" for v
    by (simp_all add: load_registry_def validate_request_Ok load_execution_request_def sample_loads
        sample_decoders_def)
  have trust: "load_and_evaluate sample_contracts (dc_requester_trust sample_decoders) 0 sample_json
      \<lparr>tc_expected_environment = er_environment_mode sample_request,
       tc_now = rc_decided_at_utc sample_resolution\<rparr> = Ok sample_envelope"
    using sample_trusted by (simp add: load_and_evaluate_Ok load_envelope_def sample_loads sample_json_def
        sample_decoders_def sample_request_def sample_resolution_def)
  have policy: "load_required_value sample_contracts (dc_policy_artifact sample_decoders) 0 (Some v) =
      Ok sample_policy" for v
    by (simp add: load_required_value_Ok load_policy_def sample_loads sample_decoders_def)
  have admitted: "admit_execution_request 0 sample_registry sample_policy sample_envelope sample_request =
      Ok sample_capability"
    by (simp add: admit_execution_request_Ok sample_admissible)
  obtain d where d: "resolve show_uuid sample_resolution_input sample_resolution = Some d"
    using sample_resolve_for [where show_uuid = show_uuid, OF assms] by blast
  then have "resolve_route_decision sample_contracts sample_decoders show_uuid 0 sample_json
      sample_json sample_json sample_json sample_resolution = Some (Ok d)"
    by (simp add: resolve_route_decision_def registry request trust policy admitted
        flip: sample_resolution_input_def)
  then show ?thesis using resolve_Some [OF d] sample_spec_posture by auto
qed

lemmas sample_decision_eval = sample_decision_for [where show_uuid = sample_show_uuid, OF sample_show_ascii]

section \<open>Routing and coordination of the sample\<close>

lemma sample_coherent: "coherent sample_decision"
  by (simp add: coherent_def sample_decision_def)

lemma sample_routing_input:
  "\<exists>input. new_routing_input sample_decision (Some sample_validated) = Ok input"
  using sample_coherent by (simp add: new_routing_input_Ok)
    (simp add: routable_posture_def plan_answers_def requested_capability_def sample_decision_def
      sample_validated_def sample_plan_def)

lemma sample_plan_reportable: "plan_reportable sample_validated"
  using sample_hash_valid sample_steps_valid by (simp add: plan_reportable_def sample_validated_def)

lemma sample_coordination:
  "\<exists>input t. new_coordination_input sample_decision (Some sample_validated) (CancelInFlight ''write'')
      sample_context = Ok input \<and> coordinate input = Some (Ok t)"
proof -
  have adm: "admitted_posture (rd_resolved_approval_posture sample_decision)"
    by (simp add: sample_decision_def)
  have "check_coordination_plan sample_decision (Some sample_validated) (CancelInFlight ''write'') = Ok ()"
    by (simp add: check_coordination_plan_def validate_coordination_plan_def sample_decision_def
        sample_validated_def sample_plan_def)
  then obtain input where input: "new_coordination_input sample_decision (Some sample_validated)
      (CancelInFlight ''write'') sample_context = Ok input"
    using check_decision_surface_Ok [of _ sample_decision "()"] sample_coherent
    by (simp add: new_coordination_input_def validate_coordination_surface_def)
  have "directive_feasible (plan_step_ids sample_validated) (CancelInFlight ''write'')"
    by (simp add: plan_step_ids_def sample_validated_def sample_plan_def sample_step_def)
  then obtain t where "coordinate_admitted_route sample_decision sample_validated
      (CancelInFlight ''write'') sample_context = Ok t"
    using coordinate_admitted_total [OF adm sample_plan_reportable, of sample_context
        "CancelInFlight ''write''"]
    by (auto simp: sample_context_def)
  with coordinate_admitted [OF input adm] input show ?thesis by auto
qed

end
