(* ===== verification/Review.thy ===== *)
theory Review
  imports Coordination
begin

text \<open>
  Review packages: the bounded handoff of \<open>src/domain/review/mod.rs\<close> with its validation, and the
  emission of packages from decisions, plans and statuses in \<open>src/app/review_service.rs\<close>. A package
  never resolves anything: it restates a decision that waits for a person.
\<close>

section \<open>Packages\<close>

datatype approval_option = ApproveExecute | DeclineRequest | DeferWithoutExecution

record review_execution_status_context =
  rx_state :: execution_state
  rx_degraded_subtype :: "degraded_subtype option"
  rx_updated_at_utc :: timestamp
  rx_truthful_user_visible_summary :: string

record review_package =
  rp_review_package_id :: review_package_id
  rp_originating_request_id :: request_id
  rp_correlation_id :: correlation_id
  rp_route_decision_id :: route_decision_id
  rp_execution_plan_id :: "execution_plan_id option"
  rp_stable_plan_hash :: "string option"
  rp_current_posture :: approval_posture
  rp_execution_status_context :: "review_execution_status_context option"
  rp_intent_basis :: user_intent_basis
  rp_requester_summary :: string
  rp_proposed_execution_summary :: string
  rp_side_effect_assessment :: string
  rp_degraded_or_fallback_posture :: "degraded_subtype option"
  rp_approval_options_allowed_by_policy :: "approval_option list"
  rp_denial_consequences_if_declined :: string
  rp_packaged_at_utc :: timestamp

record validated_review_package =
  vr_package :: review_package

definition load_review_package ::
  "contract_env \<Rightarrow> (json \<Rightarrow> (review_package, string) result) \<Rightarrow> json \<Rightarrow> review_package fa_local_result" where
  "load_review_package env decode v = deserialize_contract_value env decode ReviewPackage v"

section \<open>The checks of the validation\<close>

definition review_required_summary :: "string \<Rightarrow> string \<Rightarrow> unit fa_local_result" where
  "review_required_summary summary field_name =
     fail_if (summary = [] \<or> length summary > 160) (contract_invalid
       (''review package '' @ field_name @ '' must be between 1 and 160 characters''))"

fun review_optional_plan_link :: "execution_plan_id option \<Rightarrow> string option \<Rightarrow> unit fa_local_result" where
  "review_optional_plan_link (Some _) (Some _) = Ok ()"
| "review_optional_plan_link None None = Ok ()"
| "review_optional_plan_link _ _ = Err (contract_invalid
     ''review package must carry execution_plan_id and stable_plan_hash together'')"

fun review_require_plan_link ::
  "execution_plan_id option \<Rightarrow> string option \<Rightarrow> string \<Rightarrow> unit fa_local_result" where
  "review_require_plan_link (Some _) (Some _) error_message = Ok ()"
| "review_require_plan_link _ _ error_message = Err (contract_invalid error_message)"

fun review_require_no_plan_link ::
  "execution_plan_id option \<Rightarrow> string option \<Rightarrow> string \<Rightarrow> unit fa_local_result" where
  "review_require_no_plan_link None None error_message = Ok ()"
| "review_require_no_plan_link _ _ error_message = Err (contract_invalid error_message)"

definition mentions_degraded_or_fallback :: "string \<Rightarrow> bool" where
  "mentions_degraded_or_fallback v \<longleftrightarrow>
     (let lower = to_ascii_lowercase v in
      str_contains lower ''fallback'' \<or> str_contains lower ''degraded'')"

text \<open>\<open>if !unique_options.insert(*option)\<close> over the options, the set being what was inserted so far.\<close>

fun check_unique_options :: "approval_option set \<Rightarrow> approval_option list \<Rightarrow> unit fa_local_result" where
  "check_unique_options unique [] = Ok ()"
| "check_unique_options unique (option # options) =
     (if option \<in> unique
      then Err (contract_invalid ''review package approval options must be unique'')
      else check_unique_options (insert option unique) options)"

definition validate_status_context :: "review_execution_status_context \<Rightarrow> unit fa_local_result" where
  "validate_status_context ctx = checks
     [review_required_summary (rx_truthful_user_visible_summary ctx)
        ''execution_status_context.truthful_user_visible_summary'',
      fail_if (rx_state ctx \<notin> {execution_state.ReviewRequired, WaitingExplicitApproval})
        (contract_invalid (''review package execution_status_context must remain '' @
           ''review_required or waiting_explicit_approval'')),
      fail_if (rx_degraded_subtype ctx \<noteq> None) (contract_invalid
        (''review package execution_status_context must not imply degraded execution progress''))]"

definition new_status_context ::
  "execution_state \<Rightarrow> degraded_subtype option \<Rightarrow> timestamp \<Rightarrow> string \<Rightarrow>
   review_execution_status_context fa_local_result" where
  "new_status_context state subtype updated summary =
     (let ctx = \<lparr>rx_state = state, rx_degraded_subtype = subtype, rx_updated_at_utc = updated,
            rx_truthful_user_visible_summary = summary\<rparr> in
      and_then (validate_status_context ctx) (\<lambda>_. Ok ctx))"

text \<open>
  The \<open>match\<close> on the posture at the end of the validation. Its last arm is \<open>unreachable!\<close>: the first
  check of the validation has returned for every other posture.
\<close>

definition validate_package_posture :: "review_package \<Rightarrow> unit fa_local_result" where
  "validate_package_posture p =
     (case rp_current_posture p of
        approval_posture.ReviewRequired \<Rightarrow> checks
          [review_require_no_plan_link (rp_execution_plan_id p) (rp_stable_plan_hash p)
             ''review_required review package must not include execution_plan_id or stable_plan_hash'',
           (case rp_execution_status_context p of
              None \<Rightarrow> Ok ()
            | Some ctx \<Rightarrow> fail_if (rx_state ctx \<noteq> execution_state.ReviewRequired) (contract_invalid
                (''review package execution_status_context must remain review_required '' @
                 ''for review_required posture'')))]
      | ExplicitOperatorApproval \<Rightarrow> checks
          [review_require_plan_link (rp_execution_plan_id p) (rp_stable_plan_hash p)
             ''explicit approval review package must include execution_plan_id and stable_plan_hash'',
           (case rp_execution_status_context p of
              None \<Rightarrow> Ok ()
            | Some ctx \<Rightarrow> fail_if (rx_state ctx \<noteq> WaitingExplicitApproval) (contract_invalid
                (''review package execution_status_context must remain waiting_explicit_approval '' @
                 ''for explicit_operator_approval posture'')))]
      | _ \<Rightarrow> Err (InternalInvariant ''non-review postures rejected above''))"

definition validate_package :: "review_package \<Rightarrow> unit fa_local_result" where
  "validate_package p = checks
     [fail_if (rp_current_posture p \<notin> {approval_posture.ReviewRequired, ExplicitOperatorApproval})
        (contract_invalid
          ''review package must preserve review_required or explicit_operator_approval posture''),
      review_optional_plan_link (rp_execution_plan_id p) (rp_stable_plan_hash p),
      (case rp_stable_plan_hash p of
         None \<Rightarrow> Ok ()
       | Some hash \<Rightarrow> fail_if (\<not> is_valid_hash hash) (contract_invalid
           ''review package stable_plan_hash must be a 64-character lowercase hex digest'')),
      review_required_summary (rp_requester_summary p) ''requester_summary'',
      review_required_summary (rp_proposed_execution_summary p) ''proposed_execution_summary'',
      review_required_summary (rp_side_effect_assessment p) ''side_effect_assessment'',
      review_required_summary (rp_denial_consequences_if_declined p)
        ''denial_consequences_if_declined'',
      fail_if (rp_approval_options_allowed_by_policy p = []) (contract_invalid
        ''review package must include at least one approval option''),
      check_unique_options {} (rp_approval_options_allowed_by_policy p),
      fail_if (ApproveExecute \<notin> set (rp_approval_options_allowed_by_policy p)) (contract_invalid
        ''review package must include approve_execute as an allowed approval option''),
      fail_if (DeclineRequest \<notin> set (rp_approval_options_allowed_by_policy p)) (contract_invalid
        ''review package must include decline_request as an allowed approval option''),
      fail_if ((mentions_degraded_or_fallback (rp_proposed_execution_summary p) \<or>
                mentions_degraded_or_fallback (rp_side_effect_assessment p)) \<and>
               rp_degraded_or_fallback_posture p = None) (contract_invalid
        (''review package cannot narrate degraded or fallback posture '' @
         ''without explicit degraded_or_fallback_posture'')),
      (case rp_execution_status_context p of None \<Rightarrow> Ok () | Some ctx \<Rightarrow> validate_status_context ctx),
      validate_package_posture p]"

text \<open>\<open>ReviewPackage::new\<close>, \<open>validated\<close> and \<open>ValidatedReviewPackage::new\<close>.\<close>

definition new_review_package :: "review_package \<Rightarrow> review_package fa_local_result" where
  "new_review_package package = and_then (validate_package package) (\<lambda>_. Ok package)"

definition validated_package :: "review_package \<Rightarrow> validated_review_package fa_local_result" where
  "validated_package package = and_then (validate_package package) (\<lambda>_. Ok \<lparr>vr_package = package\<rparr>)"

definition new_validated_package :: "review_package \<Rightarrow> validated_review_package fa_local_result" where
  "new_validated_package package = validated_package package"

section \<open>What a valid package is\<close>

definition options_offered :: "approval_option list \<Rightarrow> bool" where
  "options_offered options \<longleftrightarrow> distinct options \<and> {ApproveExecute, DeclineRequest} \<subseteq> set options"

text \<open>The state a status context may report under a posture.\<close>

definition awaited_state :: "approval_posture \<Rightarrow> execution_state" where
  "awaited_state p =
     (if p = ExplicitOperatorApproval then WaitingExplicitApproval else execution_state.ReviewRequired)"

definition context_wf :: "approval_posture \<Rightarrow> review_execution_status_context \<Rightarrow> bool" where
  "context_wf p ctx \<longleftrightarrow> rx_state ctx = awaited_state p \<and> rx_degraded_subtype ctx = None \<and>
     bounded_text (rx_truthful_user_visible_summary ctx)"

definition narration_honest :: "string \<Rightarrow> string \<Rightarrow> degraded_subtype option \<Rightarrow> bool" where
  "narration_honest proposed assessment subtype \<longleftrightarrow>
     (mentions_degraded_or_fallback proposed \<or> mentions_degraded_or_fallback assessment \<longrightarrow>
        subtype \<noteq> None)"

definition package_wf :: "review_package \<Rightarrow> bool" where
  "package_wf p \<longleftrightarrow>
     (rp_current_posture p = approval_posture.ReviewRequired \<and>
        rp_execution_plan_id p = None \<and> rp_stable_plan_hash p = None \<or>
      rp_current_posture p = ExplicitOperatorApproval \<and>
        rp_execution_plan_id p \<noteq> None \<and> (\<exists>hash. rp_stable_plan_hash p = Some hash \<and> is_valid_hash hash)) \<and>
     bounded_text (rp_requester_summary p) \<and> bounded_text (rp_proposed_execution_summary p) \<and>
     bounded_text (rp_side_effect_assessment p) \<and> bounded_text (rp_denial_consequences_if_declined p) \<and>
     options_offered (rp_approval_options_allowed_by_policy p) \<and>
     narration_honest (rp_proposed_execution_summary p) (rp_side_effect_assessment p)
       (rp_degraded_or_fallback_posture p) \<and>
     pred_option (context_wf (rp_current_posture p)) (rp_execution_status_context p)"

lemma review_checks_Ok [result_simps]:
  "review_required_summary s n = Ok u \<longleftrightarrow> bounded_text s"
  "review_optional_plan_link p h = Ok u \<longleftrightarrow> (p = None \<longleftrightarrow> h = None)"
  "review_require_plan_link p h m = Ok u \<longleftrightarrow> p \<noteq> None \<and> h \<noteq> None"
  "review_require_no_plan_link p h m = Ok u \<longleftrightarrow> p = None \<and> h = None"
  by (cases p; cases h; auto simp: review_required_summary_def result_simps not_less)+

lemma check_unique_options_Ok [result_simps]:
  "check_unique_options unique options = Ok u \<longleftrightarrow> distinct options \<and> set options \<inter> unique = {}"
  by (induction options arbitrary: unique) auto

lemma validate_status_context_Ok [result_simps]:
  "validate_status_context ctx = Ok u \<longleftrightarrow>
     rx_state ctx \<in> {execution_state.ReviewRequired, WaitingExplicitApproval} \<and>
     rx_degraded_subtype ctx = None \<and> bounded_text (rx_truthful_user_visible_summary ctx)"
  by (auto simp: validate_status_context_def result_simps)

lemma validate_package_posture_Ok:
  "validate_package_posture p = Ok () \<longleftrightarrow>
     (rp_current_posture p = approval_posture.ReviewRequired \<and>
        rp_execution_plan_id p = None \<and> rp_stable_plan_hash p = None \<or>
      rp_current_posture p = ExplicitOperatorApproval \<and>
        rp_execution_plan_id p \<noteq> None \<and> rp_stable_plan_hash p \<noteq> None) \<and>
     pred_option (\<lambda>ctx. rx_state ctx = awaited_state (rp_current_posture p)) (rp_execution_status_context p)"
  by (cases "rp_current_posture p"; cases "rp_execution_status_context p")
    (auto simp: validate_package_posture_def awaited_state_def result_simps)

lemma validate_package_Ok: "validate_package p = Ok () \<longleftrightarrow> package_wf p"
proof (cases "rp_execution_status_context p")
  case None
  then show ?thesis
    by (cases "rp_stable_plan_hash p")
      (auto simp: validate_package_def package_wf_def options_offered_def narration_honest_def
        validate_package_posture_Ok result_simps)
next
  case (Some ctx)
  then show ?thesis
    by (cases "rp_stable_plan_hash p")
      (auto simp: validate_package_def package_wf_def options_offered_def narration_honest_def
        context_wf_def awaited_state_def validate_package_posture_Ok result_simps)
qed

text \<open>The \<open>unreachable!\<close> arm is not reached: every error of the validation is a contract error.\<close>

definition only_contract_errors :: "unit fa_local_result \<Rightarrow> bool" where
  "only_contract_errors r \<longleftrightarrow> (\<forall>e. r = Err e \<longrightarrow> (\<exists>m. e = contract_invalid m))"

lemma only_contract_errors_simps [simp]:
  "only_contract_errors (Ok u)" "only_contract_errors (Err (contract_invalid m))"
  "only_contract_errors (fail_if b (contract_invalid m))"
  by (auto simp: only_contract_errors_def fail_if_def)

lemma only_contract_errors_checks:
  "list_all only_contract_errors cs \<Longrightarrow> only_contract_errors (checks cs)"
  by (auto simp: only_contract_errors_def list_all_iff dest: checks_Err_in)

lemma review_checks_only_contract [simp]:
  "only_contract_errors (review_required_summary s n)"
  "only_contract_errors (review_optional_plan_link p h)"
  "only_contract_errors (review_require_plan_link p h m)"
  "only_contract_errors (review_require_no_plan_link p h m)"
  "only_contract_errors (check_unique_options unique options)"
  "only_contract_errors (validate_status_context ctx)"
proof -
  show "only_contract_errors (check_unique_options unique options)"
    by (induction options arbitrary: unique) auto
  show "only_contract_errors (validate_status_context ctx)"
    unfolding validate_status_context_def
    by (rule only_contract_errors_checks) (simp add: review_required_summary_def)
qed (cases p; cases h; simp add: review_required_summary_def)+

lemma validate_package_reachable: "only_contract_errors (validate_package p)"
proof (cases "rp_current_posture p \<in> {approval_posture.ReviewRequired, ExplicitOperatorApproval}")
  case False
  then show ?thesis by (simp add: validate_package_def)
next
  case True
  then have "only_contract_errors (validate_package_posture p)"
    by (auto simp: validate_package_posture_def simp del: checks.simps
        intro!: only_contract_errors_checks split: option.split)
  then show ?thesis
    unfolding validate_package_def
    by (intro only_contract_errors_checks) (simp split: option.split)
qed

interpretation package_wrapper: validated_type validate_package
    "\<lambda>p. \<lparr>vr_package = p\<rparr>" vr_package new_review_package new_validated_package
  by unfold_locales
    (simp_all add: new_review_package_def new_validated_package_def validated_package_def)

lemma build_package_Ok:
  "and_then (new_review_package p) new_validated_package = Ok v \<longleftrightarrow>
     package_wf p \<and> v = \<lparr>vr_package = p\<rparr>"
  by (auto simp: package_wrapper.build_twice package_wrapper.wrap_new_Ok validate_package_Ok)


section \<open>Emission\<close>

record review_emission_context =
  ec_packaged_at_utc :: timestamp

definition new_emission_context :: "timestamp \<Rightarrow> review_emission_context" where
  "new_emission_context packaged_at = \<lparr>ec_packaged_at_utc = packaged_at\<rparr>"

record review_emission_input =
  re_route_decision :: route_decision
  re_validated_plan :: "validated_execution_plan option"
  re_execution_status :: "validated_execution_status option"
  re_intent_basis :: user_intent_basis
  re_requester_summary :: string
  re_proposed_execution_summary :: string
  re_side_effect_assessment :: string
  re_approval_options_allowed_by_policy :: "approval_option list"
  re_denial_consequences_if_declined :: string
  re_context :: review_emission_context

datatype review_non_emission_reason = NonReviewPath

datatype review_emission_outcome =
  Emitted validated_review_package
| NotEmitted review_non_emission_reason

definition validate_review_surface :: "route_decision \<Rightarrow> unit fa_local_result" where
  "validate_review_surface d = check_decision_surface ''review-package emission expectations'' d"

definition validate_review_plan :: "route_decision \<Rightarrow> validated_execution_plan \<Rightarrow> unit fa_local_result"
where
  "validate_review_plan d plan = checks
     [fail_if (pl_correlation_id (vp_plan plan) \<noteq> rd_correlation_id d) (contract_invalid
        ''review-package emission plan correlation_id does not match route decision''),
      fail_if (pl_originating_request_id (vp_plan plan) \<noteq> rd_request_id d) (contract_invalid
        ''review-package emission plan request_id does not match route decision''),
      fail_if (requested_capability d \<notin> set (pl_referenced_capabilities (vp_plan plan)))
        (contract_invalid
          ''review-package emission plan does not include route decision requested capability'')]"

definition review_status_context_from_status ::
  "validated_execution_status \<Rightarrow> review_execution_status_context fa_local_result" where
  "review_status_context_from_status v =
     (let s = vs_status v in
      and_then (validate_status s) (\<lambda>_. new_status_context (st_state s) (st_degraded_subtype s)
        (st_updated_at_utc s) (st_truthful_user_visible_summary s)))"

definition validate_status_matches_review_route ::
  "route_decision \<Rightarrow> validated_execution_status \<Rightarrow> unit fa_local_result" where
  "validate_status_matches_review_route d v =
     (let s = vs_status v in
      and_then (checks
        [validate_status s,
         fail_if (st_request_id s \<noteq> rd_request_id d) (contract_invalid
           ''review-package emission status request_id does not match route decision''),
         fail_if (st_correlation_id s \<noteq> rd_correlation_id d) (contract_invalid
           ''review-package emission status correlation_id does not match route decision''),
         fail_if (st_current_posture s \<noteq> rd_resolved_approval_posture d) (contract_invalid
           ''review-package emission status posture does not match route decision'')]) (\<lambda>_.
      and_then (review_status_context_from_status v) (\<lambda>ctx.
      case rd_resolved_approval_posture d of
        approval_posture.ReviewRequired \<Rightarrow> checks
          [fail_if (st_current_posture s \<noteq> approval_posture.ReviewRequired) (contract_invalid
             ''review-package emission status must remain review_required''),
           fail_if (rx_state ctx \<noteq> execution_state.ReviewRequired) (contract_invalid
             ''review-package emission status state does not match review_required posture'')]
      | ExplicitOperatorApproval \<Rightarrow> checks
          [fail_if (st_current_posture s \<noteq> ExplicitOperatorApproval) (contract_invalid
             ''review-package emission status must remain explicit_operator_approval''),
           fail_if (rx_state ctx \<noteq> WaitingExplicitApproval) (contract_invalid
             ''review-package emission status state does not match explicit_operator_approval posture'')]
      | _ \<Rightarrow> Err (contract_invalid
          ''review-package emission status is only allowed for review postures''))))"

text \<open>The \<open>if let Some(execution_status)\<close> statement of the constructor.\<close>

definition check_review_status ::
  "route_decision \<Rightarrow> validated_execution_status option \<Rightarrow> unit fa_local_result" where
  "check_review_status d status =
     (case status of None \<Rightarrow> Ok () | Some v \<Rightarrow> validate_status_matches_review_route d v)"

definition check_emission_input ::
  "route_decision \<Rightarrow> validated_execution_plan option \<Rightarrow> validated_execution_status option \<Rightarrow>
   unit fa_local_result" where
  "check_emission_input d plan status =
     (case rd_resolved_approval_posture d of
        approval_posture.Denied \<Rightarrow> checks
          [fail_if (plan \<noteq> None) (contract_invalid
             ''non-executable review-package emission path must not include validated execution plan''),
           fail_if (status \<noteq> None) (contract_invalid
             ''non-executable review-package emission path must not include execution status context'')]
      | approval_posture.ReviewRequired \<Rightarrow> checks
          [fail_if (plan \<noteq> None) (contract_invalid
             ''review_required review-package emission path must not include validated execution plan''),
           check_review_status d status]
      | ExplicitOperatorApproval \<Rightarrow>
          and_then (ok_or plan (contract_invalid
            ''explicit approval review-package emission requires validated execution plan''))
            (\<lambda>plan. checks [validate_review_plan d plan, check_review_status d status])
      | _ \<Rightarrow> checks
          [(case plan of None \<Rightarrow> Ok () | Some plan \<Rightarrow> validate_review_plan d plan),
           fail_if (status \<noteq> None) (contract_invalid
             ''non-review review-package emission path must not include execution status context'')])"

definition new_review_emission_input ::
  "review_emission_input \<Rightarrow> review_emission_input fa_local_result" where
  "new_review_emission_input input = and_then (checks
     [validate_review_surface (re_route_decision input),
      check_emission_input (re_route_decision input) (re_validated_plan input)
        (re_execution_status input)])
     (\<lambda>_. Ok input)"

text \<open>
  The construction that both emitting arms share, with the plan link each passes; \<open>fresh\<close> is the
  identifier that \<open>ReviewPackageId::new\<close> draws. The \<open>map(...).transpose()?\<close> is \<open>try_option\<close>.
\<close>

definition try_option :: "('a \<Rightarrow> ('b, 'e) result) \<Rightarrow> 'a option \<Rightarrow> ('b option, 'e) result" where
  "try_option f v = (case v of None \<Rightarrow> Ok None | Some x \<Rightarrow> and_then (f x) (\<lambda>y. Ok (Some y)))"

definition package_for ::
  "review_package_id \<Rightarrow> review_emission_input \<Rightarrow> execution_plan_id option \<Rightarrow> string option \<Rightarrow>
   review_execution_status_context option \<Rightarrow> review_package" where
  "package_for fresh input plan_id hash ctx =
     \<lparr>rp_review_package_id = fresh,
      rp_originating_request_id = rd_request_id (re_route_decision input),
      rp_correlation_id = rd_correlation_id (re_route_decision input),
      rp_route_decision_id = rd_route_decision_id (re_route_decision input),
      rp_execution_plan_id = plan_id,
      rp_stable_plan_hash = hash,
      rp_current_posture = rd_resolved_approval_posture (re_route_decision input),
      rp_execution_status_context = ctx,
      rp_intent_basis = re_intent_basis input,
      rp_requester_summary = re_requester_summary input,
      rp_proposed_execution_summary = re_proposed_execution_summary input,
      rp_side_effect_assessment = re_side_effect_assessment input,
      rp_degraded_or_fallback_posture = rd_degraded_subtype (re_route_decision input),
      rp_approval_options_allowed_by_policy = re_approval_options_allowed_by_policy input,
      rp_denial_consequences_if_declined = re_denial_consequences_if_declined input,
      rp_packaged_at_utc = ec_packaged_at_utc (re_context input)\<rparr>"

definition emit_package ::
  "review_package_id \<Rightarrow> review_emission_input \<Rightarrow> execution_plan_id option \<Rightarrow> string option \<Rightarrow>
   review_emission_outcome fa_local_result" where
  "emit_package fresh input plan_id hash =
     and_then (try_option review_status_context_from_status (re_execution_status input)) (\<lambda>ctx.
     and_then (new_review_package (package_for fresh input plan_id hash ctx)) (\<lambda>package.
     and_then (new_validated_package package) (\<lambda>validated. Ok (Emitted validated))))"

definition emit_review_package ::
  "review_package_id \<Rightarrow> review_emission_input \<Rightarrow> review_emission_outcome fa_local_result" where
  "emit_review_package fresh input =
     (case rd_resolved_approval_posture (re_route_decision input) of
        approval_posture.ReviewRequired \<Rightarrow> emit_package fresh input None None
      | ExplicitOperatorApproval \<Rightarrow>
          and_then (ok_or (re_validated_plan input) (contract_invalid
            ''explicit approval review-package emission requires validated execution plan''))
            (\<lambda>plan. emit_package fresh input (Some (pl_execution_plan_id (vp_plan plan)))
              (Some (vp_stable_plan_hash plan)))
      | _ \<Rightarrow> Ok (NotEmitted NonReviewPath))"

section \<open>What is emitted\<close>

text \<open>
  The inputs that the constructor accepts: a coherent decision; a plan that answers it where a plan
  is wanted, and none where none is; a status that reports the same waiting request.
\<close>

definition review_posture :: "approval_posture \<Rightarrow> bool" where
  "review_posture p \<longleftrightarrow> p \<in> {approval_posture.ReviewRequired, ExplicitOperatorApproval}"

definition status_awaits :: "route_decision \<Rightarrow> validated_execution_status \<Rightarrow> bool" where
  "status_awaits d v \<longleftrightarrow> status_wf (vs_status v) \<and>
     st_request_id (vs_status v) = rd_request_id d \<and>
     st_correlation_id (vs_status v) = rd_correlation_id d \<and>
     review_posture (rd_resolved_approval_posture d) \<and>
     st_state (vs_status v) = awaited_state (rd_resolved_approval_posture d)"

definition emission_acceptable :: "review_emission_input \<Rightarrow> bool" where
  "emission_acceptable input \<longleftrightarrow>
     (let d = re_route_decision input; plan = re_validated_plan input in
      coherent d \<and> pred_option (plan_answers d) plan \<and>
      (rd_resolved_approval_posture d \<in> {approval_posture.Denied, approval_posture.ReviewRequired} \<longrightarrow>
         plan = None) \<and>
      (rd_resolved_approval_posture d = ExplicitOperatorApproval \<longrightarrow> plan \<noteq> None) \<and>
      pred_option (status_awaits d) (re_execution_status input))"

lemma validate_review_plan_Ok [result_simps]:
  "validate_review_plan d plan = Ok u \<longleftrightarrow> plan_answers d plan"
  by (auto simp: validate_review_plan_def plan_answers_def result_simps)

lemma new_status_context_Ok [result_simps]:
  "new_status_context state subtype updated summary = Ok ctx \<longleftrightarrow>
     state \<in> {execution_state.ReviewRequired, WaitingExplicitApproval} \<and> subtype = None \<and>
     bounded_text summary \<and> ctx = \<lparr>rx_state = state, rx_degraded_subtype = subtype,
       rx_updated_at_utc = updated, rx_truthful_user_visible_summary = summary\<rparr>"
  by (auto simp: new_status_context_def Let_def result_simps)

text \<open>A well-formed waiting status has a context, and its posture is the one it waits under.\<close>

lemma waiting_status_fields:
  assumes "status_wf s" and "st_state s \<in> {execution_state.ReviewRequired, WaitingExplicitApproval}"
  shows "st_degraded_subtype s = None" "bounded_text (st_truthful_user_visible_summary s)"
    "review_posture (st_current_posture s)" "st_state s = awaited_state (st_current_posture s)"
  using assms by (auto simp: status_wf_defs review_posture_def awaited_state_def)

definition context_of :: "validated_execution_status \<Rightarrow> review_execution_status_context" where
  "context_of v = \<lparr>rx_state = st_state (vs_status v), rx_degraded_subtype = None,
     rx_updated_at_utc = st_updated_at_utc (vs_status v),
     rx_truthful_user_visible_summary = st_truthful_user_visible_summary (vs_status v)\<rparr>"

lemma review_status_context_Ok [result_simps]:
  "review_status_context_from_status v = Ok ctx \<longleftrightarrow>
     status_wf (vs_status v) \<and>
     st_state (vs_status v) \<in> {execution_state.ReviewRequired, WaitingExplicitApproval} \<and>
     ctx = context_of v"
  using waiting_status_fields [of "vs_status v"]
  by (auto simp: review_status_context_from_status_def Let_def validate_status_Ok context_of_def
      result_simps)

lemma status_matches_Ok [result_simps]:
  "validate_status_matches_review_route d v = Ok u \<longleftrightarrow> status_awaits d v"
  using waiting_status_fields [of "vs_status v"]
  by (cases "rd_resolved_approval_posture d")
    (auto simp: validate_status_matches_review_route_def status_awaits_def Let_def validate_status_Ok
      context_of_def awaited_state_def review_posture_def result_simps)

lemma check_review_status_Ok [result_simps]:
  "check_review_status d status = Ok u \<longleftrightarrow> pred_option (status_awaits d) status"
  by (cases status) (auto simp: check_review_status_def result_simps)

lemma new_review_emission_input_Ok:
  "new_review_emission_input input = Ok accepted \<longleftrightarrow> emission_acceptable input \<and> accepted = input"
  by (cases "re_validated_plan input"; cases "re_execution_status input";
      cases "rd_resolved_approval_posture (re_route_decision input)")
    (auto simp: new_review_emission_input_def check_emission_input_def emission_acceptable_def Let_def
      validate_review_surface_def status_awaits_def review_posture_def result_simps)

text \<open>What is asked of the texts and options of an input, and the package an accepted input yields.\<close>

definition emission_presentable :: "review_emission_input \<Rightarrow> bool" where
  "emission_presentable input \<longleftrightarrow>
     bounded_text (re_requester_summary input) \<and> bounded_text (re_proposed_execution_summary input) \<and>
     bounded_text (re_side_effect_assessment input) \<and>
     bounded_text (re_denial_consequences_if_declined input) \<and>
     options_offered (re_approval_options_allowed_by_policy input) \<and>
     narration_honest (re_proposed_execution_summary input) (re_side_effect_assessment input)
       (rd_degraded_subtype (re_route_decision input)) \<and>
     pred_option (\<lambda>plan. is_valid_hash (vp_stable_plan_hash plan)) (re_validated_plan input)"

definition emitted_package :: "review_package_id \<Rightarrow> review_emission_input \<Rightarrow> review_package" where
  "emitted_package fresh input = package_for fresh input
     (map_option (\<lambda>plan. pl_execution_plan_id (vp_plan plan)) (re_validated_plan input))
     (map_option vp_stable_plan_hash (re_validated_plan input))
     (map_option context_of (re_execution_status input))"

lemma try_option_Ok [result_simps]:
  "try_option f v = Ok r \<longleftrightarrow> (case v of None \<Rightarrow> r = None | Some x \<Rightarrow> \<exists>y. f x = Ok y \<and> r = Some y)"
  by (cases v) (auto simp: try_option_def result_simps)

lemma emit_package_Ok:
  assumes "pred_option (status_awaits d) (re_execution_status input)"
  shows "emit_package fresh input plan_id hash = Ok out \<longleftrightarrow>
    (let package = package_for fresh input plan_id hash (map_option context_of (re_execution_status input))
     in package_wf package \<and> out = Emitted \<lparr>vr_package = package\<rparr>)"
proof -
  have "try_option review_status_context_from_status (re_execution_status input) =
      Ok (map_option context_of (re_execution_status input))"
    using assms by (cases "re_execution_status input")
      (auto simp: result_simps status_awaits_def review_posture_def awaited_state_def)
  then have "emit_package fresh input plan_id hash =
      and_then (new_review_package (package_for fresh input plan_id hash
        (map_option context_of (re_execution_status input)))) (\<lambda>package.
      and_then (new_validated_package package) (\<lambda>validated. Ok (Emitted validated)))"
    by (simp add: emit_package_def)
  then show ?thesis
    by (auto simp: Let_def package_wrapper.construct_Ok package_wrapper.wrap_new_Ok
        validate_package_Ok and_then_Ok)
qed

lemma package_for_simps [simp]:
  "rp_review_package_id (package_for fresh input p h c) = fresh"
  "rp_originating_request_id (package_for fresh input p h c) = rd_request_id (re_route_decision input)"
  "rp_correlation_id (package_for fresh input p h c) = rd_correlation_id (re_route_decision input)"
  "rp_route_decision_id (package_for fresh input p h c) = rd_route_decision_id (re_route_decision input)"
  "rp_execution_plan_id (package_for fresh input p h c) = p"
  "rp_stable_plan_hash (package_for fresh input p h c) = h"
  "rp_execution_status_context (package_for fresh input p h c) = c"
  "rp_current_posture (package_for fresh input p h c) =
     rd_resolved_approval_posture (re_route_decision input)"
  "rp_requester_summary (package_for fresh input p h c) = re_requester_summary input"
  "rp_proposed_execution_summary (package_for fresh input p h c) = re_proposed_execution_summary input"
  "rp_side_effect_assessment (package_for fresh input p h c) = re_side_effect_assessment input"
  "rp_denial_consequences_if_declined (package_for fresh input p h c) =
     re_denial_consequences_if_declined input"
  "rp_approval_options_allowed_by_policy (package_for fresh input p h c) =
     re_approval_options_allowed_by_policy input"
  "rp_degraded_or_fallback_posture (package_for fresh input p h c) =
     rd_degraded_subtype (re_route_decision input)"
  by (simp_all add: package_for_def)

lemma context_of_wf:
  assumes "status_awaits d v"
  shows "context_wf (rd_resolved_approval_posture d) (context_of v)"
  using assms waiting_status_fields [of "vs_status v"]
  by (auto simp: status_awaits_def context_wf_def context_of_def review_posture_def awaited_state_def)

lemma emit_review_package_Ok:
  assumes "emission_acceptable input"
  shows "emit_review_package fresh input = Ok out \<longleftrightarrow>
    (if review_posture (rd_resolved_approval_posture (re_route_decision input))
     then emission_presentable input \<and> out = Emitted \<lparr>vr_package = emitted_package fresh input\<rparr>
     else out = NotEmitted NonReviewPath)"
proof -
  let ?d = "re_route_decision input"
  have status: "pred_option (status_awaits ?d) (re_execution_status input)"
    using assms by (simp add: emission_acceptable_def Let_def)
  then have ctx: "pred_option (context_wf (rd_resolved_approval_posture ?d))
      (map_option context_of (re_execution_status input))"
    by (cases "re_execution_status input") (auto intro: context_of_wf)
  show ?thesis
  proof (cases "rd_resolved_approval_posture ?d")
    case ReviewRequired
    then have "re_validated_plan input = None"
      using assms by (simp add: emission_acceptable_def Let_def)
    then show ?thesis
      using ReviewRequired ctx
      by (auto simp: emit_review_package_def emit_package_Ok [OF status] Let_def package_wf_def
          emission_presentable_def emitted_package_def review_posture_def)
  next
    case ExplicitOperatorApproval
    then obtain plan where "re_validated_plan input = Some plan"
      using assms by (auto simp: emission_acceptable_def Let_def)
    then show ?thesis
      using ExplicitOperatorApproval ctx
      by (auto simp: emit_review_package_def emit_package_Ok [OF status] Let_def package_wf_def
          emission_presentable_def emitted_package_def review_posture_def result_simps)
  qed (auto simp: emit_review_package_def review_posture_def)
qed

text \<open>What is emitted is well-formed.\<close>

lemma emitted_package_wf:
  assumes "emission_acceptable input" and "emit_review_package fresh input = Ok (Emitted v)"
  shows "package_wf (vr_package v)"
proof -
  let ?d = "re_route_decision input"
  have status: "pred_option (status_awaits ?d) (re_execution_status input)"
    using assms(1) by (simp add: emission_acceptable_def Let_def)
  show ?thesis
    using assms(2)
    by (cases "rd_resolved_approval_posture ?d")
      (auto simp: emit_review_package_def emit_package_Ok [OF status] Let_def result_simps)
qed

text \<open>C29: Building a review package succeeds exactly on well-formed packages: a review-required package
without a plan or an operator-approval package with a plan and a valid hash, four bounded texts, distinct
options that include approving and declining, no talk of degraded or fallback execution without a
degraded subtype, and a status context that waits under the same posture. The package is kept as it is.\<close>

theorem package_building_decides:
  "and_then (new_review_package p) new_validated_package = Ok v \<longleftrightarrow>
     package_wf p \<and> v = \<lparr>vr_package = p\<rparr>"
  by (rule build_package_Ok)

end
