(* ===== verification/Forensics.thy ===== *)
theory Forensics
  imports Contracts
begin

text \<open>
  Forensic events, \<open>src/domain/forensics/mod.rs\<close>: the record of one observed fact, and the validation
  that keeps it bounded, linked and within what its type may claim.
\<close>

section \<open>Events\<close>

datatype forensic_event_type =
  DenialIssued | RouteDecisionResolved | ReviewPackagePrepared | ExecutionStatusObserved

text \<open>\<open>RedactionLevel::None\<close> is \<open>NoRedaction\<close>.\<close>

datatype redaction_level = NoRedaction | SensitiveFieldsRedacted | LinkageOnly

record forensic_event =
  fe_forensic_event_id :: forensic_event_id
  fe_correlation_id :: correlation_id
  fe_request_id :: request_id
  fe_event_type :: forensic_event_type
  fe_route_decision_id :: "route_decision_id option"
  fe_execution_plan_id :: "execution_plan_id option"
  fe_stable_plan_hash :: "string option"
  fe_review_package_id :: "review_package_id option"
  fe_timestamp_utc :: timestamp
  fe_current_posture :: approval_posture
  fe_execution_state :: execution_state
  fe_degraded_subtype :: "degraded_subtype option"
  fe_summary :: string
  fe_redaction_level :: redaction_level
  fe_payload_minimized :: bool

record validated_forensic_event =
  vf_event :: forensic_event

definition load_forensic_event ::
  "contract_env \<Rightarrow> (json \<Rightarrow> (forensic_event, string) result) \<Rightarrow> json \<Rightarrow> forensic_event fa_local_result" where
  "load_forensic_event env decode v = deserialize_contract_value env decode ForensicEvent v"

section \<open>The checks of the validation\<close>

definition event_required_summary :: "string \<Rightarrow> unit fa_local_result" where
  "event_required_summary summary = fail_if (summary = [] \<or> length summary > 160)
     (contract_invalid ''forensic event summary must be between 1 and 160 characters'')"

fun event_optional_plan_link :: "execution_plan_id option \<Rightarrow> string option \<Rightarrow> unit fa_local_result" where
  "event_optional_plan_link (Some _) (Some _) = Ok ()"
| "event_optional_plan_link None None = Ok ()"
| "event_optional_plan_link _ _ = Err (contract_invalid
     (''forensic event execution_plan_id and stable_plan_hash '' @
      ''must be present together or absent together''))"

definition validate_review_package_linkage ::
  "route_decision_id option \<Rightarrow> execution_plan_id option \<Rightarrow> string option \<Rightarrow> review_package_id option \<Rightarrow>
   unit fa_local_result" where
  "validate_review_package_linkage route_id plan_id hash package_id =
     fail_if (package_id \<noteq> None \<and> (route_id = None \<or> plan_id = None \<or> hash = None)) (contract_invalid
       (''forensic event review_package_id requires route_decision_id, execution_plan_id, '' @
        ''and stable_plan_hash''))"

definition event_require_posture ::
  "approval_posture \<Rightarrow> approval_posture list \<Rightarrow> string \<Rightarrow> unit fa_local_result" where
  "event_require_posture posture allowed message =
     (if posture \<in> set allowed then Ok () else Err (contract_invalid message))"

definition event_require_state ::
  "execution_state \<Rightarrow> execution_state list \<Rightarrow> string \<Rightarrow> unit fa_local_result" where
  "event_require_state state allowed message =
     (if state \<in> set allowed then Ok () else Err (contract_invalid message))"

definition event_require_none :: "'a option \<Rightarrow> string \<Rightarrow> unit fa_local_result" where
  "event_require_none v message = (if v = None then Ok () else Err (contract_invalid message))"

definition event_require_some :: "'a option \<Rightarrow> string \<Rightarrow> 'a fa_local_result" where
  "event_require_some v message = ok_or v (contract_invalid message)"

text \<open>\<open>require_some(v, message)?;\<close> as a statement.\<close>

definition event_includes :: "'a option \<Rightarrow> string \<Rightarrow> unit fa_local_result" where
  "event_includes v message = and_then (event_require_some v message) (\<lambda>_. Ok ())"

fun validate_posture_state_pair :: "approval_posture \<Rightarrow> execution_state \<Rightarrow> unit fa_local_result" where
  "validate_posture_state_pair p execution_state.Denied = event_require_posture p
     [approval_posture.Denied] ''denied forensic event state must use denied posture''"
| "validate_posture_state_pair p execution_state.ReviewRequired = event_require_posture p
     [approval_posture.ReviewRequired]
     ''review_required forensic event state must use review_required posture''"
| "validate_posture_state_pair p WaitingExplicitApproval = event_require_posture p
     [ExplicitOperatorApproval]
     ''waiting_explicit_approval forensic event state must use explicit_operator_approval posture''"
| "validate_posture_state_pair p _ = event_require_posture p [PolicyPreapproved, ExecuteAllowed]
     ''admitted forensic event states must use policy_preapproved or execute_allowed posture''"

definition event_explicit_fallback :: "degraded_subtype option \<Rightarrow> bool" where
  "event_explicit_fallback v \<longleftrightarrow>
     v \<in> {Some DegradedFallbackEquivalent, Some DegradedFallbackLimited}"

definition validate_degraded_subtype ::
  "forensic_event_type \<Rightarrow> execution_state \<Rightarrow> degraded_subtype option \<Rightarrow> unit fa_local_result" where
  "validate_degraded_subtype event_type state subtype =
     (if event_type = ReviewPackagePrepared
      then (case subtype of
          None \<Rightarrow> Ok ()
        | Some d \<Rightarrow> fail_if (d \<notin> {DegradedFallbackEquivalent, DegradedFallbackLimited})
            (contract_invalid (''review_package_prepared forensic event may only declare '' @
               ''explicit fallback degraded_subtype values'')))
      else (case state of
          Degraded \<Rightarrow> event_includes subtype ''degraded forensic event must include degraded_subtype''
        | PartialSuccess \<Rightarrow>
            event_includes subtype ''partial_success forensic event must include degraded_subtype''
        | CompletedWithConstraints \<Rightarrow>
            and_then (event_require_some subtype
              (''completed_with_constraints forensic event must include an explicit fallback '' @
               ''degraded_subtype''))
              (\<lambda>d. fail_if (\<not> event_explicit_fallback (Some d)) (contract_invalid
                (''completed_with_constraints forensic event must include an explicit fallback '' @
                 ''degraded_subtype'')))
        | _ \<Rightarrow> fail_if (subtype \<noteq> None) (contract_invalid
            ''forensic event execution_state must not include degraded_subtype'')))"

definition mentions_semantic_or_workflow_narration :: "string \<Rightarrow> bool" where
  "mentions_semantic_or_workflow_narration v \<longleftrightarrow>
     (let lower = to_ascii_lowercase v in
      str_contains lower ''planner'' \<or> str_contains lower ''workflow'' \<or>
      str_contains lower ''semantic'' \<or> str_contains lower ''next step'')"

text \<open>The final \<open>match\<close> of the validation on the event type.\<close>

fun validate_event_type :: "forensic_event_type \<Rightarrow> forensic_event \<Rightarrow> unit fa_local_result" where
  "validate_event_type DenialIssued e = checks
     [event_require_posture (fe_current_posture e) [approval_posture.Denied]
        ''denial_issued forensic event must use denied posture'',
      event_require_state (fe_execution_state e) [execution_state.Denied]
        ''denial_issued forensic event must use denied execution_state'',
      event_require_none (fe_route_decision_id e)
        ''denial_issued forensic event must not include route_decision_id'',
      event_require_none (fe_execution_plan_id e)
        ''denial_issued forensic event must not include execution_plan_id'',
      event_require_none (fe_stable_plan_hash e)
        ''denial_issued forensic event must not include stable_plan_hash'',
      event_require_none (fe_review_package_id e)
        ''denial_issued forensic event must not include review_package_id'']"
| "validate_event_type RouteDecisionResolved e = checks
     [event_includes (fe_route_decision_id e)
        ''route_decision_resolved forensic event must include route_decision_id'',
      event_require_none (fe_execution_plan_id e)
        ''route_decision_resolved forensic event must not include execution_plan_id'',
      event_require_none (fe_stable_plan_hash e)
        ''route_decision_resolved forensic event must not include stable_plan_hash'',
      event_require_none (fe_review_package_id e)
        ''route_decision_resolved forensic event must not include review_package_id'',
      event_require_state (fe_execution_state e)
        [execution_state.Denied, execution_state.ReviewRequired, WaitingExplicitApproval,
         AdmittedNotStarted]
        ''route_decision_resolved forensic event must remain pre-execution'']"
| "validate_event_type ReviewPackagePrepared e = checks
     [event_includes (fe_route_decision_id e)
        ''review_package_prepared forensic event must include route_decision_id'',
      event_includes (fe_execution_plan_id e)
        ''review_package_prepared forensic event must include execution_plan_id'',
      event_includes (fe_stable_plan_hash e)
        ''review_package_prepared forensic event must include stable_plan_hash'',
      event_includes (fe_review_package_id e)
        ''review_package_prepared forensic event must include review_package_id'',
      event_require_posture (fe_current_posture e) [ExplicitOperatorApproval]
        ''review_package_prepared forensic event must use explicit_operator_approval posture'',
      event_require_state (fe_execution_state e) [WaitingExplicitApproval]
        ''review_package_prepared forensic event must use waiting_explicit_approval execution_state'']"
| "validate_event_type ExecutionStatusObserved e = checks
     [event_includes (fe_execution_plan_id e)
        ''execution_status_observed forensic event must include execution_plan_id'',
      event_includes (fe_stable_plan_hash e)
        ''execution_status_observed forensic event must include stable_plan_hash'',
      event_require_state (fe_execution_state e)
        [AdmittedNotStarted, InProgress, Degraded, PartialSuccess, CompletedWithConstraints,
         Completed, Failed, Canceled]
        ''execution_status_observed forensic event must use an admitted execution_state'',
      event_require_posture (fe_current_posture e) [PolicyPreapproved, ExecuteAllowed]
        (''execution_status_observed forensic event must use '' @
         ''policy_preapproved or execute_allowed posture'')]"

definition validate_event :: "forensic_event \<Rightarrow> unit fa_local_result" where
  "validate_event e = checks
     [event_required_summary (fe_summary e),
      event_optional_plan_link (fe_execution_plan_id e) (fe_stable_plan_hash e),
      validate_review_package_linkage (fe_route_decision_id e) (fe_execution_plan_id e)
        (fe_stable_plan_hash e) (fe_review_package_id e),
      validate_posture_state_pair (fe_current_posture e) (fe_execution_state e),
      validate_degraded_subtype (fe_event_type e) (fe_execution_state e) (fe_degraded_subtype e),
      fail_if (\<not> fe_payload_minimized e) (contract_invalid
        ''forensic event payload_minimized must remain true for bounded forensics''),
      (case fe_stable_plan_hash e of
         None \<Rightarrow> Ok ()
       | Some hash \<Rightarrow> fail_if (\<not> is_valid_hash hash) (contract_invalid
           ''forensic event stable_plan_hash must be a 64-character lowercase hex digest'')),
      fail_if (mentions_semantic_or_workflow_narration (fe_summary e)) (contract_invalid
        ''forensic event summary must not narrate planner, workflow, or semantic interpretation''),
      validate_event_type (fe_event_type e) e]"

text \<open>\<open>ForensicEvent::new\<close>, \<open>validated\<close> and \<open>ValidatedForensicEvent::new\<close>.\<close>

definition new_forensic_event :: "forensic_event \<Rightarrow> forensic_event fa_local_result" where
  "new_forensic_event event = and_then (validate_event event) (\<lambda>_. Ok event)"

definition validated_event :: "forensic_event \<Rightarrow> validated_forensic_event fa_local_result" where
  "validated_event event = and_then (validate_event event) (\<lambda>_. Ok \<lparr>vf_event = event\<rparr>)"

definition new_validated_event :: "forensic_event \<Rightarrow> validated_forensic_event fa_local_result" where
  "new_validated_event event = validated_event event"

section \<open>What an event may claim\<close>

text \<open>
  A row per event type: the postures and states it may carry, which links it has and which degraded
  subtypes it may name in a state.
\<close>

definition state_postures :: "execution_state \<Rightarrow> approval_posture set" where
  "state_postures state =
     (case state of
        execution_state.Denied \<Rightarrow> {approval_posture.Denied}
      | execution_state.ReviewRequired \<Rightarrow> {approval_posture.ReviewRequired}
      | WaitingExplicitApproval \<Rightarrow> {ExplicitOperatorApproval}
      | _ \<Rightarrow> {PolicyPreapproved, ExecuteAllowed})"

definition admitted_state :: "execution_state \<Rightarrow> bool" where
  "admitted_state state \<longleftrightarrow> state \<notin>
     {execution_state.Denied, execution_state.ReviewRequired, WaitingExplicitApproval}"

definition fallback_subtypes :: "degraded_subtype option set" where
  "fallback_subtypes = {Some DegradedFallbackEquivalent, Some DegradedFallbackLimited}"

fun event_subtypes :: "forensic_event_type \<Rightarrow> execution_state \<Rightarrow> degraded_subtype option set" where
  "event_subtypes ReviewPackagePrepared state = insert None fallback_subtypes"
| "event_subtypes _ state =
     (if state \<in> {Degraded, PartialSuccess} then - {None}
      else if state = CompletedWithConstraints then fallback_subtypes
      else {None})"

fun event_states :: "forensic_event_type \<Rightarrow> execution_state set" where
  "event_states DenialIssued = {execution_state.Denied}"
| "event_states RouteDecisionResolved =
     {execution_state.Denied, execution_state.ReviewRequired, WaitingExplicitApproval, AdmittedNotStarted}"
| "event_states ReviewPackagePrepared = {WaitingExplicitApproval}"
| "event_states ExecutionStatusObserved = {state. admitted_state state}"

fun event_linked :: "forensic_event_type \<Rightarrow> forensic_event \<Rightarrow> bool" where
  "event_linked DenialIssued e \<longleftrightarrow>
     fe_route_decision_id e = None \<and> fe_stable_plan_hash e = None \<and> fe_review_package_id e = None"
| "event_linked RouteDecisionResolved e \<longleftrightarrow>
     fe_route_decision_id e \<noteq> None \<and> fe_stable_plan_hash e = None \<and> fe_review_package_id e = None"
| "event_linked ReviewPackagePrepared e \<longleftrightarrow>
     fe_route_decision_id e \<noteq> None \<and> fe_stable_plan_hash e \<noteq> None \<and> fe_review_package_id e \<noteq> None"
| "event_linked ExecutionStatusObserved e \<longleftrightarrow> fe_stable_plan_hash e \<noteq> None \<and>
     (fe_review_package_id e = None \<or> fe_route_decision_id e \<noteq> None)"

definition event_wf :: "forensic_event \<Rightarrow> bool" where
  "event_wf e \<longleftrightarrow>
     bounded_text (fe_summary e) \<and> \<not> mentions_semantic_or_workflow_narration (fe_summary e) \<and>
     fe_payload_minimized e \<and>
     (fe_execution_plan_id e = None \<longleftrightarrow> fe_stable_plan_hash e = None) \<and>
     pred_option is_valid_hash (fe_stable_plan_hash e) \<and>
     event_linked (fe_event_type e) e \<and>
     fe_execution_state e \<in> event_states (fe_event_type e) \<and>
     fe_current_posture e \<in> state_postures (fe_execution_state e) \<and>
     fe_degraded_subtype e \<in> event_subtypes (fe_event_type e) (fe_execution_state e)"

lemma event_checks_Ok [result_simps]:
  "event_required_summary s = Ok u \<longleftrightarrow> bounded_text s"
  "event_optional_plan_link p h = Ok u \<longleftrightarrow> (p = None \<longleftrightarrow> h = None)"
  "event_require_posture q ps m = Ok u \<longleftrightarrow> q \<in> set ps"
  "event_require_state st sts m = Ok u \<longleftrightarrow> st \<in> set sts"
  "event_require_none v m = Ok u \<longleftrightarrow> v = None"
  "event_includes v m = Ok u \<longleftrightarrow> v \<noteq> None"
  "event_require_some v m = Ok x \<longleftrightarrow> v = Some x"
  by (auto simp: event_required_summary_def event_require_posture_def event_require_state_def
      event_require_none_def event_includes_def event_require_some_def result_simps not_less
      elim!: event_optional_plan_link.elims)

lemma validate_posture_state_pair_Ok [result_simps]:
  "validate_posture_state_pair p state = Ok u \<longleftrightarrow> p \<in> state_postures state"
  by (cases state) (simp_all add: result_simps state_postures_def)

lemma validate_degraded_subtype_Ok [result_simps]:
  "validate_degraded_subtype event_type state subtype = Ok u \<longleftrightarrow>
     subtype \<in> event_subtypes event_type state"
proof (cases "event_type = ReviewPackagePrepared")
  case True
  then show ?thesis
    by (cases subtype) (auto simp: validate_degraded_subtype_def fallback_subtypes_def result_simps)
next
  case False
  then have "event_subtypes event_type state = event_subtypes ExecutionStatusObserved state"
    by (cases event_type) simp_all
  with False show ?thesis
    by (cases state; cases subtype)
      (auto simp: validate_degraded_subtype_def event_explicit_fallback_def fallback_subtypes_def
        result_simps)
qed

lemma admitted_state_postures:
  "admitted_state state \<longleftrightarrow> state_postures state = {PolicyPreapproved, ExecuteAllowed}"
  by (cases state) (auto simp: admitted_state_def state_postures_def)

lemma validate_event_type_Ok:
  assumes "fe_execution_plan_id e = None \<longleftrightarrow> fe_stable_plan_hash e = None"
    and "fe_current_posture e \<in> state_postures (fe_execution_state e)"
    and "fe_review_package_id e = None \<or> fe_route_decision_id e \<noteq> None \<and> fe_stable_plan_hash e \<noteq> None"
  shows "validate_event_type event_type e = Ok () \<longleftrightarrow>
    event_linked event_type e \<and> fe_execution_state e \<in> event_states event_type"
proof (cases event_type)
  case ExecutionStatusObserved
  then show ?thesis
    using assms by (cases "fe_execution_state e")
      (auto simp: result_simps admitted_state_def state_postures_def)
qed (use assms in \<open>auto simp: result_simps state_postures_def\<close>)

lemma event_linked_package:
  "event_linked event_type e \<Longrightarrow> fe_review_package_id e = None \<or>
     fe_route_decision_id e \<noteq> None \<and> fe_stable_plan_hash e \<noteq> None"
  by (cases event_type) auto

lemma validate_event_Ok: "validate_event e = Ok () \<longleftrightarrow> event_wf e"
proof -
  have hash: "(case fe_stable_plan_hash e of None \<Rightarrow> Ok ()
      | Some hash \<Rightarrow> fail_if (\<not> is_valid_hash hash) m) = Ok () \<longleftrightarrow>
      pred_option is_valid_hash (fe_stable_plan_hash e)" for m :: fa_local_error
    by (cases "fe_stable_plan_hash e") (simp_all add: result_simps)
  have "validate_event e = Ok () \<longleftrightarrow>
      bounded_text (fe_summary e) \<and> \<not> mentions_semantic_or_workflow_narration (fe_summary e) \<and>
      fe_payload_minimized e \<and> (fe_execution_plan_id e = None \<longleftrightarrow> fe_stable_plan_hash e = None) \<and>
      pred_option is_valid_hash (fe_stable_plan_hash e) \<and>
      (fe_review_package_id e = None \<or> fe_route_decision_id e \<noteq> None \<and> fe_stable_plan_hash e \<noteq> None) \<and>
      fe_current_posture e \<in> state_postures (fe_execution_state e) \<and>
      fe_degraded_subtype e \<in> event_subtypes (fe_event_type e) (fe_execution_state e) \<and>
      validate_event_type (fe_event_type e) e = Ok ()"
    unfolding validate_event_def
    by (auto simp: result_simps hash validate_review_package_linkage_def)
  moreover have "validate_event_type (fe_event_type e) e = Ok () \<longleftrightarrow>
      event_linked (fe_event_type e) e \<and> fe_execution_state e \<in> event_states (fe_event_type e)"
    if "fe_execution_plan_id e = None \<longleftrightarrow> fe_stable_plan_hash e = None"
      "fe_review_package_id e = None \<or> fe_route_decision_id e \<noteq> None \<and> fe_stable_plan_hash e \<noteq> None"
      "fe_current_posture e \<in> state_postures (fe_execution_state e)"
    using that by (intro validate_event_type_Ok)
  ultimately show ?thesis
    unfolding event_wf_def using event_linked_package [of "fe_event_type e" e] by argo
qed

interpretation event_wrapper: validated_type validate_event
    "\<lambda>e. \<lparr>vf_event = e\<rparr>" vf_event new_forensic_event new_validated_event
  by unfold_locales
    (simp_all add: new_forensic_event_def new_validated_event_def validated_event_def)

lemma build_event_Ok:
  "and_then (new_forensic_event e) new_validated_event = Ok v \<longleftrightarrow> event_wf e \<and> v = \<lparr>vf_event = e\<rparr>"
  by (auto simp: event_wrapper.build_twice event_wrapper.wrap_new_Ok validate_event_Ok)

text \<open>C28: Building a forensic event succeeds exactly on well-formed events: a bounded minimized summary that
narrates neither semantics nor workflow, a plan link that is whole and has a valid hash, a review package
only beside its decision and plan, a posture and a state that fit, a degraded subtype the type and
state admit, and the links and states of its type. The event is kept as it is.\<close>

theorem event_building_decides:
  "and_then (new_forensic_event e) new_validated_event = Ok v \<longleftrightarrow> event_wf e \<and> v = \<lparr>vf_event = e\<rparr>"
  by (rule build_event_Ok)

end
