(* ===== verification/Forensic_Recording.thy ===== *)
theory Forensic_Recording
  imports Review Forensics Delivery
begin

text \<open>
  The forensic service, \<open>src/app/forensic_service.rs\<close>: which observed facts may become forensic
  events, the event each becomes, the check that its summary does not claim more than its state, and
  the export of an event through an adapter of \<open>src/adapters/exports/mod.rs\<close>.
\<close>

section \<open>Records\<close>

record forensic_record_context =
  fc_recorded_at_utc :: timestamp

definition new_record_context :: "timestamp \<Rightarrow> forensic_record_context" where
  "new_record_context recorded_at = \<lparr>fc_recorded_at_utc = recorded_at\<rparr>"

datatype forensic_record_kind =
  DenialIssued route_decision
| RouteDecisionResolved route_decision
| ReviewPackagePrepared route_decision validated_review_package
| ExecutionStatusObserved route_decision validated_execution_status

record forensic_record_input =
  fi_kind :: forensic_record_kind
  fi_redaction_level :: redaction_level
  fi_context :: forensic_record_context

record forensic_record =
  fk_correlation_id :: correlation_id
  fk_request_id :: request_id
  fk_event_type :: forensic_event_type
  fk_route_decision_id :: "route_decision_id option"
  fk_execution_plan_id :: "execution_plan_id option"
  fk_stable_plan_hash :: "string option"
  fk_review_package_id :: "review_package_id option"
  fk_current_posture :: approval_posture
  fk_execution_state :: execution_state
  fk_degraded_subtype :: "degraded_subtype option"
  fk_summary :: string

fun pre_execution_state_for :: "approval_posture \<Rightarrow> execution_state fa_local_result" where
  "pre_execution_state_for approval_posture.Denied = Ok execution_state.Denied"
| "pre_execution_state_for approval_posture.ReviewRequired = Ok execution_state.ReviewRequired"
| "pre_execution_state_for ExplicitOperatorApproval = Ok WaitingExplicitApproval"
| "pre_execution_state_for _ = Ok AdmittedNotStarted"

definition is_explicit_fallback_subtype :: "degraded_subtype option \<Rightarrow> bool" where
  "is_explicit_fallback_subtype v \<longleftrightarrow>
     v \<in> {Some DegradedFallbackEquivalent, Some DegradedFallbackLimited}"

definition review_package_summary :: "validated_review_package \<Rightarrow> string" where
  "review_package_summary v =
     (if is_explicit_fallback_subtype (rp_degraded_or_fallback_posture (vr_package v))
      then ''bounded review handoff prepared with explicit fallback posture''
      else ''bounded review handoff prepared for explicit operator approval'')"

fun build_forensic_record :: "forensic_record_kind \<Rightarrow> forensic_record fa_local_result" where
  "build_forensic_record (DenialIssued d) = Ok
     \<lparr>fk_correlation_id = rd_correlation_id d,
      fk_request_id = rd_request_id d,
      fk_event_type = forensic_event_type.DenialIssued,
      fk_route_decision_id = None,
      fk_execution_plan_id = None,
      fk_stable_plan_hash = None,
      fk_review_package_id = None,
      fk_current_posture = approval_posture.Denied,
      fk_execution_state = execution_state.Denied,
      fk_degraded_subtype = None,
      fk_summary = rd_operator_visible_summary d\<rparr>"
| "build_forensic_record (RouteDecisionResolved d) =
     and_then (pre_execution_state_for (rd_resolved_approval_posture d)) (\<lambda>state. Ok
     \<lparr>fk_correlation_id = rd_correlation_id d,
      fk_request_id = rd_request_id d,
      fk_event_type = forensic_event_type.RouteDecisionResolved,
      fk_route_decision_id = Some (rd_route_decision_id d),
      fk_execution_plan_id = None,
      fk_stable_plan_hash = None,
      fk_review_package_id = None,
      fk_current_posture = rd_resolved_approval_posture d,
      fk_execution_state = state,
      fk_degraded_subtype = None,
      fk_summary = rd_operator_visible_summary d\<rparr>)"
| "build_forensic_record (ReviewPackagePrepared d v) = Ok
     \<lparr>fk_correlation_id = rd_correlation_id d,
      fk_request_id = rd_request_id d,
      fk_event_type = forensic_event_type.ReviewPackagePrepared,
      fk_route_decision_id = Some (rd_route_decision_id d),
      fk_execution_plan_id = rp_execution_plan_id (vr_package v),
      fk_stable_plan_hash = rp_stable_plan_hash (vr_package v),
      fk_review_package_id = Some (rp_review_package_id (vr_package v)),
      fk_current_posture = rp_current_posture (vr_package v),
      fk_execution_state = (case rp_execution_status_context (vr_package v) of
        None \<Rightarrow> WaitingExplicitApproval | Some ctx \<Rightarrow> rx_state ctx),
      fk_degraded_subtype = rp_degraded_or_fallback_posture (vr_package v),
      fk_summary = review_package_summary v\<rparr>"
| "build_forensic_record (ExecutionStatusObserved d v) = Ok
     \<lparr>fk_correlation_id = rd_correlation_id d,
      fk_request_id = rd_request_id d,
      fk_event_type = forensic_event_type.ExecutionStatusObserved,
      fk_route_decision_id = Some (rd_route_decision_id d),
      fk_execution_plan_id = st_execution_plan_id (vs_status v),
      fk_stable_plan_hash = st_stable_plan_hash (vs_status v),
      fk_review_package_id = None,
      fk_current_posture = st_current_posture (vs_status v),
      fk_execution_state = st_state (vs_status v),
      fk_degraded_subtype = st_degraded_subtype (vs_status v),
      fk_summary = st_truthful_user_visible_summary (vs_status v)\<rparr>"

section \<open>Which facts may be recorded\<close>

definition validate_recorder_surface :: "route_decision \<Rightarrow> unit fa_local_result" where
  "validate_recorder_surface d = check_decision_surface ''forensic recorder expectations'' d"

definition recorder_require_posture ::
  "approval_posture \<Rightarrow> approval_posture \<Rightarrow> string \<Rightarrow> unit fa_local_result" where
  "recorder_require_posture posture expected message =
     (if posture = expected then Ok () else Err (contract_invalid message))"

fun validate_record_kind :: "forensic_record_kind \<Rightarrow> unit fa_local_result" where
  "validate_record_kind (DenialIssued d) = checks
     [validate_recorder_surface d,
      recorder_require_posture (rd_resolved_approval_posture d) approval_posture.Denied
        ''forensic denial record requires denied route posture'']"
| "validate_record_kind (RouteDecisionResolved d) = validate_recorder_surface d"
| "validate_record_kind (ReviewPackagePrepared d v) = checks
     [validate_recorder_surface d,
      validate_package (vr_package v),
      fail_if (rd_resolved_approval_posture d \<noteq> ExplicitOperatorApproval) (contract_invalid
        ''forensic review-package record currently requires explicit_operator_approval posture''),
      fail_if (rp_current_posture (vr_package v) \<noteq> ExplicitOperatorApproval) (contract_invalid
        (''forensic review-package record currently requires explicit_operator_approval '' @
         ''review package posture'')),
      fail_if (rp_originating_request_id (vr_package v) \<noteq> rd_request_id d) (contract_invalid
        ''forensic review-package record request_id does not match route decision''),
      fail_if (rp_correlation_id (vr_package v) \<noteq> rd_correlation_id d) (contract_invalid
        ''forensic review-package record correlation_id does not match route decision''),
      fail_if (rp_route_decision_id (vr_package v) \<noteq> rd_route_decision_id d) (contract_invalid
        ''forensic review-package record route_decision_id does not match route decision'')]"
| "validate_record_kind (ExecutionStatusObserved d v) = checks
     [validate_recorder_surface d,
      validate_status (vs_status v),
      fail_if (\<not> admitted_posture (rd_resolved_approval_posture d)) (contract_invalid
        ''forensic execution-status record requires an admitted route posture''),
      fail_if (st_request_id (vs_status v) \<noteq> rd_request_id d) (contract_invalid
        ''forensic execution-status record request_id does not match route decision''),
      fail_if (st_correlation_id (vs_status v) \<noteq> rd_correlation_id d) (contract_invalid
        ''forensic execution-status record correlation_id does not match route decision''),
      fail_if (st_current_posture (vs_status v) \<noteq> rd_resolved_approval_posture d) (contract_invalid
        ''forensic execution-status record posture does not match route decision''),
      fail_if (st_state (vs_status v) \<notin>
          {AdmittedNotStarted, InProgress, Degraded, PartialSuccess, CompletedWithConstraints,
           execution_state.Completed, execution_state.Failed, execution_state.Canceled})
        (contract_invalid ''forensic execution-status record must use an admitted execution_state'')]"

definition new_record_input ::
  "forensic_record_kind \<Rightarrow> redaction_level \<Rightarrow> forensic_record_context \<Rightarrow>
   forensic_record_input fa_local_result" where
  "new_record_input kind level ctx =
     and_then (validate_record_kind kind) (\<lambda>_. Ok
       \<lparr>fi_kind = kind, fi_redaction_level = level, fi_context = ctx\<rparr>)"

section \<open>Truthful summaries\<close>

definition validate_bounded_detail :: "string \<Rightarrow> string \<Rightarrow> unit fa_local_result" where
  "validate_bounded_detail v field_name = fail_if (v = [] \<or> length v > 160)
     (contract_invalid (field_name @ '' must be between 1 and 160 characters''))"

definition mentions_success_or_completion :: "string \<Rightarrow> bool" where
  "mentions_success_or_completion v \<longleftrightarrow>
     (let lower = to_ascii_lowercase v in
      str_contains lower ''success'' \<or> str_contains lower ''succeeded'' \<or>
      str_contains lower ''completed'')"

definition mentions_failure :: "string \<Rightarrow> bool" where
  "mentions_failure v \<longleftrightarrow>
     (let lower = to_ascii_lowercase v in str_contains lower ''failed'' \<or> str_contains lower ''failure'')"

definition mentions_cancellation :: "string \<Rightarrow> bool" where
  "mentions_cancellation v \<longleftrightarrow>
     (let lower = to_ascii_lowercase v in
      str_contains lower ''canceled'' \<or> str_contains lower ''cancelled'')"

definition mentions_degraded_or_constraints :: "string \<Rightarrow> bool" where
  "mentions_degraded_or_constraints v \<longleftrightarrow>
     (let lower = to_ascii_lowercase v in
      str_contains lower ''degraded'' \<or> str_contains lower ''constraint'' \<or>
      str_contains lower ''constraints'' \<or> str_contains lower ''limited'')"

definition validate_summary_truthfulness ::
  "string \<Rightarrow> execution_state \<Rightarrow> degraded_subtype option \<Rightarrow> unit fa_local_result" where
  "validate_summary_truthfulness summary state subtype = checks
     [validate_bounded_detail summary ''forensic event summary'',
      fail_if (mentions_success_or_completion summary \<and>
               state \<notin> {execution_state.Completed, CompletedWithConstraints, PartialSuccess})
        (contract_invalid (''forensic event summary must not claim success or completion '' @
           ''before truthful execution completion'')),
      fail_if (mentions_failure summary \<and> state \<noteq> execution_state.Failed) (contract_invalid
        ''forensic event summary must not claim failure outside failed execution_state''),
      fail_if (mentions_cancellation summary \<and> state \<noteq> execution_state.Canceled) (contract_invalid
        ''forensic event summary must not claim cancellation outside canceled execution_state''),
      fail_if (mentions_degraded_or_constraints summary \<and> subtype = None) (contract_invalid
        (''forensic event summary must not claim degraded or constrained execution '' @
         ''without explicit degraded_subtype''))]"

section \<open>Recording\<close>

text \<open>\<open>fresh\<close> is the identifier that \<open>ForensicEventId::new\<close> draws.\<close>

definition event_from_record ::
  "forensic_event_id \<Rightarrow> timestamp \<Rightarrow> redaction_level \<Rightarrow> forensic_record \<Rightarrow> forensic_event" where
  "event_from_record fresh recorded_at level r =
     \<lparr>fe_forensic_event_id = fresh,
      fe_correlation_id = fk_correlation_id r,
      fe_request_id = fk_request_id r,
      fe_event_type = fk_event_type r,
      fe_route_decision_id = fk_route_decision_id r,
      fe_execution_plan_id = fk_execution_plan_id r,
      fe_stable_plan_hash = fk_stable_plan_hash r,
      fe_review_package_id = fk_review_package_id r,
      fe_timestamp_utc = recorded_at,
      fe_current_posture = fk_current_posture r,
      fe_execution_state = fk_execution_state r,
      fe_degraded_subtype = fk_degraded_subtype r,
      fe_summary = fk_summary r,
      fe_redaction_level = level,
      fe_payload_minimized = True\<rparr>"

definition record_event ::
  "forensic_event_id \<Rightarrow> forensic_record_input \<Rightarrow> validated_forensic_event fa_local_result" where
  "record_event fresh input =
     and_then (build_forensic_record (fi_kind input)) (\<lambda>r.
     and_then (validate_summary_truthfulness (fk_summary r) (fk_execution_state r)
       (fk_degraded_subtype r)) (\<lambda>_.
     and_then (new_forensic_event (event_from_record fresh (fc_recorded_at_utc (fi_context input))
       (fi_redaction_level input) r)) new_validated_event))"

section \<open>Export\<close>

record forensic_export_receipt =
  er_adapter_id :: string
  er_export_reference :: string

datatype forensic_export_result =
  Exported string
| DependencyUnavailable string
| Unsupported string

text \<open>The trait \<open>ForensicEventExportAdapter\<close>; like a delivery adapter, it acts on the world.\<close>

record 'w export_adapter =
  ea_adapter_id :: string
  ea_export_event :: "validated_forensic_event \<Rightarrow> 'w \<Rightarrow> ('w \<times> forensic_export_result) option"

definition validate_adapter_id :: "string \<Rightarrow> unit fa_local_result" where
  "validate_adapter_id adapter_id = fail_if (adapter_id = [] \<or> length adapter_id > 64)
     (contract_invalid ''forensic export adapter_id must be between 1 and 64 characters'')"

definition validate_export_reference :: "string \<Rightarrow> unit fa_local_result" where
  "validate_export_reference export_reference =
     fail_if (export_reference = [] \<or> length export_reference > 160) (contract_invalid
       (''forensic export adapter must return a bounded export_reference '' @
        ''between 1 and 160 characters''))"

definition map_export_result ::
  "string \<Rightarrow> forensic_export_result \<Rightarrow> forensic_export_receipt fa_local_result" where
  "map_export_result adapter_id result =
     and_then (validate_adapter_id adapter_id) (\<lambda>_.
     case result of
       Exported reference \<Rightarrow>
         and_then (validate_export_reference reference) (\<lambda>_. Ok
           \<lparr>er_adapter_id = adapter_id, er_export_reference = reference\<rparr>)
     | forensic_export_result.DependencyUnavailable summary \<Rightarrow>
         and_then (validate_bounded_detail summary ''forensic export dependency summary'') (\<lambda>_.
           Err (contract_invalid (''forensic export dependency unavailable: '' @ summary)))
     | forensic_export_result.Unsupported summary \<Rightarrow>
         and_then (validate_bounded_detail summary ''forensic export unsupported summary'') (\<lambda>_.
           Err (contract_invalid (''forensic export unsupported: '' @ summary))))"

record exported_forensic_record =
  xr_event :: validated_forensic_event
  xr_export_receipt :: forensic_export_receipt

definition call_export ::
  "'w export_adapter \<Rightarrow> validated_forensic_event \<Rightarrow> ('w, forensic_export_result) effect" where
  "call_export adapter event w = map_option (\<lambda>(w', r). (w', Ok r)) (ea_export_event adapter event w)"

definition record_and_export_event_via ::
  "forensic_event_id \<Rightarrow> forensic_record_input \<Rightarrow> 'w export_adapter \<Rightarrow>
   ('w, exported_forensic_record) effect" where
  "record_and_export_event_via fresh input adapter =
     and_do (pure_do (record_event fresh input)) (\<lambda>event.
     and_do (call_export adapter event) (\<lambda>result.
     and_do (pure_do (map_export_result (ea_adapter_id adapter) result)) (\<lambda>receipt.
     pure_do (Ok \<lparr>xr_event = event, xr_export_receipt = receipt\<rparr>))))"

definition record_and_export_event ::
  "forensic_event_id \<Rightarrow> forensic_record_input \<Rightarrow> 'w export_adapter \<Rightarrow>
   ('w, exported_forensic_record) effect" where
  "record_and_export_event fresh input adapter = record_and_export_event_via fresh input adapter"

section \<open>What may be recorded\<close>

text \<open>The facts that the recorder accepts, and the record each becomes.\<close>

fun kind_acceptable :: "forensic_record_kind \<Rightarrow> bool" where
  "kind_acceptable (DenialIssued d) \<longleftrightarrow>
     coherent d \<and> rd_resolved_approval_posture d = approval_posture.Denied"
| "kind_acceptable (RouteDecisionResolved d) \<longleftrightarrow> coherent d"
| "kind_acceptable (ReviewPackagePrepared d v) \<longleftrightarrow>
     coherent d \<and> package_wf (vr_package v) \<and>
     rd_resolved_approval_posture d = ExplicitOperatorApproval \<and>
     rp_current_posture (vr_package v) = ExplicitOperatorApproval \<and>
     rp_originating_request_id (vr_package v) = rd_request_id d \<and>
     rp_correlation_id (vr_package v) = rd_correlation_id d \<and>
     rp_route_decision_id (vr_package v) = rd_route_decision_id d"
| "kind_acceptable (ExecutionStatusObserved d v) \<longleftrightarrow>
     coherent d \<and> status_wf (vs_status v) \<and> admitted_posture (rd_resolved_approval_posture d) \<and>
     st_request_id (vs_status v) = rd_request_id d \<and>
     st_correlation_id (vs_status v) = rd_correlation_id d \<and>
     st_current_posture (vs_status v) = rd_resolved_approval_posture d"

text \<open>
  A status under an admitted posture reports an admitted state, so the recorder's last check on
  statuses never fails after the others.
\<close>

lemma status_wf_admitted:
  assumes "status_wf s" and "admitted_posture (st_current_posture s)"
  shows "admitted_state (st_state s)" "st_stable_plan_hash s \<noteq> None" "st_execution_plan_id s \<noteq> None"
    "pred_option is_valid_hash (st_stable_plan_hash s)"
    "st_degraded_subtype s \<in> event_subtypes forensic_event_type.ExecutionStatusObserved (st_state s)"
  using assms
  by (cases "st_state s"; auto simp: status_wf_defs admitted_state_def fallback_subtypes_def
      split: if_splits)+

lemma admitted_state_members:
  "admitted_state st \<longleftrightarrow> st \<in> {AdmittedNotStarted, InProgress, Degraded, PartialSuccess,
     CompletedWithConstraints, execution_state.Completed, execution_state.Failed,
     execution_state.Canceled}"
  by (cases st) (simp_all add: admitted_state_def)

lemma validate_record_kind_Ok: "validate_record_kind kind = Ok () \<longleftrightarrow> kind_acceptable kind"
proof (cases kind)
  case (ExecutionStatusObserved d v)
  then show ?thesis
    using status_wf_admitted(1) [of "vs_status v"]
    by (auto simp: validate_recorder_surface_def validate_status_Ok admitted_state_members result_simps)
qed (auto simp: validate_recorder_surface_def recorder_require_posture_def validate_package_Ok
    result_simps)

lemma new_record_input_Ok:
  "new_record_input kind level ctx = Ok input \<longleftrightarrow>
     kind_acceptable kind \<and> input = \<lparr>fi_kind = kind, fi_redaction_level = level, fi_context = ctx\<rparr>"
  by (auto simp: new_record_input_def validate_record_kind_Ok result_simps)

text \<open>What a fact says, and when its event may say it.\<close>

fun resolved_state :: "approval_posture \<Rightarrow> execution_state" where
  "resolved_state approval_posture.Denied = execution_state.Denied"
| "resolved_state approval_posture.ReviewRequired = execution_state.ReviewRequired"
| "resolved_state ExplicitOperatorApproval = WaitingExplicitApproval"
| "resolved_state _ = AdmittedNotStarted"

fun kind_decision :: "forensic_record_kind \<Rightarrow> route_decision" where
  "kind_decision (DenialIssued d) = d"
| "kind_decision (RouteDecisionResolved d) = d"
| "kind_decision (ReviewPackagePrepared d v) = d"
| "kind_decision (ExecutionStatusObserved d v) = d"

fun kind_type :: "forensic_record_kind \<Rightarrow> forensic_event_type" where
  "kind_type (DenialIssued d) = forensic_event_type.DenialIssued"
| "kind_type (RouteDecisionResolved d) = forensic_event_type.RouteDecisionResolved"
| "kind_type (ReviewPackagePrepared d v) = forensic_event_type.ReviewPackagePrepared"
| "kind_type (ExecutionStatusObserved d v) = forensic_event_type.ExecutionStatusObserved"

fun kind_summary :: "forensic_record_kind \<Rightarrow> string" where
  "kind_summary (DenialIssued d) = rd_operator_visible_summary d"
| "kind_summary (RouteDecisionResolved d) = rd_operator_visible_summary d"
| "kind_summary (ReviewPackagePrepared d v) = review_package_summary v"
| "kind_summary (ExecutionStatusObserved d v) = st_truthful_user_visible_summary (vs_status v)"

fun kind_state :: "forensic_record_kind \<Rightarrow> execution_state" where
  "kind_state (ReviewPackagePrepared d v) = WaitingExplicitApproval"
| "kind_state (ExecutionStatusObserved d v) = st_state (vs_status v)"
| "kind_state kind = resolved_state (rd_resolved_approval_posture (kind_decision kind))"

fun kind_subtype :: "forensic_record_kind \<Rightarrow> degraded_subtype option" where
  "kind_subtype (ReviewPackagePrepared d v) = rp_degraded_or_fallback_posture (vr_package v)"
| "kind_subtype (ExecutionStatusObserved d v) = st_degraded_subtype (vs_status v)"
| "kind_subtype kind = None"

definition summary_truthful :: "string \<Rightarrow> execution_state \<Rightarrow> degraded_subtype option \<Rightarrow> bool" where
  "summary_truthful summary state subtype \<longleftrightarrow>
     (mentions_success_or_completion summary \<longrightarrow>
        state \<in> {execution_state.Completed, CompletedWithConstraints, PartialSuccess}) \<and>
     (mentions_failure summary \<longrightarrow> state = execution_state.Failed) \<and>
     (mentions_cancellation summary \<longrightarrow> state = execution_state.Canceled) \<and>
     (mentions_degraded_or_constraints summary \<longrightarrow> subtype \<noteq> None)"

definition summary_recordable :: "string \<Rightarrow> execution_state \<Rightarrow> degraded_subtype option \<Rightarrow> bool" where
  "summary_recordable summary state subtype \<longleftrightarrow>
     bounded_text summary \<and> summary_truthful summary state subtype \<and>
     \<not> mentions_semantic_or_workflow_narration summary"

fun kind_recordable :: "forensic_record_kind \<Rightarrow> bool" where
  "kind_recordable (ReviewPackagePrepared d v) \<longleftrightarrow>
     rp_degraded_or_fallback_posture (vr_package v) \<in> insert None fallback_subtypes"
| "kind_recordable kind \<longleftrightarrow>
     summary_recordable (kind_summary kind) (kind_state kind) (kind_subtype kind)"

lemma validate_summary_truthfulness_Ok [result_simps]:
  "validate_summary_truthfulness summary state subtype = Ok u \<longleftrightarrow>
     bounded_text summary \<and> summary_truthful summary state subtype"
  by (auto simp: validate_summary_truthfulness_def validate_bounded_detail_def summary_truthful_def
      result_simps not_less)

lemma pre_execution_state_for_eq: "pre_execution_state_for p = Ok (resolved_state p)"
  by (cases p) simp_all

lemma resolved_state_postures: "p \<in> state_postures (resolved_state p)"
  by (cases p) (simp_all add: state_postures_def)

lemma resolved_state_event:
  "resolved_state p \<in> event_states forensic_event_type.RouteDecisionResolved"
  by (cases p) simp_all

text \<open>The two fixed summaries of a review handoff are truthful and do not narrate.\<close>

lemma review_package_summary_recordable:
  "summary_recordable (review_package_summary v) WaitingExplicitApproval subtype"
proof -
  have "summary_recordable ''bounded review handoff prepared with explicit fallback posture'' st subtype"
    "summary_recordable ''bounded review handoff prepared for explicit operator approval'' st subtype" for st
    unfolding summary_recordable_def summary_truthful_def by code_simp+
  then show ?thesis by (simp add: review_package_summary_def)
qed


text \<open>
  The recorder decides: an accepted fact becomes an event exactly when its summary may be said, and
  the event is well-formed and says what the fact says.
\<close>

definition event_says :: "forensic_record_kind \<Rightarrow> forensic_event \<Rightarrow> bool" where
  "event_says kind e \<longleftrightarrow>
     fe_event_type e = kind_type kind \<and>
     fe_request_id e = rd_request_id (kind_decision kind) \<and>
     fe_correlation_id e = rd_correlation_id (kind_decision kind) \<and>
     fe_current_posture e = rd_resolved_approval_posture (kind_decision kind) \<and>
     fe_execution_state e = kind_state kind \<and> fe_degraded_subtype e = kind_subtype kind \<and>
     fe_summary e = kind_summary kind"

lemma event_from_record_simps [simp]:
  "fe_correlation_id (event_from_record f t l r) = fk_correlation_id r"
  "fe_request_id (event_from_record f t l r) = fk_request_id r"
  "fe_event_type (event_from_record f t l r) = fk_event_type r"
  "fe_route_decision_id (event_from_record f t l r) = fk_route_decision_id r"
  "fe_execution_plan_id (event_from_record f t l r) = fk_execution_plan_id r"
  "fe_stable_plan_hash (event_from_record f t l r) = fk_stable_plan_hash r"
  "fe_review_package_id (event_from_record f t l r) = fk_review_package_id r"
  "fe_timestamp_utc (event_from_record f t l r) = t"
  "fe_current_posture (event_from_record f t l r) = fk_current_posture r"
  "fe_execution_state (event_from_record f t l r) = fk_execution_state r"
  "fe_degraded_subtype (event_from_record f t l r) = fk_degraded_subtype r"
  "fe_summary (event_from_record f t l r) = fk_summary r"
  "fe_redaction_level (event_from_record f t l r) = l"
  "fe_payload_minimized (event_from_record f t l r)"
  by (simp_all add: event_from_record_def)

text \<open>The record of an accepted fact, and when the event made from it is well-formed.\<close>

lemma build_forensic_record_says:
  assumes "kind_acceptable kind"
  obtains r where "build_forensic_record kind = Ok r" "event_says kind (event_from_record f t l r)"
    "fk_summary r = kind_summary kind" "fk_execution_state r = kind_state kind"
    "fk_degraded_subtype r = kind_subtype kind"
    "event_wf (event_from_record f t l r) \<longleftrightarrow>
       bounded_text (kind_summary kind) \<and>
       \<not> mentions_semantic_or_workflow_narration (kind_summary kind) \<and>
       kind_subtype kind \<in> event_subtypes (kind_type kind) (kind_state kind)"
proof (cases kind)
  case (DenialIssued d)
  with assms show ?thesis
    by (intro that) (auto simp: event_says_def event_wf_def state_postures_def)
next
  case (RouteDecisionResolved d)
  with assms show ?thesis
    using resolved_state_postures [of "rd_resolved_approval_posture d"]
      resolved_state_event [of "rd_resolved_approval_posture d"]
    by (intro that) (auto simp: event_says_def event_wf_def pre_execution_state_for_eq)
next
  case (ReviewPackagePrepared d v)
  with assms have p: "package_wf (vr_package v)"
    "rp_current_posture (vr_package v) = ExplicitOperatorApproval"
    "rd_resolved_approval_posture d = ExplicitOperatorApproval" by simp_all
  then have "(case rp_execution_status_context (vr_package v) of None \<Rightarrow> WaitingExplicitApproval
      | Some ctx \<Rightarrow> rx_state ctx) = WaitingExplicitApproval"
    by (cases "rp_execution_status_context (vr_package v)")
      (auto simp: package_wf_def context_wf_def awaited_state_def)
  with p ReviewPackagePrepared assms show ?thesis
    by (intro that) (auto simp: event_says_def event_wf_def package_wf_def state_postures_def)
next
  case (ExecutionStatusObserved d v)
  with assms have wf: "status_wf (vs_status v)" "admitted_posture (st_current_posture (vs_status v))"
    by auto
  note facts = status_wf_admitted [OF wf]
  have "st_current_posture (vs_status v) \<in> state_postures (st_state (vs_status v))"
    using wf(2) facts(1) by (auto simp: admitted_state_postures)
  with facts ExecutionStatusObserved assms show ?thesis
    by (intro that) (auto simp: event_says_def event_wf_def)
qed

lemma kind_recordable_iff:
  assumes "kind_acceptable kind"
  shows "kind_recordable kind \<longleftrightarrow>
    summary_recordable (kind_summary kind) (kind_state kind) (kind_subtype kind) \<and>
    kind_subtype kind \<in> event_subtypes (kind_type kind) (kind_state kind)"
proof (cases kind)
  case (RouteDecisionResolved d)
  then show ?thesis
    by (cases "rd_resolved_approval_posture d") simp_all
next
  case (ReviewPackagePrepared d v)
  then show ?thesis using review_package_summary_recordable by simp
next
  case (ExecutionStatusObserved d v)
  with assms have wf: "status_wf (vs_status v)" "admitted_posture (st_current_posture (vs_status v))"
    by auto
  from status_wf_admitted(5) [OF wf] ExecutionStatusObserved show ?thesis by simp
qed (use assms in simp)

lemma record_event_decides:
  assumes "new_record_input kind level ctx = Ok input"
  shows "(\<exists>v. record_event fresh input = Ok v) \<longleftrightarrow> kind_recordable kind"
    and "record_event fresh input = Ok v \<Longrightarrow> event_wf (vf_event v) \<and> event_says kind (vf_event v)"
proof -
  from assms have acc: "kind_acceptable kind"
    and input: "input = \<lparr>fi_kind = kind, fi_redaction_level = level, fi_context = ctx\<rparr>"
    by (simp_all add: new_record_input_Ok)
  let ?t = "fc_recorded_at_utc ctx"
  obtain r where r: "build_forensic_record kind = Ok r"
    "event_says kind (event_from_record fresh ?t level r)"
    "fk_summary r = kind_summary kind" "fk_execution_state r = kind_state kind"
    "fk_degraded_subtype r = kind_subtype kind"
    "event_wf (event_from_record fresh ?t level r) \<longleftrightarrow>
       bounded_text (kind_summary kind) \<and>
       \<not> mentions_semantic_or_workflow_narration (kind_summary kind) \<and>
       kind_subtype kind \<in> event_subtypes (kind_type kind) (kind_state kind)"
    by (rule build_forensic_record_says [OF acc])
  have eq: "record_event fresh input = Ok v \<longleftrightarrow> kind_recordable kind \<and>
      v = \<lparr>vf_event = event_from_record fresh ?t level r\<rparr>" for v
    by (auto simp: record_event_def input r(1,3-5) and_then_Ok validate_summary_truthfulness_Ok
        event_wrapper.construct_Ok event_wrapper.wrap_new_Ok validate_event_Ok r(6) kind_recordable_iff [OF acc] summary_recordable_def)
  show "(\<exists>v. record_event fresh input = Ok v) \<longleftrightarrow> kind_recordable kind"
    by (simp add: eq)
  show "record_event fresh input = Ok v \<Longrightarrow> event_wf (vf_event v) \<and> event_says kind (vf_event v)"
    using r(2,6) by (auto simp: eq kind_recordable_iff [OF acc] summary_recordable_def)
qed

end
