(* ===== verification/Pipeline.thy ===== *)
theory Pipeline
  imports Decision Step_Facts Forensic_Recording
begin

text \<open>
  The execution pipeline, \<open>src/app/execution_pipeline_service.rs\<close>: one run resolves a decision,
  validates the declared plan when the decision admits it, delivers the plan through the configured
  adapters and records forensic events for what happened.

  The parts of a run that are not code of the repository (contract files, decoders, hashing, the
  clock, the identifiers that are drawn, the file system) are the fields of \<open>pipeline_env\<close>;
  \<open>pe_event_ids n\<close> is the identifier of the event recorded \<open>n\<close>-th in the run.
\<close>

section \<open>Inputs and outcomes\<close>

datatype adapter_selection =
  LocalFileWrite string
| NmapPreflight string nmap_scan_profile

record capability_scoped_adapter_selection =
  sa_capability_id :: capability_id
  sa_selection :: adapter_selection

datatype dispatch_mode = WholeRoute | PerStep

definition default_dispatch_mode :: dispatch_mode where
  "default_dispatch_mode = WholeRoute"

record execution_pipeline_inputs =
  pi_request :: json
  pi_requester_trust :: json
  pi_policy :: json
  pi_capability_registry :: json
  pi_execution_plan :: "json option"

record forensic_record_outcome =
  fo_event :: validated_forensic_event
  fo_export_reference :: "string option"

record execution_pipeline_outcome =
  po_route_decision :: route_decision
  po_plan_denial :: "denial_guard option"
  po_execution_trace :: "execution_trace option"
  po_forensic_records :: "forensic_record_outcome list"

record 'w pipeline_env =
  pe_contracts :: contract_env
  pe_decoders :: decoders
  pe_plan_decoder :: "json \<Rightarrow> (execution_plan, string) result"
  pe_hash :: hash_env
  pe_show_uuid :: "uuid \<Rightarrow> string"
  pe_now :: timestamp
  pe_event_ids :: "nat \<Rightarrow> forensic_event_id"
  pe_fs :: "'w fs_env"

section \<open>Adapters\<close>

fun build_adapter ::
  "'w pipeline_env \<Rightarrow> adapter_selection \<Rightarrow> capability_id \<Rightarrow> 'w delivery_adapter" where
  "build_adapter env (adapter_selection.LocalFileWrite delivery_root) cap =
     local_file_adapter (pe_fs env) (pe_show_uuid env)
       \<lparr>lf_supported_capability_id = cap, lf_delivery_root = delivery_root\<rparr>"
| "build_adapter env (NmapPreflight nmap_binary scan_profile) cap =
     nmap_adapter (pe_fs env)
       \<lparr>nm_supported_capability_id = cap, nm_nmap_binary = nmap_binary, nm_scan_profile = scan_profile\<rparr>"

fun register_additional ::
  "'w pipeline_env \<Rightarrow> 'w adapter_registry \<Rightarrow> capability_scoped_adapter_selection list \<Rightarrow>
   'w adapter_registry fa_local_result" where
  "register_additional env registry [] = Ok registry"
| "register_additional env registry (entry # entries) =
     and_then (register (pe_show_uuid env) registry (sa_capability_id entry)
         (build_adapter env (sa_selection entry) (sa_capability_id entry)))
       (\<lambda>registry. register_additional env registry entries)"

definition build_registry ::
  "'w pipeline_env \<Rightarrow> capability_id \<Rightarrow> adapter_selection option \<Rightarrow>
   capability_scoped_adapter_selection list \<Rightarrow> 'w adapter_registry fa_local_result" where
  "build_registry env route_capability selection additional =
     and_then (case selection of
         None \<Rightarrow> Ok new_registry
       | Some selection \<Rightarrow> register (pe_show_uuid env) new_registry route_capability
           (build_adapter env selection route_capability))
       (\<lambda>registry. register_additional env registry additional)"

section \<open>Recording\<close>

text \<open>The method \<open>record\<close>; \<open>n\<close> counts the events recorded before.\<close>

definition record_fact ::
  "'w pipeline_env \<Rightarrow> nat \<Rightarrow> forensic_record_kind \<Rightarrow> redaction_level \<Rightarrow> forensic_record_context \<Rightarrow>
   'w export_adapter option \<Rightarrow> ('w, forensic_record_outcome) effect" where
  "record_fact env n kind level ctx export =
     and_do (pure_do (new_record_input kind level ctx)) (\<lambda>input.
     case export of
       Some adapter \<Rightarrow>
         and_do (record_and_export_event_via (pe_event_ids env n) input adapter) (\<lambda>exported.
         pure_do (Ok \<lparr>fo_event = xr_event exported,
           fo_export_reference = Some (er_export_reference (xr_export_receipt exported))\<rparr>))
     | None \<Rightarrow>
         and_do (pure_do (record_event (pe_event_ids env n) input)) (\<lambda>event.
         pure_do (Ok \<lparr>fo_event = event, fo_export_reference = None\<rparr>)))"

text \<open>The loop over the statuses of the trace.\<close>

fun record_statuses ::
  "'w pipeline_env \<Rightarrow> nat \<Rightarrow> route_decision \<Rightarrow> validated_execution_status list \<Rightarrow>
   forensic_record_context \<Rightarrow> 'w export_adapter option \<Rightarrow> ('w, forensic_record_outcome list) effect"
where
  "record_statuses env n d [] ctx export = pure_do (Ok [])"
| "record_statuses env n d (status # statuses) ctx export =
     and_do (record_fact env n (ExecutionStatusObserved d status) LinkageOnly ctx export) (\<lambda>r.
     and_do (record_statuses env (Suc n) d statuses ctx export) (\<lambda>rs. pure_do (Ok (r # rs))))"

section \<open>The run\<close>

definition pipeline_outcome ::
  "route_decision \<Rightarrow> denial_guard option \<Rightarrow> execution_trace option \<Rightarrow> forensic_record_outcome list \<Rightarrow>
   execution_pipeline_outcome" where
  "pipeline_outcome d denial trace records =
     \<lparr>po_route_decision = d, po_plan_denial = denial, po_execution_trace = trace,
      po_forensic_records = records\<rparr>"

text \<open>The arms of the first \<open>match\<close> that record one event and return.\<close>

definition record_and_stop ::
  "'w pipeline_env \<Rightarrow> route_decision \<Rightarrow> forensic_record_kind \<Rightarrow> forensic_record_context \<Rightarrow>
   'w export_adapter option \<Rightarrow> ('w, execution_pipeline_outcome) effect" where
  "record_and_stop env d kind ctx export =
     and_do (record_fact env 0 kind SensitiveFieldsRedacted ctx export) (\<lambda>r.
     pure_do (Ok (pipeline_outcome d None None [r])))"

definition dispatch_plan ::
  "'w pipeline_env \<Rightarrow> dispatch_mode \<Rightarrow> selected_execution_route \<Rightarrow> validated_execution_plan \<Rightarrow>
   'w adapter_registry \<Rightarrow> coordination_context \<Rightarrow> ('w, execution_trace) effect" where
  "dispatch_plan env mode route plan registry ctx =
     (case mode of
        WholeRoute \<Rightarrow> deliver_selected_route_via_registry (pe_show_uuid env) route registry ctx
      | PerStep \<Rightarrow> deliver_plan_per_step_via_registry (pe_show_uuid env) route plan registry ctx)"

text \<open>The run from a validated plan on.\<close>

definition deliver_and_record ::
  "'w pipeline_env \<Rightarrow> route_decision \<Rightarrow> validated_execution_plan \<Rightarrow> adapter_selection option \<Rightarrow>
   capability_scoped_adapter_selection list \<Rightarrow> dispatch_mode \<Rightarrow> 'w export_adapter option \<Rightarrow>
   timestamp \<Rightarrow> ('w, execution_pipeline_outcome) effect" where
  "deliver_and_record env d plan selection additional mode export decided_at =
     and_do (pure_do (new_routing_input d (Some plan))) (\<lambda>routing.
     and_do (pure_do (select_route routing)) (\<lambda>route.
     and_do (pure_do (build_registry env (requested_capability d) selection additional)) (\<lambda>registry.
     and_do (dispatch_plan env mode route plan registry
       \<lparr>cx_coordinated_at_utc = decided_at, cx_started_at_utc = decided_at,
        cx_completed_at_utc = decided_at\<rparr>) (\<lambda>trace.
     and_do (record_statuses env 0 d (tr_statuses trace) (new_record_context decided_at) export)
       (\<lambda>records.
     pure_do (Ok (pipeline_outcome d None (Some trace) records)))))))"

definition run_admitted ::
  "'w pipeline_env \<Rightarrow> execution_pipeline_inputs \<Rightarrow> route_decision \<Rightarrow> adapter_selection option \<Rightarrow>
   capability_scoped_adapter_selection list \<Rightarrow> dispatch_mode \<Rightarrow> 'w export_adapter option \<Rightarrow>
   timestamp \<Rightarrow> ('w, execution_pipeline_outcome) effect" where
  "run_admitted env inputs d selection additional mode export decided_at =
     and_do (pure_do (ok_or (pi_execution_plan inputs)
       (fa_local_error.ContractInvalid ''admitted route decision requires an execution plan'')))
       (\<lambda>plan_value.
     and_do (pure_do (load_registry (pe_contracts env) (dc_capability_registry (pe_decoders env))
       (pi_capability_registry inputs))) (\<lambda>capability_registry.
     and_do (pure_do (load_execution_plan (pe_contracts env) (pe_plan_decoder env) plan_value))
       (\<lambda>plan.
     case validate_plan (pe_hash env) (pe_now env) plan capability_registry of
       Err denial \<Rightarrow> pure_do (Ok (pipeline_outcome d (Some denial) None []))
     | Ok validated \<Rightarrow>
         deliver_and_record env d validated selection additional mode export decided_at)))"

definition run_pipeline ::
  "'w pipeline_env \<Rightarrow> execution_pipeline_inputs \<Rightarrow> adapter_selection option \<Rightarrow>
   capability_scoped_adapter_selection list \<Rightarrow> dispatch_mode \<Rightarrow> 'w export_adapter option \<Rightarrow>
   route_resolution_context \<Rightarrow> ('w, execution_pipeline_outcome) effect" where
  "run_pipeline env inputs selection additional mode export ctx =
     and_do (partial_do (resolve_route_decision (pe_contracts env) (pe_decoders env)
       (pe_show_uuid env) (pe_now env) (pi_request inputs) (pi_requester_trust inputs)
       (pi_policy inputs) (pi_capability_registry inputs) ctx)) (\<lambda>d.
     let forensic_context = new_record_context (rc_decided_at_utc ctx) in
     case rd_resolved_approval_posture d of
       approval_posture.Denied \<Rightarrow>
         record_and_stop env d (DenialIssued d) forensic_context export
     | approval_posture.ReviewRequired \<Rightarrow>
         record_and_stop env d (RouteDecisionResolved d) forensic_context export
     | ExplicitOperatorApproval \<Rightarrow>
         record_and_stop env d (RouteDecisionResolved d) forensic_context export
     | _ \<Rightarrow> run_admitted env inputs d selection additional mode export (rc_decided_at_utc ctx))"


section \<open>Effects that only move the world along a relation\<close>

definition moves :: "('w \<Rightarrow> 'w \<Rightarrow> bool) \<Rightarrow> ('w, 'v) effect \<Rightarrow> bool" where
  "moves R m \<longleftrightarrow> (\<forall>w w' r. m w = Some (w', r) \<longrightarrow> R w w')"

lemma movesD: "moves R m \<Longrightarrow> m w = Some (w', r) \<Longrightarrow> R w w'"
  by (auto simp: moves_def)

locale world_relation =
  fixes R :: "'w \<Rightarrow> 'w \<Rightarrow> bool"
  assumes R_refl: "R w w" and R_trans: "R w1 w2 \<Longrightarrow> R w2 w3 \<Longrightarrow> R w1 w3"
begin

lemma moves_pure: "moves R (pure_do r)"
  by (auto simp: moves_def R_refl)

lemma moves_partial: "moves R (partial_do r)"
  by (auto simp: moves_def partial_do_def R_refl)

lemma moves_and_do:
  assumes "moves R m" and "\<And>v. moves R (f v)"
  shows "moves R (and_do m f)"
  unfolding moves_def
proof (intro allI impI)
  fix w w' r
  assume "and_do m f w = Some (w', r)"
  then consider "\<exists>e. m w = Some (w', Err e)" | v w1 where "m w = Some (w1, Ok v)" "f v w1 = Some (w', r)"
    by (auto simp: and_do_def split: option.splits result.splits)
  then show "R w w'"
    using assms by cases (auto intro: R_trans dest: movesD)
qed

lemma moves_call:
  assumes "\<And>w w' a. da_deliver_route adapter request w = Some (w', a) \<Longrightarrow> R w w'"
  shows "moves R (call_adapter adapter request)"
  using assms by (auto simp: moves_def call_adapter_def)

text \<open>
  A delivery moves the world only through the adapters of its registry, on the request built from
  the route or on the requests built from the plan's steps.
\<close>

lemma moves_whole_route:
  assumes "\<And>adapter w w' a. resolve_adapter registry (sr_requested_capability_id route) = Some adapter \<Longrightarrow>
    da_deliver_route adapter (route_request route) w = Some (w', a) \<Longrightarrow> R w w'"
  shows "moves R (deliver_selected_route_via_registry show_uuid route registry ctx)"
proof (cases "validate_selected_route_for_delivery route")
  case (Err e)
  then show ?thesis by (simp add: deliver_selected_route_via_registry_def moves_pure)
next
  case (Ok u)
  then have request: "adapter_request_for route = Ok (route_request route)"
    by (simp add: result_simps)
  show ?thesis
  proof (cases "resolve_adapter registry (sr_requested_capability_id route)")
    case None
    then show ?thesis
      by (simp add: deliver_selected_route_via_registry_def Ok moves_pure)
  next
    case (Some adapter)
    then show ?thesis
      unfolding deliver_selected_route_via_registry_def deliver_via_adapter_def Ok request and_do_pure
        Some option.case
      by (intro moves_and_do moves_pure moves_call) (rule assms [OF Some])
  qed
qed

lemma moves_per_step:
  assumes adapters: "\<And>s adapter w w' a. s \<in> set (pl_steps (vp_plan plan)) \<Longrightarrow>
    resolve_adapter registry (step_capability_id s) = Some adapter \<Longrightarrow>
    da_deliver_route adapter (step_request route plan s) w = Some (w', a) \<Longrightarrow> R w w'"
  shows "moves R (deliver_plan_per_step_via_registry show_uuid route plan registry ctx)"
proof -
  have dispatch: "moves R (dispatch_one_step show_uuid route plan registry s)"
    if "s \<in> set (pl_steps (vp_plan plan))" for s
    using adapters [OF that]
    by (auto simp: dispatch_one_step_def moves_pure intro!: moves_and_do moves_call split: option.split)
  have fallback: "moves R (attempt_fallback show_uuid route plan registry started s outcome run)"
    for started s outcome run
  proof (cases "if did_not_complete outcome
      then declared_fallback_step plan (step_id s) (run_fallback_results run) else None")
    case None
    show ?thesis unfolding attempt_fallback_def None option.case by (rule moves_pure)
  next
    case (Some t)
    then have "declared_fallback_step plan (step_id s) (run_fallback_results run) = Some t"
      by (simp split: if_splits)
    note t = declared_fallback_step_Some(1) [OF this]
    show ?thesis
      unfolding attempt_fallback_def Some option.case
      by (intro moves_and_do moves_pure dispatch [OF t])
  qed
  have step: "moves R (deliver_step show_uuid route plan registry started s run)"
    if "s \<in> set (pl_steps (vp_plan plan))" for started s run
    unfolding deliver_step_def
    by (auto simp: case_prod_unfold split: option.split
        intro!: moves_and_do moves_pure dispatch [OF that] fallback)
  have steps: "moves R (deliver_steps show_uuid route plan registry started ss run)"
    if "set ss \<subseteq> set (pl_steps (vp_plan plan))" for started ss run
    using that by (induction ss arbitrary: run) (auto intro: moves_pure moves_and_do step)
  show ?thesis
    unfolding deliver_plan_per_step_via_registry_def
    by (intro moves_and_do moves_pure moves_partial steps) simp
qed

end

section \<open>The only files a run writes\<close>

text \<open>
  Writes of the receipt of one request and plan, under the delivery roots of the run; the contents of
  the receipts and whether a write succeeds do not matter here.
\<close>

inductive receipts ::
  "'w pipeline_env \<Rightarrow> string set \<Rightarrow> request_id \<Rightarrow> string \<Rightarrow> 'w \<Rightarrow> 'w \<Rightarrow> bool"
  for env roots request hash where
  receipts_none: "receipts env roots request hash w w"
| receipts_write: "receipts env roots request hash w w1 \<Longrightarrow> root \<in> roots \<Longrightarrow>
    fst (fs_write (pe_fs env) (receipt_path_for (pe_show_uuid env)
      \<lparr>lf_supported_capability_id = cap, lf_delivery_root = root\<rparr> request hash) content w1) = w2 \<Longrightarrow>
    receipts env roots request hash w w2"

lemma receipts_trans:
  assumes "receipts env roots request hash w1 w2" and "receipts env roots request hash w2 w3"
  shows "receipts env roots request hash w1 w3"
  using assms(2,1) by induction (auto intro: receipts_write)

interpretation receipts: world_relation "receipts env roots request hash"
  for env :: "'w pipeline_env" and roots request hash
  by unfold_locales (auto intro: receipts_none receipts_trans)

fun selected_root :: "adapter_selection \<Rightarrow> string set" where
  "selected_root (adapter_selection.LocalFileWrite root) = {root}"
| "selected_root (NmapPreflight binary profile) = {}"

lemma build_adapter_receipts:
  assumes "selected_root selection \<subseteq> roots"
    and "da_deliver_route (build_adapter env selection cap) request w = Some (w', a)"
  shows "receipts env roots (dr_request_id request) (dr_stable_plan_hash request) w w'"
proof (cases selection)
  case (LocalFileWrite root)
  let ?config = "\<lparr>lf_supported_capability_id = cap, lf_delivery_root = root\<rparr>"
  have "w' = w \<or> (\<exists>content. fst (fs_write (pe_fs env) (receipt_path_for (pe_show_uuid env) ?config
      (dr_request_id request) (dr_stable_plan_hash request)) content w) = w')"
    using assms(2) LocalFileWrite
    by (auto simp: local_file_adapter_def local_file_deliver_route_def
        intro!: exI [of _ "receipt_contents (pe_show_uuid env) request"]
        split: result.splits if_splits list.splits prod.splits io_error_kind.splits)
  moreover have "root \<in> roots"
    using assms(1) LocalFileWrite by simp
  ultimately show ?thesis
    by (elim disjE exE) (simp add: receipts_none, rule receipts_write [OF receipts_none])
next
  case (NmapPreflight binary profile)
  with assms show ?thesis
    by (auto simp: nmap_adapter_def nmap_deliver_route_def intro: receipts_none)
qed


text \<open>Every adapter of the registry was built for the capability it serves.\<close>

definition selections ::
  "adapter_selection option \<Rightarrow> capability_scoped_adapter_selection list \<Rightarrow> adapter_selection set" where
  "selections selection additional = set_option selection \<union> sa_selection ` set additional"

definition built_for ::
  "'w pipeline_env \<Rightarrow> adapter_selection set \<Rightarrow> 'w adapter_registry \<Rightarrow> bool" where
  "built_for env sels registry \<longleftrightarrow> (\<forall>cap adapter. resolve_adapter registry cap = Some adapter \<longrightarrow>
     (\<exists>sel \<in> sels. adapter = build_adapter env sel cap))"

lemma built_for_mono: "built_for env A registry \<Longrightarrow> A \<subseteq> B \<Longrightarrow> built_for env B registry"
  unfolding built_for_def by blast

lemma built_for_register:
  assumes "built_for env A registry" and "register show_uuid registry cap (build_adapter env sel cap) = Ok registry'"
  shows "built_for env (insert sel A) registry'"
proof -
  have "registry' = Mapping.update cap (build_adapter env sel cap) registry"
    using assms(2) by (simp add: register_def split: if_splits)
  with assms(1) show ?thesis
    by (auto simp: built_for_def resolve_adapter_update split: if_splits)
qed

lemma register_additional_built:
  assumes "built_for env A registry" and "register_additional env registry entries = Ok registry'"
  shows "built_for env (A \<union> sa_selection ` set entries) registry'"
  using assms
proof (induction entries arbitrary: A registry)
  case (Cons entry entries)
  then obtain registry1 where
    r1: "register (pe_show_uuid env) registry (sa_capability_id entry)
       (build_adapter env (sa_selection entry) (sa_capability_id entry)) = Ok registry1"
    and r: "register_additional env registry1 entries = Ok registry'"
    by (auto simp: result_simps)
  from Cons.IH [OF built_for_register [OF Cons.prems(1) r1] r] show ?case
    by (rule built_for_mono) auto
qed simp

lemma build_registry_built:
  assumes "build_registry env cap selection additional = Ok registry"
  shows "built_for env (selections selection additional) registry"
proof -
  have new: "built_for env {} new_registry"
    by (simp add: built_for_def new_registry_def resolve_adapter_def)
  show ?thesis
  proof (cases selection)
    case None
    with assms have "register_additional env new_registry additional = Ok registry"
      by (simp add: build_registry_def)
    from register_additional_built [OF new this] None show ?thesis
      by (simp add: selections_def)
  next
    case (Some sel)
    with assms obtain registry1 where
      r1: "register (pe_show_uuid env) new_registry cap (build_adapter env sel cap) = Ok registry1"
      and r: "register_additional env registry1 additional = Ok registry"
      by (auto simp: build_registry_def result_simps)
    from register_additional_built [OF built_for_register [OF new r1] r] Some show ?thesis
      by (simp add: selections_def)
  qed
qed

text \<open>The delivery roots of a run.\<close>

definition delivery_roots ::
  "adapter_selection option \<Rightarrow> capability_scoped_adapter_selection list \<Rightarrow> string set" where
  "delivery_roots selection additional = \<Union> (selected_root ` selections selection additional)"

lemma built_for_receipts:
  assumes "built_for env (selections selection additional) registry"
    and "resolve_adapter registry cap = Some adapter"
    and "da_deliver_route adapter request w = Some (w', a)"
  shows "receipts env (delivery_roots selection additional)
    (dr_request_id request) (dr_stable_plan_hash request) w w'"
proof -
  obtain sel where "sel \<in> selections selection additional" "adapter = build_adapter env sel cap"
    using assms(1,2) by (auto simp: built_for_def)
  with assms(3) show ?thesis
    by (intro build_adapter_receipts [of sel]) (auto simp: delivery_roots_def)
qed

section \<open>The exports of a run\<close>

text \<open>Calls of the export adapter of a run, each on a well-formed event.\<close>

inductive exports :: "'w export_adapter option \<Rightarrow> 'w \<Rightarrow> 'w \<Rightarrow> bool" for export where
  exports_none: "exports export w w"
| exports_event: "exports export w w1 \<Longrightarrow> export = Some adapter \<Longrightarrow> event_wf (vf_event event) \<Longrightarrow>
    ea_export_event adapter event w1 = Some (w2, answer) \<Longrightarrow> exports export w w2"

lemma exports_trans: "exports export w2 w3 \<Longrightarrow> exports export w1 w2 \<Longrightarrow> exports export w1 w3"
  by (induction rule: exports.induct) (auto intro: exports_event)

lemma exports_None [simp]: "exports None w w' \<longleftrightarrow> w' = w"
  by (auto elim: exports.cases intro: exports_none)

interpretation exports: world_relation "exports export" for export :: "'w export_adapter option"
  by unfold_locales (auto intro: exports_none exports_trans)

lemma moves_record_fact: "moves (exports export) (record_fact env n kind level ctx export)"
proof (cases "new_record_input kind level ctx")
  case (Err e)
  then show ?thesis by (simp add: record_fact_def exports.moves_pure)
next
  case input: (Ok input)
  show ?thesis
  proof (cases export)
    case None
    then show ?thesis
      by (cases "record_event (pe_event_ids env n) input")
        (simp_all add: record_fact_def input exports.moves_pure del: exports_None)
  next
    case (Some adapter)
    have "moves (exports export) (record_and_export_event_via (pe_event_ids env n) input adapter)"
    proof (cases "record_event (pe_event_ids env n) input")
      case (Err e)
      then show ?thesis by (simp add: record_and_export_event_via_def exports.moves_pure)
    next
      case (Ok event)
      then have "event_wf (vf_event event)"
        using record_event_decides(2) [OF input] by blast
      then have "moves (exports export) (call_export adapter event)"
        using Some by (auto simp: moves_def call_export_def intro: exports_event [OF exports_none])
      then show ?thesis
        unfolding record_and_export_event_via_def Ok and_do_pure
        by (intro exports.moves_and_do exports.moves_pure)
    qed
    then show ?thesis
      unfolding record_fact_def input and_do_pure Some option.case
      by (intro exports.moves_and_do exports.moves_pure) (simp add: Some)
  qed
qed

lemma moves_record_statuses: "moves (exports export) (record_statuses env n d statuses ctx export)"
  by (induction statuses arbitrary: n)
    (auto intro!: exports.moves_pure exports.moves_and_do moves_record_fact)

lemma moves_record_and_stop: "moves (exports export) (record_and_stop env d kind ctx export)"
  unfolding record_and_stop_def by (intro exports.moves_and_do exports.moves_pure moves_record_fact)

section \<open>What a run without an export adapter leaves\<close>

text \<open>Recording without an export adapter does not touch the world.\<close>

lemma record_fact_None:
  "\<exists>r. record_fact env n kind level ctx None = pure_do r"
proof (cases "new_record_input kind level ctx")
  case (Ok input)
  then show ?thesis
    by (cases "record_event (pe_event_ids env n) input") (auto simp: record_fact_def)
qed (auto simp: record_fact_def)

lemma record_statuses_None:
  "\<exists>r. record_statuses env n d statuses ctx None = pure_do r"
proof (induction statuses arbitrary: n)
  case Nil
  then show ?case by auto
next
  case (Cons s statuses)
  obtain r where r: "record_fact env n (ExecutionStatusObserved d s) LinkageOnly ctx None = pure_do r"
    using record_fact_None by blast
  obtain rs where rs: "record_statuses env (Suc n) d statuses ctx None = pure_do rs"
    using Cons.IH by blast
  show ?case by (cases r; cases rs) (auto simp: r rs)
qed

lemma record_and_stop_None: "\<exists>r. record_and_stop env d kind ctx None = pure_do r"
proof -
  obtain r where "record_fact env 0 kind SensitiveFieldsRedacted ctx None = pure_do r"
    using record_fact_None by blast
  then show ?thesis by (cases r) (auto simp: record_and_stop_def)
qed

lemma new_routing_route:
  assumes "new_routing_input d (Some plan) = Ok routing" and "select_route routing = Ok route"
    and "admitted_posture (rd_resolved_approval_posture d)"
  shows "route = routable_plan_selection d plan ExternalAdapterBoundedExecution True False"
    and "plan_answers d plan" and "coherent d"
proof -
  have acc: "coherent d" "plan_answers d plan"
    using assms(1) by (simp_all add: new_routing_input_Ok)
  then show "plan_answers d plan" "coherent d" by simp_all
  from select_route_Ok [OF assms(1)] assms(2,3)
  show "route = routable_plan_selection d plan ExternalAdapterBoundedExecution True False"
    by (auto simp: route_of_def)
qed

lemma dispatch_plan_receipts:
  assumes "built_for env (selections selection additional) registry"
    and "sr_request_id route = request" and "sr_stable_plan_hash route = Some hash"
    and "vp_stable_plan_hash plan = hash"
  shows "moves (receipts env (delivery_roots selection additional) request hash)
    (dispatch_plan env mode route plan registry ctx)"
proof (cases mode)
  case WholeRoute
  have fields: "dr_request_id (route_request route) = request"
    "dr_stable_plan_hash (route_request route) = hash"
    using assms(2,3) by (simp_all add: route_request_def)
  show ?thesis
    unfolding dispatch_plan_def WholeRoute dispatch_mode.case
    by (rule receipts.moves_whole_route)
      (rule built_for_receipts [OF assms(1), of _ _ "route_request route", unfolded fields])
next
  case PerStep
  have fields: "dr_request_id (step_request route plan s) = request"
    "dr_stable_plan_hash (step_request route plan s) = hash" for s
    using assms(2,4) by (simp_all add: step_request_def)
  show ?thesis
    unfolding dispatch_plan_def PerStep dispatch_mode.case
    by (rule receipts.moves_per_step)
      (rule built_for_receipts [OF assms(1), of _ _ "step_request route plan s" for s, unfolded fields])
qed

lemma deliver_and_record_world:
  assumes "deliver_and_record env d plan selection additional mode export at w = Some (w', r)"
    and "admitted_posture (rd_resolved_approval_posture d)"
  shows "\<exists>v. exports export v w' \<and> (v \<noteq> w \<longrightarrow> plan_answers d plan \<and>
    receipts env (delivery_roots selection additional) (rd_request_id d) (vp_stable_plan_hash plan) w v)"
proof (cases "w' = w")
  case True
  then show ?thesis by (intro exI [of _ w]) (simp add: exports_none)
next
  case False
  let ?at = "\<lparr>cx_coordinated_at_utc = at, cx_started_at_utc = at, cx_completed_at_utc = at\<rparr>"
  from assms(1) False obtain routing route registry where
    ri: "new_routing_input d (Some plan) = Ok routing" and sel: "select_route routing = Ok route"
    and reg: "build_registry env (requested_capability d) selection additional = Ok registry"
    and tail: "and_do (dispatch_plan env mode route plan registry ?at) (\<lambda>trace.
     and_do (record_statuses env 0 d (tr_statuses trace) (new_record_context at) export) (\<lambda>records.
     pure_do (Ok (pipeline_outcome d None (Some trace) records)))) w = Some (w', r)"
    unfolding deliver_and_record_def
    by (cases "new_routing_input d (Some plan)"; simp; cases "select_route (the (ok_value (new_routing_input d (Some plan))))";
        simp; cases "build_registry env (requested_capability d) selection additional"; simp)
  note route = new_routing_route [OF ri sel assms(2)]
  let ?R = "receipts env (delivery_roots selection additional) (rd_request_id d) (vp_stable_plan_hash plan)"
  have delivers: "moves ?R (dispatch_plan env mode route plan registry ?at)"
    by (rule dispatch_plan_receipts [OF build_registry_built [OF reg]])
      (simp_all add: route(1) routable_plan_selection_def)
  from tail obtain v delivered where v: "dispatch_plan env mode route plan registry ?at w = Some (v, delivered)"
    and rest: "case delivered of Err e \<Rightarrow> w' = v | Ok trace \<Rightarrow>
      and_do (record_statuses env 0 d (tr_statuses trace) (new_record_context at) export) (\<lambda>records.
        pure_do (Ok (pipeline_outcome d None (Some trace) records))) v = Some (w', r)"
    by (auto simp: and_do_def [of "dispatch_plan env mode route plan registry ?at"] split: option.splits result.splits)
  have "exports export v w'"
  proof (cases delivered)
    case (Ok trace)
    have "moves (exports export) (and_do (record_statuses env 0 d (tr_statuses trace) (new_record_context at) export)
        (\<lambda>records. pure_do (Ok (pipeline_outcome d None (Some trace) records))))"
      by (intro exports.moves_and_do exports.moves_pure moves_record_statuses)
    with rest Ok show ?thesis by (auto dest: movesD)
  qed (use rest in \<open>simp add: exports_none\<close>)
  with movesD [OF delivers v] route(2) show ?thesis by blast
qed

text \<open>
  The plan of a run that changes files: the one the inputs declare, accepted by the plan validator
  against the registry the decision was made with.
\<close>

definition declared_plan_valid ::
  "'w pipeline_env \<Rightarrow> execution_pipeline_inputs \<Rightarrow> validated_execution_plan \<Rightarrow> bool" where
  "declared_plan_valid env inputs plan \<longleftrightarrow>
     (\<exists>v registry declared. pi_execution_plan inputs = Some v \<and>
        load_registry (pe_contracts env) (dc_capability_registry (pe_decoders env))
          (pi_capability_registry inputs) = Ok registry \<and>
        load_execution_plan (pe_contracts env) (pe_plan_decoder env) v = Ok declared \<and>
        validate_plan (pe_hash env) (pe_now env) declared registry = Ok plan)"

lemma run_admitted_cases:
  assumes "run_admitted env inputs d selection additional mode export at w = Some (w', r)"
  obtains e where "r = Err e" "w' = w"
  | denial where "r = Ok (pipeline_outcome d (Some denial) None [])" "w' = w"
  | plan where "declared_plan_valid env inputs plan"
      "deliver_and_record env d plan selection additional mode export at w = Some (w', r)"
proof (cases "pi_execution_plan inputs")
  case None
  with assms that(1) show ?thesis by (auto simp: run_admitted_def)
next
  case (Some v)
  let ?reg = "load_registry (pe_contracts env) (dc_capability_registry (pe_decoders env))
    (pi_capability_registry inputs)"
  let ?plan = "load_execution_plan (pe_contracts env) (pe_plan_decoder env) v"
  show ?thesis
  proof (cases ?reg)
    case (Err e)
    with assms that(1) Some show ?thesis by (auto simp: run_admitted_def)
  next
    case reg: (Ok registry)
    show ?thesis
    proof (cases ?plan)
      case (Err e)
      with assms that(1) Some reg show ?thesis by (auto simp: run_admitted_def)
    next
      case (Ok declared)
      with assms that(2,3) Some reg show ?thesis
        by (cases "validate_plan (pe_hash env) (pe_now env) declared registry")
          (auto simp: run_admitted_def declared_plan_valid_def)
    qed
  qed
qed

lemma run_pipeline_cases:
  assumes "run_pipeline env inputs selection additional mode export ctx w = Some (w', r)"
  obtains e where "resolve_route_decision (pe_contracts env) (pe_decoders env) (pe_show_uuid env)
      (pe_now env) (pi_request inputs) (pi_requester_trust inputs) (pi_policy inputs)
      (pi_capability_registry inputs) ctx = Some (Err e)" "r = Err e" "w' = w"
  | d where "resolve_route_decision (pe_contracts env) (pe_decoders env) (pe_show_uuid env)
      (pe_now env) (pi_request inputs) (pi_requester_trust inputs) (pi_policy inputs)
      (pi_capability_registry inputs) ctx = Some (Ok d)"
      "\<not> admitted_posture (rd_resolved_approval_posture d)"
      "record_and_stop env d (if rd_resolved_approval_posture d = approval_posture.Denied
         then DenialIssued d else RouteDecisionResolved d)
       (new_record_context (rc_decided_at_utc ctx)) export w = Some (w', r)"
  | d where "resolve_route_decision (pe_contracts env) (pe_decoders env) (pe_show_uuid env)
      (pe_now env) (pi_request inputs) (pi_requester_trust inputs) (pi_policy inputs)
      (pi_capability_registry inputs) ctx = Some (Ok d)"
      "admitted_posture (rd_resolved_approval_posture d)"
      "run_admitted env inputs d selection additional mode export (rc_decided_at_utc ctx) w = Some (w', r)"
proof -
  let ?res = "resolve_route_decision (pe_contracts env) (pe_decoders env) (pe_show_uuid env)
      (pe_now env) (pi_request inputs) (pi_requester_trust inputs) (pi_policy inputs)
      (pi_capability_registry inputs) ctx"
  show thesis
  proof (cases ?res)
    case None
    with assms show ?thesis by (simp add: run_pipeline_def and_do_def partial_do_def)
  next
    case (Some res)
    show ?thesis
    proof (cases res)
      case (Err e)
      with assms Some that(1) show ?thesis by (auto simp: run_pipeline_def and_do_def partial_do_def)
    next
      case (Ok d)
      with assms Some that(2,3) show ?thesis
        by (cases "rd_resolved_approval_posture d")
          (auto simp: run_pipeline_def and_do_def partial_do_def Let_def)
    qed
  qed
qed

text \<open>
  A run changes the world in two stages: the writes of its delivery, if it has the authority for one,
  and after them the exports of its events.
\<close>

lemma run_pipeline_changes:
  assumes run: "run_pipeline env inputs selection additional mode export ctx w = Some (w', r)"
  shows "\<exists>v. exports export v w' \<and> (v \<noteq> w \<longrightarrow> (\<exists>er trust p c plan.
    authorised (pe_contracts env) (pe_decoders env) (pi_request inputs) (pi_requester_trust inputs)
      (pi_policy inputs) (pi_capability_registry inputs) (rc_decided_at_utc ctx) er trust p c \<and>
    declared_plan_valid env inputs plan \<and>
    pl_originating_request_id (vp_plan plan) = er_request_id er \<and>
    er_requested_capability_id er \<in> set (pl_referenced_capabilities (vp_plan plan)) \<and>
    receipts env (delivery_roots selection additional) (er_request_id er)
      (vp_stable_plan_hash plan) w v))"
  using run
proof (cases rule: run_pipeline_cases)
  case (1 e)
  then show ?thesis by (intro exI [of _ w]) (simp add: exports_none)
next
  case (2 d)
  from movesD [OF moves_record_and_stop 2(3)] show ?thesis by (intro exI [of _ w]) simp
next
  case (3 d)
  from 3(3) show ?thesis
  proof (cases rule: run_admitted_cases)
    case (3 plan)
    from deliver_and_record_world [OF 3(2) \<open>admitted_posture (rd_resolved_approval_posture d)\<close>] obtain v where
      v: "exports export v w'" "v \<noteq> w \<Longrightarrow> plan_answers d plan \<and>
        receipts env (delivery_roots selection additional) (rd_request_id d) (vp_stable_plan_hash plan) w v"
      by blast
    have "rd_resolved_approval_posture d \<noteq> approval_posture.Denied"
      using \<open>admitted_posture (rd_resolved_approval_posture d)\<close> by auto
    from decision_authorised [OF \<open>resolve_route_decision _ _ _ _ _ _ _ _ _ = _\<close> this] obtain er trust p c where
      auth: "authorised (pe_contracts env) (pe_decoders env) (pi_request inputs)
        (pi_requester_trust inputs) (pi_policy inputs) (pi_capability_registry inputs)
        (rc_decided_at_utc ctx) er trust p c" and ids: "rd_request_id d = er_request_id er"
      "requested_capability d = er_requested_capability_id er"
      unfolding requested_capability_def by blast
    show ?thesis
    proof (rule exI [of _ v], intro conjI impI)
      show "exports export v w'" by (rule v(1))
      assume "v \<noteq> w"
      from v(2) [OF this] auth ids 3(1) show "\<exists>er trust p c plan.
        authorised (pe_contracts env) (pe_decoders env) (pi_request inputs) (pi_requester_trust inputs)
          (pi_policy inputs) (pi_capability_registry inputs) (rc_decided_at_utc ctx) er trust p c \<and>
        declared_plan_valid env inputs plan \<and>
        pl_originating_request_id (vp_plan plan) = er_request_id er \<and>
        er_requested_capability_id er \<in> set (pl_referenced_capabilities (vp_plan plan)) \<and>
        receipts env (delivery_roots selection additional) (er_request_id er)
          (vp_stable_plan_hash plan) w v"
        by (intro exI [of _ er] exI) (auto simp: plan_answers_def)
    qed
  qed (auto intro!: exI [of _ w] exports_none)
qed

end
