(* ===== verification/Pipeline_Facts.thy ===== *)
theory Pipeline_Facts
  imports Pipeline
begin

text \<open>
  What a pipeline run reports and records: the evidence for every outcome, the denials it cannot
  record, and when a per-step run always ends with a trace.
\<close>

section \<open>Evidence\<close>

definition evidence_of :: "forensic_record_kind \<Rightarrow> forensic_record_outcome \<Rightarrow> bool" where
  "evidence_of kind r \<longleftrightarrow> event_wf (vf_event (fo_event r)) \<and> event_says kind (vf_event (fo_event r))"

lemma record_fact_evidence:
  assumes "record_fact env n kind level ctx export w = Some (w', Ok r)"
  shows "evidence_of kind r"
proof -
  from assms obtain input where input: "new_record_input kind level ctx = Ok input"
    by (auto simp: record_fact_def and_do_Ok)
  then obtain v where "record_event (pe_event_ids env n) input = Ok v" "fo_event r = v"
    using assms by (cases export)
      (auto simp: record_fact_def record_and_export_event_via_def and_do_Ok)
  with record_event_decides(2) [OF input] show ?thesis
    by (simp add: evidence_of_def)
qed

lemma record_statuses_evidence:
  "record_statuses env n d statuses ctx export w = Some (w', Ok rs) \<Longrightarrow>
     list_all2 (\<lambda>s r. evidence_of (ExecutionStatusObserved d s) r) statuses rs"
proof (induction statuses arbitrary: n w w' rs)
  case Nil
  then show ?case by simp
next
  case (Cons s statuses)
  then show ?case by (auto simp: and_do_Ok intro: record_fact_evidence)
qed

lemma deliver_route_trace:
  assumes "deliver_selected_route_via_registry show_uuid route registry ctx w = Some (w', Ok t)"
  shows "lawful_run (trace_entries t) \<and> list_all (speaks_for_route route) (tr_statuses t)"
proof (cases "resolve_adapter registry (sr_requested_capability_id route)")
  case (Some adapter)
  with assms have "deliver_via_adapter route adapter ctx w = Some (w', Ok t)"
    by (auto simp: deliver_selected_route_via_registry_def and_do_Ok)
  then show ?thesis by (rule deliver_via_adapter_trace) simp
next
  case None
  with assms obtain admitted last where
    "build_admitted_not_started_status_from_route route (cx_coordinated_at_utc ctx) = Ok admitted"
    "build_unavailable_dependency_status_from_route route (cx_completed_at_utc ctx)
       (no_adapter_summary show_uuid (sr_requested_capability_id route)) = Ok last"
    "tr_statuses t = [admitted, last]"
    by (auto simp: deliver_selected_route_via_registry_def and_do_Ok result_simps)
  with route_builders_speak(1,6) show ?thesis
    by (force simp: lawful_run_def trace_entries_def)
qed

lemma declared_plan_ordered:
  "declared_plan_valid env inputs plan \<Longrightarrow> plan_ordered plan"
  by (auto simp: declared_plan_valid_def intro: validated_plan_ordered)

lemma dispatch_plan_trace:
  assumes "dispatch_plan env mode route plan registry ctx w = Some (w', Ok t)" and "plan_ordered plan"
  shows "lawful_run (trace_entries t) \<and> list_all (speaks_for_route route) (tr_statuses t)"
proof (cases mode)
  case WholeRoute
  with assms(1) show ?thesis by (auto simp: dispatch_plan_def dest: deliver_route_trace)
next
  case PerStep
  with assms(1) show ?thesis
    by (auto simp: dispatch_plan_def dest: deliver_plan_trace [OF assms(2)])
qed

text \<open>
  Every outcome has its evidence: one event for a decision that stops the run, one event per status
  of a delivered trace, in order. The denial of a plan is the exception: it leaves no event.
\<close>

definition evidenced :: "execution_pipeline_outcome \<Rightarrow> bool" where
  "evidenced out \<longleftrightarrow>
     (let d = po_route_decision out in
      case po_execution_trace out of
        Some t \<Rightarrow>
          admitted_posture (rd_resolved_approval_posture d) \<and> po_plan_denial out = None \<and>
          lawful_run (trace_entries t) \<and>
          list_all2 (\<lambda>s r. evidence_of (ExecutionStatusObserved d s) r) (tr_statuses t)
            (po_forensic_records out)
      | None \<Rightarrow>
          if admitted_posture (rd_resolved_approval_posture d)
          then po_plan_denial out \<noteq> None \<and> po_forensic_records out = []
          else po_plan_denial out = None \<and>
            (\<exists>r. po_forensic_records out = [r] \<and>
               evidence_of (if rd_resolved_approval_posture d = approval_posture.Denied
                 then DenialIssued d else RouteDecisionResolved d) r))"

lemma deliver_and_record_evidence:
  assumes "deliver_and_record env d plan selection additional mode export at w = Some (w', Ok out)"
    and "plan_ordered plan" and "admitted_posture (rd_resolved_approval_posture d)"
  shows "evidenced out \<and> po_route_decision out = d"
  using assms
  by (auto simp: deliver_and_record_def and_do_Ok evidenced_def pipeline_outcome_def Let_def
      dest: dispatch_plan_trace record_statuses_evidence)

lemma run_pipeline_evidence:
  assumes run: "run_pipeline env inputs selection additional mode export ctx w = Some (w', Ok out)"
  shows "evidenced out \<and> resolve_route_decision (pe_contracts env) (pe_decoders env)
    (pe_show_uuid env) (pe_now env) (pi_request inputs) (pi_requester_trust inputs) (pi_policy inputs)
    (pi_capability_registry inputs) ctx = Some (Ok (po_route_decision out))"
  using run
proof (cases rule: run_pipeline_cases)
  case (1 e)
  then show ?thesis by simp
next
  case (2 d)
  then show ?thesis
    by (auto simp: record_and_stop_def and_do_Ok evidenced_def pipeline_outcome_def
        dest!: record_fact_evidence)
next
  case (3 d)
  from 3(3) show ?thesis
  proof (cases rule: run_admitted_cases)
    case (2 denial)
    with 3 show ?thesis by (auto simp: evidenced_def pipeline_outcome_def)
  next
    case plan: (3 plan)
    with 3 declared_plan_ordered [OF plan(1)] deliver_and_record_evidence [OF plan(2)]
    show ?thesis by simp
  qed simp
qed

section \<open>Denials that cannot be recorded\<close>

lemma chars_take_prefix:
  "is_ascii p \<Longrightarrow> length p \<le> n \<Longrightarrow> chars_take n (p @ s) = p @ chars_take (n - length p) s"
  by (induction p arbitrary: n) (auto simp: is_ascii_not_continuation split: nat.split)

lemma bounded_summary_prefix:
  assumes "bounded_summary (p @ s) = Some v" and "is_ascii p" and "length p \<le> 157"
  shows "\<exists>u. v = p @ u"
proof -
  have taken: "chars_take 160 (p @ s) = p @ chars_take (160 - length p) s"
    using assms(2,3) by (intro chars_take_prefix) simp_all
  have "\<exists>u. b = p @ u" if "str_truncate 157 (p @ t) = Some b" for t b
    using that assms(3) by (auto simp: str_truncate_def split: if_splits)
  then show ?thesis
    using assms(1) by (auto simp: bounded_summary_def Let_def taken bind_Some_iff split: if_splits)
      (metis append.assoc)
qed

lemma to_ascii_lowercase_append [simp]:
  "to_ascii_lowercase (s @ t) = to_ascii_lowercase s @ to_ascii_lowercase t"
  by (simp add: to_ascii_lowercase_def)

lemma str_contains_append: "str_contains s x \<Longrightarrow> str_contains (s @ t) x"
  by (auto simp: str_contains_iff) (metis append.assoc)

lemma mentions_failure_prefix: "mentions_failure p \<Longrightarrow> mentions_failure (p @ u)"
  by (auto simp: mentions_failure_def Let_def intro: str_contains_append)

lemma record_untruthful:
  assumes "\<not> summary_recordable (kind_summary kind) (kind_state kind) (kind_subtype kind)"
  shows "\<exists>e. record_fact env n kind level ctx export w = Some (w, Err e)"
proof (cases "new_record_input kind level ctx")
  case (Ok input)
  then have "\<not> kind_recordable kind"
    using kind_recordable_iff assms by (simp add: new_record_input_Ok)
  then obtain e where "record_event (pe_event_ids env n) input = Err e"
    using record_event_decides(1) [OF Ok] by (metis result.exhaust)
  with Ok show ?thesis
    by (cases export) (auto simp: record_fact_def record_and_export_event_via_def pure_do_def)
qed (simp add: record_fact_def pure_do_def)

text \<open>
  A policy artifact that its schema rejects becomes a denial guard whose text says "schema
  validation failed". The recorder refuses that word for a denial, so the run ends in an error
  instead of the denied outcome.
\<close>

definition rejected_policy_text :: string where
  "rejected_policy_text =
     ''request denied: invalid policy artifact: schema validation failed for policy-artifact.schema.json: ''"

lemma rejected_policy_text_facts:
  "is_ascii rejected_policy_text" "length rejected_policy_text \<le> 157"
  "mentions_failure rejected_policy_text"
  unfolding rejected_policy_text_def by code_simp+

lemma rejected_policy_denies:
  assumes "resolve_route_decision env dec show_uuid now request trust policy registry ctx = Some (Ok d)"
    and "load_execution_request env (dc_execution_request dec) request = Ok er"
    and "load_and_evaluate env (dc_requester_trust dec) now trust
      \<lparr>tc_expected_environment = er_environment_mode er, tc_now = rc_decided_at_utc ctx\<rparr> = Ok r"
    and "load_policy env (dc_policy_artifact dec) policy =
      Err (SchemaValidation (schema_file_name PolicyArtifact) errors)"
  shows "rd_resolved_approval_posture d = approval_posture.Denied \<and>
    mentions_failure (rd_operator_visible_summary d)"
proof -
  from assms(1) obtain er' reg input where
    er: "load_execution_request env (dc_execution_request dec) request = Ok er'"
    and input: "ri_request input = er'"
      "ri_requester_trust_outcome input = load_and_evaluate env (dc_requester_trust dec) now trust
         \<lparr>tc_expected_environment = er_environment_mode er', tc_now = rc_decided_at_utc ctx\<rparr>"
      "ri_policy_outcome input = load_required_value env (dc_policy_artifact dec) now (Some policy)"
    and res: "resolve show_uuid input ctx = Some d"
    by (rule resolve_route_decision_Ok)
  let ?guard = "deny now denial_reason_class.ContractInvalid Artifact Contract
    (''invalid policy artifact: '' @ show_error (ce_debug_list env)
       (SchemaValidation (schema_file_name PolicyArtifact) errors))"
  have "denial_of (ri_requester_trust_outcome input) = []"
    using assms(2,3) er input(2) by simp
  moreover have "denial_of (ri_policy_outcome input) = [?guard]"
    using assms(4) input(3) by (simp add: load_required_value_def)
  ultimately obtain rest where guards: "recorded_denials input ctx = ?guard # rest"
    by (simp add: recorded_denials_def)
  then obtain ref summary where
    "resolve show_uuid input ctx =
       denied_decision (ri_request input) ref summary (recorded_denials input ctx) ctx"
    using resolve_denied [of input ctx show_uuid] by (metis list.distinct(1))
  with res have dd: "denied_decision (ri_request input) ref summary (recorded_denials input ctx) ctx = Some d"
    by simp
  note facts = denied_decision_Some [OF dd]
  have "bounded_summary (rejected_policy_text @ ce_debug_list env errors) =
      Some (rd_operator_visible_summary d)"
    using facts(11) by (simp add: guards first_denial_summary_def rejected_policy_text_def)
  from bounded_summary_prefix [OF this rejected_policy_text_facts(1,2)]
  have "mentions_failure (rd_operator_visible_summary d)"
    using mentions_failure_prefix [OF rejected_policy_text_facts(3)] by auto
  with facts(1) show ?thesis by simp
qed

lemma rejected_policy_errs:
  assumes run: "run_pipeline env inputs selection additional mode export ctx w = Some (w', r)"
    and loads: "load_execution_request (pe_contracts env) (dc_execution_request (pe_decoders env))
        (pi_request inputs) = Ok er"
      "load_and_evaluate (pe_contracts env) (dc_requester_trust (pe_decoders env)) (pe_now env)
        (pi_requester_trust inputs) \<lparr>tc_expected_environment = er_environment_mode er,
          tc_now = rc_decided_at_utc ctx\<rparr> = Ok trust"
      "load_policy (pe_contracts env) (dc_policy_artifact (pe_decoders env)) (pi_policy inputs) =
        Err (SchemaValidation (schema_file_name PolicyArtifact) errors)"
  shows "w' = w \<and> (\<exists>e. r = Err e)"
  using run
proof (cases rule: run_pipeline_cases)
  case (1 e)
  then show ?thesis by simp
next
  case (2 d)
  note denied = rejected_policy_denies [OF 2(1) loads]
  then have "\<not> summary_recordable (kind_summary (DenialIssued d)) (kind_state (DenialIssued d))
      (kind_subtype (DenialIssued d))"
    by (simp add: summary_recordable_def summary_truthful_def)
  from record_untruthful [OF this, of env 0 SensitiveFieldsRedacted
      "new_record_context (rc_decided_at_utc ctx)" export w] 2(3) denied
  show ?thesis by (auto simp: record_and_stop_def and_do_def)
next
  case (3 d)
  with rejected_policy_denies [OF 3(1) loads] show ?thesis by auto
qed

section \<open>Runs that always end with a trace\<close>

text \<open>
  A step name is harmless when the status of its delivery can be recorded; a status is recordable
  when the recorder accepts its summary.
\<close>

definition harmless_step :: "string \<Rightarrow> bool" where
  "harmless_step i \<longleftrightarrow> is_valid_step_id i \<and>
     summary_recordable (''executing externally delivered step '' @ i) InProgress None"

definition status_recordable :: "validated_execution_status \<Rightarrow> bool" where
  "status_recordable v \<longleftrightarrow> summary_recordable (st_truthful_user_visible_summary (vs_status v))
     (st_state (vs_status v)) (st_degraded_subtype (vs_status v))"

lemma emit_status_recordable:
  "emit_status s = Ok v \<Longrightarrow>
     status_recordable v \<longleftrightarrow>
       summary_recordable (st_truthful_user_visible_summary s) (st_state s) (st_degraded_subtype s)"
  by (auto simp: emit_status_Ok status_recordable_def)

text \<open>The fixed texts of the status builders.\<close>

lemma fixed_texts_recordable:
  "summary_recordable ''execution admitted for external bounded delivery'' AdmittedNotStarted None"
  "summary_recordable ''external delivery completed for all declared plan steps''
     execution_state.Completed None"
  "summary_recordable ''no delivery adapter registered for any declared step'' Degraded
     (Some UnavailableDependencyBlock)"
  "summary_recordable ''local file write delivery refused by operator marker'' execution_state.Failed None"
  "summary_recordable ''local file write receipt write failed'' execution_state.Failed None"
  unfolding summary_recordable_def summary_truthful_def by code_simp+

lemma admitted_recordable:
  "build_admitted_not_started_status_from_route route u = Ok v \<Longrightarrow> status_recordable v"
  using fixed_texts_recordable(1)
  by (auto simp: build_admitted_not_started_status_from_route_def result_simps emit_status_recordable)

lemma in_progress_recordable:
  assumes "build_in_progress_statuses_from_route route [i] started = Ok vs" and "harmless_step i"
  shows "list_all status_recordable vs"
  using assms
  by (auto simp: build_in_progress_statuses_from_route_def result_simps emit_status_recordable
      harmless_step_def)

text \<open>Outcomes with the short texts of the crate's adapters, and no fallback.\<close>

fun outcome_plain :: "step_delivery_outcome \<Rightarrow> bool" where
  "outcome_plain step_delivery_outcome.Completed = True"
| "outcome_plain (step_delivery_outcome.Failed m) =
     (length m \<le> 88 \<and> summary_recordable m execution_state.Failed None)"
| "outcome_plain (Unavailable m) = (length m \<le> 88)"
| "outcome_plain Skipped = True"
| "outcome_plain _ = False"

lemma step_outcome_plain:
  assumes "da_deliver_route (build_adapter env sel cap) request w = Some (w', a)"
    and "step_outcome aid a = Ok outcome"
  shows "outcome_plain outcome"
proof (cases sel)
  case (LocalFileWrite root)
  with assms fixed_texts_recordable(4,5) show ?thesis
    by (auto simp: local_file_adapter_def local_file_deliver_route_def step_outcome_def result_simps
        split: result.splits if_splits list.splits prod.splits io_error_kind.splits)
next
  case (NmapPreflight binary profile)
  with assms show ?thesis
    by (auto simp: nmap_adapter_def nmap_deliver_route_def step_outcome_def result_simps
        split: result.splits if_splits)
qed

lemma dispatch_plain:
  assumes "built_for env sels registry" and "length (show_uuid (step_capability_id s)) \<le> 36"
  shows "ends_in (dispatch_one_step show_uuid route plan registry s) w
    (keeps (\<lambda>outcome _. outcome_plain outcome) (\<lambda>_. True))"
proof (cases "resolve_adapter registry (step_capability_id s)")
  case None
  with assms(2) show ?thesis by (simp add: dispatch_one_step_def no_adapter_summary_def)
next
  case (Some adapter)
  with assms(1) obtain sel where "adapter = build_adapter env sel (step_capability_id s)"
    by (auto simp: built_for_def)
  then show ?thesis
    unfolding dispatch_one_step_def Some option.case
    by (auto simp: ends_in_def keeps_def and_do_def call_adapter_def pure_do_def
        dest: step_outcome_plain split: option.splits result.splits)
qed

definition plain_run :: "per_step_run \<Rightarrow> bool" where
  "plain_run run \<longleftrightarrow> list_all status_recordable (run_statuses run) \<and>
     list_all outcome_plain (map snd (run_outcomes run)) \<and> run_fallback_results run = Map.empty"

lemma deliver_step_plain:
  assumes "built_for env sels registry" and "length (show_uuid (step_capability_id s)) \<le> 36"
    and "harmless_step (step_id s)" and "pl_fallback_references (vp_plan plan) = []"
    and "plain_run run"
  shows "ends_in (deliver_step show_uuid route plan registry started s run) w
    (keeps (\<lambda>run' _. plain_run run') (\<lambda>_. True))"
proof (cases "run_stop_dispatching run")
  case True
  with assms(5) show ?thesis by (simp add: deliver_step_def plain_run_def)
next
  case False
  have none: "run_fallback_results run (step_id s) = None"
    using assms(5) by (simp add: plain_run_def)
  have fallback: "attempt_fallback show_uuid route plan registry started s outcome run' =
      pure_do (Ok (outcome, run'))" for outcome run'
    by (simp add: attempt_fallback_def declared_fallback_step_def assms(4))
  show ?thesis
    unfolding deliver_step_def none option.case if_not_P [OF False]
  proof (rule keeps_and_do [OF keeps_pure [where J = "\<lambda>progress _. list_all status_recordable progress"]],
      goal_cases)
    case (1 progress)
    then show ?case using assms(3) by (rule in_progress_recordable)
  next
    case (3 progress w1)
    show ?case
      by (rule keeps_and_do [OF dispatch_plain [where show_uuid = show_uuid and s = s, OF assms(1,2)]])
        (use 3 assms(5) in \<open>simp add: fallback plain_run_def\<close>)
  qed simp
qed

lemma deliver_steps_plain:
  assumes "built_for env sels registry" and "\<And>c. length (show_uuid c) \<le> 36"
    and "list_all harmless_step (plan_step_ids plan)" and "pl_fallback_references (vp_plan plan) = []"
    and "plain_run run"
  shows "ends_in (deliver_steps show_uuid route plan registry started (pl_steps (vp_plan plan)) run) w
    (keeps (\<lambda>run' _. plain_run run') (\<lambda>_. True))"
proof (rule deliver_steps_invariant [where pre = "[]" and I = "\<lambda>_ run _. plain_run run"])
  fix pre s post run and w :: 'a
  assume s: "pl_steps (vp_plan plan) = pre @ s # post" and run: "plain_run run"
  then have "harmless_step (step_id s)"
    using assms(3) by (simp add: plan_step_ids_def)
  from deliver_step_plain [where show_uuid = show_uuid, OF assms(1,2) this assms(4) run]
  show "ends_in (deliver_step show_uuid route plan registry started s run) w
      (keeps (\<lambda>run' _. plain_run run') (\<lambda>_. True))" .
qed (use assms(5) in simp_all)

text \<open>Digits do not matter to a search for a word.\<close>

lemma show_nat_digits: "list_all is_ascii_digit (show_nat n)"
proof (induction n rule: show_nat.induct)
  case (1 n)
  have "is_ascii_digit (digit_char m)" if "m < 10" for m
    using that by (simp add: digit_char_def is_ascii_digit_def byte_def)
  with 1 show ?case by (simp add: show_nat.simps [of n])
qed

lemma to_ascii_lowercase_digits: "list_all is_ascii_digit ds \<Longrightarrow> to_ascii_lowercase ds = ds"
  by (induction ds) (auto simp: to_ascii_lowercase_def is_ascii_digit_def is_ascii_uppercase_def)

lemma str_contains_digits:
  "list_all is_ascii_digit ds \<Longrightarrow> \<not> is_ascii_digit c \<Longrightarrow>
     str_contains (ds @ t) (c # p) = str_contains t (c # p)"
  by (induction ds) auto

lemma partial_count_recordable:
  assumes "bounded_text (partial_count_summary n k)"
  shows "summary_recordable (partial_count_summary n k) PartialSuccess (Some DegradedPartial)"
proof -
  have lower: "to_ascii_lowercase (partial_count_summary n k) =
      show_nat n @ '' of '' @ show_nat k @ '' declared plan steps completed''"
    unfolding partial_count_summary_def to_ascii_lowercase_append
      to_ascii_lowercase_digits [OF show_nat_digits]
    by (simp add: to_ascii_lowercase_def is_ascii_uppercase_def byte_def)
  note skip = str_contains_digits [OF show_nat_digits]
  have "\<not> mentions_failure (partial_count_summary n k)"
    "\<not> mentions_cancellation (partial_count_summary n k)"
    "\<not> mentions_semantic_or_workflow_narration (partial_count_summary n k)"
    unfolding mentions_failure_def mentions_cancellation_def
      mentions_semantic_or_workflow_narration_def Let_def lower
    by (simp_all add: skip is_ascii_digit_def byte_def)
  with assms show ?thesis
    by (simp add: summary_recordable_def summary_truthful_def)
qed

lemma plain_incomplete_detail:
  assumes "find_map incomplete_detail outcomes = Some (i, m)"
    and "list_all outcome_plain (map snd outcomes)" and "list_all (\<lambda>i. length i \<le> 48) (map fst outcomes)"
  shows "length i + length m \<le> 136"
proof -
  obtain j outcome where "(j, outcome) \<in> set outcomes" and d: "incomplete_detail (j, outcome) = Some (i, m)"
    using find_map_Some_in [OF assms(1)] by auto
  then have "outcome_plain outcome" "length j \<le> 48"
    using assms(2,3) by (auto simp: list_all_iff)
  with d show ?thesis by (cases outcome) auto
qed

lemma plan_outcome_plain:
  assumes rep: "route_reportable route" and "started \<le> completed" and "length outcomes < 2 ^ 32"
    and plain: "list_all outcome_plain (map snd outcomes)"
    and ids: "list_all (\<lambda>i. length i \<le> 48) (map fst outcomes)"
  shows "\<exists>v. build_plan_outcome_status_from_route route outcomes started completed = Some (Ok v) \<and>
    status_recordable v"
proof -
  let ?build = "build_plan_outcome_status_from_route route outcomes started completed"
  let ?n = "length (filter (is_completed \<circ> snd) outcomes)"
  let ?attempted = "filter (\<lambda>(i, outcome). outcome \<noteq> Skipped) outcomes"
  consider (all) "?n = length outcomes" | (some) "?n \<noteq> length outcomes" "0 < ?n"
    | (none) "?n \<noteq> length outcomes" "?n = 0" by linarith
  then show ?thesis
  proof cases
    case all
    have "\<not> list_ex (\<lambda>(i, outcome). used_fallback outcome \<noteq> None) outcomes"
      using plain by (auto simp: list_ex_iff list_all_iff elim!: used_fallback.elims)
    with all have "?build = Some (build_completed_status_from_route route started completed)"
      by (simp add: build_plan_outcome_status_from_route_def)
    moreover obtain v where v: "build_completed_status_from_route route started completed = Ok v"
      using route_builders_total(2) [OF rep assms(2)] by blast
    then have "status_recordable v"
      using fixed_texts_recordable(2)
      by (auto simp: build_completed_status_from_route_def Let_def result_simps emit_status_recordable)
    ultimately show ?thesis using v by simp
  next
    case some
    then have mixed: "\<not> list_all is_completed (map snd outcomes)" "list_ex is_completed (map snd outcomes)"
      by (auto simp: all_completed_count list_all_iff list_ex_iff filter_empty_conv)
    obtain i m where detail: "find_map incomplete_detail outcomes = Some (i, m)"
      using mixed(1) by (cases "find_map incomplete_detail outcomes")
        (auto simp: find_map_None incomplete_detail_None list_all_iff)
    from partial_success_answers [OF rep assms(2) mixed assms(3) detail]
    obtain v where v: "?build = Some (Ok v)"
      using plain_incomplete_detail [OF detail plain ids] by blast
    have "bounded_text (partial_count_summary ?n (length outcomes))"
      using assms(3) by (intro length_partial_count_summary) simp_all
    from v some partial_count_recordable [OF this] have "status_recordable v"
      by (auto simp: build_plan_outcome_status_from_route_def detail result_simps emit_status_recordable
          build_partial_success_status_from_route_def Let_def)
    with v show ?thesis by blast
  next
    case none
    show ?thesis
    proof (cases "find_map failed_summary ?attempted")
      case (Some m)
      then have "step_delivery_outcome.Failed m \<in> snd ` set outcomes"
        by (auto dest!: find_map_Some_in elim!: failed_summary.elims) force
      then have m: "summary_recordable m execution_state.Failed None"
        using plain by (force simp: list_all_iff)
      then have "bounded_text m" by (simp add: summary_recordable_def)
      then obtain v where v: "build_failed_status_from_route route started completed m = Ok v"
        using route_builders_total(4) [OF rep assms(2)] by blast
      with m have "status_recordable v"
        by (auto simp: build_failed_status_from_route_def result_simps emit_status_recordable)
      with v none Some show ?thesis by (auto simp: build_plan_outcome_status_from_route_def)
    next
      case None
      have "find (\<lambda>(i, outcome). outcome = step_delivery_outcome.Canceled) ?attempted = None"
        using plain by (auto simp: find_None_iff list_all_iff)
      with none None have build: "?build = Some (build_unavailable_dependency_status_from_route route completed
          ''no delivery adapter registered for any declared step'')"
        by (simp add: build_plan_outcome_status_from_route_def)
      obtain v where v: "build_unavailable_dependency_status_from_route route completed
          ''no delivery adapter registered for any declared step'' = Ok v"
        using route_builders_total(6) [OF rep, of "''no delivery adapter registered for any declared step''" completed]
        by auto
      then have "status_recordable v"
        using fixed_texts_recordable(3)
        by (auto simp: build_unavailable_dependency_status_from_route_def result_simps emit_status_recordable)
      with build v show ?thesis by simp
    qed
  qed
qed

end
