(* ===== verification/Pipeline_Runs.thy ===== *)
theory Pipeline_Runs
  imports Pipeline_Facts
begin

text \<open>
  Whole runs of the pipeline: when a per-step run always ends with a trace and its events, and the
  step names whose delivery leaves files but no answer.
\<close>

section \<open>Recording a trace\<close>

lemma speaks_acceptable:
  assumes "speaks_for_route (routable_plan_selection d plan kind b c) v" and "coherent d"
    and "admitted_posture (rd_resolved_approval_posture d)"
  shows "kind_acceptable (ExecutionStatusObserved d v)"
  using assms by (simp add: routable_plan_selection_def speaks_of_def Let_def)

lemma record_status_answers:
  assumes "kind_acceptable (ExecutionStatusObserved d v)" and "status_recordable v"
  shows "\<exists>r. record_fact env n (ExecutionStatusObserved d v) level ctx None w = Some (w, Ok r)"
proof -
  obtain input where input: "new_record_input (ExecutionStatusObserved d v) level ctx = Ok input"
    using assms(1) by (simp add: new_record_input_Ok)
  moreover obtain e where "record_event (pe_event_ids env n) input = Ok e"
    using record_event_decides(1) [OF input] assms(2) by (auto simp: status_recordable_def)
  ultimately show ?thesis by (simp add: record_fact_def)
qed

lemma record_statuses_answer:
  "list_all (\<lambda>v. kind_acceptable (ExecutionStatusObserved d v) \<and> status_recordable v) vs \<Longrightarrow>
     \<exists>rs. record_statuses env n d vs ctx None w = Some (w, Ok rs)"
proof (induction vs arbitrary: n)
  case Nil
  then show ?case by simp
next
  case (Cons v vs)
  obtain r where "record_fact env n (ExecutionStatusObserved d v) LinkageOnly ctx None w = Some (w, Ok r)"
    using record_status_answers Cons.prems by fastforce
  with Cons.IH [of "Suc n"] Cons.prems show ?case by (auto simp: and_do_Ok)
qed

text \<open>The first status that cannot be recorded ends the recording in an error.\<close>

lemma record_statuses_stops:
  "list_ex (\<lambda>v. \<not> status_recordable v) vs \<Longrightarrow>
     \<exists>e. record_statuses env n d vs ctx None w = Some (w, Err e)"
proof (induction vs arbitrary: n)
  case Nil
  then show ?case by simp
next
  case (Cons v vs)
  show ?case
  proof (cases "status_recordable v")
    case False
    from record_untruthful [of "ExecutionStatusObserved d v" env n LinkageOnly ctx None w] False
    show ?thesis by (auto simp: status_recordable_def and_do_def)
  next
    case True
    with Cons obtain e where e: "record_statuses env (Suc n) d vs ctx None w = Some (w, Err e)"
      by fastforce
    obtain r where "record_fact env n (ExecutionStatusObserved d v) LinkageOnly ctx None = pure_do r"
      using record_fact_None by metis
    with e show ?thesis by (cases r) (auto simp: and_do_def pure_do_def)
  qed
qed

section \<open>Per-step runs that always answer\<close>

text \<open>A plan that per-step delivery can always report on.\<close>

definition plain_plan :: "validated_execution_plan \<Rightarrow> bool" where
  "plain_plan plan \<longleftrightarrow> is_valid_hash (vp_stable_plan_hash plan) \<and>
     pl_fallback_references (vp_plan plan) = [] \<and> list_all harmless_step (plan_step_ids plan)"

lemma plan_steps_bounded:
  assumes "declared_plan_valid env inputs plan"
  shows "length (pl_steps (vp_plan plan)) < 2 ^ 32"
proof -
  from assms have "length (pl_steps (vp_plan plan)) \<le> unat (pl_declared_max_step_count (vp_plan plan))"
    by (auto simp: declared_plan_valid_def validate_plan_Ok plan_structure_valid_def)
  also have "\<dots> < 2 ^ 32"
    using unsigned_less [of "pl_declared_max_step_count (vp_plan plan)"] by simp
  finally show ?thesis .
qed

lemma built_for_serves:
  assumes "built_for env sels registry" and "deliverable route"
  shows "well_served route plan registry"
proof (rule crate_adapters_serve [OF assms(2), where fs = "pe_fs env" and show_uuid = "pe_show_uuid env"])
  fix cap adapter
  assume "resolve_adapter registry cap = Some adapter"
  then obtain sel where "adapter = build_adapter env sel cap"
    using assms(1) by (auto simp: built_for_def)
  then show "(\<exists>config. nm_supported_capability_id config = cap \<and> adapter = nmap_adapter (pe_fs env) config) \<or>
      (\<exists>config. lf_supported_capability_id config = cap \<and>
        adapter = local_file_adapter (pe_fs env) (pe_show_uuid env) config)"
    by (cases sel)
      (simp_all, metis local_file_write_adapter_config.select_convs(1),
        metis nmap_preflight_adapter_config.select_convs(1))
qed

lemma deliver_plain_plan:
  assumes built: "built_for env sels registry" and short: "\<And>u. length (pe_show_uuid env u) \<le> 36"
    and rep: "route_reportable route" and plan: "plain_plan plan" "plan_ordered plan"
    and links: "sr_execution_plan_id route = Some (pl_execution_plan_id (vp_plan plan))"
      "sr_stable_plan_hash route = Some (vp_stable_plan_hash plan)"
    and size: "length (pl_steps (vp_plan plan)) < 2 ^ 32"
    and at: "cx_started_at_utc ctx \<le> cx_completed_at_utc ctx"
  shows "\<exists>w' t. deliver_plan_per_step_via_registry (pe_show_uuid env) route plan registry ctx w =
      Some (w', Ok t) \<and> list_all status_recordable (tr_statuses t)"
proof -
  let ?show = "pe_show_uuid env"
  let ?st = "cx_started_at_utc ctx"
  have del: "deliverable route" using rep by (simp add: route_reportable_def)
  have harmless: "list_all harmless_step (plan_step_ids plan)"
    and none: "pl_fallback_references (vp_plan plan) = []"
    using plan(1) by (simp_all add: plain_plan_def)
  then have ids: "list_all is_valid_step_id (plan_step_ids plan)"
    by (simp add: list_all_iff harmless_step_def)
  obtain a where a: "build_admitted_not_started_status_from_route route (cx_coordinated_at_utc ctx) = Ok a"
    using route_builders_total(1) [OF rep] by blast
  obtain w' run where run: "deliver_steps ?show route plan registry ?st (pl_steps (vp_plan plan))
      (start_run a) w = Some (w', Ok run)"
    using deliver_steps_total [OF built_for_serves [OF built del] rep ids] by blast
  have "plain_run (start_run a)"
    using admitted_recordable [OF a] by (simp add: plain_run_def)
  from ends_in_keepsD [OF deliver_steps_plain [where show_uuid = ?show, OF built short harmless none this] run]
  have plain: "plain_run run" .
  have "progress_inv route plan (pl_steps (vp_plan plan)) run"
    using route_builders_speak(1) [OF a]
    by (intro ends_in_keepsD [OF deliver_steps_progress [OF plan(2)] run]) simp_all
  then have os: "map fst (run_outcomes run) = plan_step_ids plan"
    by (simp add: progress_inv_def plan_step_ids_def)
  then have "length (run_outcomes run) = length (pl_steps (vp_plan plan))"
    by (metis length_map plan_step_ids_def)
  moreover have "list_all (\<lambda>i. length i \<le> 48) (map fst (run_outcomes run))"
    using ids is_valid_step_id_length by (auto simp: os list_all_iff)
  ultimately obtain v where v: "build_plan_outcome_status_from_route route (run_outcomes run) ?st
      (cx_completed_at_utc ctx) = Some (Ok v)" "status_recordable v"
    using plan_outcome_plain [OF rep at, of "run_outcomes run"] plain size by (auto simp: plain_run_def)
  have "validate_selected_route_for_delivery route = Ok ()"
    using del by (simp add: validate_selected_route_Ok)
  with a run v plain links have "deliver_plan_per_step_via_registry ?show route plan registry ctx w =
      Some (w', Ok \<lparr>tr_statuses = run_statuses run @ [v]\<rparr>)"
    by (simp add: deliver_plan_per_step_via_registry_def and_do_def partial_do_def pure_do_def
        new_execution_trace_def)
  with v(2) plain show ?thesis by (simp add: plain_run_def)
qed

lemma admitted_route:
  assumes "coherent d" and "plan_answers d plan" and "admitted_posture (rd_resolved_approval_posture d)"
  shows "\<exists>input. new_routing_input d (Some plan) = Ok input \<and>
    select_route input = Ok (routable_plan_selection d plan ExternalAdapterBoundedExecution True False)"
proof -
  have "routable_posture (rd_resolved_approval_posture d)"
    using assms(3) by (cases "rd_resolved_approval_posture d") (simp_all add: routable_posture_def)
  with assms obtain input where input: "new_routing_input d (Some plan) = Ok input"
    by (simp add: new_routing_input_Ok)
  with select_route_Ok [OF input] assms(3) show ?thesis by (auto simp: route_of_def)
qed

lemma deliver_and_record_answers:
  assumes plan: "declared_plan_valid env inputs plan" "plain_plan plan" "plan_answers d plan"
    and d: "coherent d" "admitted_posture (rd_resolved_approval_posture d)"
    and short: "\<And>u. length (pe_show_uuid env u) \<le> 36"
    and reg: "build_registry env (requested_capability d) selection additional = Ok registry"
  shows "\<exists>w' t rs. deliver_and_record env d plan selection additional PerStep None at w =
    Some (w', Ok (pipeline_outcome d None (Some t) rs))"
proof -
  let ?route = "routable_plan_selection d plan ExternalAdapterBoundedExecution True False"
  let ?ctx = "\<lparr>cx_coordinated_at_utc = at, cx_started_at_utc = at, cx_completed_at_utc = at\<rparr>"
  obtain input where input: "new_routing_input d (Some plan) = Ok input" "select_route input = Ok ?route"
    using admitted_route [OF d(1) plan(3) d(2)] by blast
  have ordered: "plan_ordered plan" using plan(1) by (rule declared_plan_ordered)
  then have "deliverable ?route"
    using selected_deliverable [OF input] d(2) by (simp add: plan_ordered_def)
  then have rep: "route_reportable ?route"
    using plan(2) by (auto simp: route_reportable_def routable_plan_selection_def plain_plan_def
        plan_step_ids_def list_all_iff harmless_step_def)
  have links: "sr_execution_plan_id ?route = Some (pl_execution_plan_id (vp_plan plan))"
    "sr_stable_plan_hash ?route = Some (vp_stable_plan_hash plan)"
    by (simp_all add: routable_plan_selection_def)
  obtain w' t where t: "deliver_plan_per_step_via_registry (pe_show_uuid env) ?route plan registry ?ctx w =
      Some (w', Ok t)" "list_all status_recordable (tr_statuses t)"
    using deliver_plain_plan [OF build_registry_built [OF reg] short rep plan(2) ordered links
        plan_steps_bounded [OF plan(1)], of ?ctx w] by auto
  from deliver_plan_trace [OF ordered t(1)] speaks_acceptable [OF _ d] t(2)
  have "list_all (\<lambda>v. kind_acceptable (ExecutionStatusObserved d v) \<and> status_recordable v) (tr_statuses t)"
    by (auto simp: list_all_iff)
  from record_statuses_answer [where w = w' and env = env, OF this] obtain rs where
    "record_statuses env 0 d (tr_statuses t) (new_record_context at) None w' = Some (w', Ok rs)" by blast
  then show ?thesis
    using input reg t(1) by (auto simp: deliver_and_record_def dispatch_plan_def and_do_Ok)
qed

lemma run_pipeline_admitted:
  assumes "resolve_route_decision (pe_contracts env) (pe_decoders env) (pe_show_uuid env) (pe_now env)
      (pi_request inputs) (pi_requester_trust inputs) (pi_policy inputs) (pi_capability_registry inputs)
      ctx = Some (Ok d)"
    and "admitted_posture (rd_resolved_approval_posture d)" and "declared_plan_valid env inputs plan"
  shows "run_pipeline env inputs selection additional mode export ctx w =
    deliver_and_record env d plan selection additional mode export (rc_decided_at_utc ctx) w"
  using assms
  by (cases "rd_resolved_approval_posture d")
    (auto simp: run_pipeline_def run_admitted_def declared_plan_valid_def and_do_def partial_do_def
      pure_do_def ok_or_def Let_def)

lemma resolved_coherent:
  assumes "resolve_route_decision env dec show_uuid now request trust policy registry ctx = Some (Ok d)"
  shows "coherent d"
proof -
  from assms obtain er reg input where
    "load_execution_request env (dc_execution_request dec) request = Ok er" "ri_request input = er"
    "resolve show_uuid input ctx = Some d"
    by (rule resolve_route_decision_Ok)
  then show ?thesis by (auto dest: resolve_Some)
qed

lemma run_pipeline_answers:
  assumes "resolve_route_decision (pe_contracts env) (pe_decoders env) (pe_show_uuid env) (pe_now env)
      (pi_request inputs) (pi_requester_trust inputs) (pi_policy inputs) (pi_capability_registry inputs)
      ctx = Some (Ok d)"
    and "admitted_posture (rd_resolved_approval_posture d)"
    and "declared_plan_valid env inputs plan" "plain_plan plan" "plan_answers d plan"
    and "build_registry env (requested_capability d) selection additional = Ok registry"
    and "\<And>u. length (pe_show_uuid env u) \<le> 36"
  shows "\<exists>w' t rs. run_pipeline env inputs selection additional PerStep None ctx w =
    Some (w', Ok (pipeline_outcome d None (Some t) rs))"
  using deliver_and_record_answers [OF assms(3-5) resolved_coherent [OF assms(1)] assms(2,7,6)]
    run_pipeline_admitted [OF assms(1-3)]
  by simp

section \<open>Step names that lose the answer\<close>

text \<open>
  The status that announces a step carries the step's name, so a name with a word that the recorder
  keeps for another state makes the recording fail after the delivery has happened.
\<close>

definition telltale_step :: "string \<Rightarrow> bool" where
  "telltale_step i \<longleftrightarrow>
     \<not> summary_recordable (''executing externally delivered step '' @ i) InProgress None"

lemma telltale_announced:
  assumes "build_in_progress_statuses_from_route route [i] started = Ok vs" and "telltale_step i"
  shows "list_ex (\<lambda>v. \<not> status_recordable v) vs"
  using assms
  by (auto simp: build_in_progress_statuses_from_route_def result_simps emit_status_recordable
      telltale_step_def)

abbreviation loses :: "per_step_run \<Rightarrow> bool" where
  "loses run \<equiv> list_ex (\<lambda>v. \<not> status_recordable v) (run_statuses run)"

text \<open>Statuses are only appended, so what cannot be recorded stays in the trace.\<close>

lemma attempt_fallback_loses:
  assumes "loses run"
  shows "ends_in (attempt_fallback show_uuid route plan registry started s outcome run) w
    (keeps (\<lambda>(outcome', run') _. loses run') (\<lambda>_. True))"
proof (cases "if did_not_complete outcome
    then declared_fallback_step plan (step_id s) (run_fallback_results run) else None")
  case None
  with assms show ?thesis by (simp add: attempt_fallback_def)
next
  case (Some t)
  show ?thesis
    unfolding attempt_fallback_def Some option.case
    by (rule keeps_and_do [OF ends_in_True], rule keeps_and_do [OF ends_in_True])
      (use assms in simp)
qed

lemma deliver_step_loses:
  assumes "loses run \<or> (telltale_step (step_id s) \<and> \<not> run_stop_dispatching run \<and>
    run_fallback_results run (step_id s) = None)"
  shows "ends_in (deliver_step show_uuid route plan registry started s run) w
    (keeps (\<lambda>run' _. loses run') (\<lambda>_. True))"
proof (cases "run_fallback_results run (step_id s)")
  case (Some outcome)
  with assms show ?thesis by (simp add: deliver_step_def)
next
  case None
  show ?thesis
  proof (cases "run_stop_dispatching run")
    case True
    with None assms show ?thesis by (simp add: deliver_step_def)
  next
    case False
    show ?thesis
      unfolding deliver_step_def None option.case if_not_P [OF False]
    proof (rule keeps_and_do [OF keeps_pure [where J = "\<lambda>progress _.
            build_in_progress_statuses_from_route route [step_id s] started = Ok progress"]], goal_cases)
      case (3 progress w1)
      have more: "loses (run\<lparr>run_statuses := run_statuses run @ progress\<rparr>)"
        using assms telltale_announced [OF 3] by auto
      show ?case
        by (rule keeps_and_do [OF ends_in_True], rule keeps_and_do [OF attempt_fallback_loses [OF more]])
          (simp add: case_prod_unfold)
    qed simp_all
  qed
qed

lemma deliver_steps_loses:
  assumes "loses run"
  shows "ends_in (deliver_steps show_uuid route plan registry started steps run) w
    (keeps (\<lambda>run' _. loses run') (\<lambda>_. True))"
  using assms
proof (induction steps arbitrary: run w)
  case Nil
  then show ?case by simp
next
  case (Cons s steps)
  show ?case
    unfolding deliver_steps.simps
    by (rule keeps_and_do [OF deliver_step_loses]) (use Cons in simp_all)
qed

lemma deliver_steps_telltale:
  assumes "deliver_steps show_uuid route plan registry started (pl_steps (vp_plan plan)) (start_run admitted) w =
      Some (w', Ok run)"
    and "pl_steps (vp_plan plan) = s # steps" and "telltale_step (step_id s)"
  shows "loses run"
proof -
  from assms(1) obtain w1 run1 where
    first: "deliver_step show_uuid route plan registry started s (start_run admitted) w = Some (w1, Ok run1)"
    and rest: "deliver_steps show_uuid route plan registry started steps run1 w1 = Some (w', Ok run)"
    by (auto simp: assms(2) and_do_Ok)
  have "loses run1"
    by (rule ends_in_keepsD [OF deliver_step_loses first]) (use assms(3) in simp)
  from ends_in_keepsD [OF deliver_steps_loses [OF this] rest] show ?thesis .
qed

text \<open>What follows the steps leaves the world as it is.\<close>

lemma deliver_plan_after_steps:
  assumes "deliver_plan_per_step_via_registry show_uuid route plan registry ctx w = Some (w1, answer)"
    and "deliverable route" and "sr_execution_plan_id route = Some (pl_execution_plan_id (vp_plan plan))"
    and "sr_stable_plan_hash route = Some (vp_stable_plan_hash plan)"
    and "build_admitted_not_started_status_from_route route (cx_coordinated_at_utc ctx) = Ok admitted"
    and "deliver_steps show_uuid route plan registry (cx_started_at_utc ctx) (pl_steps (vp_plan plan))
      (start_run admitted) w = Some (w', Ok run)"
  shows "w1 = w' \<and> (\<forall>t. answer = Ok t \<longrightarrow> (\<exists>final. tr_statuses t = run_statuses run @ [final]))"
proof -
  have "validate_selected_route_for_delivery route = Ok ()"
    using assms(2) by (simp add: validate_selected_route_Ok)
  with assms have "and_do (partial_do (build_plan_outcome_status_from_route route (run_outcomes run)
      (cx_started_at_utc ctx) (cx_completed_at_utc ctx)))
      (\<lambda>final. pure_do (new_execution_trace (run_statuses run @ [final]))) w' = Some (w1, answer)"
    by (simp add: deliver_plan_per_step_via_registry_def and_do_def [of "deliver_steps _ _ _ _ _ _ _"])
  then show ?thesis
    by (auto simp: and_do_def partial_do_def pure_do_def new_execution_trace_Ok
        split: option.splits result.splits)
qed

text \<open>
  A run whose first step has such a name goes through the delivery of all its steps, and then it errs:
  the status that announces the step is in the trace and cannot be recorded.
\<close>

lemma run_pipeline_loses:
  assumes run: "run_pipeline env inputs selection additional PerStep None ctx w = Some (w', r)"
    and d: "resolve_route_decision (pe_contracts env) (pe_decoders env) (pe_show_uuid env) (pe_now env)
      (pi_request inputs) (pi_requester_trust inputs) (pi_policy inputs) (pi_capability_registry inputs)
      ctx = Some (Ok d)" "admitted_posture (rd_resolved_approval_posture d)"
    and plan: "declared_plan_valid env inputs plan" "plan_answers d plan"
      "is_valid_hash (vp_stable_plan_hash plan)" "list_all is_valid_step_id (plan_step_ids plan)"
    and reg: "build_registry env (requested_capability d) selection additional = Ok registry"
    and telltale: "telltale_step (hd (plan_step_ids plan))"
  shows "\<exists>admitted steps v e.
    deliver_steps (pe_show_uuid env) (routable_plan_selection d plan ExternalAdapterBoundedExecution True False)
      plan registry (rc_decided_at_utc ctx) (pl_steps (vp_plan plan)) (start_run admitted) w =
      Some (w', Ok steps) \<and>
    map fst (run_outcomes steps) = plan_step_ids plan \<and>
    v \<in> set (run_statuses steps) \<and> \<not> status_recordable v \<and> r = Err e"
proof -
  let ?route = "routable_plan_selection d plan ExternalAdapterBoundedExecution True False"
  let ?at = "rc_decided_at_utc ctx"
  let ?ctx = "\<lparr>cx_coordinated_at_utc = ?at, cx_started_at_utc = ?at, cx_completed_at_utc = ?at\<rparr>"
  obtain input where input: "new_routing_input d (Some plan) = Ok input" "select_route input = Ok ?route"
    using admitted_route [OF resolved_coherent [OF d(1)] plan(2) d(2)] by blast
  have ordered: "plan_ordered plan" using plan(1) by (rule declared_plan_ordered)
  then have del: "deliverable ?route"
    using selected_deliverable [OF input] d(2) by (simp add: plan_ordered_def)
  then have rep: "route_reportable ?route"
    using plan(3,4) is_valid_step_id_length
    by (auto simp: route_reportable_def routable_plan_selection_def plan_step_ids_def list_all_iff)
  obtain a where a: "build_admitted_not_started_status_from_route ?route ?at = Ok a"
    using route_builders_total(1) [OF rep] by blast
  obtain w1 steps where steps: "deliver_steps (pe_show_uuid env) ?route plan registry ?at
      (pl_steps (vp_plan plan)) (start_run a) w = Some (w1, Ok steps)"
    using deliver_steps_total [OF built_for_serves [OF build_registry_built [OF reg] del] rep plan(4)] by blast
  have "progress_inv ?route plan (pl_steps (vp_plan plan)) steps"
    using route_builders_speak(1) [OF a]
    by (intro ends_in_keepsD [OF deliver_steps_progress [OF ordered] steps]) simp_all
  then have outcomes: "map fst (run_outcomes steps) = plan_step_ids plan"
    by (simp add: progress_inv_def plan_step_ids_def)
  obtain s ss where first: "pl_steps (vp_plan plan) = s # ss"
    using ordered by (cases "pl_steps (vp_plan plan)") (auto simp: plan_ordered_def)
  with telltale have "telltale_step (step_id s)" by (simp add: plan_step_ids_def)
  from deliver_steps_telltale [OF steps first this] have loses: "loses steps" .
  have "and_do (dispatch_plan env PerStep ?route plan registry ?ctx) (\<lambda>trace.
      and_do (record_statuses env 0 d (tr_statuses trace) (new_record_context ?at) None) (\<lambda>records.
      pure_do (Ok (pipeline_outcome d None (Some trace) records)))) w = Some (w', r)"
    using run run_pipeline_admitted [OF d plan(1)] input reg by (simp add: deliver_and_record_def)
  then obtain v answer where v: "deliver_plan_per_step_via_registry (pe_show_uuid env) ?route plan registry
      ?ctx w = Some (v, answer)"
    and rest: "case answer of Err e \<Rightarrow> w' = v \<and> r = Err e | Ok trace \<Rightarrow>
      and_do (record_statuses env 0 d (tr_statuses trace) (new_record_context ?at) None) (\<lambda>records.
        pure_do (Ok (pipeline_outcome d None (Some trace) records))) v = Some (w', r)"
    by (auto simp: dispatch_plan_def and_do_def [of "deliver_plan_per_step_via_registry _ _ _ _ _"]
        split: option.splits result.splits)
  have links: "sr_execution_plan_id ?route = Some (pl_execution_plan_id (vp_plan plan))"
    "sr_stable_plan_hash ?route = Some (vp_stable_plan_hash plan)"
    by (simp_all add: routable_plan_selection_def)
  from deliver_plan_after_steps [OF v del links, of a w1 steps] a steps
  have after: "v = w1" "\<And>t. answer = Ok t \<Longrightarrow> \<exists>final. tr_statuses t = run_statuses steps @ [final]"
    by auto
  have "w' = w1 \<and> (\<exists>e. r = Err e)"
  proof (cases answer)
    case (Err e)
    with rest after(1) show ?thesis by simp
  next
    case (Ok t)
    with after(2) loses have "list_ex (\<lambda>v. \<not> status_recordable v) (tr_statuses t)" by fastforce
    from record_statuses_stops [OF this, of env 0 d "new_record_context ?at" v] obtain e where
      "record_statuses env 0 d (tr_statuses t) (new_record_context ?at) None v = Some (v, Err e)" by blast
    with rest Ok after(1) show ?thesis by (auto simp: and_do_def)
  qed
  with steps outcomes loses show ?thesis by (auto simp: list_ex_iff)
qed

end
