(* ===== verification/Pipeline_Samples.thy ===== *)
theory Pipeline_Samples
  imports Pipeline_Runs Samples
begin

text \<open>
  Pipeline runs on the sample world: a plan of one step whose name is harmless, the same plan with
  a telltale name, and a policy that its schema rejects.
\<close>

section \<open>The environment\<close>

definition sample_short_uuid :: "uuid \<Rightarrow> string" where
  "sample_short_uuid u = take 36 (show_nat (unat u))"

lemma sample_short_uuid_facts: "length (sample_short_uuid u) \<le> 36" "is_ascii (sample_short_uuid 7)"
  by (simp_all add: sample_short_uuid_def show_nat.simps [of 7] digit_char_def byte_def)

definition sample_single_plan :: "string \<Rightarrow> execution_plan" where
  "sample_single_plan i = sample_plan\<lparr>pl_steps := [sample_step i], pl_fallback_references := []\<rparr>"

definition sample_single :: "string \<Rightarrow> validated_execution_plan" where
  "sample_single i = \<lparr>vp_plan = sample_single_plan i, vp_stable_plan_hash = sample_hash\<rparr>"

definition sample_env :: "contract_env \<Rightarrow> string \<Rightarrow> sample_world pipeline_env" where
  "sample_env contracts i =
     \<lparr>pe_contracts = contracts, pe_decoders = sample_decoders,
      pe_plan_decoder = (\<lambda>_. Ok (sample_single_plan i)), pe_hash = sample_hash_env,
      pe_show_uuid = sample_short_uuid, pe_now = 0, pe_event_ids = of_nat, pe_fs = sample_fs\<rparr>"

definition sample_inputs :: "json \<Rightarrow> execution_pipeline_inputs" where
  "sample_inputs policy =
     \<lparr>pi_request = sample_json, pi_requester_trust = sample_json, pi_policy = policy,
      pi_capability_registry = sample_json, pi_execution_plan = Some sample_json\<rparr>"

abbreviation sample_run ::
  "contract_env \<Rightarrow> string \<Rightarrow> json \<Rightarrow>
   (sample_world \<times> execution_pipeline_outcome fa_local_result) option" where
  "sample_run contracts i policy \<equiv> run_pipeline (sample_env contracts i) (sample_inputs policy)
     (Some (adapter_selection.LocalFileWrite ''/data'')) [] PerStep None sample_resolution sample_files"

lemma sample_env_fields [simp]:
  "pe_contracts (sample_env c i) = c" "pe_decoders (sample_env c i) = sample_decoders"
  "pe_plan_decoder (sample_env c i) = (\<lambda>_. Ok (sample_single_plan i))"
  "pe_hash (sample_env c i) = sample_hash_env" "pe_show_uuid (sample_env c i) = sample_short_uuid"
  "pe_now (sample_env c i) = 0" "pe_fs (sample_env c i) = sample_fs"
  "pi_request (sample_inputs p) = sample_json" "pi_requester_trust (sample_inputs p) = sample_json"
  "pi_policy (sample_inputs p) = p" "pi_capability_registry (sample_inputs p) = sample_json"
  "pi_execution_plan (sample_inputs p) = Some sample_json"
  by (simp_all add: sample_env_def sample_inputs_def)

lemma sample_single_steps [simp]: "plan_step_ids (sample_single i) = [i]"
  "pl_steps (vp_plan (sample_single i)) = [sample_step i]"
  by (simp_all add: plan_step_ids_def sample_single_def sample_single_plan_def sample_step_def)

lemma sample_single_structure: "plan_structure_valid sample_registry (sample_single_plan i)"
proof -
  have "capability_usable sample_registry 7"
    by (simp add: capability_usable_def) (simp add: sample_capability_def)
  moreover have "step_declared sample_registry (sample_single_plan i) (sample_step i)"
    by (simp add: step_declared_def sample_single_plan_def sample_plan_def sample_step_def)
      (simp add: sample_capability_def)
  ultimately show ?thesis
    by (simp add: plan_structure_valid_def sample_single_plan_def)
      (simp add: sample_plan_defs timeout_sum_def)
qed

lemma sample_single_declared:
  "declared_plan_valid (sample_env sample_contracts i) (sample_inputs p) (sample_single i)"
proof -
  have "validate_plan sample_hash_env 0 (sample_single_plan i) sample_registry = Ok (sample_single i)"
    by (simp add: validate_plan_Ok sample_single_structure sample_hash_eq sample_single_def)
      (simp add: sample_single_plan_def sample_plan_def)
  then show ?thesis
    by (simp add: declared_plan_valid_def load_registry_def load_execution_plan_def sample_loads)
      (simp add: sample_decoders_def)
qed

section \<open>The decision and the adapters of the runs\<close>

lemma sample_pipeline_decision:
  "\<exists>d. resolve_route_decision sample_contracts sample_decoders sample_short_uuid 0 sample_json
      sample_json sample_json sample_json sample_resolution = Some (Ok d) \<and>
    admitted_posture (rd_resolved_approval_posture d) \<and> requested_capability d = 7 \<and>
    plan_answers d (sample_single i)"
proof -
  obtain d where d: "resolve_route_decision sample_contracts sample_decoders sample_short_uuid 0
      sample_json sample_json sample_json sample_json sample_resolution = Some (Ok d)"
    "rd_resolved_approval_posture d = PolicyPreapproved"
    using sample_decision_for [where show_uuid = sample_short_uuid, OF sample_short_uuid_facts(2)] by blast
  from decision_authorised [OF d(1)] d(2) obtain er r p c where
    "authorised sample_contracts sample_decoders sample_json sample_json sample_json sample_json
       (rc_decided_at_utc sample_resolution) er r p c"
    "rd_request_id d = er_request_id er" "rd_correlation_id d = er_correlation_id er"
    "cd_requested_capability_id (rd_capability_decision_summary d) = er_requested_capability_id er"
    by auto
  then have "rd_request_id d = 1" "rd_correlation_id d = 2" "requested_capability d = 7"
    by (simp_all add: authorised_def load_execution_request_def sample_loads)
      (auto simp: sample_decoders_def sample_request_def requested_capability_def)
  with d show ?thesis
    by (intro exI [of _ d])
      (simp add: plan_answers_def sample_single_def sample_single_plan_def sample_plan_def)
qed

lemma sample_build_registry:
  "\<exists>registry. build_registry (sample_env c i) 7 (Some (adapter_selection.LocalFileWrite ''/data'')) [] =
      Ok registry \<and>
    resolve_adapter registry 7 = Some (local_file_adapter sample_fs sample_short_uuid sample_file_config)"
  by (simp add: build_registry_def register_def new_registry_def resolve_adapter_def sample_file_config_def)

section \<open>What the runs do\<close>

lemma sample_write:
  assumes "admitted_posture (sr_resolved_approval_posture route)"
  shows "\<exists>w1. local_file_deliver_route sample_fs sample_short_uuid sample_file_config
      (step_request route plan (sample_step i)) sample_files = Some (w1, DeliveredAllSteps) \<and>
    w1 \<noteq> sample_files"
proof -
  have "local_file_validate_request sample_file_config (step_request route plan (sample_step i)) = Ok ()"
    using assms by (simp add: local_file_validate_request_Ok step_request_scoped)
      (simp add: step_request_def sample_file_config_def sample_step_def)
  then show ?thesis
    by (simp add: local_file_deliver_route_def sample_fs_def sample_file_config_def step_request_def
        sample_files_def)
qed

lemma single_step_delivers:
  assumes rep: "route_reportable route" and i: "is_valid_step_id i"
    and links: "sr_execution_plan_id route = Some (pl_execution_plan_id (vp_plan (sample_single i)))"
      "sr_stable_plan_hash route = Some (vp_stable_plan_hash (sample_single i))"
    and reg: "resolve_adapter registry 7 =
      Some (local_file_adapter sample_fs sample_short_uuid sample_file_config)"
    and at: "cx_started_at_utc ctx \<le> cx_completed_at_utc ctx"
  shows "\<exists>w1 t. deliver_plan_per_step_via_registry sample_short_uuid route (sample_single i) registry ctx
      sample_files = Some (w1, Ok t) \<and> w1 \<noteq> sample_files \<and>
    st_state (vs_status (last (tr_statuses t))) = execution_state.Completed"
proof -
  have del: "deliverable route" using rep by (simp add: route_reportable_def)
  then have valid: "validate_selected_route_for_delivery route = Ok ()"
    by (simp add: validate_selected_route_Ok)
  obtain a where a: "build_admitted_not_started_status_from_route route (cx_coordinated_at_utc ctx) = Ok a"
    using route_builders_total(1) [OF rep] by blast
  obtain p where p: "build_in_progress_statuses_from_route route [i] (cx_started_at_utc ctx) = Ok p"
    using route_in_progress_total [OF rep, of "[i]"] i by auto
  obtain f where f: "build_completed_status_from_route route (cx_started_at_utc ctx)
      (cx_completed_at_utc ctx) = Ok f"
    using route_builders_total(2) [OF rep at] by blast
  then have final: "st_state (vs_status f) = execution_state.Completed"
    by (auto simp: entry_of_def dest!: route_builders_speak(2))
  obtain w1 where w1: "local_file_deliver_route sample_fs sample_short_uuid sample_file_config
      (step_request route (sample_single i) (sample_step i)) sample_files = Some (w1, DeliveredAllSteps)"
    "w1 \<noteq> sample_files"
    using sample_write del by (fastforce simp: deliverable_def)
  have fields: "step_id (sample_step i) = i" "step_capability_id (sample_step i) = 7"
    by (simp_all add: sample_step_def)
  have "dispatch_one_step sample_short_uuid route (sample_single i) registry (sample_step i) sample_files =
      Some (w1, Ok step_delivery_outcome.Completed)"
    using w1(1) by (simp add: dispatch_one_step_def fields reg and_do_def call_adapter_def
        local_file_adapter_def step_outcome_def pure_do_def)
  then have "deliver_steps sample_short_uuid route (sample_single i) registry (cx_started_at_utc ctx)
      [sample_step i] (start_run a) sample_files = Some (w1, Ok
        \<lparr>run_statuses = a # p, run_outcomes = [(i, step_delivery_outcome.Completed)],
         run_stop_dispatching = False, run_fallback_results = Map.empty\<rparr>)"
    by (simp add: deliver_step_def attempt_fallback_def fields p and_do_def pure_do_def)
  with valid a f links w1(2) final show ?thesis
    by (simp add: deliver_plan_per_step_via_registry_def and_do_def partial_do_def pure_do_def
        build_plan_outcome_status_from_route_def new_execution_trace_def del: deliver_steps.simps)
qed

lemma sample_run_writes:
  assumes "is_valid_step_id i"
  shows "\<exists>w' r. sample_run sample_contracts i sample_json = Some (w', r) \<and> w' \<noteq> sample_files \<and>
    (\<forall>out. r = Ok out \<longrightarrow> (\<exists>t. po_execution_trace out = Some t \<and>
       st_state (vs_status (last (tr_statuses t))) = execution_state.Completed))"
proof -
  let ?env = "sample_env sample_contracts i"
  obtain d where d: "resolve_route_decision sample_contracts sample_decoders sample_short_uuid 0
      sample_json sample_json sample_json sample_json sample_resolution = Some (Ok d)"
    "admitted_posture (rd_resolved_approval_posture d)" "requested_capability d = 7"
    "plan_answers d (sample_single i)"
    using sample_pipeline_decision by blast
  let ?route = "routable_plan_selection d (sample_single i) ExternalAdapterBoundedExecution True False"
  obtain registry where reg: "build_registry ?env 7 (Some (adapter_selection.LocalFileWrite ''/data'')) [] =
      Ok registry"
    "resolve_adapter registry 7 = Some (local_file_adapter sample_fs sample_short_uuid sample_file_config)"
    using sample_build_registry by blast
  obtain input where input: "new_routing_input d (Some (sample_single i)) = Ok input"
    "select_route input = Ok ?route"
    using admitted_route [OF resolved_coherent [OF d(1)] d(4,2)] by blast
  have "deliverable ?route"
    using selected_deliverable [OF input] d(2) by simp
  then have "route_reportable ?route"
    using sample_hash_valid assms
    by (simp add: route_reportable_def routable_plan_selection_def sample_step_def)
      (simp add: sample_single_def)
  let ?ctx = "\<lparr>cx_coordinated_at_utc = 5, cx_started_at_utc = 5, cx_completed_at_utc = 5\<rparr>"
  have "sr_execution_plan_id ?route = Some (pl_execution_plan_id (vp_plan (sample_single i)))"
    "sr_stable_plan_hash ?route = Some (vp_stable_plan_hash (sample_single i))"
    by (simp_all add: routable_plan_selection_def)
  from single_step_delivers [OF \<open>route_reportable ?route\<close> assms this reg(2), of ?ctx] obtain w1 t where t:
    "deliver_plan_per_step_via_registry sample_short_uuid ?route (sample_single i) registry ?ctx
       sample_files = Some (w1, Ok t)" "w1 \<noteq> sample_files"
    "st_state (vs_status (last (tr_statuses t))) = execution_state.Completed"
    by auto
  obtain r where r: "record_statuses ?env 0 d (tr_statuses t) (new_record_context 5) None = pure_do r"
    using record_statuses_None by metis
  have "\<exists>r'. deliver_and_record ?env d (sample_single i) (Some (adapter_selection.LocalFileWrite ''/data''))
      [] PerStep None 5 sample_files = Some (w1, r') \<and>
    (\<forall>out. r' = Ok out \<longrightarrow> po_execution_trace out = Some t)"
    using input reg(1) t(1) r d(3)
    by (cases r)
      (auto simp: deliver_and_record_def dispatch_plan_def and_do_def pure_do_def pipeline_outcome_def)
  with run_pipeline_admitted [of ?env "sample_inputs sample_json" sample_resolution d "sample_single i"]
    d sample_single_declared t(2,3)
  show ?thesis by (auto simp: sample_resolution_def)
qed

lemma sample_names:
  "harmless_step ''write''" "telltale_step ''failed-over''" "is_valid_step_id ''failed-over''"
  unfolding harmless_step_def telltale_step_def summary_recordable_def summary_truthful_def
  by code_simp+

lemma sample_single_plain: "plain_plan (sample_single ''write'')"
  using sample_hash_valid sample_names(1) by (simp add: plain_plan_def)
    (simp add: sample_single_def sample_single_plan_def)

section \<open>A policy that its schema rejects\<close>

definition rejecting_contracts :: contract_env where
  "rejecting_contracts = sample_contracts
     \<lparr>ce_build_validator := \<lambda>_. Ok (\<lambda>v. if v = JNull then [''type''] else [])\<rparr>"

lemma rejecting_loads:
  "v \<noteq> JNull \<Longrightarrow> deserialize_contract_value rejecting_contracts decode name v = Ok x \<longleftrightarrow> decode v = Ok x"
  by (simp add: deserialize_Ok validate_contract_value_Ok rejecting_contracts_def sample_contracts_def)

lemma rejecting_facts:
  "load_registry rejecting_contracts (dc_capability_registry sample_decoders) sample_json = Ok sample_registry"
  "load_execution_request rejecting_contracts (dc_execution_request sample_decoders) sample_json =
     Ok sample_request"
  "load_and_evaluate rejecting_contracts (dc_requester_trust sample_decoders) 0 sample_json
     \<lparr>tc_expected_environment = er_environment_mode sample_request,
      tc_now = rc_decided_at_utc sample_resolution\<rparr> = Ok sample_envelope"
  "load_policy rejecting_contracts (dc_policy_artifact sample_decoders) JNull =
     Err (SchemaValidation (schema_file_name PolicyArtifact) [''type''])"
proof -
  have "sample_json \<noteq> JNull" by (simp add: sample_json_def)
  note loads = rejecting_loads [OF this]
  show "load_registry rejecting_contracts (dc_capability_registry sample_decoders) sample_json = Ok sample_registry"
    "load_execution_request rejecting_contracts (dc_execution_request sample_decoders) sample_json =
      Ok sample_request"
    by (simp_all add: load_registry_def load_execution_request_def loads sample_decoders_def)
  show "load_and_evaluate rejecting_contracts (dc_requester_trust sample_decoders) 0 sample_json
     \<lparr>tc_expected_environment = er_environment_mode sample_request,
      tc_now = rc_decided_at_utc sample_resolution\<rparr> = Ok sample_envelope"
    using sample_trusted by (simp add: load_and_evaluate_Ok load_envelope_def loads)
      (simp add: sample_json_def sample_decoders_def sample_request_def sample_resolution_def)
  show "load_policy rejecting_contracts (dc_policy_artifact sample_decoders) JNull =
     Err (SchemaValidation (schema_file_name PolicyArtifact) [''type''])"
    by (simp add: load_policy_def deserialize_contract_value_def validate_contract_value_def
        load_json_value_def rejecting_contracts_def sample_contracts_def)
qed

lemma rejecting_run:
  "\<exists>w' r. sample_run rejecting_contracts i JNull = Some (w', r)"
proof -
  let ?env = "sample_env rejecting_contracts i"
  have policy: "load_required_value rejecting_contracts (dc_policy_artifact sample_decoders) 0 (Some JNull) =
      Err (deny 0 denial_reason_class.ContractInvalid Artifact Contract (''invalid policy artifact: '' @
        show_error (ce_debug_list rejecting_contracts)
          (SchemaValidation (schema_file_name PolicyArtifact) [''type''])))"
    by (simp add: load_required_value_def rejecting_facts(4))
  have request: "validate_request rejecting_contracts (dc_execution_request sample_decoders) sample_json =
      Ok \<lparr>iv_request = sample_request\<rparr>"
    by (simp add: validate_request_Ok rejecting_facts(2))
  have debug: "ce_debug_list rejecting_contracts = (\<lambda>_. ''[]'')"
    by (simp add: rejecting_contracts_def sample_contracts_def)
  let ?input = "\<lparr>ri_request = sample_request, ri_requester_trust_outcome = Ok sample_envelope,
     ri_policy_outcome = load_required_value rejecting_contracts (dc_policy_artifact sample_decoders) 0 (Some JNull),
     ri_capability_admission_outcome = Err (prerequisite_unavailable_denial 0)\<rparr>"
  have "\<forall>t \<in> handed_texts ?input. is_ascii t"
    by (simp add: handed_texts_def policy debug prerequisite_unavailable_denial_def byte_def)
  moreover have "is_ascii (sample_short_uuid (er_requested_capability_id sample_request))"
    using sample_short_uuid_facts(2) by (simp add: sample_request_def)
  ultimately obtain d where d: "resolve sample_short_uuid ?input sample_resolution = Some d"
    using resolve_total [of ?input sample_short_uuid sample_resolution] by auto
  then have res: "resolve_route_decision rejecting_contracts sample_decoders sample_short_uuid 0 sample_json
      sample_json JNull sample_json sample_resolution = Some (Ok d)"
    by (simp add: resolve_route_decision_def rejecting_facts(1,3) request policy)
  have "rd_resolved_approval_posture d = approval_posture.Denied"
    using rejected_policy_denies [OF res rejecting_facts(2-4)] by simp
  then show ?thesis
    using res record_and_stop_None [of ?env d "DenialIssued d"]
    by (auto simp: run_pipeline_def partial_do_def and_do_def pure_do_def sample_resolution_def)
      (metis pure_do_def)
qed

end
