(* ===== verification/Pipeline_Properties.thy ===== *)
theory Pipeline_Properties
  imports Pipeline_Samples
begin

text \<open>
  The properties of review packages, forensic recording and whole pipeline runs, each with the
  sample input at which its hypotheses hold.
\<close>

section \<open>Review packages\<close>

text \<open>C30: Review emission decides. On a checked input, a package is emitted exactly for a review posture
and presentable texts, options and plan hash, and then it is the package of the decision, the plan and
the waiting status, and well-formed; for any other posture nothing is emitted, and nothing else fails.\<close>

theorem review_emission_decides:
  assumes "new_review_emission_input input = Ok accepted"
  shows "(emit_review_package fresh accepted = Ok out \<longleftrightarrow>
      (if review_posture (rd_resolved_approval_posture (re_route_decision input))
       then emission_presentable input \<and> out = Emitted \<lparr>vr_package = emitted_package fresh input\<rparr>
       else out = NotEmitted NonReviewPath)) \<and>
    (\<forall>v. emit_review_package fresh accepted = Ok (Emitted v) \<longrightarrow> package_wf (vr_package v))"
proof -
  have accepted: "emission_acceptable input" "accepted = input"
    using assms by (simp_all add: new_review_emission_input_Ok)
  show ?thesis
    unfolding accepted(2)
    using emit_review_package_Ok [OF accepted(1)] emitted_package_wf [OF accepted(1)] by blast
qed

definition sample_waiting_decision :: route_decision where
  "sample_waiting_decision = sample_decision
     \<lparr>rd_resolved_approval_posture := ExplicitOperatorApproval, rd_execution_allowed := False,
      rd_explicit_approval_required := True\<rparr>"

definition sample_review_input :: "string \<Rightarrow> review_emission_input" where
  "sample_review_input proposed =
     \<lparr>re_route_decision = sample_waiting_decision, re_validated_plan = Some sample_validated,
      re_execution_status = None, re_intent_basis = ExplicitUserAction,
      re_requester_summary = ''trusted app'', re_proposed_execution_summary = proposed,
      re_side_effect_assessment = ''writes a file'',
      re_approval_options_allowed_by_policy = [ApproveExecute, DeclineRequest],
      re_denial_consequences_if_declined = ''nothing is written'', re_context = new_emission_context 7\<rparr>"

lemma sample_review_acceptable: "emission_acceptable (sample_review_input proposed)"
  by (simp add: emission_acceptable_def sample_review_input_def sample_waiting_decision_def)
    (simp add: coherent_def plan_answers_def requested_capability_def sample_decision_def
      sample_validated_def sample_plan_def)

theorem review_emission_decides_witness:
  "(\<exists>v. emit_review_package 8 (sample_review_input ''write a file'') = Ok (Emitted v) \<and>
      package_wf (vr_package v)) \<and>
    (\<nexists>out. emit_review_package 8 (sample_review_input ''write a file, with fallback'') = Ok out)"
proof -
  have input: "new_review_emission_input (sample_review_input p) = Ok (sample_review_input p)" for p
    using sample_review_acceptable by (simp add: new_review_emission_input_Ok)
  have posture: "review_posture (rd_resolved_approval_posture (re_route_decision (sample_review_input p)))" for p
    by (simp add: sample_review_input_def sample_waiting_decision_def review_posture_def)
  have words: "\<not> mentions_degraded_or_fallback ''write a file''" "\<not> mentions_degraded_or_fallback ''writes a file''"
    "mentions_degraded_or_fallback ''write a file, with fallback''"
    by code_simp+
  have "emission_presentable (sample_review_input ''write a file'')"
    "\<not> emission_presentable (sample_review_input ''write a file, with fallback'')"
    using sample_hash_valid words
    by (simp_all add: emission_presentable_def sample_review_input_def options_offered_def narration_honest_def
        sample_waiting_decision_def sample_decision_def sample_validated_def)
  then have "emit_review_package 8 (sample_review_input ''write a file'') =
      Ok (Emitted \<lparr>vr_package = emitted_package 8 (sample_review_input ''write a file'')\<rparr>)"
    "\<nexists>out. emit_review_package 8 (sample_review_input ''write a file, with fallback'') = Ok out"
    using review_emission_decides [OF input, where fresh = 8] posture by simp_all
  then show ?thesis
    using review_emission_decides [OF input, where fresh = 8] by blast
qed

section \<open>Forensic recording\<close>

text \<open>C27: The recorder decides. A checked fact becomes an event exactly when its summary may be said: it
claims success, failure, cancellation or degradation only in a state that has it, is bounded and does
not narrate. The event is well-formed and says what the fact says: its type, request, posture, state,
subtype and summary.\<close>

theorem recording_decides:
  assumes "new_record_input kind level ctx = Ok input"
  shows "((\<exists>v. record_event fresh input = Ok v) \<longleftrightarrow> kind_recordable kind) \<and>
    (\<forall>v. record_event fresh input = Ok v \<longrightarrow> event_wf (vf_event v) \<and> event_says kind (vf_event v))"
  using record_event_decides [OF assms] by blast

theorem recording_decides_witness:
  "\<exists>input v. new_record_input (RouteDecisionResolved sample_decision) LinkageOnly (new_record_context 5) =
      Ok input \<and> record_event 11 input = Ok v \<and> event_wf (vf_event v) \<and>
      fe_summary (vf_event v) = ''admitted''"
proof -
  obtain input where input: "new_record_input (RouteDecisionResolved sample_decision) LinkageOnly
      (new_record_context 5) = Ok input"
    using sample_coherent by (simp add: new_record_input_Ok)
  have "summary_recordable ''admitted'' AdmittedNotStarted None"
    unfolding summary_recordable_def summary_truthful_def by code_simp
  then have "kind_recordable (RouteDecisionResolved sample_decision)"
    by (simp add: sample_decision_def)
  with recording_decides [OF input, of 11] input show ?thesis
    by (auto simp: event_says_def sample_decision_def)
qed

section \<open>Pipeline runs\<close>

text \<open>C3: A run changes the world in two stages, in this order. First, and only on authority, its delivery:
when the delivery changes anything, the request was authorised by all four contracts, the declared plan
was accepted by the plan validator and answers the request, and the change is made of writes of this
request's and this plan's receipt under the configured delivery roots. Then the calls of its export
adapter, each on a well-formed event; a run without an adapter makes none, so that a run that is not
authorised changes nothing but the evidence its adapter keeps.\<close>

theorem pipeline_changes_authorised:
  assumes "run_pipeline env inputs selection additional mode export ctx w = Some (w', r)"
  shows "\<exists>v. exports export v w' \<and> (export = None \<longrightarrow> v = w') \<and>
    (v \<noteq> w \<longrightarrow> (\<exists>er trust p c plan.
       authorised (pe_contracts env) (pe_decoders env) (pi_request inputs) (pi_requester_trust inputs)
         (pi_policy inputs) (pi_capability_registry inputs) (rc_decided_at_utc ctx) er trust p c \<and>
       declared_plan_valid env inputs plan \<and>
       pl_originating_request_id (vp_plan plan) = er_request_id er \<and>
       er_requested_capability_id er \<in> set (pl_referenced_capabilities (vp_plan plan)) \<and>
       receipts env (delivery_roots selection additional) (er_request_id er)
         (vp_stable_plan_hash plan) w v))"
proof -
  from run_pipeline_changes [OF assms] obtain v where v: "exports export v w'"
    and changes: "v \<noteq> w \<longrightarrow> (\<exists>er trust p c plan.
       authorised (pe_contracts env) (pe_decoders env) (pi_request inputs) (pi_requester_trust inputs)
         (pi_policy inputs) (pi_capability_registry inputs) (rc_decided_at_utc ctx) er trust p c \<and>
       declared_plan_valid env inputs plan \<and>
       pl_originating_request_id (vp_plan plan) = er_request_id er \<and>
       er_requested_capability_id er \<in> set (pl_referenced_capabilities (vp_plan plan)) \<and>
       receipts env (delivery_roots selection additional) (er_request_id er)
         (vp_stable_plan_hash plan) w v)" by (elim exE conjE)
  have "export = None \<longrightarrow> v = w'" using v by auto
  with v changes show ?thesis by (intro exI [of _ v] conjI)
qed

theorem pipeline_changes_authorised_witness:
  "\<exists>w' r. sample_run sample_contracts ''write'' sample_json = Some (w', r) \<and> w' \<noteq> sample_files \<and>
    (\<exists>request hash. receipts (sample_env sample_contracts ''write'') {''/data''} request hash sample_files w')"
proof -
  have "is_valid_step_id ''write''" using sample_names(1) by (simp add: harmless_step_def)
  from sample_run_writes [OF this] obtain w' r where
    run: "sample_run sample_contracts ''write'' sample_json = Some (w', r)" "w' \<noteq> sample_files" by blast
  have roots: "delivery_roots (Some (adapter_selection.LocalFileWrite ''/data'')) [] = {''/data''}"
    by (simp add: delivery_roots_def selections_def)
  from pipeline_changes_authorised [OF run(1), unfolded roots] run(2) obtain request hash where
    "receipts (sample_env sample_contracts ''write'') {''/data''} request hash sample_files w'"
    by blast
  with run show ?thesis by (intro exI conjI)
qed

text \<open>C4: Every outcome of a run has its evidence. A decision that stops the run leaves one well-formed
event that says the decision; a delivered run leaves a lawful trace and, in order, one event for each of
its statuses that says the status. A denied plan is the exception: it leaves the denial and no event.
The decision of the outcome is the one the decision service made.\<close>

theorem pipeline_evidence:
  assumes "run_pipeline env inputs selection additional mode export ctx w = Some (w', Ok out)"
  shows "evidenced out \<and> resolve_route_decision (pe_contracts env) (pe_decoders env)
    (pe_show_uuid env) (pe_now env) (pi_request inputs) (pi_requester_trust inputs) (pi_policy inputs)
    (pi_capability_registry inputs) ctx = Some (Ok (po_route_decision out))"
  using assms by (rule run_pipeline_evidence)

lemma sample_run_answers:
  "\<exists>d w' t rs. sample_run sample_contracts ''write'' sample_json =
     Some (w', Ok (pipeline_outcome d None (Some t) rs))"
proof -
  obtain d where d: "resolve_route_decision sample_contracts sample_decoders sample_short_uuid 0 sample_json
      sample_json sample_json sample_json sample_resolution = Some (Ok d)"
    "admitted_posture (rd_resolved_approval_posture d)" "requested_capability d = 7"
    "plan_answers d (sample_single ''write'')"
    using sample_pipeline_decision by blast
  obtain registry where "build_registry (sample_env sample_contracts ''write'') (requested_capability d)
      (Some (adapter_selection.LocalFileWrite ''/data'')) [] = Ok registry"
    using sample_build_registry d(3) by metis
  from run_pipeline_answers [OF _ d(2) sample_single_declared [where p = sample_json]
      sample_single_plain d(4) this, where ctx = sample_resolution and w = sample_files]
    d(1) sample_short_uuid_facts(1)
  have "\<exists>w' t rs. sample_run sample_contracts ''write'' sample_json =
      Some (w', Ok (pipeline_outcome d None (Some t) rs))"
    by simp
  then show ?thesis by blast
qed

theorem pipeline_evidence_witness:
  "\<exists>w' out. sample_run sample_contracts ''write'' sample_json = Some (w', Ok out) \<and>
    po_execution_trace out \<noteq> None \<and> evidenced out"
proof -
  obtain d w' t rs where run: "sample_run sample_contracts ''write'' sample_json =
      Some (w', Ok (pipeline_outcome d None (Some t) rs))"
    using sample_run_answers by blast
  from pipeline_evidence [OF this] run show ?thesis
    by (intro exI [of _ w'] exI) (auto simp: pipeline_outcome_def)
qed

text \<open>C31: A per-step run answers. For an authorised request and a validated plan with a valid hash, without
fallbacks and with harmless step names, and adapters that register, a run without an export adapter
never panics or errs: it ends with a trace and its events, whatever the file system answers.\<close>

theorem per_step_run_answers:
  assumes "resolve_route_decision (pe_contracts env) (pe_decoders env) (pe_show_uuid env) (pe_now env)
      (pi_request inputs) (pi_requester_trust inputs) (pi_policy inputs) (pi_capability_registry inputs)
      ctx = Some (Ok d)"
    and "admitted_posture (rd_resolved_approval_posture d)"
    and "declared_plan_valid env inputs plan" and "plain_plan plan" and "plan_answers d plan"
    and "build_registry env (requested_capability d) selection additional = Ok registry"
    and "\<And>u. length (pe_show_uuid env u) \<le> 36"
  shows "\<exists>w' t rs. run_pipeline env inputs selection additional PerStep None ctx w =
    Some (w', Ok (pipeline_outcome d None (Some t) rs))"
  using assms by (rule run_pipeline_answers)

theorem per_step_run_answers_witness:
  "\<exists>d w' t rs. sample_run sample_contracts ''write'' sample_json =
     Some (w', Ok (pipeline_outcome d None (Some t) rs))"
proof -
  obtain d where d: "resolve_route_decision sample_contracts sample_decoders sample_short_uuid 0 sample_json
      sample_json sample_json sample_json sample_resolution = Some (Ok d)"
    "admitted_posture (rd_resolved_approval_posture d)" "requested_capability d = 7"
    "plan_answers d (sample_single ''write'')"
    using sample_pipeline_decision by blast
  obtain registry where "build_registry (sample_env sample_contracts ''write'') (requested_capability d)
      (Some (adapter_selection.LocalFileWrite ''/data'')) [] = Ok registry"
    using sample_build_registry d(3) by metis
  from per_step_run_answers [OF _ d(2) sample_single_declared [where p = sample_json]
      sample_single_plain d(4) this, where ctx = sample_resolution and w = sample_files]
    d(1) sample_short_uuid_facts(1)
  have "\<exists>w' t rs. sample_run sample_contracts ''write'' sample_json =
      Some (w', Ok (pipeline_outcome d None (Some t) rs))"
    by simp
  then show ?thesis by blast
qed

text \<open>C36: With a policy that its schema rejects, every run whose request loads and whose requester the
trust evaluation accepts ends in an error, whatever its plan, its mode and its export adapter. The denial
guard that the policy becomes says that schema validation failed, the recorder refuses a claim of
failure outside a failed execution, and the denied outcome is lost; nothing is delivered or exported,
the world stays as it is. (A request or a requester that is refused first is denied for that reason,
before the policy is read.)\<close>

theorem policy_rejection_unrecordable:
  assumes "run_pipeline env inputs selection additional mode export ctx w = Some (w', r)"
    and "load_execution_request (pe_contracts env) (dc_execution_request (pe_decoders env))
        (pi_request inputs) = Ok er"
    and "load_and_evaluate (pe_contracts env) (dc_requester_trust (pe_decoders env)) (pe_now env)
        (pi_requester_trust inputs) \<lparr>tc_expected_environment = er_environment_mode er,
          tc_now = rc_decided_at_utc ctx\<rparr> = Ok trust"
    and "load_policy (pe_contracts env) (dc_policy_artifact (pe_decoders env)) (pi_policy inputs) =
        Err (SchemaValidation (schema_file_name PolicyArtifact) errors)"
  shows "w' = w \<and> (\<exists>e. r = Err e)"
  using assms by (rule rejected_policy_errs)

theorem policy_rejection_unrecordable_witness:
  "\<exists>e. sample_run rejecting_contracts ''write'' JNull = Some (sample_files, Err e)"
proof -
  obtain w' r where run: "sample_run rejecting_contracts ''write'' JNull = Some (w', r)"
    using rejecting_run by blast
  from policy_rejection_unrecordable [OF run] rejecting_facts(2-4) run show ?thesis
    by auto
qed



end
