(* ===== verification/Gnat_Negotiation.thy ===== *)
theory Gnat_Negotiation
  imports Contracts
begin

text \<open>
  The admission of Cortex Gnat runs, \<open>src/integrations/cortex/mod.rs\<close>, and the forensic events of
  such runs, \<open>src/integrations/cortex/forensics.rs\<close>: the dispatch envelope, its negotiation against
  the capabilities of the service, and the events with their validation.
\<close>

section \<open>Envelopes\<close>

datatype gnat_worker_type =
  MarkdownSyntax | PlainTextSyntax | PdfTextSyntax | DocxTextSyntax | RtfTextSyntax | OdtTextSyntax
| EpubTextSyntax

text \<open>The derived order is the order of declaration.\<close>

fun worker_rank :: "gnat_worker_type \<Rightarrow> nat" where
  "worker_rank MarkdownSyntax = 0"
| "worker_rank PlainTextSyntax = 1"
| "worker_rank PdfTextSyntax = 2"
| "worker_rank DocxTextSyntax = 3"
| "worker_rank RtfTextSyntax = 4"
| "worker_rank OdtTextSyntax = 5"
| "worker_rank EpubTextSyntax = 6"

instantiation gnat_worker_type :: linorder
begin

definition less_eq_gnat_worker_type :: "gnat_worker_type \<Rightarrow> gnat_worker_type \<Rightarrow> bool" where
  "a \<le> b \<longleftrightarrow> worker_rank a \<le> worker_rank b"

definition less_gnat_worker_type :: "gnat_worker_type \<Rightarrow> gnat_worker_type \<Rightarrow> bool" where
  "a < b \<longleftrightarrow> worker_rank a < worker_rank b"

instance
proof
  fix a b c :: gnat_worker_type
  show "a < b \<longleftrightarrow> a \<le> b \<and> \<not> b \<le> a"
    by (auto simp: less_eq_gnat_worker_type_def less_gnat_worker_type_def)
  show "a \<le> a" by (simp add: less_eq_gnat_worker_type_def)
  show "a \<le> b \<Longrightarrow> b \<le> c \<Longrightarrow> a \<le> c" by (simp add: less_eq_gnat_worker_type_def)
  show "a \<le> b \<Longrightarrow> b \<le> a \<Longrightarrow> a = b"
    by (cases a; cases b) (simp_all add: less_eq_gnat_worker_type_def)
  show "a \<le> b \<or> b \<le> a" by (auto simp: less_eq_gnat_worker_type_def)
qed

end

datatype gnat_cancellation_policy = CancelRemainingShards | FinishInFlightOnly

datatype gnat_retry_policy = NoRetry | InfrastructureOnly

datatype gnat_fa_local_state = GnatReady | GnatDegraded | GnatUnavailable

record gnat_dispatch_shard =
  gs_shard_id :: string
  gs_ordinal :: "16 word"
  gs_worker_type :: gnat_worker_type
  gs_source_ref :: string
  gs_source_fingerprint_digest :: string
  gs_deadline_ms :: "64 word"

record gnat_execution_limits =
  gl_requested_concurrency :: "8 word"
  gl_max_concurrency :: "8 word"
  gl_deadline_ms :: "64 word"

record gnat_dispatch_plan =
  gp_contract_version :: string
  gp_run_id :: string
  gp_plan_hash :: string
  gp_operation :: string
  gp_expected_receipt_schema :: string
  gp_shard_count :: "16 word"
  gp_shards :: "gnat_dispatch_shard list"
  gp_execution_limits :: gnat_execution_limits
  gp_serial_fallback_allowed :: bool

record gnat_required_capabilities =
  gr_supported_contract_versions :: "string list"
  gr_worker_types :: "gnat_worker_type list"
  gr_cancellation_policy :: gnat_cancellation_policy
  gr_deadline_enforced :: bool

record gnat_route_policy =
  gy_fa_local_owns_execution_routing :: bool
  gy_cortex_validates_receipts :: bool
  gy_retry_policy :: gnat_retry_policy

record gnat_dispatch_envelope =
  ge_contract_version :: string
  ge_correlation_id :: correlation_id
  ge_requester_service :: string
  ge_plan :: gnat_dispatch_plan
  ge_required_capabilities :: gnat_required_capabilities
  ge_route_policy :: gnat_route_policy

definition load_gnat_envelope ::
  "contract_env \<Rightarrow> (json \<Rightarrow> (gnat_dispatch_envelope, string) result) \<Rightarrow> json \<Rightarrow>
   gnat_dispatch_envelope fa_local_result" where
  "load_gnat_envelope env decode v = deserialize_contract_value env decode GnatDispatchEnvelope v"

record gnat_fa_local_capability_state =
  gc_fa_local_state :: gnat_fa_local_state
  gc_supported_contract_versions :: "string list"
  gc_admitted_worker_types :: "gnat_worker_type list"
  gc_max_concurrency :: "8 word"
  gc_cancellation_supported :: bool

definition ready_default :: gnat_fa_local_capability_state where
  "ready_default =
     \<lparr>gc_fa_local_state = GnatReady,
      gc_supported_contract_versions =
        [''GnatDispatchEnvelope.v1'', ''GnatRunPlan.v1'', ''GnatWorkerReceipt.v1''],
      gc_admitted_worker_types =
        [MarkdownSyntax, PlainTextSyntax, PdfTextSyntax, DocxTextSyntax, RtfTextSyntax, OdtTextSyntax,
         EpubTextSyntax],
      gc_max_concurrency = 4, gc_cancellation_supported = True\<rparr>"

definition unavailable_state :: gnat_fa_local_capability_state where
  "unavailable_state =
     \<lparr>gc_fa_local_state = GnatUnavailable, gc_supported_contract_versions = [],
      gc_admitted_worker_types = [], gc_max_concurrency = 0, gc_cancellation_supported = False\<rparr>"

section \<open>Negotiation\<close>

datatype gnat_dispatch_admission_state = ReadyForDispatch | SerialFallbackPermitted

record gnat_dispatch_admission =
  gd_state :: gnat_dispatch_admission_state
  gd_correlation_id :: correlation_id
  gd_run_id :: string
  gd_effective_concurrency :: "8 word"
  gd_admitted_worker_types :: "gnat_worker_type list"
  gd_cancellation_policy :: gnat_cancellation_policy
  gd_operator_visible_summary :: string

definition gnat_contract_invalid :: "timestamp \<Rightarrow> string \<Rightarrow> denial_guard" where
  "gnat_contract_invalid now summary =
     deny now denial_reason_class.ContractInvalid Operation Contract summary"

text \<open>The loop over the shards, with the set of declared worker types.\<close>

fun check_shard_workers ::
  "timestamp \<Rightarrow> gnat_worker_type set \<Rightarrow> gnat_dispatch_shard list \<Rightarrow> (unit, denial_guard) result" where
  "check_shard_workers now declared [] = Ok ()"
| "check_shard_workers now declared (shard # shards) =
     (if gs_worker_type shard \<notin> declared
      then Err (gnat_contract_invalid now ''Gnat dispatch shard uses undeclared worker type'')
      else check_shard_workers now declared shards)"

definition validate_plan_surface ::
  "timestamp \<Rightarrow> gnat_dispatch_envelope \<Rightarrow> (unit, denial_guard) result" where
  "validate_plan_surface now envelope =
     (let plan = ge_plan envelope; policy = ge_route_policy envelope;
          refuse = (\<lambda>b m. fail_if b (gnat_contract_invalid now m)) in checks
      [refuse (ge_contract_version envelope \<noteq> ''GnatDispatchEnvelope.v1'')
         ''unsupported Gnat dispatch envelope version'',
       refuse (ge_requester_service envelope \<noteq> ''cortex'')
         ''Gnat dispatch envelope requester must be cortex'',
       refuse (gp_contract_version plan \<noteq> ''GnatRunPlan.v1'') ''unsupported Gnat run plan version'',
       refuse (gp_operation plan \<noteq> ''syntax_extract'') ''Gnat dispatch admits syntax_extract only'',
       refuse (gp_expected_receipt_schema plan \<noteq> ''gnat-worker-receipt.schema.json'')
         ''Gnat dispatch expected receipt schema mismatch'',
       refuse (unat (gp_shard_count plan) \<noteq> length (gp_shards plan))
         ''Gnat dispatch shard_count does not match shards'',
       refuse (\<not> gy_fa_local_owns_execution_routing policy)
         ''FA Local must own Gnat execution routing'',
       refuse (\<not> gy_cortex_validates_receipts policy) ''Cortex must validate Gnat receipts'',
       refuse (gy_retry_policy policy \<noteq> InfrastructureOnly)
         ''Gnat dispatch admits infrastructure-only retry policy'',
       refuse (\<not> gr_deadline_enforced (ge_required_capabilities envelope))
         ''Gnat dispatch requires enforced deadlines'',
       check_shard_workers now (set (gr_worker_types (ge_required_capabilities envelope)))
         (gp_shards plan)])"

fun validate_supported_contracts ::
  "timestamp \<Rightarrow> string set \<Rightarrow> string list \<Rightarrow> (unit, denial_guard) result" where
  "validate_supported_contracts now supported [] = Ok ()"
| "validate_supported_contracts now supported (required # rest) =
     (if required \<notin> supported
      then Err (gnat_contract_invalid now ''FA Local does not support a required Gnat contract version'')
      else validate_supported_contracts now supported rest)"

fun validate_worker_admission ::
  "timestamp \<Rightarrow> gnat_worker_type set \<Rightarrow> gnat_worker_type list \<Rightarrow> (unit, denial_guard) result" where
  "validate_worker_admission now admitted [] = Ok ()"
| "validate_worker_admission now admitted (worker_type # rest) =
     (if worker_type \<notin> admitted
      then Err (deny now CapabilityNotAdmitted Capability Policy
        ''Gnat worker type is not admitted by FA Local'')
      else validate_worker_admission now admitted rest)"

definition validate_cancellation ::
  "timestamp \<Rightarrow> gnat_fa_local_capability_state \<Rightarrow> (unit, denial_guard) result" where
  "validate_cancellation now capabilities = fail_if (\<not> gc_cancellation_supported capabilities)
     (deny now denial_reason_class.DependencyUnavailable Service RuntimeSafety
       ''FA Local Gnat cancellation support is unavailable'')"

definition sorted_worker_types :: "gnat_worker_type list \<Rightarrow> gnat_worker_type list" where
  "sorted_worker_types ws = sorted_list_of_set (set ws)"

definition negotiate ::
  "timestamp \<Rightarrow> gnat_dispatch_envelope \<Rightarrow> gnat_fa_local_capability_state \<Rightarrow>
   (gnat_dispatch_admission, denial_guard) result" where
  "negotiate now envelope capabilities =
     and_then (validate_plan_surface now envelope) (\<lambda>_.
       let plan = ge_plan envelope; required = ge_required_capabilities envelope in
       case gc_fa_local_state capabilities of
         GnatReady \<Rightarrow>
           and_then (checks
             [validate_supported_contracts now (set (gc_supported_contract_versions capabilities))
                (gr_supported_contract_versions required),
              validate_worker_admission now (set (gc_admitted_worker_types capabilities))
                (gr_worker_types required),
              validate_cancellation now capabilities]) (\<lambda>_. Ok
             \<lparr>gd_state = ReadyForDispatch,
              gd_correlation_id = ge_correlation_id envelope,
              gd_run_id = gp_run_id plan,
              gd_effective_concurrency =
                max (min (min (gl_requested_concurrency (gp_execution_limits plan))
                  (gl_max_concurrency (gp_execution_limits plan))) (gc_max_concurrency capabilities)) 1,
              gd_admitted_worker_types = sorted_worker_types (gr_worker_types required),
              gd_cancellation_policy = gr_cancellation_policy required,
              gd_operator_visible_summary =
                ''FA Local admitted Cortex Gnat run '' @ gp_run_id plan @ '' for bounded dispatch.''\<rparr>)
       | _ \<Rightarrow>
           if gp_serial_fallback_allowed plan
           then Ok
             \<lparr>gd_state = SerialFallbackPermitted,
              gd_correlation_id = ge_correlation_id envelope,
              gd_run_id = gp_run_id plan,
              gd_effective_concurrency = 1,
              gd_admitted_worker_types = [],
              gd_cancellation_policy = gr_cancellation_policy required,
              gd_operator_visible_summary =
                ''FA Local Gnat dispatch is unavailable; '' @
                ''Cortex serial fallback is permitted by contract.''\<rparr>
           else Err (deny now denial_reason_class.DependencyUnavailable Service RuntimeSafety
             ''FA Local Gnat dispatch is unavailable and serial fallback is not permitted''))"

section \<open>What negotiation admits\<close>

definition envelope_wf :: "gnat_dispatch_envelope \<Rightarrow> bool" where
  "envelope_wf envelope \<longleftrightarrow>
     ge_contract_version envelope = ''GnatDispatchEnvelope.v1'' \<and>
     ge_requester_service envelope = ''cortex'' \<and>
     gp_contract_version (ge_plan envelope) = ''GnatRunPlan.v1'' \<and>
     gp_operation (ge_plan envelope) = ''syntax_extract'' \<and>
     gp_expected_receipt_schema (ge_plan envelope) = ''gnat-worker-receipt.schema.json'' \<and>
     unat (gp_shard_count (ge_plan envelope)) = length (gp_shards (ge_plan envelope)) \<and>
     gy_fa_local_owns_execution_routing (ge_route_policy envelope) \<and>
     gy_cortex_validates_receipts (ge_route_policy envelope) \<and>
     gy_retry_policy (ge_route_policy envelope) = InfrastructureOnly \<and>
     gr_deadline_enforced (ge_required_capabilities envelope) \<and>
     gs_worker_type ` set (gp_shards (ge_plan envelope)) \<subseteq>
       set (gr_worker_types (ge_required_capabilities envelope))"

text \<open>The service can run what the envelope requires.\<close>

definition serves_envelope :: "gnat_fa_local_capability_state \<Rightarrow> gnat_dispatch_envelope \<Rightarrow> bool" where
  "serves_envelope capabilities envelope \<longleftrightarrow>
     set (gr_supported_contract_versions (ge_required_capabilities envelope)) \<subseteq>
       set (gc_supported_contract_versions capabilities) \<and>
     set (gr_worker_types (ge_required_capabilities envelope)) \<subseteq>
       set (gc_admitted_worker_types capabilities) \<and>
     gc_cancellation_supported capabilities"

lemma check_shard_workers_Ok [result_simps]:
  "check_shard_workers now declared shards = Ok u \<longleftrightarrow> gs_worker_type ` set shards \<subseteq> declared"
  by (induction shards) auto

lemma validate_supported_contracts_Ok [result_simps]:
  "validate_supported_contracts now supported required = Ok u \<longleftrightarrow> set required \<subseteq> supported"
  by (induction required) auto

lemma validate_worker_admission_Ok [result_simps]:
  "validate_worker_admission now admitted required = Ok u \<longleftrightarrow> set required \<subseteq> admitted"
  by (induction required) auto

lemma validate_plan_surface_Ok [result_simps]:
  "validate_plan_surface now envelope = Ok u \<longleftrightarrow> envelope_wf envelope"
  by (auto simp: validate_plan_surface_def envelope_wf_def Let_def result_simps)

lemma negotiate_Ok:
  "negotiate now envelope capabilities = Ok admission \<Longrightarrow>
     envelope_wf envelope \<and>
     (if gd_state admission = ReadyForDispatch
      then gc_fa_local_state capabilities = GnatReady \<and> serves_envelope capabilities envelope
      else gc_fa_local_state capabilities \<noteq> GnatReady \<and> gp_serial_fallback_allowed (ge_plan envelope))"
  by (cases "gc_fa_local_state capabilities")
    (auto simp: negotiate_def serves_envelope_def validate_cancellation_def Let_def result_simps
      split: if_splits)

lemma negotiate_admits:
  "(\<exists>admission. negotiate now envelope capabilities = Ok admission) \<longleftrightarrow>
     envelope_wf envelope \<and>
     (if gc_fa_local_state capabilities = GnatReady then serves_envelope capabilities envelope
      else gp_serial_fallback_allowed (ge_plan envelope))"
  by (cases "gc_fa_local_state capabilities")
    (auto simp: negotiate_def serves_envelope_def validate_cancellation_def Let_def result_simps)

lemma negotiate_concurrency:
  assumes "negotiate now envelope capabilities = Ok admission"
  shows "1 \<le> gd_effective_concurrency admission \<and>
    (gd_effective_concurrency admission \<le> gl_requested_concurrency (gp_execution_limits (ge_plan envelope)) \<and>
     gd_effective_concurrency admission \<le> gl_max_concurrency (gp_execution_limits (ge_plan envelope)) \<and>
     gd_effective_concurrency admission \<le> gc_max_concurrency capabilities \<or>
     gd_effective_concurrency admission = 1)"
  using assms
  by (cases "gc_fa_local_state capabilities")
    (auto simp: negotiate_def Let_def result_simps max_def min_def split: if_splits)

section \<open>Forensic events of a run\<close>

datatype gnat_forensic_event_type = GnatDispatchNegotiated | GnatShardDispatched

datatype gnat_negotiation_outcome =
  NegotiationDenied | NegotiationSerialFallback | NegotiationReady

datatype gnat_shard_outcome = ShardCompleted | ShardNotCompleted | ShardUnavailable

datatype gnat_receipt_state = ReceiptComplete | ReceiptDenied | ReceiptStale | ReceiptFailed

datatype gnat_redaction_level = GnatNoRedaction | GnatSensitiveRedacted | GnatLinkageOnly

record gnat_forensic_event =
  gf_forensic_event_id :: forensic_event_id
  gf_correlation_id :: correlation_id
  gf_run_id :: string
  gf_event_type :: gnat_forensic_event_type
  gf_negotiation_outcome :: gnat_negotiation_outcome
  gf_shard_id :: "string option"
  gf_worker_type :: "gnat_worker_type option"
  gf_shard_outcome :: "gnat_shard_outcome option"
  gf_receipt_state :: "gnat_receipt_state option"
  gf_timestamp_utc :: timestamp
  gf_summary :: string
  gf_redaction_level :: gnat_redaction_level
  gf_payload_minimized :: bool

record validated_gnat_event =
  vg_event :: gnat_forensic_event

definition load_gnat_event ::
  "contract_env \<Rightarrow> (json \<Rightarrow> (gnat_forensic_event, string) result) \<Rightarrow> json \<Rightarrow>
   gnat_forensic_event fa_local_result" where
  "load_gnat_event env decode v = deserialize_contract_value env decode GnatDispatchForensicEvent v"

definition gnat_require_none :: "'a option \<Rightarrow> string \<Rightarrow> unit fa_local_result" where
  "gnat_require_none v field = (if v = None then Ok () else Err (contract_invalid
     (''gnat_dispatch_negotiated forensic event must not include '' @ field)))"

definition gnat_require_some :: "'a option \<Rightarrow> string \<Rightarrow> 'a fa_local_result" where
  "gnat_require_some v field = ok_or v (contract_invalid
     (''gnat_shard_dispatched forensic event must include '' @ field))"

definition validate_gnat_event :: "gnat_forensic_event \<Rightarrow> unit fa_local_result" where
  "validate_gnat_event e =
     and_then (checks
       [fail_if (gf_summary e = [] \<or> chars_count (gf_summary e) > 160) (contract_invalid
          ''gnat dispatch forensic event summary must be between 1 and 160 characters''),
        fail_if (gf_run_id e = [] \<or> length (gf_run_id e) > 120) (contract_invalid
          ''gnat dispatch forensic event run_id must be between 1 and 120 characters''),
        fail_if (\<not> gf_payload_minimized e) (contract_invalid
          (''gnat dispatch forensic event payload_minimized must remain true '' @
           ''for bounded forensics''))]) (\<lambda>_.
     case gf_event_type e of
       GnatDispatchNegotiated \<Rightarrow> checks
         [gnat_require_none (gf_shard_id e) ''shard_id'',
          gnat_require_none (gf_worker_type e) ''worker_type'',
          gnat_require_none (gf_shard_outcome e) ''shard_outcome'',
          gnat_require_none (gf_receipt_state e) ''receipt_state'']
     | GnatShardDispatched \<Rightarrow>
         and_then (fail_if (gf_negotiation_outcome e \<noteq> NegotiationReady) (contract_invalid
           (''gnat_shard_dispatched forensic event requires '' @
            ''negotiation_outcome ready_for_fa_local_dispatch''))) (\<lambda>_.
         and_then (gnat_require_some (gf_shard_id e) ''shard_id'') (\<lambda>_.
         and_then (gnat_require_some (gf_worker_type e) ''worker_type'') (\<lambda>_.
         and_then (gnat_require_some (gf_shard_outcome e) ''shard_outcome'') (\<lambda>shard_outcome.
         case shard_outcome of
           ShardUnavailable \<Rightarrow> fail_if (gf_receipt_state e \<noteq> None) (contract_invalid
             (''dispatch_unavailable gnat_shard_dispatched forensic event '' @
              ''must not include receipt_state''))
         | _ \<Rightarrow> and_then (gnat_require_some (gf_receipt_state e) ''receipt_state'') (\<lambda>_. Ok ()))))))"

definition new_gnat_event :: "gnat_forensic_event \<Rightarrow> gnat_forensic_event fa_local_result" where
  "new_gnat_event event = and_then (validate_gnat_event event) (\<lambda>_. Ok event)"

definition validated_gnat :: "gnat_forensic_event \<Rightarrow> validated_gnat_event fa_local_result" where
  "validated_gnat event = and_then (validate_gnat_event event) (\<lambda>_. Ok \<lparr>vg_event = event\<rparr>)"

definition new_validated_gnat_event :: "gnat_forensic_event \<Rightarrow> validated_gnat_event fa_local_result" where
  "new_validated_gnat_event event = validated_gnat event"

definition gnat_event_wf :: "gnat_forensic_event \<Rightarrow> bool" where
  "gnat_event_wf e \<longleftrightarrow>
     gf_summary e \<noteq> [] \<and> chars_count (gf_summary e) \<le> 160 \<and>
     gf_run_id e \<noteq> [] \<and> length (gf_run_id e) \<le> 120 \<and> gf_payload_minimized e \<and>
     (if gf_event_type e = GnatDispatchNegotiated
      then gf_shard_id e = None \<and> gf_worker_type e = None \<and> gf_shard_outcome e = None \<and>
        gf_receipt_state e = None
      else gf_negotiation_outcome e = NegotiationReady \<and> gf_shard_id e \<noteq> None \<and>
        gf_worker_type e \<noteq> None \<and>
        (case gf_shard_outcome e of
           None \<Rightarrow> False
         | Some ShardUnavailable \<Rightarrow> gf_receipt_state e = None
         | Some _ \<Rightarrow> gf_receipt_state e \<noteq> None))"

lemma gnat_require_Ok [result_simps]:
  "gnat_require_none v field = Ok u \<longleftrightarrow> v = None" "gnat_require_some v field = Ok x \<longleftrightarrow> v = Some x"
  by (simp_all add: gnat_require_none_def gnat_require_some_def ok_or_Ok)

lemma validate_gnat_event_Ok: "validate_gnat_event e = Ok () \<longleftrightarrow> gnat_event_wf e"
proof (cases "gf_shard_outcome e")
  case None
  then show ?thesis
    by (cases "gf_event_type e")
      (auto simp: validate_gnat_event_def gnat_event_wf_def result_simps not_less)
next
  case (Some outcome)
  then show ?thesis
    by (cases outcome; cases "gf_event_type e")
      (auto simp: validate_gnat_event_def gnat_event_wf_def result_simps not_less)
qed

interpretation gnat_wrapper: validated_type validate_gnat_event
    "\<lambda>e. \<lparr>vg_event = e\<rparr>" vg_event new_gnat_event new_validated_gnat_event
  by unfold_locales
    (simp_all add: new_gnat_event_def new_validated_gnat_event_def validated_gnat_def)

lemma build_gnat_event_Ok:
  "and_then (new_gnat_event e) validated_gnat = Ok v \<longleftrightarrow> gnat_event_wf e \<and> v = \<lparr>vg_event = e\<rparr>"
  by (auto simp: gnat_wrapper.construct_Ok validated_gnat_def validate_gnat_event_Ok result_simps)

end
