(* ===== verification/Texts.thy ===== *)
theory Texts
  imports Prelude
begin

text \<open>
  The operations on texts that the integrations and the daemon use: \<open>str::trim\<close>, the truncation to
  160 characters of the dispatch pipelines, and printed integers.
\<close>

section \<open>Trimming\<close>

text \<open>The UTF-8 encodings of the characters of the property \<open>White_Space\<close>.\<close>

definition white_space :: "string list" where
  "white_space =
     map (\<lambda>n. [char_of n]) [9, 10, 11, 12, 13, 32 :: nat] @
     [map char_of [194, 133 :: nat], map char_of [194, 160 :: nat], map char_of [225, 154, 128 :: nat]] @
     map (\<lambda>n. map char_of [226, 128, n :: nat]) [128, 129, 130, 131, 132, 133, 134, 135, 136, 137, 138, 168,
       169, 175] @
     [map char_of [226, 129, 159 :: nat], map char_of [227, 128, 128 :: nat]]"

lemma str_starts_with_length: "str_starts_with s p \<Longrightarrow> length p \<le> length s"
  by (auto simp: str_starts_with_iff)

function strip_prefixes :: "string list \<Rightarrow> string \<Rightarrow> string" where
  "strip_prefixes ps s =
     (case find (\<lambda>p. p \<noteq> [] \<and> str_starts_with s p) ps of
        None \<Rightarrow> s
      | Some p \<Rightarrow> strip_prefixes ps (drop (length p) s))"
  by pat_completeness auto

termination
proof (relation "measure (length \<circ> snd)")
  fix ps s p
  assume "find (\<lambda>p. p \<noteq> [] \<and> str_starts_with s p) ps = Some p"
  then have p: "p \<noteq> []" "str_starts_with s p"
    by (auto simp: find_Some_iff)
  from str_starts_with_length [OF p(2)] p(1) show
    "((ps, drop (length p) s), (ps, s)) \<in> measure (length \<circ> snd)"
    by (cases p) auto
qed simp

declare strip_prefixes.simps [simp del]

definition str_trim :: "string \<Rightarrow> string" where
  "str_trim s = rev (strip_prefixes (map rev white_space) (rev (strip_prefixes white_space s)))"

lemma find_prefix_None:
  "find (\<lambda>p. p \<noteq> [] \<and> str_starts_with s p) ps = None \<longleftrightarrow>
     (\<forall>p \<in> set ps. p = [] \<or> \<not> str_starts_with s p)"
  by (auto simp: find_None_iff)

lemma strip_prefixes_done:
  "\<forall>p \<in> set ps. p = [] \<or> \<not> str_starts_with s p \<Longrightarrow> strip_prefixes ps s = s"
  by (subst strip_prefixes.simps) (simp only: find_prefix_None [THEN iffD2] option.case)

lemma strip_prefixes_none:
  "p \<in> set ps \<Longrightarrow> p \<noteq> [] \<Longrightarrow> \<not> str_starts_with (strip_prefixes ps s) p"
proof (induction ps s rule: strip_prefixes.induct)
  case (1 ps s)
  show ?case
  proof (cases "find (\<lambda>p. p \<noteq> [] \<and> str_starts_with s p) ps")
    case None
    then have none: "\<forall>p \<in> set ps. p = [] \<or> \<not> str_starts_with s p"
      by (simp only: find_prefix_None)
    from none 1(2,3) have "\<not> str_starts_with s p" by auto
    then show ?thesis unfolding strip_prefixes_done [OF none] .
  next
    case (Some q)
    then have "strip_prefixes ps s = strip_prefixes ps (drop (length q) s)"
      by (subst strip_prefixes.simps) simp
    with 1(1) [OF Some 1(2,3)] show ?thesis by simp
  qed
qed

section \<open>Bounded summaries of the dispatch pipelines\<close>

definition ellipsis :: string where
  "ellipsis = map char_of [226, 128, 166 :: nat]"

definition char_bounded_summary :: "string \<Rightarrow> string" where
  "char_bounded_summary text =
     (if text = [] then ''(no summary provided)''
      else if chars_count text \<le> 160 then text
      else chars_take 159 text @ ellipsis)"

lemma chars_count_simps:
  "chars_count [] = 0"
  "is_continuation c \<Longrightarrow> chars_count (c # s) = chars_count s"
  "\<not> is_continuation c \<Longrightarrow> chars_count (c # s) = Suc (chars_count s)"
  "chars_count (s @ t) = chars_count s + chars_count t"
  by (simp_all add: chars_count_def)

lemma chars_count_take: "chars_count (chars_take n s) = min n (chars_count s)"
proof (induction n s rule: chars_take.induct)
  case (1 n)
  show ?case by (simp add: chars_count_simps)
next
  case (2 n c s)
  then show ?case
    by (cases "is_continuation c"; cases n) (simp_all add: chars_count_simps)
qed

lemma chars_take_all: "chars_count s \<le> n \<Longrightarrow> chars_take n s = s"
proof (induction n s rule: chars_take.induct)
  case (1 n)
  show ?case by simp
next
  case (2 n c s)
  then show ?case
    by (cases "is_continuation c"; cases n) (simp_all add: chars_count_simps)
qed

lemma char_bounded_summary_fits:
  "char_bounded_summary text \<noteq> []" "chars_count (char_bounded_summary text) \<le> 160"
proof -
  have dots: "chars_count ellipsis = 1" "ellipsis \<noteq> []"
    "chars_count ''(no summary provided)'' \<le> 160"
    by code_simp+
  show "char_bounded_summary text \<noteq> []"
    using dots(2) by (simp add: char_bounded_summary_def)
  show "chars_count (char_bounded_summary text) \<le> 160"
    using dots(1,3)
    by (cases "text = []"; cases "chars_count text \<le> 160")
      (simp_all add: char_bounded_summary_def chars_count_take chars_count_simps(4))
qed

lemma char_bounded_summary_id:
  "text \<noteq> [] \<Longrightarrow> chars_count text \<le> 160 \<Longrightarrow> char_bounded_summary text = text"
  by (simp add: char_bounded_summary_def)

section \<open>Printed values\<close>

definition show_int :: "int \<Rightarrow> string" where
  "show_int i = (if i < 0 then ''-'' @ show_nat (nat (- i)) else show_nat (nat i))"

text \<open>\<open>{:?}\<close> of an \<open>Option<i32>\<close>.\<close>

fun debug_code :: "int option \<Rightarrow> string" where
  "debug_code None = ''None''"
| "debug_code (Some i) = ''Some('' @ show_int i @ '')''"

end
