(* ===== verification/Gnat_Shard.thy ===== *)
theory Gnat_Shard
  imports Gnat_Negotiation Texts Delivery
begin

text \<open>
  The delivery of one Cortex Gnat shard, \<open>src/integrations/cortex/shard_dispatch.rs\<close>: the request
  made from a declared shard and its enrichment, the JSON contract it is printed as, and the adapter
  that runs the shard in a subprocess under a deadline.

  The operating system is the record \<open>shard_env\<close> on a world \<open>'w\<close> with process handles \<open>'p\<close>. Reading a
  pipe to its end may never return, which is the value \<open>None\<close>.
\<close>

section \<open>Requests\<close>

definition AUTHORIZED_WORKER_TYPES :: "gnat_worker_type list" where
  "AUTHORIZED_WORKER_TYPES = [MarkdownSyntax, PlainTextSyntax]"

record gnat_source_fingerprint =
  sf_algorithm :: string
  sf_digest :: string
  sf_byte_count :: "64 word"
  sf_modified_at :: string

record gnat_shard_enrichment =
  se_source_path_token :: string
  se_media_type :: string
  se_fingerprint_algorithm :: string
  se_fingerprint_byte_count :: "64 word"
  se_fingerprint_modified_at :: string
  se_max_bytes :: "64 word"
  se_local_path :: string

record gnat_shard_dispatch_request =
  sr_run_id :: string
  sr_shard_id :: string
  sr_ordinal :: "32 word"
  sr_worker_type :: gnat_worker_type
  sr_source_ref :: string
  sr_source_path_token :: string
  sr_media_type :: string
  sr_source_fingerprint :: gnat_source_fingerprint
  sr_deadline_ms :: "64 word"
  sr_max_bytes :: "64 word"
  sr_local_path :: string

definition from_declared_shard ::
  "string \<Rightarrow> gnat_dispatch_shard \<Rightarrow> gnat_shard_enrichment \<Rightarrow> gnat_shard_dispatch_request" where
  "from_declared_shard run_id declared enrichment =
     \<lparr>sr_run_id = run_id,
      sr_shard_id = gs_shard_id declared,
      sr_ordinal = ucast (gs_ordinal declared),
      sr_worker_type = gs_worker_type declared,
      sr_source_ref = gs_source_ref declared,
      sr_source_path_token = se_source_path_token enrichment,
      sr_media_type = se_media_type enrichment,
      sr_source_fingerprint =
        \<lparr>sf_algorithm = se_fingerprint_algorithm enrichment,
         sf_digest = gs_source_fingerprint_digest declared,
         sf_byte_count = se_fingerprint_byte_count enrichment,
         sf_modified_at = se_fingerprint_modified_at enrichment\<rparr>,
      sr_deadline_ms = gs_deadline_ms declared,
      sr_max_bytes = se_max_bytes enrichment,
      sr_local_path = se_local_path enrichment\<rparr>"

fun worker_type_text :: "gnat_worker_type \<Rightarrow> string" where
  "worker_type_text MarkdownSyntax = ''markdown_syntax''"
| "worker_type_text PlainTextSyntax = ''plain_text_syntax''"
| "worker_type_text PdfTextSyntax = ''pdf_text_syntax''"
| "worker_type_text DocxTextSyntax = ''docx_text_syntax''"
| "worker_type_text RtfTextSyntax = ''rtf_text_syntax''"
| "worker_type_text OdtTextSyntax = ''odt_text_syntax''"
| "worker_type_text EpubTextSyntax = ''epub_text_syntax''"

fun worker_type_debug :: "gnat_worker_type \<Rightarrow> string" where
  "worker_type_debug MarkdownSyntax = ''MarkdownSyntax''"
| "worker_type_debug PlainTextSyntax = ''PlainTextSyntax''"
| "worker_type_debug PdfTextSyntax = ''PdfTextSyntax''"
| "worker_type_debug DocxTextSyntax = ''DocxTextSyntax''"
| "worker_type_debug RtfTextSyntax = ''RtfTextSyntax''"
| "worker_type_debug OdtTextSyntax = ''OdtTextSyntax''"
| "worker_type_debug EpubTextSyntax = ''EpubTextSyntax''"

text \<open>
  The object that \<open>json!\<close> builds from distinct keys: the entries of a \<open>serde_json::Map\<close> are ordered by
  their keys.
\<close>

definition json_object :: "(string \<times> json) list \<Rightarrow> json" where
  "json_object kvs = JObject (sort_key fst kvs)"

definition json_u64 :: "64 word \<Rightarrow> json" where
  "json_u64 n = JNumber (uint n)"

definition to_shard_contract_json :: "gnat_shard_dispatch_request \<Rightarrow> json" where
  "to_shard_contract_json r = json_object
     [(''contract_version'', JString ''GnatShard.v1''),
      (''run_id'', JString (sr_run_id r)),
      (''shard_id'', JString (sr_shard_id r)),
      (''ordinal'', JNumber (uint (sr_ordinal r))),
      (''worker_type'', JString (worker_type_text (sr_worker_type r))),
      (''source_ref'', JString (sr_source_ref r)),
      (''source_path_token'', JString (sr_source_path_token r)),
      (''media_type'', JString (sr_media_type r)),
      (''source_fingerprint'', json_object
        [(''algorithm'', JString (sf_algorithm (sr_source_fingerprint r))),
         (''digest'', JString (sf_digest (sr_source_fingerprint r))),
         (''byte_count'', json_u64 (sf_byte_count (sr_source_fingerprint r))),
         (''modified_at'', JString (sf_modified_at (sr_source_fingerprint r)))]),
      (''operation'', JString ''syntax_extract''),
      (''limits'', json_object
        [(''deadline_ms'', json_u64 (sr_deadline_ms r)),
         (''max_bytes'', json_u64 (sr_max_bytes r))]),
      (''output_contract'', JString ''extraction-result.schema.json'')]"

datatype gnat_shard_dispatch_result =
  GnatCompleted json
| GnatNotCompleted json
| GnatDispatchUnavailable string

record 'w gnat_shard_adapter =
  ga_adapter_id :: string
  ga_deliver_shard ::
    "gnat_shard_dispatch_request \<Rightarrow> 'w \<Rightarrow> ('w \<times> gnat_shard_dispatch_result) option"

section \<open>The operating system\<close>

record spawn_command =
  sc_program :: string
  sc_current_dir :: string
  sc_args :: "string list"

datatype output_pipe = Stdout | Stderr

text \<open>
  Errors of the operating system appear only as the text they are displayed as. \<open>sx_try_wait\<close> returns
  the exit code of a finished process (\<open>None\<close> within, when a signal ended it). Times are nanoseconds.
\<close>

record ('w, 'p) shard_env =
  sx_is_file :: "string \<Rightarrow> 'w \<Rightarrow> bool"
  sx_temp_dir :: "'w \<Rightarrow> string"
  sx_new_uuid :: "'w \<Rightarrow> 'w \<times> string"
  sx_write :: "string \<Rightarrow> string \<Rightarrow> 'w \<Rightarrow> 'w \<times> (unit, string) result"
  sx_remove_file :: "string \<Rightarrow> 'w \<Rightarrow> 'w"
  sx_spawn :: "spawn_command \<Rightarrow> 'w \<Rightarrow> 'w \<times> ('p, string) result"
  sx_try_wait :: "'p \<Rightarrow> 'w \<Rightarrow> 'w \<times> (int option option, string) result"
  sx_now :: "'w \<Rightarrow> 'w \<times> nat"
  sx_sleep :: "nat \<Rightarrow> 'w \<Rightarrow> 'w"
  sx_kill_group :: "'p \<Rightarrow> 'w \<Rightarrow> 'w"
  sx_kill :: "'p \<Rightarrow> 'w \<Rightarrow> 'w"
  sx_wait :: "'p \<Rightarrow> 'w \<Rightarrow> 'w"
  sx_read_to_end :: "output_pipe \<Rightarrow> 'p \<Rightarrow> 'w \<Rightarrow> ('w \<times> string) option"
  sx_from_utf8_lossy :: "string \<Rightarrow> string"
  sx_print_json :: "json \<Rightarrow> string"
  sx_parse_json :: "string \<Rightarrow> json option"

section \<open>Waiting under a deadline\<close>

datatype wait_outcome = Exited "int option" | DeadlineExceeded | WaitFailed string

definition POLL_INTERVAL :: nat where
  "POLL_INTERVAL = 20 * 1000000"

definition kill_process_group :: "('w, 'p) shard_env \<Rightarrow> 'p \<Rightarrow> 'w \<Rightarrow> 'w" where
  "kill_process_group env child w = sx_kill env child (sx_kill_group env child w)"

partial_function (option) wait_loop ::
  "('w, 'p) shard_env \<Rightarrow> nat \<Rightarrow> 'p \<Rightarrow> 'w \<Rightarrow> ('w \<times> wait_outcome) option" where
  "wait_loop env deadline child w =
     (let (w, polled) = sx_try_wait env child w in
      case polled of
        Ok (Some code) \<Rightarrow> Some (w, Exited code)
      | Ok None \<Rightarrow>
          (let (w, now) = sx_now env w in
           if deadline \<le> now
           then Some (sx_wait env child (kill_process_group env child w), DeadlineExceeded)
           else wait_loop env deadline child (sx_sleep env POLL_INTERVAL w))
      | Err error \<Rightarrow> Some (w, WaitFailed error))"

definition wait_with_deadline ::
  "('w, 'p) shard_env \<Rightarrow> 'p \<Rightarrow> 64 word \<Rightarrow> 'w \<Rightarrow> ('w \<times> wait_outcome) option" where
  "wait_with_deadline env child deadline_ms w =
     (let (w, now) = sx_now env w in wait_loop env (now + unat deadline_ms * 1000000) child w)"

section \<open>The subprocess adapter\<close>

record cortex_subprocess_config =
  cs_python_binary :: string
  cs_cortex_repo_root :: string

text \<open>\<open>join().unwrap_or_default()\<close> of a reader thread: its body cannot panic, so it is the bytes read.\<close>

definition read_pipe ::
  "('w, 'p) shard_env \<Rightarrow> output_pipe \<Rightarrow> 'p \<Rightarrow> 'w \<Rightarrow> ('w \<times> string) option" where
  "read_pipe env pipe child w = sx_read_to_end env pipe child w"

text \<open>The readers are joined and what they read is dropped.\<close>

definition joined_unavailable ::
  "('w, 'p) shard_env \<Rightarrow> 'p \<Rightarrow> string \<Rightarrow> 'w \<Rightarrow> ('w \<times> gnat_shard_dispatch_result) option" where
  "joined_unavailable env child summary w = do {
     (w, _) \<leftarrow> read_pipe env Stdout child w;
     (w, _) \<leftarrow> read_pipe env Stderr child w;
     Some (w, GnatDispatchUnavailable summary)
   }"

definition receipt_result :: "json \<Rightarrow> gnat_shard_dispatch_result" where
  "receipt_result receipt =
     (case json_get receipt ''state'' of
        Some (JString state) \<Rightarrow>
          if state = ''complete'' then GnatCompleted receipt else GnatNotCompleted receipt
      | _ \<Rightarrow> GnatDispatchUnavailable
          ''Cortex Gnat shard runner produced a receipt with no state field'')"

definition printed_result ::
  "('w, 'p) shard_env \<Rightarrow> int option \<Rightarrow> string \<Rightarrow> string \<Rightarrow> gnat_shard_dispatch_result" where
  "printed_result env code out err =
     (case sx_parse_json env (str_trim (sx_from_utf8_lossy env out)) of
        None \<Rightarrow> GnatDispatchUnavailable
          (''Cortex Gnat shard runner produced no parseable receipt (exit '' @ debug_code code @
           ''): '' @ str_trim (sx_from_utf8_lossy env err))
      | Some receipt \<Rightarrow> receipt_result receipt)"

definition shard_descriptor_path ::
  "('w, 'p) shard_env \<Rightarrow> gnat_shard_dispatch_request \<Rightarrow> string \<Rightarrow> 'w \<Rightarrow> string" where
  "shard_descriptor_path env request fresh w = path_join (sx_temp_dir env w)
     (''fa-local-gnat-shard-'' @ sr_shard_id request @ ''-'' @ fresh @ ''.json'')"

definition shard_command ::
  "cortex_subprocess_config \<Rightarrow> gnat_shard_dispatch_request \<Rightarrow> string \<Rightarrow> spawn_command" where
  "shard_command config request shard_path =
     \<lparr>sc_program = cs_python_binary config,
      sc_current_dir = cs_cortex_repo_root config,
      sc_args = [''-m'', ''cortex_runtime.gnats.shard_cli'', shard_path, ''--local-path'',
        sr_local_path request]\<rparr>"

text \<open>What follows a successful \<open>spawn\<close>.\<close>

definition await_shard ::
  "('w, 'p) shard_env \<Rightarrow> gnat_shard_dispatch_request \<Rightarrow> string \<Rightarrow> 'p \<Rightarrow> 'w \<Rightarrow>
   ('w \<times> gnat_shard_dispatch_result) option" where
  "await_shard env request shard_path child w = do {
     (w, outcome) \<leftarrow> wait_with_deadline env child (sr_deadline_ms request) w;
     let w = sx_remove_file env shard_path w;
     (case outcome of
        DeadlineExceeded \<Rightarrow> joined_unavailable env child
          (''Cortex Gnat shard runner exceeded its '' @ show_nat (unat (sr_deadline_ms request)) @
           '' ms deadline and was killed'') w
      | WaitFailed error \<Rightarrow> joined_unavailable env child
          (''could not wait for Cortex Gnat shard runner: '' @ error) w
      | Exited code \<Rightarrow> do {
          (w, out) \<leftarrow> read_pipe env Stdout child w;
          (w, err) \<leftarrow> read_pipe env Stderr child w;
          Some (w, printed_result env code out err)
        })
   }"

definition deliver_shard ::
  "('w, 'p) shard_env \<Rightarrow> cortex_subprocess_config \<Rightarrow> gnat_shard_dispatch_request \<Rightarrow> 'w \<Rightarrow>
   ('w \<times> gnat_shard_dispatch_result) option" where
  "deliver_shard env config request w =
     (if sr_worker_type request \<notin> set AUTHORIZED_WORKER_TYPES
      then Some (w, GnatDispatchUnavailable
        (''this proving slice only dispatches markdown_syntax or plain_text_syntax shards, not '' @
         worker_type_debug (sr_worker_type request)))
      else if \<not> sx_is_file env (sr_local_path request) w
      then Some (w, GnatDispatchUnavailable ''shard source file is unavailable for Cortex dispatch'')
      else
        let (w, fresh) = sx_new_uuid env w;
            shard_path = shard_descriptor_path env request fresh w;
            (w, written) = sx_write env shard_path (sx_print_json env (to_shard_contract_json request)) w in
        (case written of
          Err error \<Rightarrow> Some (w, GnatDispatchUnavailable
            (''could not write shard descriptor for Cortex dispatch: '' @ error))
        | Ok _ \<Rightarrow>
            let (w, spawned) = sx_spawn env (shard_command config request shard_path) w in
            (case spawned of
              Err error \<Rightarrow> Some (sx_remove_file env shard_path w, GnatDispatchUnavailable
                (''could not spawn Cortex Gnat shard runner: '' @ error))
            | Ok child \<Rightarrow> await_shard env request shard_path child w)))"

definition cortex_subprocess_adapter ::
  "('w, 'p) shard_env \<Rightarrow> cortex_subprocess_config \<Rightarrow> 'w gnat_shard_adapter" where
  "cortex_subprocess_adapter env config =
     \<lparr>ga_adapter_id = ''cortex-subprocess-gnat-shard-delivery'',
      ga_deliver_shard = deliver_shard env config\<rparr>"

section \<open>The deadline\<close>

text \<open>
  A clock that never goes back and that a sleep advances by at least the time slept; \<open>time\<close> reads it
  off a world.
\<close>

definition steady_clock :: "('w, 'p) shard_env \<Rightarrow> ('w \<Rightarrow> nat) \<Rightarrow> bool" where
  "steady_clock env time \<longleftrightarrow>
     (\<forall>w. time w \<le> snd (sx_now env w) \<and> snd (sx_now env w) \<le> time (fst (sx_now env w))) \<and>
     (\<forall>n w. time w + n \<le> time (sx_sleep env n w)) \<and>
     (\<forall>child w. time w \<le> time (fst (sx_try_wait env child w)))"

lemma steady_clockD:
  assumes "steady_clock env time"
  shows "sx_try_wait env child w = (w1, polled) \<Longrightarrow> time w \<le> time w1"
    and "sx_now env w = (w1, now) \<Longrightarrow> time w \<le> now \<and> now \<le> time w1"
    and "time w + n \<le> time (sx_sleep env n w)"
proof -
  from assms have a: "time w \<le> time (fst (sx_try_wait env child w))"
    and b: "time w \<le> snd (sx_now env w) \<and> snd (sx_now env w) \<le> time (fst (sx_now env w))"
    by (simp_all add: steady_clock_def)
  from assms show "time w + n \<le> time (sx_sleep env n w)"
    by (simp add: steady_clock_def)
  from a show "sx_try_wait env child w = (w1, polled) \<Longrightarrow> time w \<le> time w1" by simp
  from b show "sx_now env w = (w1, now) \<Longrightarrow> time w \<le> now \<and> now \<le> time w1" by simp
qed

text \<open>The wait ends, and a process that is killed was given its whole deadline.\<close>

definition killed_at :: "('w, 'p) shard_env \<Rightarrow> 'p \<Rightarrow> nat \<Rightarrow> 'w \<Rightarrow> bool" where
  "killed_at env child now w' \<longleftrightarrow>
     (\<exists>w1 w2. sx_now env w1 = (w2, now) \<and> w' = sx_wait env child (kill_process_group env child w2))"

lemma wait_loop_ends:
  assumes "steady_clock env time"
  shows "\<exists>w' outcome. wait_loop env deadline child w = Some (w', outcome) \<and>
    (outcome = DeadlineExceeded \<longrightarrow> (\<exists>now \<ge> deadline. killed_at env child now w'))"
proof (induction "deadline - time w" arbitrary: w rule: less_induct)
  case less
  obtain w1 polled where p: "sx_try_wait env child w = (w1, polled)" by fastforce
  obtain w2 now where n: "sx_now env w1 = (w2, now)" by fastforce
  note clock = steady_clockD(1) [OF assms p] steady_clockD(2) [OF assms n]
    steady_clockD(3) [OF assms, of w2 POLL_INTERVAL]
  show ?case
  proof (cases "deadline \<le> now")
    case True
    with n have "\<exists>now' \<ge> deadline. killed_at env child now'
        (sx_wait env child (kill_process_group env child w2))"
      unfolding killed_at_def by blast
    with True show ?thesis
      by (subst wait_loop.simps) (simp add: p n split: result.split option.split)
  next
    case False
    with clock have "deadline - time (sx_sleep env POLL_INTERVAL w2) < deadline - time w"
      by (intro diff_less_mono2) (simp_all add: POLL_INTERVAL_def)
    from less [OF this] show ?thesis
      by (subst wait_loop.simps) (simp add: p n False split: result.split option.split)
  qed
qed

lemma wait_with_deadline_ends:
  assumes "steady_clock env time"
  shows "\<exists>w' outcome. wait_with_deadline env child deadline_ms w = Some (w', outcome) \<and>
    (outcome = DeadlineExceeded \<longrightarrow>
       (\<exists>now \<ge> time w + unat deadline_ms * 1000000. killed_at env child now w'))"
proof -
  obtain w1 now where n: "sx_now env w = (w1, now)" by fastforce
  let ?deadline = "now + unat deadline_ms * 1000000"
  from wait_loop_ends [OF assms, of ?deadline child w1] obtain w' outcome where
    "wait_loop env ?deadline child w1 = Some (w', outcome)"
    "outcome = DeadlineExceeded \<longrightarrow> (\<exists>now' \<ge> ?deadline. killed_at env child now' w')" by blast
  moreover have "time w + unat deadline_ms * 1000000 \<le> ?deadline"
    using steady_clockD(2) [OF assms n] by simp
  ultimately show ?thesis
    unfolding wait_with_deadline_def n Let_def prod.case by (meson order_trans)
qed

text \<open>
  Only reading a pipe may never return: the wait is bounded, but the readers are joined without a bound,
  and another process may hold the other end of a pipe.
\<close>

lemma await_shard_blocks:
  assumes "steady_clock env time" "await_shard env request shard_path child w = None"
  shows "\<exists>pipe v. sx_read_to_end env pipe child v = None"
proof (rule ccontr)
  assume "\<not> ?thesis"
  then have ends: "\<exists>v' out. read_pipe env pipe child v = Some (v', out)" for pipe v
    by (auto simp: read_pipe_def)
  obtain w1 outcome where o: "wait_with_deadline env child (sr_deadline_ms request) w = Some (w1, outcome)"
    using wait_with_deadline_ends [OF assms(1)] by blast
  from ends obtain w2 out w3 err where
    "read_pipe env Stdout child (sx_remove_file env shard_path w1) = Some (w2, out)"
    "read_pipe env Stderr child w2 = Some (w3, err)"
    by meson
  with assms(2) show False
    by (cases outcome) (simp_all add: await_shard_def joined_unavailable_def Let_def o)
qed

section \<open>What a delivery reports\<close>

fun receipt_backed :: "gnat_shard_dispatch_result \<Rightarrow> bool" where
  "receipt_backed (GnatCompleted receipt) \<longleftrightarrow> json_get receipt ''state'' = Some (JString ''complete'')"
| "receipt_backed (GnatNotCompleted receipt) \<longleftrightarrow>
     (\<exists>state. json_get receipt ''state'' = Some (JString state) \<and> state \<noteq> ''complete'')"
| "receipt_backed (GnatDispatchUnavailable summary) \<longleftrightarrow> summary \<noteq> []"

text \<open>The delivery is refused before anything is written or spawned.\<close>

definition shard_refused :: "('w, 'p) shard_env \<Rightarrow> gnat_shard_dispatch_request \<Rightarrow> 'w \<Rightarrow> bool" where
  "shard_refused env request w \<longleftrightarrow>
     sr_worker_type request \<notin> {MarkdownSyntax, PlainTextSyntax} \<or>
     \<not> sx_is_file env (sr_local_path request) w"

lemma receipt_result_backed: "receipt_backed (receipt_result receipt)"
  by (auto simp: receipt_result_def split: option.split json.split)

lemma printed_result_backed: "receipt_backed (printed_result env code out err)"
  by (simp add: printed_result_def receipt_result_backed split: option.split)

lemma joined_unavailable_backed:
  "joined_unavailable env child summary w = Some (w', result) \<Longrightarrow> summary \<noteq> [] \<Longrightarrow> receipt_backed result"
  by (auto simp: joined_unavailable_def bind_eq_Some_conv)

lemma await_shard_backed:
  assumes "await_shard env request shard_path child w = Some (w', result)"
  shows "receipt_backed result"
proof -
  from assms obtain w1 outcome where
    "wait_with_deadline env child (sr_deadline_ms request) w = Some (w1, outcome)"
    by (auto simp: await_shard_def bind_eq_Some_conv)
  with assms show ?thesis
    by (cases outcome)
      (auto simp: await_shard_def Let_def bind_eq_Some_conv printed_result_backed
        elim!: joined_unavailable_backed)
qed

lemma deliver_shard_refused:
  "shard_refused env request w \<Longrightarrow>
     \<exists>summary. summary \<noteq> [] \<and> deliver_shard env config request w = Some (w, GnatDispatchUnavailable summary)"
  by (auto simp: shard_refused_def deliver_shard_def AUTHORIZED_WORKER_TYPES_def)

lemma deliver_shard_backed:
  assumes "deliver_shard env config request w = Some (w', result)"
  shows "receipt_backed result"
proof (cases "shard_refused env request w")
  case True
  from deliver_shard_refused [OF this, of config] assms show ?thesis by auto
next
  case False
  with assms show ?thesis
    by (auto simp: shard_refused_def deliver_shard_def AUTHORIZED_WORKER_TYPES_def Let_def
        dest: await_shard_backed split: prod.splits result.splits)
qed

text \<open>
  The process of a delivery: the descriptor was written, and the runner was spawned on it as \<open>child\<close>.
\<close>

definition shard_spawned ::
  "('w, 'p) shard_env \<Rightarrow> cortex_subprocess_config \<Rightarrow> gnat_shard_dispatch_request \<Rightarrow> 'w \<Rightarrow> string \<Rightarrow> 'p \<Rightarrow>
   'w \<Rightarrow> bool" where
  "shard_spawned env config request w path child w' \<longleftrightarrow>
     (\<exists>w1 fresh w2. sx_new_uuid env w = (w1, fresh) \<and>
        path = shard_descriptor_path env request fresh w1 \<and>
        sx_write env path (sx_print_json env (to_shard_contract_json request)) w1 = (w2, Ok ()) \<and>
        sx_spawn env (shard_command config request path) w2 = (w', Ok child))"

text \<open>
  The process of an accepted delivery exited within its deadline, its pipes came to their end, and the
  text it printed parses as the receipt.
\<close>

definition shard_printed ::
  "('w, 'p) shard_env \<Rightarrow> cortex_subprocess_config \<Rightarrow> gnat_shard_dispatch_request \<Rightarrow> 'w \<Rightarrow> json \<Rightarrow> bool" where
  "shard_printed env config request w receipt \<longleftrightarrow> \<not> shard_refused env request w \<and>
     (\<exists>path child w1 w2 code w3 out. shard_spawned env config request w path child w1 \<and>
        wait_with_deadline env child (sr_deadline_ms request) w1 = Some (w2, Exited code) \<and>
        read_pipe env Stdout child (sx_remove_file env path w2) = Some (w3, out) \<and>
        sx_parse_json env (str_trim (sx_from_utf8_lossy env out)) = Some receipt)"

fun receipt_of :: "gnat_shard_dispatch_result \<Rightarrow> json option" where
  "receipt_of (GnatCompleted receipt) = Some receipt"
| "receipt_of (GnatNotCompleted receipt) = Some receipt"
| "receipt_of (GnatDispatchUnavailable summary) = None"

lemma receipt_of_result:
  "receipt_of (receipt_result receipt) = Some r \<longleftrightarrow>
     r = receipt \<and> (\<exists>state. json_get receipt ''state'' = Some (JString state))"
  by (auto simp: receipt_result_def split: option.split json.split)

lemma await_shard_receipt:
  assumes "await_shard env request path child w = Some (w', result)"
  shows "receipt_of result = Some receipt \<longleftrightarrow>
    (\<exists>state. json_get receipt ''state'' = Some (JString state)) \<and>
    (\<exists>w2 code w3 out. wait_with_deadline env child (sr_deadline_ms request) w = Some (w2, Exited code) \<and>
       read_pipe env Stdout child (sx_remove_file env path w2) = Some (w3, out) \<and>
       sx_parse_json env (str_trim (sx_from_utf8_lossy env out)) = Some receipt)"
proof -
  from assms obtain w2 outcome where
    o: "wait_with_deadline env child (sr_deadline_ms request) w = Some (w2, outcome)"
    by (auto simp: await_shard_def bind_eq_Some_conv)
  show ?thesis
  proof (cases outcome)
    case (Exited code)
    with assms o obtain w3 out err where "read_pipe env Stdout child (sx_remove_file env path w2) = Some (w3, out)"
      "result = printed_result env code out err"
      by (auto simp: await_shard_def Let_def bind_eq_Some_conv)
    with o Exited show ?thesis
      by (auto simp: printed_result_def receipt_of_result split: option.split)
  qed (use assms o in \<open>auto simp: await_shard_def joined_unavailable_def Let_def bind_eq_Some_conv\<close>)
qed

lemma deliver_shard_accepted:
  assumes "\<not> shard_refused env request w"
  obtains summary w' where "deliver_shard env config request w = Some (w', GnatDispatchUnavailable summary)"
      "\<And>path child w1. \<not> shard_spawned env config request w path child w1"
  | path child w1 where "shard_spawned env config request w path child w1"
      "deliver_shard env config request w = await_shard env request path child w1"
      "\<And>path' child' w1'. shard_spawned env config request w path' child' w1' \<Longrightarrow>
         path' = path \<and> child' = child \<and> w1' = w1"
proof -
  obtain w1 fresh where n: "sx_new_uuid env w = (w1, fresh)" by fastforce
  let ?path = "shard_descriptor_path env request fresh w1"
  obtain w2 written where wr: "sx_write env ?path (sx_print_json env (to_shard_contract_json request)) w1 =
      (w2, written)" by fastforce
  obtain w3 spawned where sp: "sx_spawn env (shard_command config request ?path) w2 = (w3, spawned)" by fastforce
  have process: "shard_spawned env config request w path child w' \<longleftrightarrow>
      path = ?path \<and> written = Ok () \<and> spawned = Ok child \<and> w' = w3" for path child w'
    using wr sp by (auto simp: shard_spawned_def n)
  have delivery: "deliver_shard env config request w = (case written of
      Err error \<Rightarrow> Some (w2, GnatDispatchUnavailable
        (''could not write shard descriptor for Cortex dispatch: '' @ error))
    | Ok _ \<Rightarrow> (case spawned of
        Err error \<Rightarrow> Some (sx_remove_file env ?path w3, GnatDispatchUnavailable
          (''could not spawn Cortex Gnat shard runner: '' @ error))
      | Ok child \<Rightarrow> await_shard env request ?path child w3))"
    using assms
    by (cases written; cases spawned)
      (simp_all add: deliver_shard_def shard_refused_def AUTHORIZED_WORKER_TYPES_def n wr sp Let_def)
  show thesis
  proof (cases written)
    case (Err e)
    show thesis by (rule that(1) [OF delivery [unfolded Err result.case]]) (simp add: process Err)
  next
    case written: (Ok u)
    note delivery = delivery [unfolded written result.case]
    show thesis
    proof (cases spawned)
      case (Err e)
      show thesis by (rule that(1) [OF delivery [unfolded Err result.case]]) (simp add: process Err)
    next
      case (Ok child)
      show thesis
        by (rule that(2) [OF _ delivery [unfolded Ok result.case]]) (simp_all add: process written Ok)
    qed
  qed
qed

lemma deliver_shard_receipt:
  assumes "deliver_shard env config request w = Some (w', result)"
  shows "receipt_of result = Some receipt \<longleftrightarrow>
    shard_printed env config request w receipt \<and> (\<exists>state. json_get receipt ''state'' = Some (JString state))"
proof (cases "shard_refused env request w")
  case True
  with deliver_shard_refused [OF True, of config] assms show ?thesis
    by (auto simp: shard_printed_def)
next
  case False
  then show ?thesis
  proof (cases rule: deliver_shard_accepted [where config = config])
    case (1 summary v)
    with assms show ?thesis by (auto simp: shard_printed_def)
  next
    case (2 path child w1)
    note once = 2(3)
    have "shard_printed env config request w receipt \<longleftrightarrow>
      (\<exists>w2 code w3 out. wait_with_deadline env child (sr_deadline_ms request) w1 = Some (w2, Exited code) \<and>
         read_pipe env Stdout child (sx_remove_file env path w2) = Some (w3, out) \<and>
         sx_parse_json env (str_trim (sx_from_utf8_lossy env out)) = Some receipt)"
      unfolding shard_printed_def using False 2(1) once by blast
    with await_shard_receipt [of env request path child w1 w' result receipt] assms 2(2) show ?thesis
      by auto
  qed
qed

lemma deliver_shard_blocks:
  assumes "steady_clock env time" "deliver_shard env config request w = None"
  shows "\<not> shard_refused env request w \<and>
    (\<exists>path child w1 pipe v. shard_spawned env config request w path child w1 \<and>
       sx_read_to_end env pipe child v = None)"
proof -
  from assms(2) have accepted: "\<not> shard_refused env request w"
    using deliver_shard_refused [of env request w config] by auto
  then show ?thesis
  proof (cases rule: deliver_shard_accepted [where config = config])
    case (2 path child w1)
    from assms(2) 2(2) have "await_shard env request path child w1 = None" by simp
    from await_shard_blocks [OF assms(1) this] 2(1) accepted show ?thesis by blast
  qed (simp add: assms(2))
qed

end
