(* ===== verification/Gnat_Pipeline.thy ===== *)
theory Gnat_Pipeline
  imports Gnat_Shard Forensic_Recording
begin

text \<open>
  The Cortex Gnat pipeline, \<open>src/app/gnat_dispatch_pipeline_service.rs\<close>: one run negotiates the
  envelope, delivers the declared shards when it is admitted for dispatch by the service, and records
  a forensic event for the negotiation and for every shard.

  \<open>gn_event_ids n\<close> is the identifier of the event recorded \<open>n\<close>-th in the run; \<open>gn_denied_at\<close> is the
  clock that a denial reads; \<open>gn_debug_text\<close> is \<open>{:?}\<close> of a text.
\<close>

section \<open>Outcomes\<close>

datatype gnat_run_outcome =
  GnatDenied denial_guard
| GnatSerialFallback gnat_dispatch_admission
| GnatDispatched gnat_dispatch_admission "(string \<times> gnat_shard_dispatch_result) list"

record gnat_record_outcome =
  go_event :: validated_gnat_event
  go_export_reference :: "string option"

record gnat_run_result =
  gw_outcome :: gnat_run_outcome
  gw_forensic_events :: "gnat_record_outcome list"

record 'w gnat_export_adapter =
  gt_adapter_id :: string
  gt_export_event :: "validated_gnat_event \<Rightarrow> 'w \<Rightarrow> ('w \<times> forensic_export_result) option"

record gnat_run_env =
  gn_denied_at :: timestamp
  gn_event_ids :: "nat \<Rightarrow> forensic_event_id"
  gn_debug_text :: "string \<Rightarrow> string"

section \<open>Requests\<close>

definition build_shard_requests ::
  "gnat_dispatch_envelope \<Rightarrow> (string \<rightharpoonup> gnat_shard_enrichment) \<Rightarrow>
   gnat_shard_dispatch_request list fa_local_result" where
  "build_shard_requests envelope enrichments =
     try_map (\<lambda>declared.
       and_then (ok_or (enrichments (gs_shard_id declared)) (contract_invalid
         (''no shard enrichment supplied for declared shard '' @ gs_shard_id declared)))
         (\<lambda>enrichment. Ok (from_declared_shard (gp_run_id (ge_plan envelope)) declared enrichment)))
       (gp_shards (ge_plan envelope))"

section \<open>Events\<close>

definition build_negotiation_event ::
  "forensic_event_id \<Rightarrow> gnat_dispatch_envelope \<Rightarrow> gnat_negotiation_outcome \<Rightarrow> string \<Rightarrow> timestamp \<Rightarrow>
   validated_gnat_event fa_local_result" where
  "build_negotiation_event fresh envelope outcome summary now =
     and_then (new_gnat_event
       \<lparr>gf_forensic_event_id = fresh,
        gf_correlation_id = ge_correlation_id envelope,
        gf_run_id = gp_run_id (ge_plan envelope),
        gf_event_type = GnatDispatchNegotiated,
        gf_negotiation_outcome = outcome,
        gf_shard_id = None,
        gf_worker_type = None,
        gf_shard_outcome = None,
        gf_receipt_state = None,
        gf_timestamp_utc = now,
        gf_summary = char_bounded_summary summary,
        gf_redaction_level = GnatLinkageOnly,
        gf_payload_minimized = True\<rparr>) validated_gnat"

definition receipt_state_from_receipt ::
  "(string \<Rightarrow> string) \<Rightarrow> json \<Rightarrow> gnat_receipt_state fa_local_result" where
  "receipt_state_from_receipt debug_text receipt =
     and_then (ok_or (case json_get receipt ''state'' of Some (JString s) \<Rightarrow> Some s | _ \<Rightarrow> None)
       (contract_invalid ''Cortex Gnat receipt missing state field'')) (\<lambda>state.
     if state = ''complete'' then Ok ReceiptComplete
     else if state = ''denied'' then Ok ReceiptDenied
     else if state = ''stale'' then Ok ReceiptStale
     else if state = ''failed'' then Ok ReceiptFailed
     else Err (contract_invalid
       (''Cortex Gnat receipt reported an unrecognized state '' @ debug_text state)))"

fun shard_event_summary ::
  "gnat_shard_dispatch_request \<Rightarrow> gnat_shard_dispatch_result \<Rightarrow> string" where
  "shard_event_summary request (GnatCompleted receipt) =
     ''Cortex Gnat shard '' @ sr_shard_id request @ '' completed.''"
| "shard_event_summary request (GnatNotCompleted receipt) =
     ''Cortex Gnat shard '' @ sr_shard_id request @ '' did not complete ('' @
     (case json_get receipt ''state'' of Some (JString s) \<Rightarrow> s | _ \<Rightarrow> ''unknown'') @ '').''"
| "shard_event_summary request (GnatDispatchUnavailable summary) = summary"

fun shard_outcome_of ::
  "(string \<Rightarrow> string) \<Rightarrow> gnat_shard_dispatch_result \<Rightarrow>
   (gnat_shard_outcome \<times> gnat_receipt_state option) fa_local_result" where
  "shard_outcome_of debug_text (GnatCompleted receipt) =
     and_then (receipt_state_from_receipt debug_text receipt) (\<lambda>s. Ok (ShardCompleted, Some s))"
| "shard_outcome_of debug_text (GnatNotCompleted receipt) =
     and_then (receipt_state_from_receipt debug_text receipt) (\<lambda>s. Ok (ShardNotCompleted, Some s))"
| "shard_outcome_of debug_text (GnatDispatchUnavailable summary) = Ok (ShardUnavailable, None)"

definition shard_event ::
  "forensic_event_id \<Rightarrow> gnat_dispatch_envelope \<Rightarrow> gnat_shard_dispatch_request \<Rightarrow>
   gnat_shard_outcome \<Rightarrow> gnat_receipt_state option \<Rightarrow> timestamp \<Rightarrow> string \<Rightarrow> gnat_forensic_event" where
  "shard_event fresh envelope request outcome receipt_state now summary =
     \<lparr>gf_forensic_event_id = fresh,
      gf_correlation_id = ge_correlation_id envelope,
      gf_run_id = gp_run_id (ge_plan envelope),
      gf_event_type = GnatShardDispatched,
      gf_negotiation_outcome = NegotiationReady,
      gf_shard_id = Some (sr_shard_id request),
      gf_worker_type = Some (sr_worker_type request),
      gf_shard_outcome = Some outcome,
      gf_receipt_state = receipt_state,
      gf_timestamp_utc = now,
      gf_summary = char_bounded_summary summary,
      gf_redaction_level = GnatLinkageOnly,
      gf_payload_minimized = True\<rparr>"

definition build_shard_event ::
  "(string \<Rightarrow> string) \<Rightarrow> forensic_event_id \<Rightarrow> gnat_dispatch_envelope \<Rightarrow> gnat_shard_dispatch_request \<Rightarrow>
   gnat_shard_dispatch_result \<Rightarrow> timestamp \<Rightarrow> validated_gnat_event fa_local_result" where
  "build_shard_event debug_text fresh envelope request result now =
     and_then (shard_outcome_of debug_text result) (\<lambda>(outcome, receipt_state).
     and_then (new_gnat_event (shard_event fresh envelope request outcome receipt_state now
       (shard_event_summary request result))) validated_gnat)"

definition call_gnat_export ::
  "'w gnat_export_adapter \<Rightarrow> validated_gnat_event \<Rightarrow> ('w, forensic_export_result) effect" where
  "call_gnat_export adapter event w = map_option (\<lambda>(w', r). (w', Ok r)) (gt_export_event adapter event w)"

definition record_gnat_event ::
  "'w gnat_export_adapter option \<Rightarrow> validated_gnat_event \<Rightarrow> ('w, gnat_record_outcome) effect" where
  "record_gnat_event export_adapter event =
     (case export_adapter of
        Some adapter \<Rightarrow>
          and_do (call_gnat_export adapter event) (\<lambda>result.
          and_do (pure_do (map_export_result (gt_adapter_id adapter) result)) (\<lambda>receipt.
          pure_do (Ok \<lparr>go_event = event, go_export_reference = Some (er_export_reference receipt)\<rparr>)))
      | None \<Rightarrow> pure_do (Ok \<lparr>go_event = event, go_export_reference = None\<rparr>))"

section \<open>The run\<close>

definition call_shard ::
  "'w gnat_shard_adapter \<Rightarrow> gnat_shard_dispatch_request \<Rightarrow> ('w, gnat_shard_dispatch_result) effect" where
  "call_shard adapter request w = map_option (\<lambda>(w', r). (w', Ok r)) (ga_deliver_shard adapter request w)"

text \<open>The loop over the requests; \<open>n\<close> counts the events recorded before.\<close>

fun deliver_shards ::
  "gnat_run_env \<Rightarrow> gnat_dispatch_envelope \<Rightarrow> 'w gnat_shard_adapter \<Rightarrow> 'w gnat_export_adapter option \<Rightarrow>
   timestamp \<Rightarrow> nat \<Rightarrow> gnat_shard_dispatch_request list \<Rightarrow>
   ('w, (string \<times> gnat_shard_dispatch_result) list \<times> gnat_record_outcome list) effect" where
  "deliver_shards env envelope adapter export_adapter now n [] = pure_do (Ok ([], []))"
| "deliver_shards env envelope adapter export_adapter now n (request # requests) =
     and_do (call_shard adapter request) (\<lambda>result.
     and_do (pure_do (build_shard_event (gn_debug_text env) (gn_event_ids env n) envelope request
       result now)) (\<lambda>event.
     and_do (record_gnat_event export_adapter event) (\<lambda>recorded.
     and_do (deliver_shards env envelope adapter export_adapter now (Suc n) requests)
       (\<lambda>(results, events).
     pure_do (Ok ((sr_shard_id request, result) # results, recorded # events))))))"

definition record_negotiation ::
  "gnat_run_env \<Rightarrow> gnat_dispatch_envelope \<Rightarrow> 'w gnat_export_adapter option \<Rightarrow> timestamp \<Rightarrow>
   gnat_negotiation_outcome \<Rightarrow> string \<Rightarrow> ('w, gnat_record_outcome) effect" where
  "record_negotiation env envelope export_adapter now outcome summary =
     and_do (pure_do (build_negotiation_event (gn_event_ids env 0) envelope outcome summary now))
       (record_gnat_event export_adapter)"

definition run_gnat ::
  "gnat_run_env \<Rightarrow> gnat_dispatch_envelope \<Rightarrow> gnat_fa_local_capability_state \<Rightarrow>
   (string \<rightharpoonup> gnat_shard_enrichment) \<Rightarrow> 'w gnat_shard_adapter \<Rightarrow> 'w gnat_export_adapter option \<Rightarrow>
   timestamp \<Rightarrow> ('w, gnat_run_result) effect" where
  "run_gnat env envelope capabilities enrichments adapter export_adapter now =
     and_do (pure_do (build_shard_requests envelope enrichments)) (\<lambda>requests.
     case negotiate (gn_denied_at env) envelope capabilities of
       Err denial \<Rightarrow>
         and_do (record_negotiation env envelope export_adapter now NegotiationDenied
           (dg_summary denial)) (\<lambda>event.
         pure_do (Ok \<lparr>gw_outcome = GnatDenied denial, gw_forensic_events = [event]\<rparr>))
     | Ok admission \<Rightarrow>
         (case gd_state admission of
            SerialFallbackPermitted \<Rightarrow>
              and_do (record_negotiation env envelope export_adapter now NegotiationSerialFallback
                (gd_operator_visible_summary admission)) (\<lambda>event.
              pure_do (Ok \<lparr>gw_outcome = GnatSerialFallback admission, gw_forensic_events = [event]\<rparr>))
          | ReadyForDispatch \<Rightarrow>
              and_do (record_negotiation env envelope export_adapter now NegotiationReady
                (gd_operator_visible_summary admission)) (\<lambda>event.
              and_do (deliver_shards env envelope adapter export_adapter now 1 requests)
                (\<lambda>(results, events).
              pure_do (Ok \<lparr>gw_outcome = GnatDispatched admission results,
                gw_forensic_events = event # events\<rparr>)))))"

end
