(* ===== verification/Gnat_Runs.thy ===== *)
theory Gnat_Runs
  imports Gnat_Pipeline
begin

text \<open>
  What a Gnat run does: the shards it delivers, the events it returns and when it loses them.
\<close>

section \<open>Requests and events\<close>

text \<open>The requests of the declared shards, in their order.\<close>

definition declared_requests ::
  "gnat_dispatch_envelope \<Rightarrow> (string \<rightharpoonup> gnat_shard_enrichment) \<Rightarrow> gnat_shard_dispatch_request list" where
  "declared_requests envelope enrichments =
     map (\<lambda>d. from_declared_shard (gp_run_id (ge_plan envelope)) d (the (enrichments (gs_shard_id d))))
       (gp_shards (ge_plan envelope))"

lemma build_shard_requests_Ok:
  "build_shard_requests envelope enrichments = Ok requests \<longleftrightarrow>
     gs_shard_id ` set (gp_shards (ge_plan envelope)) \<subseteq> dom enrichments \<and>
     requests = declared_requests envelope enrichments"
proof -
  have "try_map (\<lambda>d. and_then (ok_or (enrichments (gs_shard_id d)) (err d)) (\<lambda>x. Ok (f d x))) ds = Ok rs \<longleftrightarrow>
      gs_shard_id ` set ds \<subseteq> dom enrichments \<and> rs = map (\<lambda>d. f d (the (enrichments (gs_shard_id d)))) ds"
    for err :: "gnat_dispatch_shard \<Rightarrow> fa_local_error" and
      f :: "gnat_dispatch_shard \<Rightarrow> gnat_shard_enrichment \<Rightarrow> gnat_shard_dispatch_request" and ds rs
    by (induction ds arbitrary: rs) (auto simp: result_simps)
  then show ?thesis
    by (simp add: build_shard_requests_def declared_requests_def)
qed

lemma declared_requests_ids [simp]:
  "map sr_shard_id (declared_requests envelope enrichments) =
     map gs_shard_id (gp_shards (ge_plan envelope))"
  "length (declared_requests envelope enrichments) = length (gp_shards (ge_plan envelope))"
  by (simp_all add: declared_requests_def from_declared_shard_def)

definition run_id_bounded :: "gnat_dispatch_envelope \<Rightarrow> bool" where
  "run_id_bounded envelope \<longleftrightarrow>
     gp_run_id (ge_plan envelope) \<noteq> [] \<and> length (gp_run_id (ge_plan envelope)) \<le> 120"

definition negotiation_event_says ::
  "gnat_dispatch_envelope \<Rightarrow> gnat_negotiation_outcome \<Rightarrow> gnat_forensic_event \<Rightarrow> bool" where
  "negotiation_event_says envelope outcome e \<longleftrightarrow>
     gf_event_type e = GnatDispatchNegotiated \<and> gf_negotiation_outcome e = outcome \<and>
     gf_run_id e = gp_run_id (ge_plan envelope) \<and>
     gf_correlation_id e = ge_correlation_id envelope \<and> gnat_event_wf e"

fun reported_outcome :: "gnat_shard_dispatch_result \<Rightarrow> gnat_shard_outcome" where
  "reported_outcome (GnatCompleted receipt) = ShardCompleted"
| "reported_outcome (GnatNotCompleted receipt) = ShardNotCompleted"
| "reported_outcome (GnatDispatchUnavailable summary) = ShardUnavailable"

definition shard_event_says ::
  "gnat_dispatch_envelope \<Rightarrow> string \<times> gnat_shard_dispatch_result \<Rightarrow> gnat_forensic_event \<Rightarrow> bool" where
  "shard_event_says envelope r e \<longleftrightarrow>
     gf_event_type e = GnatShardDispatched \<and> gf_shard_id e = Some (fst r) \<and>
     gf_shard_outcome e = Some (reported_outcome (snd r)) \<and>
     gf_run_id e = gp_run_id (ge_plan envelope) \<and>
     gf_correlation_id e = ge_correlation_id envelope \<and> gnat_event_wf e"

lemma build_negotiation_event_Ok:
  "build_negotiation_event fresh envelope outcome summary now = Ok v \<Longrightarrow>
     negotiation_event_says envelope outcome (vg_event v)"
  by (auto simp: build_negotiation_event_def build_gnat_event_Ok negotiation_event_says_def)

lemma build_negotiation_event_decides:
  "(\<exists>v. build_negotiation_event fresh envelope outcome summary now = Ok v) \<longleftrightarrow> run_id_bounded envelope"
  by (auto simp: build_negotiation_event_def build_gnat_event_Ok gnat_event_wf_def run_id_bounded_def
      char_bounded_summary_fits)

text \<open>The receipt states that have an event.\<close>

definition recognised_states :: "string set" where
  "recognised_states = {''complete'', ''denied'', ''stale'', ''failed''}"

fun result_recognised :: "gnat_shard_dispatch_result \<Rightarrow> bool" where
  "result_recognised (GnatDispatchUnavailable summary) \<longleftrightarrow> True"
| "result_recognised (GnatCompleted receipt) \<longleftrightarrow>
     (\<exists>s \<in> recognised_states. json_get receipt ''state'' = Some (JString s))"
| "result_recognised (GnatNotCompleted receipt) \<longleftrightarrow>
     (\<exists>s \<in> recognised_states. json_get receipt ''state'' = Some (JString s))"

lemma receipt_state_decides:
  "(\<exists>s. receipt_state_from_receipt debug_text receipt = Ok s) \<longleftrightarrow>
     (\<exists>s \<in> recognised_states. json_get receipt ''state'' = Some (JString s))"
proof (cases "json_get receipt ''state''")
  case None
  then show ?thesis by (simp add: receipt_state_from_receipt_def)
next
  case (Some v)
  then show ?thesis
    by (cases v) (auto simp: receipt_state_from_receipt_def recognised_states_def)
qed

lemma shard_outcome_of_Ok:
  "shard_outcome_of debug_text result = Ok (outcome, state) \<Longrightarrow>
     outcome = reported_outcome result \<and> (state = None \<longleftrightarrow> outcome = ShardUnavailable)"
  by (cases result) (auto simp: result_simps)

lemma shard_outcome_of_decides:
  "(\<exists>p. shard_outcome_of debug_text result = Ok p) \<longleftrightarrow> result_recognised result"
  using receipt_state_decides [of debug_text] by (cases result) (simp_all add: result_simps)

lemma build_shard_event_eq:
  "build_shard_event debug_text fresh envelope request result now = Ok v \<longleftrightarrow>
     (\<exists>outcome state. shard_outcome_of debug_text result = Ok (outcome, state) \<and>
        gnat_event_wf (shard_event fresh envelope request outcome state now
          (shard_event_summary request result)) \<and>
        v = \<lparr>vg_event = shard_event fresh envelope request outcome state now
          (shard_event_summary request result)\<rparr>)"
  unfolding build_shard_event_def and_then_Ok [of "shard_outcome_of debug_text result"]
  by (force simp only: build_gnat_event_Ok prod.case split_paired_Ex)

lemma shard_event_wf:
  "state = None \<longleftrightarrow> outcome = ShardUnavailable \<Longrightarrow>
     gnat_event_wf (shard_event fresh envelope request outcome state now summary) \<longleftrightarrow>
     run_id_bounded envelope"
  by (cases outcome)
    (auto simp: shard_event_def gnat_event_wf_def run_id_bounded_def char_bounded_summary_fits)

lemma build_shard_event_Ok:
  "build_shard_event debug_text fresh envelope request result now = Ok v \<Longrightarrow>
     shard_event_says envelope (sr_shard_id request, result) (vg_event v)"
  by (auto simp: build_shard_event_eq shard_event_says_def shard_event_def dest: shard_outcome_of_Ok)

lemma build_shard_event_decides:
  "(\<exists>v. build_shard_event debug_text fresh envelope request result now = Ok v) \<longleftrightarrow>
     result_recognised result \<and> run_id_bounded envelope"
  unfolding shard_outcome_of_decides [symmetric, of _ debug_text]
  by (fastforce simp: build_shard_event_eq dest: shard_outcome_of_Ok
      intro: shard_event_wf [THEN iffD2] elim: shard_event_wf [THEN iffD1, rotated])

section \<open>The loop over the shards\<close>

text \<open>
  A world that keeps the log \<open>calls\<close> of the requests that were delivered; exports do not deliver.
\<close>

definition keeps_log ::
  "('w \<Rightarrow> gnat_shard_dispatch_request list) \<Rightarrow> 'w gnat_shard_adapter \<Rightarrow> 'w gnat_export_adapter option \<Rightarrow>
   bool" where
  "keeps_log calls adapter export_adapter \<longleftrightarrow>
     (\<forall>request w w' r. ga_deliver_shard adapter request w = Some (w', r) \<longrightarrow>
        calls w' = calls w @ [request]) \<and>
     (\<forall>ex event w w' r. export_adapter = Some ex \<longrightarrow> gt_export_event ex event w = Some (w', r) \<longrightarrow>
        calls w' = calls w)"

lemma record_gnat_event_log:
  assumes "keeps_log calls adapter export_adapter"
    and "record_gnat_event export_adapter event w = Some (w', r)"
  shows "calls w' = calls w \<and> (\<forall>v. r = Ok v \<longrightarrow> go_event v = event)"
proof (cases export_adapter)
  case None
  with assms(2) show ?thesis by (auto simp: record_gnat_event_def)
next
  case (Some ex)
  with assms(1) have quiet: "gt_export_event ex event w = Some (w1, x) \<Longrightarrow> calls w1 = calls w" for w1 x
    unfolding keeps_log_def by blast
  from Some assms(2) show ?thesis
    by (auto simp: record_gnat_event_def and_do_def call_gnat_export_def pure_do_def
        split: option.splits result.splits dest: quiet)
qed

lemma record_gnat_event_Ok:
  "record_gnat_event export_adapter event w = Some (w', Ok v) \<Longrightarrow> go_event v = event"
  by (auto simp: record_gnat_event_def and_do_Ok split: option.splits)

lemma deliver_shards_log:
  assumes "keeps_log calls adapter export_adapter"
    and "deliver_shards env envelope adapter export_adapter now n requests w = Some (w', r)"
  shows "\<exists>k \<le> length requests. calls w' = calls w @ take k requests \<and>
    ((\<exists>v. r = Ok v) \<longrightarrow> k = length requests)"
  using assms(2)
proof (induction requests arbitrary: n w w' r)
  case Nil
  then show ?case by auto
next
  case (Cons request requests)
  let ?event = "build_shard_event (gn_debug_text env) (gn_event_ids env n) envelope request"
  from Cons.prems obtain w1 result where
    d: "ga_deliver_shard adapter request w = Some (w1, result)"
    by (auto simp: and_do_def call_shard_def split: option.splits)
  then have c1: "calls w1 = calls w @ [request]"
    using assms(1) unfolding keeps_log_def by blast
  have one: ?case if "calls w' = calls w1" "\<not> (\<exists>v. r = Ok v)"
    using that c1 by (intro exI [of _ 1]) auto
  show ?case
  proof (cases "?event result now")
    case (Err e)
    with Cons.prems d have "w' = w1" "r = Err e"
      by (simp_all add: and_do_def call_shard_def pure_do_def)
    then show ?thesis by (intro one) simp_all
  next
    case (Ok event)
    with Cons.prems d obtain w2 r2 where
      rec: "record_gnat_event export_adapter event w1 = Some (w2, r2)"
      by (auto simp: and_do_def call_shard_def pure_do_def split: option.splits)
    from record_gnat_event_log [OF assms(1) rec] c1 have c2: "calls w2 = calls w @ [request]" by simp
    show ?thesis
    proof (cases r2)
      case (Err e)
      with Cons.prems d Ok rec have "w' = w2" "r = Err e"
        by (simp_all add: and_do_def call_shard_def pure_do_def)
      with c1 c2 show ?thesis by (intro one) simp_all
    next
      case rec_ok: (Ok recorded)
      with Cons.prems d Ok rec obtain r3 where
        rest: "deliver_shards env envelope adapter export_adapter now (Suc n) requests w2 = Some (w', r3)"
        and r: "(\<exists>v. r = Ok v) \<longleftrightarrow> (\<exists>v. r3 = Ok v)"
        by (auto simp: and_do_def call_shard_def pure_do_def split: option.splits result.splits prod.splits)
      from Cons.IH [OF rest] c2 r obtain k where "k \<le> length requests"
        "calls w' = calls w @ take (Suc k) (request # requests)"
        "(\<exists>v. r = Ok v) \<longrightarrow> k = length requests" by auto
      then show ?thesis by (intro exI [of _ "Suc k"]) auto
    qed
  qed
qed

lemma deliver_shards_events:
  assumes "deliver_shards env envelope adapter export_adapter now n requests w =
    Some (w', Ok (results, events))"
  shows "map fst results = map sr_shard_id requests \<and>
    list_all2 (\<lambda>r e. shard_event_says envelope r (vg_event (go_event e))) results events"
  using assms
proof (induction requests arbitrary: n w w' results events)
  case Nil
  then show ?case by auto
next
  case (Cons request requests)
  from Cons.prems obtain result w1 event recorded w2 results' events' where
    "build_shard_event (gn_debug_text env) (gn_event_ids env n) envelope request result now = Ok event"
    "record_gnat_event export_adapter event w1 = Some (w2, Ok recorded)"
    "deliver_shards env envelope adapter export_adapter now (Suc n) requests w2 =
       Some (w', Ok (results', events'))"
    "results = (sr_shard_id request, result) # results'" "events = recorded # events'"
    by (auto simp: and_do_Ok)
  with Cons.IH [of "Suc n" w2 w' results' events'] record_gnat_event_Ok build_shard_event_Ok
  show ?case by fastforce
qed


section \<open>Runs\<close>

text \<open>A run that the service dispatches itself.\<close>

definition dispatch_admitted ::
  "gnat_dispatch_envelope \<Rightarrow> gnat_fa_local_capability_state \<Rightarrow> bool" where
  "dispatch_admitted envelope capabilities \<longleftrightarrow>
     envelope_wf envelope \<and> gc_fa_local_state capabilities = GnatReady \<and>
     serves_envelope capabilities envelope"

lemma run_gnat_log:
  assumes log: "keeps_log calls adapter export_adapter"
    and run: "run_gnat env envelope capabilities enrichments adapter export_adapter now w = Some (w', r)"
  shows "\<exists>k \<le> length (gp_shards (ge_plan envelope)).
    calls w' = calls w @ take k (declared_requests envelope enrichments) \<and>
    (k > 0 \<longrightarrow> dispatch_admitted envelope capabilities) \<and>
    (\<forall>result admission results. r = Ok result \<longrightarrow> gw_outcome result = GnatDispatched admission results \<longrightarrow>
       k = length (gp_shards (ge_plan envelope)))"
proof -
  have none: ?thesis
    if "calls w' = calls w" "\<And>result admission results. r = Ok result \<Longrightarrow>
      gw_outcome result \<noteq> GnatDispatched admission results"
    using that by (intro exI [of _ 0]) auto
  have neg: "calls w1 = calls v"
    if "record_negotiation env envelope export_adapter now outcome summary v = Some (w1, x)"
    for outcome summary v w1 x
    using that record_gnat_event_log [OF log]
    by (auto simp: record_negotiation_def and_do_def pure_do_def split: result.splits)
  show ?thesis
  proof (cases "build_shard_requests envelope enrichments")
    case (Err e)
    with run show ?thesis by (intro none) (simp_all add: run_gnat_def)
  next
    case (Ok requests)
    note requests = Ok [unfolded build_shard_requests_Ok]
    show ?thesis
    proof (cases "negotiate (gn_denied_at env) envelope capabilities")
      case (Err denial)
      with run Ok show ?thesis
        by (intro none)
          (auto simp: run_gnat_def and_do_def pure_do_def dest: neg split: option.splits result.splits)
    next
      case adm: (Ok admission)
      show ?thesis
      proof (cases "gd_state admission")
        case SerialFallbackPermitted
        with run Ok adm show ?thesis
          by (intro none)
            (auto simp: run_gnat_def and_do_def pure_do_def dest: neg split: option.splits result.splits)
      next
        case ReadyForDispatch
        with negotiate_Ok [OF adm] have admitted: "dispatch_admitted envelope capabilities"
          by (simp add: dispatch_admitted_def)
        from run Ok adm ReadyForDispatch obtain w1 x where
          rec: "record_negotiation env envelope export_adapter now NegotiationReady
            (gd_operator_visible_summary admission) w = Some (w1, x)"
          by (auto simp: run_gnat_def and_do_def split: option.splits)
        show ?thesis
        proof (cases x)
          case (Err e)
          with run Ok adm ReadyForDispatch rec have "w' = w1" "r = Err e"
            by (simp_all add: run_gnat_def and_do_def)
          with neg [OF rec] show ?thesis by (intro none) simp_all
        next
          case x: (Ok event)
          with run Ok adm ReadyForDispatch rec obtain r1 where
            d: "deliver_shards env envelope adapter export_adapter now 1 requests w1 = Some (w', r1)"
            and r: "(\<exists>v. r = Ok v) \<longrightarrow> (\<exists>v. r1 = Ok v)"
            by (auto simp: run_gnat_def and_do_def pure_do_def split: option.splits result.splits prod.splits)
          from deliver_shards_log [OF log d] neg [OF rec] r requests admitted show ?thesis
            by auto
        qed
      qed
    qed
  qed
qed

fun outcome_reported ::
  "gnat_dispatch_envelope \<Rightarrow> gnat_fa_local_capability_state \<Rightarrow> gnat_run_outcome \<Rightarrow>
   gnat_record_outcome list \<Rightarrow> bool" where
  "outcome_reported envelope capabilities (GnatDenied denial) events \<longleftrightarrow>
     \<not> (envelope_wf envelope \<and> (if gc_fa_local_state capabilities = GnatReady
        then serves_envelope capabilities envelope else gp_serial_fallback_allowed (ge_plan envelope))) \<and>
     (\<exists>e. events = [e] \<and> negotiation_event_says envelope NegotiationDenied (vg_event (go_event e)))"
| "outcome_reported envelope capabilities (GnatSerialFallback admission) events \<longleftrightarrow>
     envelope_wf envelope \<and> gc_fa_local_state capabilities \<noteq> GnatReady \<and>
     gp_serial_fallback_allowed (ge_plan envelope) \<and>
     (\<exists>e. events = [e] \<and> negotiation_event_says envelope NegotiationSerialFallback (vg_event (go_event e)))"
| "outcome_reported envelope capabilities (GnatDispatched admission results) events \<longleftrightarrow>
     dispatch_admitted envelope capabilities \<and>
     map fst results = map gs_shard_id (gp_shards (ge_plan envelope)) \<and>
     (\<exists>e es. events = e # es \<and> negotiation_event_says envelope NegotiationReady (vg_event (go_event e)) \<and>
        list_all2 (\<lambda>r e. shard_event_says envelope r (vg_event (go_event e))) results es)"

lemma record_negotiation_Ok:
  "record_negotiation env envelope export_adapter now outcome summary w = Some (w', Ok e) \<Longrightarrow>
     negotiation_event_says envelope outcome (vg_event (go_event e))"
  by (auto simp: record_negotiation_def and_do_Ok dest!: record_gnat_event_Ok build_negotiation_event_Ok)

lemma run_gnat_reported:
  assumes run: "run_gnat env envelope capabilities enrichments adapter export_adapter now w =
    Some (w', Ok result)"
  shows "outcome_reported envelope capabilities (gw_outcome result) (gw_forensic_events result)"
proof -
  from run obtain requests where req: "build_shard_requests envelope enrichments = Ok requests"
    by (auto simp: run_gnat_def and_do_Ok)
  note requests = req [unfolded build_shard_requests_Ok]
  show ?thesis
  proof (cases "negotiate (gn_denied_at env) envelope capabilities")
    case (Err denial)
    with negotiate_admits [of "gn_denied_at env" envelope capabilities]
    have "\<not> (envelope_wf envelope \<and> (if gc_fa_local_state capabilities = GnatReady
        then serves_envelope capabilities envelope else gp_serial_fallback_allowed (ge_plan envelope)))"
      by simp
    with run Err req show ?thesis
      by (auto simp: run_gnat_def and_do_Ok dest: record_negotiation_Ok)
  next
    case (Ok admission)
    note adm = negotiate_Ok [OF Ok]
    show ?thesis
    proof (cases "gd_state admission")
      case SerialFallbackPermitted
      with adm run Ok req show ?thesis
        by (auto simp: run_gnat_def and_do_Ok dest: record_negotiation_Ok)
    next
      case ReadyForDispatch
      with run Ok req obtain event w1 results events where
        n: "record_negotiation env envelope export_adapter now NegotiationReady
          (gd_operator_visible_summary admission) w = Some (w1, Ok event)"
        and d: "deliver_shards env envelope adapter export_adapter now 1 requests w1 =
          Some (w', Ok (results, events))"
        and result: "result = \<lparr>gw_outcome = GnatDispatched admission results,
          gw_forensic_events = event # events\<rparr>"
        by (auto simp: run_gnat_def and_do_Ok)
      from adm ReadyForDispatch requests show ?thesis
        using deliver_shards_events [OF d] record_negotiation_Ok [OF n]
        by (simp add: result dispatch_admitted_def)
    qed
  qed
qed

section \<open>When a run answers\<close>

definition answers_recognised :: "'w gnat_shard_adapter \<Rightarrow> bool" where
  "answers_recognised adapter \<longleftrightarrow>
     (\<forall>request w. \<exists>w' r. ga_deliver_shard adapter request w = Some (w', r) \<and> result_recognised r)"

lemma deliver_shards_answers:
  assumes "answers_recognised adapter" "run_id_bounded envelope"
  shows "\<exists>w' v. deliver_shards env envelope adapter None now n requests w = Some (w', Ok v)"
proof (induction requests arbitrary: n w)
  case Nil
  show ?case by simp
next
  case (Cons request requests)
  from assms(1) obtain w1 r where
    d: "ga_deliver_shard adapter request w = Some (w1, r)" "result_recognised r"
    unfolding answers_recognised_def by blast
  with assms(2) build_shard_event_decides obtain event where
    e: "build_shard_event (gn_debug_text env) (gn_event_ids env n) envelope request r now = Ok event"
    by blast
  from Cons.IH [of "Suc n" w1] d(1) e show ?case
    by (auto simp: and_do_def call_shard_def record_gnat_event_def pure_do_def)
qed

lemma record_negotiation_answers:
  "run_id_bounded envelope \<Longrightarrow>
     \<exists>e. record_negotiation env envelope None now outcome summary w = Some (w, Ok e)"
  using build_negotiation_event_decides [of "gn_event_ids env 0" envelope outcome summary now]
  by (auto simp: record_negotiation_def record_gnat_event_def and_do_def pure_do_def)

lemma run_gnat_answers:
  assumes "answers_recognised adapter" "run_id_bounded envelope"
    and "gs_shard_id ` set (gp_shards (ge_plan envelope)) \<subseteq> dom enrichments"
  shows "\<exists>w' result. run_gnat env envelope capabilities enrichments adapter None now w = Some (w', Ok result)"
proof -
  from assms(3) have req: "build_shard_requests envelope enrichments =
      Ok (declared_requests envelope enrichments)"
    by (simp add: build_shard_requests_Ok)
  note answers = record_negotiation_answers [OF assms(2)]
  show ?thesis
  proof (cases "negotiate (gn_denied_at env) envelope capabilities")
    case (Err denial)
    with req answers [of env now NegotiationDenied "dg_summary denial" w] show ?thesis
      by (auto simp: run_gnat_def and_do_def pure_do_def)
  next
    case (Ok admission)
    note adm = Ok
    show ?thesis
    proof (cases "gd_state admission")
      case SerialFallbackPermitted
      with adm req answers [of env now NegotiationSerialFallback "gd_operator_visible_summary admission" w]
      show ?thesis by (auto simp: run_gnat_def and_do_def pure_do_def)
    next
      case ReadyForDispatch
      with adm req answers [of env now NegotiationReady "gd_operator_visible_summary admission" w]
        deliver_shards_answers [OF assms(1,2), of env now 1 "declared_requests envelope enrichments" w]
      show ?thesis by (auto simp: run_gnat_def and_do_def pure_do_def)
    qed
  qed
qed

text \<open>A receipt with another state ends the run with an error, after the shard was delivered.\<close>

lemma run_gnat_loses:
  assumes req: "build_shard_requests envelope enrichments = Ok (request # requests)"
    and adm: "negotiate (gn_denied_at env) envelope capabilities = Ok admission"
      "gd_state admission = ReadyForDispatch"
    and bounded: "run_id_bounded envelope"
    and d: "ga_deliver_shard adapter request w = Some (w', receipt_result receipt)"
    and state: "json_get receipt ''state'' = Some (JString s)" "s \<notin> recognised_states"
  shows "run_gnat env envelope capabilities enrichments adapter None now w =
    Some (w', Err (contract_invalid
      (''Cortex Gnat receipt reported an unrecognized state '' @ gn_debug_text env s)))"
proof -
  obtain e where "record_negotiation env envelope None now NegotiationReady
      (gd_operator_visible_summary admission) w = Some (w, Ok e)"
    using record_negotiation_answers [OF bounded, where w = w] by blast
  moreover have "receipt_result receipt = GnatNotCompleted receipt"
    using state by (simp add: receipt_result_def recognised_states_def)
  moreover have "receipt_state_from_receipt (gn_debug_text env) receipt = Err (contract_invalid
      (''Cortex Gnat receipt reported an unrecognized state '' @ gn_debug_text env s))"
    using state by (simp add: receipt_state_from_receipt_def recognised_states_def)
  ultimately show ?thesis
    using req adm d by (simp add: run_gnat_def and_do_def call_shard_def build_shard_event_def pure_do_def)
qed

end
