(* ===== verification/Gnat_Properties.thy ===== *)
theory Gnat_Properties
  imports Gnat_Runs
begin

text \<open>
  The properties of the Cortex Gnat subsystem, with the envelope, the services and the adapters that
  they are applied to.
\<close>

section \<open>Samples\<close>

definition sample_shard :: "string \<Rightarrow> gnat_dispatch_shard" where
  "sample_shard i =
     \<lparr>gs_shard_id = i, gs_ordinal = 0, gs_worker_type = MarkdownSyntax, gs_source_ref = ''src'',
      gs_source_fingerprint_digest = ''d'', gs_deadline_ms = 50\<rparr>"

definition sample_envelope :: gnat_dispatch_envelope where
  "sample_envelope =
     \<lparr>ge_contract_version = ''GnatDispatchEnvelope.v1'', ge_correlation_id = 7,
      ge_requester_service = ''cortex'',
      ge_plan =
        \<lparr>gp_contract_version = ''GnatRunPlan.v1'', gp_run_id = ''run-1'', gp_plan_hash = ''h'',
         gp_operation = ''syntax_extract'',
         gp_expected_receipt_schema = ''gnat-worker-receipt.schema.json'', gp_shard_count = 2,
         gp_shards = [sample_shard ''a'', sample_shard ''b''],
         gp_execution_limits =
           \<lparr>gl_requested_concurrency = 2, gl_max_concurrency = 4, gl_deadline_ms = 1000\<rparr>,
         gp_serial_fallback_allowed = True\<rparr>,
      ge_required_capabilities =
        \<lparr>gr_supported_contract_versions = [''GnatRunPlan.v1''], gr_worker_types = [MarkdownSyntax],
         gr_cancellation_policy = gnat_cancellation_policy.FinishInFlightOnly, gr_deadline_enforced = True\<rparr>,
      ge_route_policy =
        \<lparr>gy_fa_local_owns_execution_routing = True, gy_cortex_validates_receipts = True,
         gy_retry_policy = InfrastructureOnly\<rparr>\<rparr>"

definition sample_gnat_capabilities :: gnat_fa_local_capability_state where
  "sample_gnat_capabilities =
     \<lparr>gc_fa_local_state = GnatReady, gc_supported_contract_versions = [''GnatRunPlan.v1''],
      gc_admitted_worker_types = [MarkdownSyntax, PlainTextSyntax], gc_max_concurrency = 3,
      gc_cancellation_supported = True\<rparr>"

definition sample_enrichments :: "string \<rightharpoonup> gnat_shard_enrichment" where
  "sample_enrichments i = (if i \<in> {''a'', ''b''} then Some
     \<lparr>se_source_path_token = ''t'', se_media_type = ''text/markdown'',
      se_fingerprint_algorithm = ''sha256'', se_fingerprint_byte_count = 3,
      se_fingerprint_modified_at = ''now'', se_max_bytes = 9, se_local_path = ''/f''\<rparr> else None)"

definition sample_gnat_env :: gnat_run_env where
  "sample_gnat_env =
     \<lparr>gn_denied_at = 5, gn_event_ids = of_nat, gn_debug_text = (\<lambda>s. [CHR 0x22] @ s @ [CHR 0x22])\<rparr>"

definition state_receipt :: "string \<Rightarrow> json" where
  "state_receipt state = json_object [(''state'', JString state)]"

text \<open>An adapter that logs the requests and reports one receipt.\<close>

definition logging_shards :: "json \<Rightarrow> gnat_shard_dispatch_request list gnat_shard_adapter" where
  "logging_shards receipt =
     \<lparr>ga_adapter_id = ''log'',
      ga_deliver_shard = (\<lambda>request w. Some (w @ [request], receipt_result receipt))\<rparr>"

text \<open>
  An operating system whose world is its clock: a process is the time at which it ends, and it prints
  one receipt.
\<close>

definition clock_os :: "nat \<Rightarrow> json \<Rightarrow> (nat, nat) shard_env" where
  "clock_os ends receipt =
     \<lparr>sx_is_file = (\<lambda>_ _. True), sx_temp_dir = (\<lambda>_. ''/tmp''), sx_new_uuid = (\<lambda>w. (w, ''u'')),
      sx_write = (\<lambda>_ _ w. (w, Ok ())), sx_remove_file = (\<lambda>_ w. w), sx_spawn = (\<lambda>_ w. (w, Ok ends)),
      sx_try_wait = (\<lambda>child w. (w, Ok (if child \<le> w then Some (Some 0) else None))),
      sx_now = (\<lambda>w. (w, w)), sx_sleep = (\<lambda>n w. w + n), sx_kill_group = (\<lambda>_ w. w),
      sx_kill = (\<lambda>_ w. w), sx_wait = (\<lambda>_ w. w), sx_read_to_end = (\<lambda>_ _ w. Some (w, [])),
      sx_from_utf8_lossy = id, sx_print_json = (\<lambda>_. []), sx_parse_json = (\<lambda>_. Some receipt)\<rparr>"

definition sample_request :: gnat_shard_dispatch_request where
  "sample_request = hd (declared_requests sample_envelope sample_enrichments)"

definition sample_subprocess :: cortex_subprocess_config where
  "sample_subprocess = \<lparr>cs_python_binary = ''python3'', cs_cortex_repo_root = ''/cor''\<rparr>"

lemma clock_os_steady: "steady_clock (clock_os ends receipt) id"
  by (simp_all add: steady_clock_def clock_os_def)

lemma sample_admitted:
  "dispatch_admitted sample_envelope sample_gnat_capabilities"
  "\<exists>admission. negotiate (gn_denied_at sample_gnat_env) sample_envelope sample_gnat_capabilities = Ok admission \<and>
     gd_state admission = ReadyForDispatch"
proof -
  show a: "dispatch_admitted sample_envelope sample_gnat_capabilities"
    by (simp add: dispatch_admitted_def envelope_wf_def serves_envelope_def sample_envelope_def
        sample_gnat_capabilities_def sample_shard_def)
  then have "\<exists>admission. negotiate t sample_envelope sample_gnat_capabilities = Ok admission" for t
    by (simp add: negotiate_admits dispatch_admitted_def)
  moreover have "gc_fa_local_state sample_gnat_capabilities = GnatReady"
    by (simp add: sample_gnat_capabilities_def)
  ultimately show "\<exists>admission. negotiate (gn_denied_at sample_gnat_env) sample_envelope
      sample_gnat_capabilities = Ok admission \<and> gd_state admission = ReadyForDispatch"
    by (metis negotiate_Ok)
qed

lemma sample_requests:
  "build_shard_requests sample_envelope sample_enrichments =
     Ok (declared_requests sample_envelope sample_enrichments)"
  "gs_shard_id ` set (gp_shards (ge_plan sample_envelope)) \<subseteq> dom sample_enrichments"
  "run_id_bounded sample_envelope"
  by (simp_all add: build_shard_requests_Ok sample_envelope_def sample_enrichments_def sample_shard_def
      run_id_bounded_def dom_def)

lemma logging_shards_log: "keeps_log id (logging_shards receipt) None"
  by (simp add: keeps_log_def logging_shards_def)

lemma state_receipt_state: "json_get (state_receipt state) ''state'' = Some (JString state)"
  by (simp add: state_receipt_def json_object_def)

lemma logging_shards_answers:
  "state \<in> recognised_states \<Longrightarrow> answers_recognised (logging_shards (state_receipt state))"
  by (auto simp: answers_recognised_def logging_shards_def receipt_result_def state_receipt_state)

section \<open>Delivery of a shard\<close>

text \<open>C8: with a clock that never goes back and that a sleep advances, waiting for the process always
  ends; and a process is killed only when its whole deadline has passed on that clock.\<close>

theorem waiting_respects_deadline:
  assumes "steady_clock env time"
  shows "\<exists>w' outcome. wait_with_deadline env child deadline_ms w = Some (w', outcome) \<and>
    (outcome = DeadlineExceeded \<longrightarrow>
       (\<exists>now \<ge> time w + unat deadline_ms * 1000000. killed_at env child now w'))"
  using assms by (rule wait_with_deadline_ends)

theorem waiting_respects_deadline_witness:
  "\<exists>w' outcome. wait_with_deadline (clock_os 900000000 JNull) 900000000 50 7 = Some (w', outcome) \<and>
    (outcome = DeadlineExceeded \<longrightarrow>
       (\<exists>now \<ge> 7 + unat (50 :: 64 word) * 1000000. killed_at (clock_os 900000000 JNull) 900000000 now w'))"
  using waiting_respects_deadline [OF clock_os_steady, of 900000000 JNull 900000000 50 7] by simp

text \<open>C9: the subprocess adapter refuses a worker type that is not authorised and a missing file with an
  unchanged world, so before it writes or spawns. It reports a shard as completed exactly when the process
  that it spawned for this shard exited within its deadline and printed, to the end of its pipe, a
  receipt whose state is complete; as not completed exactly when the receipt has another state; and
  otherwise as unavailable. It answers unless a pipe of the spawned process never comes to its end: only
  then it blocks, since the deadline does not bound the reading.\<close>

theorem shard_delivery_truthful:
  assumes "steady_clock env time"
  shows "case deliver_shard env config request w of
      None \<Rightarrow> \<not> shard_refused env request w \<and>
        (\<exists>path child w1 pipe v. shard_spawned env config request w path child w1 \<and>
           sx_read_to_end env pipe child v = None)
    | Some (w', result) \<Rightarrow>
        (shard_refused env request w \<longrightarrow> w' = w \<and> (\<exists>summary. result = GnatDispatchUnavailable summary)) \<and>
        (\<forall>receipt. result = GnatCompleted receipt \<longleftrightarrow> shard_printed env config request w receipt \<and>
           json_get receipt ''state'' = Some (JString ''complete'')) \<and>
        (\<forall>receipt. result = GnatNotCompleted receipt \<longleftrightarrow> shard_printed env config request w receipt \<and>
           (\<exists>state. json_get receipt ''state'' = Some (JString state) \<and> state \<noteq> ''complete''))"
proof (cases "deliver_shard env config request w")
  case None
  with deliver_shard_blocks [OF assms None] show ?thesis by simp
next
  case (Some answer)
  obtain w' result where answer: "answer = (w', result)" by fastforce
  note delivered = Some [unfolded answer]
  have refused: "shard_refused env request w \<longrightarrow> w' = w \<and> (\<exists>summary. result = GnatDispatchUnavailable summary)"
    using deliver_shard_refused [of env request w config] delivered by auto
  show ?thesis
    unfolding delivered option.case prod.case
    using refused deliver_shard_backed [OF delivered] deliver_shard_receipt [OF delivered]
    by (cases result) force+
qed

lemma clock_os_printed:
  "shard_printed (clock_os 0 receipt) sample_subprocess sample_request 0 receipt"
proof -
  have "sr_worker_type sample_request \<in> {MarkdownSyntax, PlainTextSyntax}"
    by (simp add: sample_request_def declared_requests_def from_declared_shard_def sample_envelope_def
        sample_shard_def)
  moreover have "wait_with_deadline (clock_os 0 receipt) 0 deadline 0 = Some (0, Exited (Some 0))" for deadline
    by (simp add: wait_with_deadline_def clock_os_def wait_loop.simps)
  moreover have "shard_spawned (clock_os 0 receipt) sample_subprocess sample_request 0
      (shard_descriptor_path (clock_os 0 receipt) sample_request ''u'' 0) 0 0"
    by (simp add: shard_spawned_def clock_os_def)
  ultimately show ?thesis
    unfolding shard_printed_def
    by (intro conjI exI) (auto simp: shard_refused_def read_pipe_def clock_os_def)
qed

theorem shard_delivery_truthful_witness:
  "(\<exists>w'. deliver_shard (clock_os 0 (state_receipt ''complete'')) sample_subprocess sample_request 0 =
      Some (w', GnatCompleted (state_receipt ''complete''))) \<and>
   (\<exists>w'. deliver_shard (clock_os 0 (state_receipt ''stale'')) sample_subprocess sample_request 0 =
      Some (w', GnatNotCompleted (state_receipt ''stale'')))"
proof -
  have delivered: "\<exists>w' result. deliver_shard (clock_os 0 (state_receipt s)) sample_subprocess sample_request 0 =
      Some (w', result) \<and> (s = ''complete'' \<longrightarrow> result = GnatCompleted (state_receipt s)) \<and>
      (s \<noteq> ''complete'' \<longrightarrow> result = GnatNotCompleted (state_receipt s))" for s
  proof -
    have "sx_read_to_end (clock_os 0 (state_receipt s)) pipe child v = Some (v, [])" for pipe child v
      by (simp add: clock_os_def)
    then show ?thesis
      using shard_delivery_truthful [OF clock_os_steady, where config = sample_subprocess and
          request = sample_request and w = 0, of 0 "state_receipt s"] clock_os_printed [of "state_receipt s"]
      by (cases "deliver_shard (clock_os 0 (state_receipt s)) sample_subprocess sample_request 0")
        (auto simp: state_receipt_state)
  qed
  from delivered [of "''complete''"] delivered [of "''stale''"] show ?thesis by simp
qed

section \<open>Runs\<close>

text \<open>C6: a run delivers the declared shards in their order, each once, up to the first error; it
  delivers one only when the envelope is well-formed and the service is ready and serves it; and it
  reports a dispatch only when all of them were delivered.\<close>

theorem shards_delivered_in_order:
  assumes "keeps_log calls adapter export_adapter"
    and "run_gnat env envelope capabilities enrichments adapter export_adapter now w = Some (w', r)"
  shows "\<exists>k \<le> length (gp_shards (ge_plan envelope)).
    calls w' = calls w @ take k (declared_requests envelope enrichments) \<and>
    (k > 0 \<longrightarrow> dispatch_admitted envelope capabilities) \<and>
    (\<forall>result admission results. r = Ok result \<longrightarrow> gw_outcome result = GnatDispatched admission results \<longrightarrow>
       k = length (gp_shards (ge_plan envelope)))"
  using assms by (rule run_gnat_log)

text \<open>C7: the outcome of a run is the one its envelope and the service call for, with exactly one
  negotiation event that says it and, for a dispatch, one event per declared shard in the declared order
  that says the result of that shard; all these events are well-formed.\<close>

theorem gnat_run_reported:
  assumes "run_gnat env envelope capabilities enrichments adapter export_adapter now w =
    Some (w', Ok result)"
  shows "outcome_reported envelope capabilities (gw_outcome result) (gw_forensic_events result)"
  using assms by (rule run_gnat_reported)

text \<open>without an export sink, a run whose shards all have an enrichment and whose run identifier is
  bounded ends with a result, whatever the texts of the adapter are, when the adapter answers and its
  receipts have one of the four states of an event.\<close>

theorem gnat_run_answers:
  assumes "answers_recognised adapter" "run_id_bounded envelope"
    and "gs_shard_id ` set (gp_shards (ge_plan envelope)) \<subseteq> dom enrichments"
  shows "\<exists>w' result. run_gnat env envelope capabilities enrichments adapter None now w = Some (w', Ok result)"
  using assms by (rule run_gnat_answers)

text \<open>a receipt in any other state, which the subprocess adapter reports as not completed, makes an
  admitted run end in an error after its first shard was delivered: the result of the shard and the
  events of the run are lost.\<close>

theorem unrecognised_state_loses_run:
  assumes "build_shard_requests envelope enrichments = Ok (request # requests)"
    and "negotiate (gn_denied_at env) envelope capabilities = Ok admission"
    and "gd_state admission = ReadyForDispatch" "run_id_bounded envelope"
    and "ga_deliver_shard adapter request w = Some (w', receipt_result receipt)"
    and "json_get receipt ''state'' = Some (JString s)" "s \<notin> recognised_states"
  shows "run_gnat env envelope capabilities enrichments adapter None now w =
    Some (w', Err (contract_invalid
      (''Cortex Gnat receipt reported an unrecognized state '' @ gn_debug_text env s)))"
  using assms by (rule run_gnat_loses)

section \<open>Witnesses\<close>

lemma sample_run_ok:
  "\<exists>w' result. run_gnat sample_gnat_env sample_envelope sample_gnat_capabilities sample_enrichments
     (logging_shards (state_receipt ''stale'')) None 9 [] = Some (w', Ok result)"
  by (rule run_gnat_answers [OF logging_shards_answers sample_requests(3,2)])
    (simp add: recognised_states_def)

theorem shards_delivered_in_order_witness:
  "\<exists>w' r. \<exists>k \<le> 2. w' = take k (declared_requests sample_envelope sample_enrichments) \<and>
     run_gnat sample_gnat_env sample_envelope sample_gnat_capabilities sample_enrichments
       (logging_shards (state_receipt ''stale'')) None 9 [] = Some (w', r)"
proof -
  obtain w' r where run: "run_gnat sample_gnat_env sample_envelope sample_gnat_capabilities
      sample_enrichments (logging_shards (state_receipt ''stale'')) None 9 [] = Some (w', Ok r)"
    using sample_run_ok by blast
  have "length (gp_shards (ge_plan sample_envelope)) = 2" by (simp add: sample_envelope_def)
  with shards_delivered_in_order [OF logging_shards_log run] run show ?thesis by auto
qed

theorem gnat_run_reported_witness:
  "\<exists>w' result. run_gnat sample_gnat_env sample_envelope sample_gnat_capabilities sample_enrichments
     (logging_shards (state_receipt ''stale'')) None 9 [] = Some (w', Ok result) \<and>
   outcome_reported sample_envelope sample_gnat_capabilities (gw_outcome result) (gw_forensic_events result)"
proof -
  obtain w' result where run: "run_gnat sample_gnat_env sample_envelope sample_gnat_capabilities
      sample_enrichments (logging_shards (state_receipt ''stale'')) None 9 [] = Some (w', Ok result)"
    using sample_run_ok by blast
  from run gnat_run_reported [OF run] show ?thesis by blast
qed

theorem gnat_run_answers_witness:
  "\<exists>w' result. run_gnat sample_gnat_env sample_envelope sample_gnat_capabilities sample_enrichments
     (logging_shards (state_receipt ''failed'')) None 9 [] = Some (w', Ok result)"
  by (rule gnat_run_answers [OF logging_shards_answers sample_requests(3,2)])
    (simp add: recognised_states_def)

theorem unrecognised_state_loses_run_witness:
  "run_gnat sample_gnat_env sample_envelope sample_gnat_capabilities sample_enrichments
     (logging_shards (state_receipt ''canceled'')) None 9 [] =
   Some ([sample_request], Err (contract_invalid
     (''Cortex Gnat receipt reported an unrecognized state '' @ gn_debug_text sample_gnat_env ''canceled'')))"
proof -
  obtain admission where adm: "negotiate (gn_denied_at sample_gnat_env) sample_envelope
      sample_gnat_capabilities = Ok admission" "gd_state admission = ReadyForDispatch"
    using sample_admitted(2) by blast
  have "declared_requests sample_envelope sample_enrichments =
      sample_request # tl (declared_requests sample_envelope sample_enrichments)"
    by (simp add: sample_request_def declared_requests_def sample_envelope_def)
  with sample_requests(1) have "build_shard_requests sample_envelope sample_enrichments =
      Ok (sample_request # tl (declared_requests sample_envelope sample_enrichments))" by metis
  from unrecognised_state_loses_run [OF this adm sample_requests(3) _ state_receipt_state,
      of "logging_shards (state_receipt ''canceled'')" "[]" "[sample_request]" "''canceled''" 9]
  show ?thesis by (simp add: logging_shards_def recognised_states_def)
qed

end
