(* ===== verification/Corpus.thy ===== *)
theory Corpus
  imports Execution_Plan Delivery
begin

text \<open>
  The reader of sealed corpora, \<open>src/adapters/execution_delivery/sealed_corpus_read.rs\<close>: it reads the
  members that a manifest declares below one root directory and checks sizes, digests and paths.

  The file system, SHA-256, the manifest's decoder and the UTF-8 check are the fields of \<open>corpus_env\<close>,
  read at one state of the file system; errors of the file system appear as the text they display.
\<close>

section \<open>Paths\<close>

datatype path_component = RootDir | CurDir | ParentDir | Normal string

fun split_slash :: "string \<Rightarrow> string list" where
  "split_slash [] = [[]]"
| "split_slash (c # s) =
     (if c = CHR ''/'' then [] # split_slash s
      else case split_slash s of [] \<Rightarrow> [[c]] | p # ps \<Rightarrow> (c # p) # ps)"

definition path_is_absolute :: "string \<Rightarrow> bool" where
  "path_is_absolute raw \<longleftrightarrow> str_starts_with raw ''/''"

text \<open>Empty parts and dots vanish, except a dot in front of a relative path.\<close>

definition part_components :: "string \<Rightarrow> path_component list" where
  "part_components p =
     (if p = [] \<or> p = ''.'' then [] else if p = ''..'' then [ParentDir] else [Normal p])"

definition path_components :: "string \<Rightarrow> path_component list" where
  "path_components raw =
     (if path_is_absolute raw then RootDir # concat (map part_components (split_slash raw))
      else case split_slash raw of
        [] \<Rightarrow> []
      | p # ps \<Rightarrow> (if p = ''.'' then [CurDir] else part_components p) @ concat (map part_components ps))"

definition path_starts_with :: "string \<Rightarrow> string \<Rightarrow> bool" where
  "path_starts_with p base \<longleftrightarrow>
     take (length (path_components base)) (path_components p) = path_components base"

fun is_normal :: "path_component \<Rightarrow> bool" where
  "is_normal (Normal v) = True"
| "is_normal _ = False"

section \<open>Data\<close>

definition MAX_MEMBER_COUNT :: nat where
  "MAX_MEMBER_COUNT = 64"

definition MAX_MEMBER_BYTES :: u64 where
  "MAX_MEMBER_BYTES = 256 * 1024"

record corpus_document =
  cd_relative_path :: string
  cd_sha256 :: string
  cd_size_bytes :: u64
  cd_content :: string

record sealed_corpus_read_request =
  sq_allowed_root :: string
  sq_manifest_relative_path :: string
  sq_max_total_bytes :: u64

record sealed_corpus_read_receipt =
  sp_corpus_id :: string
  sp_aggregate_sha256 :: string
  sp_member_count :: nat
  sp_total_bytes :: u64
  sp_documents :: "corpus_document list"

record sealed_corpus_member =
  sm_path :: string
  sm_sha256 :: string
  sm_size_bytes :: u64

record sealed_corpus_manifest =
  mf_schema_version :: string
  mf_corpus_id :: string
  mf_exposure_class :: string
  mf_aggregate_profile :: string
  mf_members :: "sealed_corpus_member list"

record file_metadata =
  fm_is_symlink :: bool
  fm_is_dir :: bool
  fm_is_file :: bool
  fm_len :: u64

record corpus_env =
  co_symlink_metadata :: "string \<Rightarrow> (file_metadata, string) result"
  co_metadata :: "string \<Rightarrow> (file_metadata, string) result"
  co_canonicalize :: "string \<Rightarrow> (string, string) result"
  co_read_to_string :: "string \<Rightarrow> (string, string) result"
  co_read :: "string \<Rightarrow> (string, string) result"
  co_is_utf8 :: "string \<Rightarrow> bool"
  co_sha256 :: "string \<Rightarrow> 8 word list"
  co_parse_manifest :: "string \<Rightarrow> (sealed_corpus_manifest, string) result"

section \<open>Checks\<close>

definition canonical_directory :: "corpus_env \<Rightarrow> string \<Rightarrow> string fa_local_result" where
  "canonical_directory env path =
     and_then (map_err Io (co_symlink_metadata env path)) (\<lambda>metadata.
     if fm_is_symlink metadata \<or> \<not> fm_is_dir metadata
     then Err (contract_invalid ''sealed corpus root must be a real directory, not a symlink'')
     else map_err Io (co_canonicalize env path))"

definition confined_regular_file :: "corpus_env \<Rightarrow> string \<Rightarrow> string \<Rightarrow> string fa_local_result" where
  "confined_regular_file env root relative =
     (let candidate = path_join root relative in
      and_then (map_err Io (co_symlink_metadata env candidate)) (\<lambda>metadata.
      if fm_is_symlink metadata \<or> \<not> fm_is_file metadata
      then Err (contract_invalid ''sealed corpus member must be a regular non-symlink file'')
      else and_then (map_err Io (co_canonicalize env candidate)) (\<lambda>canonical.
        if path_starts_with canonical root then Ok canonical
        else Err (contract_invalid ''sealed corpus member escapes the admitted root''))))"

definition validate_relative_path :: "string \<Rightarrow> string fa_local_result" where
  "validate_relative_path raw =
     (if raw = [] \<or> str_contains raw [CHR 0x5C] \<or> str_contains raw '':''
      then Err (contract_invalid
        ''sealed corpus paths must be nonempty repository-style relative paths'')
      else if path_is_absolute raw \<or> \<not> list_all is_normal (path_components raw)
      then Err (contract_invalid
        ''sealed corpus path contains an absolute, parent, or non-normal component'')
      else Ok raw)"

definition oracle_labels :: "string list" where
  "oracle_labels = [''oracle'', ''hidden_oracle'', ''hidden-oracle'']"

fun reject_oracle_components :: "path_component list \<Rightarrow> unit fa_local_result" where
  "reject_oracle_components [] = Ok ()"
| "reject_oracle_components (component # components) =
     (case component of
        Normal v \<Rightarrow>
          if to_ascii_lowercase v \<in> set oracle_labels
          then Err (contract_invalid
            ''candidate-visible corpus manifest may not reference hidden oracle material'')
          else reject_oracle_components components
      | _ \<Rightarrow> Err (contract_invalid ''sealed corpus path is not normalized''))"

definition reject_oracle_component :: "string \<Rightarrow> unit fa_local_result" where
  "reject_oracle_component path = reject_oracle_components (path_components path)"

definition corpus_sha256_hex :: "corpus_env \<Rightarrow> string \<Rightarrow> string" where
  "corpus_sha256_hex env bytes = concat (map hex_byte (co_sha256 env bytes))"

section \<open>Reading\<close>

definition aggregate_entry :: "sealed_corpus_member \<Rightarrow> string" where
  "aggregate_entry m =
     sm_path m @ [CHR 0x00] @ sm_sha256 m @ [CHR 0x00] @ show_nat (unat (sm_size_bytes m)) @ newline"

text \<open>One round of the loop: the document of a member, and the bytes counted with it.\<close>

definition read_member ::
  "corpus_env \<Rightarrow> string \<Rightarrow> u64 \<Rightarrow> string set \<Rightarrow> u64 \<Rightarrow> sealed_corpus_member \<Rightarrow>
   (corpus_document \<times> u64) fa_local_result" where
  "read_member env root max_total seen used m =
     and_then (fail_if (sm_path m \<in> seen) (contract_invalid
       ''sealed corpus manifest contains duplicate member paths'')) (\<lambda>_.
     and_then (validate_relative_path (sm_path m)) (\<lambda>relative.
     and_then (reject_oracle_component relative) (\<lambda>_.
     and_then (confined_regular_file env root relative) (\<lambda>path.
     and_then (map_err Io (co_metadata env path)) (\<lambda>metadata.
     and_then (fail_if (fm_len metadata \<noteq> sm_size_bytes m \<or> fm_len metadata > MAX_MEMBER_BYTES)
       (contract_invalid (''sealed corpus member '' @ sm_path m @
         '' size does not match admitted manifest''))) (\<lambda>_.
     and_then (ok_or (checked_add used (fm_len metadata))
       (contract_invalid ''sealed corpus byte count overflowed'')) (\<lambda>used'.
     and_then (fail_if (used' > max_total)
       (contract_invalid ''sealed corpus exceeds request max_total_bytes'')) (\<lambda>_.
     and_then (map_err Io (co_read env path)) (\<lambda>bytes.
     and_then (fail_if (corpus_sha256_hex env bytes \<noteq> sm_sha256 m) (contract_invalid
       (''sealed corpus member '' @ sm_path m @ '' digest mismatch''))) (\<lambda>_.
     and_then (fail_if (\<not> co_is_utf8 env bytes) (contract_invalid
       (''sealed corpus member '' @ sm_path m @ '' is not UTF-8 text''))) (\<lambda>_.
     Ok (\<lparr>cd_relative_path = sm_path m, cd_sha256 = sm_sha256 m,
          cd_size_bytes = sm_size_bytes m, cd_content = bytes\<rparr>, used'))))))))))))"

fun read_members ::
  "corpus_env \<Rightarrow> string \<Rightarrow> u64 \<Rightarrow> string set \<Rightarrow> u64 \<Rightarrow> sealed_corpus_member list \<Rightarrow>
   (corpus_document list \<times> u64 \<times> string) fa_local_result" where
  "read_members env root max_total seen used [] = Ok ([], used, [])"
| "read_members env root max_total seen used (m # ms) =
     and_then (read_member env root max_total seen used m) (\<lambda>(document, used').
     and_then (read_members env root max_total (insert (sm_path m) seen) used' ms)
       (\<lambda>(documents, final, preimage).
     Ok (document # documents, final, aggregate_entry m @ preimage)))"

definition manifest_admitted :: "sealed_corpus_manifest \<Rightarrow> bool" where
  "manifest_admitted manifest \<longleftrightarrow>
     mf_schema_version manifest = ''FraaSealedCorpusManifest.v0'' \<and>
     mf_exposure_class manifest = ''candidate_visible'' \<and>
     mf_aggregate_profile manifest = ''path-sha256-size-v1''"

definition read_candidate_visible ::
  "corpus_env \<Rightarrow> sealed_corpus_read_request \<Rightarrow> sealed_corpus_read_receipt fa_local_result" where
  "read_candidate_visible env request =
     and_then (canonical_directory env (sq_allowed_root request)) (\<lambda>root.
     and_then (validate_relative_path (sq_manifest_relative_path request)) (\<lambda>manifest_relative.
     and_then (confined_regular_file env root manifest_relative) (\<lambda>manifest_path.
     and_then (map_err Io (co_read_to_string env manifest_path)) (\<lambda>manifest_raw.
     and_then (map_err Serialization (co_parse_manifest env manifest_raw)) (\<lambda>manifest.
     and_then (fail_if (\<not> manifest_admitted manifest) (contract_invalid
       ''sealed corpus manifest identity or exposure class is not admitted'')) (\<lambda>_.
     and_then (fail_if (mf_members manifest = [] \<or> length (mf_members manifest) > MAX_MEMBER_COUNT)
       (contract_invalid ''sealed corpus manifest member count is outside admitted bounds'')) (\<lambda>_.
     and_then (read_members env root (sq_max_total_bytes request) {} 0
       (sort_key sm_path (mf_members manifest))) (\<lambda>(documents, used, preimage).
     Ok \<lparr>sp_corpus_id = mf_corpus_id manifest,
         sp_aggregate_sha256 = corpus_sha256_hex env preimage,
         sp_member_count = length documents,
         sp_total_bytes = used,
         sp_documents = documents\<rparr>))))))))"

section \<open>What is read\<close>

definition relative_path_ok :: "string \<Rightarrow> bool" where
  "relative_path_ok raw \<longleftrightarrow>
     raw \<noteq> [] \<and> \<not> str_contains raw [CHR 0x5C] \<and> \<not> str_contains raw '':'' \<and>
     \<not> path_is_absolute raw \<and> (\<forall>c \<in> set (path_components raw). \<exists>v. c = Normal v)"

definition no_oracle :: "string \<Rightarrow> bool" where
  "no_oracle path \<longleftrightarrow>
     (\<forall>v. Normal v \<in> set (path_components path) \<longrightarrow> to_ascii_lowercase v \<notin> set oracle_labels)"

text \<open>A regular file, reached without a link in its last component, whose real path is below \<open>root\<close>.\<close>

definition file_below :: "corpus_env \<Rightarrow> string \<Rightarrow> string \<Rightarrow> string \<Rightarrow> bool" where
  "file_below env root relative path \<longleftrightarrow>
     (\<exists>metadata. co_symlink_metadata env (path_join root relative) = Ok metadata \<and>
        \<not> fm_is_symlink metadata \<and> fm_is_file metadata) \<and>
     co_canonicalize env (path_join root relative) = Ok path \<and> path_starts_with path root"

definition member_bytes :: "corpus_env \<Rightarrow> string \<Rightarrow> sealed_corpus_member \<Rightarrow> string \<Rightarrow> bool" where
  "member_bytes env root m bytes \<longleftrightarrow>
     relative_path_ok (sm_path m) \<and> no_oracle (sm_path m) \<and>
     (\<exists>path metadata. file_below env root (sm_path m) path \<and> co_metadata env path = Ok metadata \<and>
        fm_len metadata = sm_size_bytes m \<and> sm_size_bytes m \<le> MAX_MEMBER_BYTES \<and>
        co_read env path = Ok bytes) \<and>
     corpus_sha256_hex env bytes = sm_sha256 m \<and> co_is_utf8 env bytes"

definition document_of :: "sealed_corpus_member \<Rightarrow> string \<Rightarrow> corpus_document" where
  "document_of m bytes =
     \<lparr>cd_relative_path = sm_path m, cd_sha256 = sm_sha256 m, cd_size_bytes = sm_size_bytes m,
      cd_content = bytes\<rparr>"

lemma is_normal_iff: "is_normal c \<longleftrightarrow> (\<exists>v. c = Normal v)"
  by (cases c) simp_all

lemma validate_relative_path_Ok [result_simps]:
  "validate_relative_path raw = Ok p \<longleftrightarrow> relative_path_ok raw \<and> p = raw"
  by (auto simp: validate_relative_path_def relative_path_ok_def list_all_iff is_normal_iff)

lemma reject_oracle_components_Ok:
  "reject_oracle_components cs = Ok () \<longleftrightarrow>
     (\<forall>c \<in> set cs. \<exists>v. c = Normal v \<and> to_ascii_lowercase v \<notin> set oracle_labels)"
  by (induction cs) (auto split: path_component.split)

lemma reject_oracle_component_Ok:
  "relative_path_ok path \<Longrightarrow> reject_oracle_component path = Ok () \<longleftrightarrow> no_oracle path"
  by (fastforce simp: reject_oracle_component_def reject_oracle_components_Ok relative_path_ok_def
      no_oracle_def)

lemma confined_regular_file_Ok [result_simps]:
  "confined_regular_file env root relative = Ok path \<longleftrightarrow> file_below env root relative path"
  by (auto simp: confined_regular_file_def file_below_def Let_def result_simps)

lemma file_below_unique: "file_below env root r p \<Longrightarrow> file_below env root r q \<Longrightarrow> p = q"
  by (simp add: file_below_def)

lemma member_bytes_unique: "member_bytes env root m a \<Longrightarrow> member_bytes env root m b \<Longrightarrow> a = b"
  by (fastforce simp: member_bytes_def dest: file_below_unique)

definition member_document ::
  "corpus_env \<Rightarrow> string \<Rightarrow> sealed_corpus_member \<Rightarrow> corpus_document \<Rightarrow> bool" where
  "member_document env root m document \<longleftrightarrow>
     (\<exists>bytes. member_bytes env root m bytes \<and> document = document_of m bytes)"

lemma checked_add_bounded:
  fixes a b c t :: u64
  shows "checked_add a b = Some c \<and> c \<le> t \<longleftrightarrow> unat a + unat b \<le> unat t \<and> c = a + b"
proof (cases "unat a + unat b < 2 ^ 64")
  case True
  then have "unat (a + b) = unat a + unat b" by (simp add: unat_word_ariths)
  with True show ?thesis by (auto simp: checked_add_def word_le_nat_alt)
next
  case False
  with unsigned_less [of t, where ?'a = nat] show ?thesis by (auto simp: checked_add_def)
qed

lemma read_member_Ok:
  "read_member env root max_total seen used m = Ok (document, used') \<longleftrightarrow>
     sm_path m \<notin> seen \<and> unat used + unat (sm_size_bytes m) \<le> unat max_total \<and>
     used' = used + sm_size_bytes m \<and> member_document env root m document"
proof -
  have "read_member env root max_total seen used m = Ok (document, used') \<longleftrightarrow>
    sm_path m \<notin> seen \<and> (checked_add used (sm_size_bytes m) = Some used' \<and> used' \<le> max_total) \<and>
    relative_path_ok (sm_path m) \<and> reject_oracle_component (sm_path m) = Ok () \<and>
    (\<exists>path metadata bytes. file_below env root (sm_path m) path \<and> co_metadata env path = Ok metadata \<and>
       fm_len metadata = sm_size_bytes m \<and> sm_size_bytes m \<le> MAX_MEMBER_BYTES \<and>
       co_read env path = Ok bytes \<and> corpus_sha256_hex env bytes = sm_sha256 m \<and> co_is_utf8 env bytes \<and>
       document = document_of m bytes)"
    by (auto simp: read_member_def result_simps document_of_def not_less)
  also have "\<dots> \<longleftrightarrow> sm_path m \<notin> seen \<and> unat used + unat (sm_size_bytes m) \<le> unat max_total \<and>
     used' = used + sm_size_bytes m \<and> member_document env root m document"
    unfolding checked_add_bounded member_document_def member_bytes_def
    using reject_oracle_component_Ok [of "sm_path m"] by blast
  finally show ?thesis .
qed

definition sizes :: "sealed_corpus_member list \<Rightarrow> nat" where
  "sizes ms = (\<Sum>m \<leftarrow> ms. unat (sm_size_bytes m))"

text \<open>
  The loop decides: the paths are new and distinct, the sizes fit, and every member can be read; its
  result lists the documents in the order of the members.
\<close>

lemma read_members_Cons_Ok:
  "read_members env root max_total seen used (m # ms) = Ok (documents, final, preimage) \<longleftrightarrow>
    sm_path m \<notin> seen \<and> unat used + unat (sm_size_bytes m) \<le> unat max_total \<and>
    (\<exists>document documents' preimage'. documents = document # documents' \<and>
       preimage = aggregate_entry m @ preimage' \<and> member_document env root m document \<and>
       read_members env root max_total (insert (sm_path m) seen) (used + sm_size_bytes m) ms =
         Ok (documents', final, preimage'))"
  by (auto simp: and_then_Ok read_member_Ok)

lemma read_members_Ok:
  assumes "unat used \<le> unat max_total"
  shows "read_members env root max_total seen used ms = Ok (documents, final, preimage) \<longleftrightarrow>
    distinct (map sm_path ms) \<and> sm_path ` set ms \<inter> seen = {} \<and>
    unat used + sizes ms \<le> unat max_total \<and> unat final = unat used + sizes ms \<and>
    preimage = concat (map aggregate_entry ms) \<and>
    list_all2 (member_document env root) ms documents"
  using assms
proof (induction ms arbitrary: seen used documents preimage)
  case Nil
  then show ?case by (auto simp: sizes_def word_unat_eq_iff)
next
  case (Cons m ms)
  show ?case
  proof (cases "unat used + unat (sm_size_bytes m) \<le> unat max_total")
    case False
    then show ?thesis unfolding read_members_Cons_Ok by (auto simp: sizes_def)
  next
    case True
    with unsigned_less [of max_total, where ?'a = nat]
    have "unat used + unat (sm_size_bytes m) < 2 ^ LENGTH(64)" by simp
    then have add: "unat (used + sm_size_bytes m) = unat used + unat (sm_size_bytes m)"
      by (simp only: unat_add_lem [THEN iffD1])
    with True have "unat (used + sm_size_bytes m) \<le> unat max_total" by simp
    note IH = Cons.IH [OF this]
    show ?thesis
      unfolding read_members_Cons_Ok IH
      by (cases documents) (auto simp: add sizes_def True)
  qed
qed

text \<open>The corpus that a request can read.\<close>

definition corpus_at ::
  "corpus_env \<Rightarrow> sealed_corpus_read_request \<Rightarrow> string \<Rightarrow> sealed_corpus_manifest \<Rightarrow> bool" where
  "corpus_at env request root manifest \<longleftrightarrow>
     (\<exists>metadata. co_symlink_metadata env (sq_allowed_root request) = Ok metadata \<and>
        \<not> fm_is_symlink metadata \<and> fm_is_dir metadata) \<and>
     co_canonicalize env (sq_allowed_root request) = Ok root \<and>
     relative_path_ok (sq_manifest_relative_path request) \<and>
     (\<exists>path raw. file_below env root (sq_manifest_relative_path request) path \<and>
        co_read_to_string env path = Ok raw \<and> co_parse_manifest env raw = Ok manifest)"

definition corpus_admissible ::
  "corpus_env \<Rightarrow> sealed_corpus_read_request \<Rightarrow> string \<Rightarrow> sealed_corpus_manifest \<Rightarrow> bool" where
  "corpus_admissible env request root manifest \<longleftrightarrow>
     manifest_admitted manifest \<and> mf_members manifest \<noteq> [] \<and> length (mf_members manifest) \<le> 64 \<and>
     distinct (map sm_path (mf_members manifest)) \<and>
     sizes (mf_members manifest) \<le> unat (sq_max_total_bytes request) \<and>
     (\<forall>m \<in> set (mf_members manifest). \<exists>bytes. member_bytes env root m bytes)"

definition receipt_says ::
  "corpus_env \<Rightarrow> string \<Rightarrow> sealed_corpus_manifest \<Rightarrow> sealed_corpus_read_receipt \<Rightarrow> bool" where
  "receipt_says env root manifest receipt \<longleftrightarrow>
     sp_corpus_id receipt = mf_corpus_id manifest \<and>
     sp_member_count receipt = length (mf_members manifest) \<and>
     unat (sp_total_bytes receipt) = sizes (mf_members manifest) \<and>
     sp_aggregate_sha256 receipt =
       corpus_sha256_hex env (concat (map aggregate_entry (sort_key sm_path (mf_members manifest)))) \<and>
     list_all2 (member_document env root) (sort_key sm_path (mf_members manifest)) (sp_documents receipt)"

lemma sizes_mset: "mset xs = mset ys \<Longrightarrow> sizes xs = sizes ys"
  by (metis sizes_def mset_map sum_mset_sum_list)

lemma list_all2_exists: "(\<exists>ys. list_all2 P xs ys) \<longleftrightarrow> (\<forall>x \<in> set xs. \<exists>y. P x y)"
  by (induction xs) (auto simp: list_all2_Cons1)

lemma canonical_directory_Ok [result_simps]:
  "canonical_directory env path = Ok root \<longleftrightarrow>
     (\<exists>metadata. co_symlink_metadata env path = Ok metadata \<and> \<not> fm_is_symlink metadata \<and>
        fm_is_dir metadata) \<and> co_canonicalize env path = Ok root"
  by (auto simp: canonical_directory_def result_simps)

lemma receipt_eq:
  "receipt = \<lparr>sp_corpus_id = i, sp_aggregate_sha256 = h, sp_member_count = n, sp_total_bytes = t,
       sp_documents = ds\<rparr> \<longleftrightarrow>
     sp_corpus_id receipt = i \<and> sp_aggregate_sha256 receipt = h \<and> sp_member_count receipt = n \<and>
     sp_total_bytes receipt = t \<and> sp_documents receipt = ds"
  by (cases receipt) auto

lemma read_candidate_visible_Ok:
  "read_candidate_visible env request = Ok receipt \<longleftrightarrow>
     (\<exists>root manifest. corpus_at env request root manifest \<and>
        corpus_admissible env request root manifest \<and> receipt_says env root manifest receipt)"
proof -
  let ?ms = "\<lambda>manifest. sort_key sm_path (mf_members manifest)"
  have "read_candidate_visible env request = Ok receipt \<longleftrightarrow>
    (\<exists>root manifest. corpus_at env request root manifest \<and> manifest_admitted manifest \<and>
       mf_members manifest \<noteq> [] \<and> length (mf_members manifest) \<le> MAX_MEMBER_COUNT \<and>
       (\<exists>documents final preimage. read_members env root (sq_max_total_bytes request) {} 0 (?ms manifest) =
            Ok (documents, final, preimage) \<and>
          receipt = \<lparr>sp_corpus_id = mf_corpus_id manifest,
            sp_aggregate_sha256 = corpus_sha256_hex env preimage, sp_member_count = length documents,
            sp_total_bytes = final, sp_documents = documents\<rparr>))"
    by (simp add: read_candidate_visible_def corpus_at_def result_simps not_less
        eq_commute [of receipt]) blast
  also have "\<dots> \<longleftrightarrow> (\<exists>root manifest. corpus_at env request root manifest \<and>
        corpus_admissible env request root manifest \<and> receipt_says env root manifest receipt)"
  proof -
    have eq: "(\<exists>documents final preimage. read_members env root (sq_max_total_bytes request) {} 0
            (?ms manifest) = Ok (documents, final, preimage) \<and>
          receipt = \<lparr>sp_corpus_id = mf_corpus_id manifest,
            sp_aggregate_sha256 = corpus_sha256_hex env preimage, sp_member_count = length documents,
            sp_total_bytes = final, sp_documents = documents\<rparr>) \<longleftrightarrow>
        distinct (map sm_path (mf_members manifest)) \<and>
        sizes (mf_members manifest) \<le> unat (sq_max_total_bytes request) \<and>
        receipt_says env root manifest receipt" for root manifest
    proof -
      have "distinct (map sm_path (?ms manifest)) \<longleftrightarrow> distinct (map sm_path (mf_members manifest))"
        by (simp add: distinct_map)
      moreover have "sizes (?ms manifest) = sizes (mf_members manifest)"
        by (rule sizes_mset) simp
      ultimately have ok: "read_members env root (sq_max_total_bytes request) {} 0 (?ms manifest) =
            Ok (documents, final, preimage) \<longleftrightarrow>
          distinct (map sm_path (mf_members manifest)) \<and>
          sizes (mf_members manifest) \<le> unat (sq_max_total_bytes request) \<and>
          unat final = sizes (mf_members manifest) \<and>
          preimage = concat (map aggregate_entry (?ms manifest)) \<and>
          list_all2 (member_document env root) (?ms manifest) documents" for documents final preimage
        using read_members_Ok [of 0 "sq_max_total_bytes request" env root "{}" "?ms manifest"] by simp
      have "length documents = length (mf_members manifest)"
        if "list_all2 (member_document env root) (?ms manifest) documents" for documents
        using list_all2_lengthD [OF that] by simp
      then show ?thesis
        unfolding ok receipt_eq receipt_says_def by metis
    qed
    have "receipt_says env root manifest receipt \<Longrightarrow>
        \<forall>m \<in> set (mf_members manifest). \<exists>bytes. member_bytes env root m bytes" for root manifest
      using list_all2_exists [of "member_document env root" "?ms manifest"]
      by (auto simp: receipt_says_def member_document_def)
    then show ?thesis
      unfolding eq corpus_admissible_def MAX_MEMBER_COUNT_def by blast
  qed
  finally show ?thesis .
qed

end
