(* ===== verification/Reconnaissance.thy ===== *)
theory Reconnaissance
  imports Corpus Contracts
begin

text \<open>
  Reuse reconnaissance, \<open>src/domain/reuse_reconnaissance/mod.rs\<close>: the input with its authority boundary,
  the deterministic engine that classifies donors and selects a topology, and the frozen result with
  its hash.

  The schema files and the validator are those of \<open>contract_env\<close>; the derived decoders and serialisers
  and SHA-256 are the fields of \<open>recon_env\<close>.
\<close>

section \<open>Data\<close>

definition FRAA_CP1_STEP_IDS :: "string list" where
  "FRAA_CP1_STEP_IDS =
     [''validate_sealed_manifest'', ''read_candidate_visible'', ''normalize_evidence'',
      ''classify_donor_capabilities'', ''select_topology'', ''freeze_reconnaissance_result'']"

datatype target_repository_posture = NewPrivateApplication | ExistingRepositoryRefactor

datatype reuse_mode =
  DirectDependency | Vendoring | BoundedExtraction | InterfaceReuse | TestVectorReuse
| PatternReimplementation | ServiceConsumption | Hold | Reject

datatype donor_disposition = QualifiedCandidate | Held | Rejected

datatype evidence_class =
  PinnedCiAndSourceReview | SourceReviewAndTests | SourceReviewOnly | Unproven

record reconnaissance_authority =
  ra_execution_owner :: string
  ra_network_allowed :: bool
  ra_model_allowed :: bool
  ra_repository_mutation_allowed :: bool
  ra_hidden_oracle_allowed :: bool

record reuse_reconnaissance_input =
  ri_schema_version :: string
  ri_run_id :: string
  ri_capability_id :: capability_id
  ri_corpus_manifest_path :: string
  ri_expected_corpus_aggregate_sha256 :: string
  ri_target_application :: string
  ri_target_repository_posture :: target_repository_posture
  ri_required_capabilities :: "string list"
  ri_prohibited_effects :: "string list"
  ri_authority :: reconnaissance_authority

record donor_candidate_decision =
  dc_capability_id :: string
  dc_source_repo :: string
  dc_source_commit :: string
  dc_source_paths :: "string list"
  dc_evidence_class :: evidence_class
  dc_reuse_mode :: reuse_mode
  dc_disposition :: donor_disposition
  dc_blockers :: "string list"
  dc_preserved_tests :: "string list"
  dc_rationale :: string

record topology_assessment =
  ta_topology_id :: string
  ta_repository_posture :: string
  ta_hard_blockers :: "string list"
  ta_complexity_rank :: u32
  ta_selected :: bool

record authority_boundary_result =
  ab_topology_owner :: string
  ab_operator_surface :: string
  ab_execution_owner :: string
  ab_mutation_owner :: string
  ab_final_decision_owner :: string
  ab_network_allowed :: bool
  ab_model_allowed :: bool
  ab_repository_mutation_allowed :: bool

record draft_assembly_blueprint =
  bp_repository_posture :: string
  bp_deployables :: "string list"
  bp_donor_capability_ids :: "string list"
  bp_verification_obligations :: "string list"
  bp_prohibited_effects :: "string list"

record reuse_reconnaissance_result =
  rr_schema_version :: string
  rr_run_id :: string
  rr_corpus_aggregate_sha256 :: string
  rr_donor_candidates :: "donor_candidate_decision list"
  rr_critical_blockers :: "string list"
  rr_topology_alternatives :: "topology_assessment list"
  rr_selected_topology :: string
  rr_authority_boundary :: authority_boundary_result
  rr_draft_blueprint :: draft_assembly_blueprint
  rr_result_hash :: string

record target_authority_document =
  tg_topology_owner :: string
  tg_operator_surface :: string
  tg_execution_owner :: string
  tg_mutation_owner :: string
  tg_final_decision_owner :: string

record target_brief_document =
  tb_application :: string
  tb_repository_posture :: string
  tb_separate_trust_actors_required :: bool
  tb_required_capabilities :: "string list"
  tb_authority :: target_authority_document

record donor_evidence_record =
  de_capability_id :: string
  de_source_repo :: string
  de_source_commit :: string
  de_source_paths :: "string list"
  de_behavior_proven :: bool
  de_evidence_class :: evidence_class
  de_allowed_modes :: "reuse_mode list"
  de_prohibited_modes :: "reuse_mode list"
  de_blockers :: "string list"
  de_preserved_tests :: "string list"

record topology_option_record =
  to_topology_id :: string
  to_repository_posture :: string
  to_supports_new_application :: bool
  to_separate_trust_actors :: bool
  to_complexity_rank :: u32
  to_deployables :: "string list"
  to_hard_blockers :: "string list"

record constraints_document =
  cs_critical_blockers :: "string list"
  cs_verification_obligations :: "string list"

text \<open>The documents of one kind each; \<open>donors\<close> and \<open>options\<close> are the only field of their documents.\<close>

record donor_evidence_document =
  dd_donors :: "donor_evidence_record list"

record topology_options_document =
  td_options :: "topology_option_record list"

record recon_env =
  re_contracts :: contract_env
  re_decode_input :: "json \<Rightarrow> (reuse_reconnaissance_input, string) result"
  re_decode_result :: "json \<Rightarrow> (reuse_reconnaissance_result, string) result"
  re_decode_target :: "json \<Rightarrow> (target_brief_document, string) result"
  re_decode_donors :: "json \<Rightarrow> (donor_evidence_document, string) result"
  re_decode_topologies :: "json \<Rightarrow> (topology_options_document, string) result"
  re_decode_constraints :: "json \<Rightarrow> (constraints_document, string) result"
  re_to_value :: "reuse_reconnaissance_result \<Rightarrow> (json, string) result"
  re_to_vec :: "reuse_reconnaissance_result \<Rightarrow> string"
  re_sha256 :: "string \<Rightarrow> 8 word list"

section \<open>Contracts\<close>

datatype fraa_schema_name = ReconnaissanceInput | ReconnaissanceResult

fun fraa_file_name :: "fraa_schema_name \<Rightarrow> string" where
  "fraa_file_name ReconnaissanceInput = ''fraa-reconnaissance-input.v0.schema.json''"
| "fraa_file_name ReconnaissanceResult = ''fraa-reconnaissance-result.v0.schema.json''"

definition fraa_path :: "contract_env \<Rightarrow> fraa_schema_name \<Rightarrow> string" where
  "fraa_path env name = ce_manifest_dir env @ ''/schemas/'' @ fraa_file_name name"

definition validate_fraa_contract :: "contract_env \<Rightarrow> fraa_schema_name \<Rightarrow> json \<Rightarrow> unit fa_local_result" where
  "validate_fraa_contract env name v =
     and_then (load_json_value env (fraa_path env name)) (\<lambda>schema.
     and_then (map_err (SchemaCompile (fraa_file_name name)) (ce_build_validator env schema))
       (\<lambda>validator.
          let errors = validator v in
          if errors = [] then Ok ()
          else Err (SchemaValidation (fraa_file_name name) errors)))"

definition load_recon_input :: "recon_env \<Rightarrow> json \<Rightarrow> reuse_reconnaissance_input fa_local_result" where
  "load_recon_input env v =
     and_then (validate_fraa_contract (re_contracts env) ReconnaissanceInput v) (\<lambda>_.
       map_err Serialization (re_decode_input env v))"

definition validate_authority_boundary :: "reuse_reconnaissance_input \<Rightarrow> unit fa_local_result" where
  "validate_authority_boundary input =
     (let authority = ri_authority input in
      if ra_execution_owner authority \<noteq> ''fa-local-operator''
      then Err (contract_invalid ''FRAA CP1 execution owner must be fa-local-operator'')
      else if ra_network_allowed authority \<or> ra_model_allowed authority \<or>
        ra_repository_mutation_allowed authority \<or> ra_hidden_oracle_allowed authority
      then Err (contract_invalid (''FRAA CP1 authority boundary must deny network, model, '' @
        ''mutation, and oracle access''))
      else Ok ())"

section \<open>Frozen results\<close>

definition compute_hash :: "recon_env \<Rightarrow> reuse_reconnaissance_result \<Rightarrow> string" where
  "compute_hash env r = concat (map hex_byte (re_sha256 env (re_to_vec env (r\<lparr>rr_result_hash := []\<rparr>))))"

definition verify_hash :: "recon_env \<Rightarrow> reuse_reconnaissance_result \<Rightarrow> unit fa_local_result" where
  "verify_hash env r = fail_if (rr_result_hash r \<noteq> compute_hash env r) (contract_invalid
     ''FRAA reconnaissance result hash does not match canonical result content'')"

definition load_recon_result :: "recon_env \<Rightarrow> json \<Rightarrow> reuse_reconnaissance_result fa_local_result" where
  "load_recon_result env v =
     and_then (validate_fraa_contract (re_contracts env) ReconnaissanceResult v) (\<lambda>_.
     and_then (map_err Serialization (re_decode_result env v)) (\<lambda>r.
     and_then (verify_hash env r) (\<lambda>_. Ok r)))"

definition freeze :: "recon_env \<Rightarrow> reuse_reconnaissance_result \<Rightarrow> reuse_reconnaissance_result fa_local_result" where
  "freeze env r =
     (let r = r\<lparr>rr_result_hash := compute_hash env r\<rparr> in
      and_then (map_err Serialization (re_to_value env r)) (\<lambda>v.
      and_then (validate_fraa_contract (re_contracts env) ReconnaissanceResult v) (\<lambda>_.
      and_then (verify_hash env r) (\<lambda>_. Ok r))))"

section \<open>Donors and topologies\<close>

definition sorted_unique :: "string list \<Rightarrow> string list" where
  "sorted_unique xs = sorted_list_of_set (set xs)"

fun reuse_mode_label :: "reuse_mode \<Rightarrow> string" where
  "reuse_mode_label DirectDependency = ''direct_dependency''"
| "reuse_mode_label Vendoring = ''vendoring''"
| "reuse_mode_label BoundedExtraction = ''bounded_extraction''"
| "reuse_mode_label InterfaceReuse = ''interface_reuse''"
| "reuse_mode_label TestVectorReuse = ''test_vector_reuse''"
| "reuse_mode_label PatternReimplementation = ''pattern_reimplementation''"
| "reuse_mode_label ServiceConsumption = ''service_consumption''"
| "reuse_mode_label Hold = ''hold''"
| "reuse_mode_label Reject = ''reject''"

definition mode_priority :: "reuse_mode list" where
  "mode_priority =
     [ServiceConsumption, InterfaceReuse, BoundedExtraction, TestVectorReuse,
      PatternReimplementation, DirectDependency, Vendoring]"

definition select_reuse_mode :: "donor_evidence_record \<Rightarrow> reuse_mode" where
  "select_reuse_mode donor =
     (if \<not> de_behavior_proven donor then Reject
      else
        let allowed = set (filter (\<lambda>mode. mode \<notin> set (de_prohibited_modes donor))
              (de_allowed_modes donor)) in
        case find (\<lambda>mode. mode \<in> allowed) mode_priority of
          Some mode \<Rightarrow> mode
        | None \<Rightarrow> Reject)"

definition classify_donor :: "donor_evidence_record \<Rightarrow> donor_candidate_decision fa_local_result" where
  "classify_donor donor =
     (let reuse_mode = select_reuse_mode donor;
          blockers = sorted_unique (de_blockers donor);
          disposition = (if reuse_mode = Reject then Rejected
            else if blockers = [] then QualifiedCandidate else Held);
          rationale = (case disposition of
            Rejected \<Rightarrow> ''No admitted reuse mode remains after evidence and prohibition checks.''
          | Held \<Rightarrow> ''Behavior is proven, but '' @ show_nat (length blockers) @
              '' blocker(s) require resolution before '' @ reuse_mode_label reuse_mode @ ''.''
          | QualifiedCandidate \<Rightarrow> ''Behavior is proven and '' @ reuse_mode_label reuse_mode @
              '' is the highest-priority compatible reuse mode.'') in
      Ok \<lparr>dc_capability_id = de_capability_id donor, dc_source_repo = de_source_repo donor,
          dc_source_commit = de_source_commit donor,
          dc_source_paths = sorted_unique (de_source_paths donor),
          dc_evidence_class = de_evidence_class donor, dc_reuse_mode = reuse_mode,
          dc_disposition = disposition, dc_blockers = blockers,
          dc_preserved_tests = sorted_unique (de_preserved_tests donor), dc_rationale = rationale\<rparr>)"

definition topology_eligible :: "target_brief_document \<Rightarrow> topology_option_record \<Rightarrow> bool" where
  "topology_eligible target option \<longleftrightarrow>
     to_hard_blockers option = [] \<and>
     (tb_repository_posture target \<noteq> ''new_private_application'' \<or> to_supports_new_application option) \<and>
     (\<not> tb_separate_trust_actors_required target \<or> to_separate_trust_actors option)"

definition select_topology ::
  "target_brief_document \<Rightarrow> topology_option_record list \<Rightarrow> topology_option_record fa_local_result" where
  "select_topology target options =
     (case sort_key (\<lambda>option. (to_complexity_rank option, to_topology_id option))
         (filter (topology_eligible target) options) of
        option # _ \<Rightarrow> Ok option
      | [] \<Rightarrow> Err (contract_invalid ''no topology option satisfies target constraints''))"

fun repository_posture_label :: "target_repository_posture \<Rightarrow> string" where
  "repository_posture_label NewPrivateApplication = ''new_private_application''"
| "repository_posture_label ExistingRepositoryRefactor = ''existing_repository_refactor''"

section \<open>The engine\<close>

record recon_documents =
  rs_target_brief :: "target_brief_document option"
  rs_donor_evidence :: "donor_evidence_document option"
  rs_topology_options :: "topology_options_document option"
  rs_constraints :: "constraints_document option"

definition no_documents :: recon_documents where
  "no_documents =
     \<lparr>rs_target_brief = None, rs_donor_evidence = None, rs_topology_options = None,
      rs_constraints = None\<rparr>"

definition set_once :: "'t option \<Rightarrow> 't \<Rightarrow> string \<Rightarrow> 't option fa_local_result" where
  "set_once slot v kind =
     (if slot \<noteq> None
      then Err (contract_invalid (''duplicate candidate-visible document kind '' @ kind))
      else Ok (Some v))"

definition read_document ::
  "recon_env \<Rightarrow> corpus_document \<Rightarrow> recon_documents \<Rightarrow> recon_documents fa_local_result" where
  "read_document env document slots =
     and_then (map_err Serialization (ce_from_str (re_contracts env) (cd_content document))) (\<lambda>v.
     and_then (ok_or (case json_get v ''kind'' of Some (JString kind) \<Rightarrow> Some kind | _ \<Rightarrow> None)
       (contract_invalid (''candidate-visible document '' @ cd_relative_path document @
         '' has no kind''))) (\<lambda>kind.
     if kind = ''target_brief'' then
       and_then (map_err Serialization (re_decode_target env v)) (\<lambda>d.
       and_then (set_once (rs_target_brief slots) d kind) (\<lambda>slot.
       Ok (slots\<lparr>rs_target_brief := slot\<rparr>)))
     else if kind = ''donor_evidence'' then
       and_then (map_err Serialization (re_decode_donors env v)) (\<lambda>d.
       and_then (set_once (rs_donor_evidence slots) d kind) (\<lambda>slot.
       Ok (slots\<lparr>rs_donor_evidence := slot\<rparr>)))
     else if kind = ''topology_options'' then
       and_then (map_err Serialization (re_decode_topologies env v)) (\<lambda>d.
       and_then (set_once (rs_topology_options slots) d kind) (\<lambda>slot.
       Ok (slots\<lparr>rs_topology_options := slot\<rparr>)))
     else if kind = ''constraints'' then
       and_then (map_err Serialization (re_decode_constraints env v)) (\<lambda>d.
       and_then (set_once (rs_constraints slots) d kind) (\<lambda>slot.
       Ok (slots\<lparr>rs_constraints := slot\<rparr>)))
     else Err (contract_invalid (''unsupported candidate-visible document kind '' @ kind))))"

fun read_documents ::
  "recon_env \<Rightarrow> corpus_document list \<Rightarrow> recon_documents \<Rightarrow> recon_documents fa_local_result" where
  "read_documents env [] slots = Ok slots"
| "read_documents env (document # documents) slots =
     and_then (read_document env document slots) (read_documents env documents)"

definition assess_topology :: "string \<Rightarrow> topology_option_record \<Rightarrow> topology_assessment" where
  "assess_topology selected_id option =
     \<lparr>ta_topology_id = to_topology_id option, ta_repository_posture = to_repository_posture option,
      ta_hard_blockers = sorted_unique (to_hard_blockers option),
      ta_complexity_rank = to_complexity_rank option,
      ta_selected = (to_topology_id option = selected_id)\<rparr>"

definition analyze ::
  "recon_env \<Rightarrow> reuse_reconnaissance_input \<Rightarrow> string \<Rightarrow> corpus_document list \<Rightarrow>
   reuse_reconnaissance_result fa_local_result" where
  "analyze env input aggregate documents =
     and_then (validate_authority_boundary input) (\<lambda>_.
     and_then (fail_if (aggregate \<noteq> ri_expected_corpus_aggregate_sha256 input) (contract_invalid
       ''sealed corpus aggregate does not match FRAA input binding'')) (\<lambda>_.
     and_then (read_documents env documents no_documents) (\<lambda>slots.
     and_then (ok_or (rs_target_brief slots) (contract_invalid ''missing target_brief document'')) (\<lambda>target.
     and_then (ok_or (rs_donor_evidence slots) (contract_invalid ''missing donor_evidence document'')) (\<lambda>donors.
     and_then (ok_or (rs_topology_options slots) (contract_invalid ''missing topology_options document'')) (\<lambda>topologies.
     and_then (ok_or (rs_constraints slots) (contract_invalid ''missing constraints document'')) (\<lambda>constraints.
     and_then (fail_if (tb_application target \<noteq> ri_target_application input \<or>
         tb_repository_posture target \<noteq> repository_posture_label (ri_target_repository_posture input))
       (contract_invalid ''target brief does not match FRAA input target binding'')) (\<lambda>_.
     and_then (try_map classify_donor (dd_donors donors)) (\<lambda>classified.
     let donor_candidates = sort_key dc_capability_id classified in
     and_then (select_topology target (td_options topologies)) (\<lambda>selected.
     freeze env
       \<lparr>rr_schema_version = ''FraaReconnaissanceResult.v0'',
        rr_run_id = ri_run_id input,
        rr_corpus_aggregate_sha256 = aggregate,
        rr_donor_candidates = donor_candidates,
        rr_critical_blockers = sorted_unique
          (cs_critical_blockers constraints @ concat (map dc_blockers donor_candidates)),
        rr_topology_alternatives = sort_key ta_topology_id
          (map (assess_topology (to_topology_id selected)) (td_options topologies)),
        rr_selected_topology = to_topology_id selected,
        rr_authority_boundary =
          \<lparr>ab_topology_owner = tg_topology_owner (tb_authority target),
           ab_operator_surface = tg_operator_surface (tb_authority target),
           ab_execution_owner = tg_execution_owner (tb_authority target),
           ab_mutation_owner = tg_mutation_owner (tb_authority target),
           ab_final_decision_owner = tg_final_decision_owner (tb_authority target),
           ab_network_allowed = False, ab_model_allowed = False,
           ab_repository_mutation_allowed = False\<rparr>,
        rr_draft_blueprint =
          \<lparr>bp_repository_posture = to_repository_posture selected,
           bp_deployables = to_deployables selected,
           bp_donor_capability_ids =
             map dc_capability_id (filter (\<lambda>c. dc_disposition c \<noteq> Rejected) donor_candidates),
           bp_verification_obligations = sorted_unique (cs_verification_obligations constraints),
           bp_prohibited_effects = sorted_unique (ri_prohibited_effects input)\<rparr>,
        rr_result_hash = []\<rparr>))))))))))"

section \<open>What the engine decides\<close>

definition admitted_modes :: "donor_evidence_record \<Rightarrow> reuse_mode set" where
  "admitted_modes donor =
     (if de_behavior_proven donor
      then (set (de_allowed_modes donor) - set (de_prohibited_modes donor)) - {Hold, Reject} else {})"

fun mode_rank :: "reuse_mode \<Rightarrow> nat" where
  "mode_rank ServiceConsumption = 0"
| "mode_rank InterfaceReuse = 1"
| "mode_rank BoundedExtraction = 2"
| "mode_rank TestVectorReuse = 3"
| "mode_rank PatternReimplementation = 4"
| "mode_rank DirectDependency = 5"
| "mode_rank Vendoring = 6"
| "mode_rank _ = 7"

lemma all_modes:
  "(\<forall>m. P m) \<longleftrightarrow> P ServiceConsumption \<and> P InterfaceReuse \<and> P BoundedExtraction \<and> P TestVectorReuse \<and>
     P PatternReimplementation \<and> P DirectDependency \<and> P Vendoring \<and> P Hold \<and> P Reject"
  by (rule iffI) (simp, intro allI, case_tac m, simp_all)

lemma find_mode_priority:
  assumes "(case find (\<lambda>mode. mode \<in> A) mode_priority of Some mode \<Rightarrow> mode | None \<Rightarrow> Reject) = m"
  shows "if A - {Hold, Reject} = {} then m = Reject
     else m \<in> A - {Hold, Reject} \<and> (\<forall>m' \<in> A - {Hold, Reject}. mode_rank m \<le> mode_rank m')"
  using assms unfolding set_eq_iff Ball_def all_modes
  by (simp add: mode_priority_def split: if_splits)

text \<open>The mode of a donor is the first of the priorities that its evidence admits.\<close>

lemma select_reuse_mode_best:
  "if admitted_modes donor = {} then select_reuse_mode donor = Reject
   else select_reuse_mode donor \<in> admitted_modes donor \<and>
     (\<forall>m \<in> admitted_modes donor. mode_rank (select_reuse_mode donor) \<le> mode_rank m)"
proof (cases "de_behavior_proven donor")
  case True
  let ?A = "set (filter (\<lambda>mode. mode \<notin> set (de_prohibited_modes donor)) (de_allowed_modes donor))"
  have A: "admitted_modes donor = ?A - {Hold, Reject}"
    using True by (auto simp: admitted_modes_def)
  have "(case find (\<lambda>mode. mode \<in> ?A) mode_priority of Some mode \<Rightarrow> mode | None \<Rightarrow> Reject) =
      select_reuse_mode donor"
    using True by (simp add: select_reuse_mode_def Let_def)
  from find_mode_priority [OF this] show ?thesis unfolding A .
qed (simp add: admitted_modes_def select_reuse_mode_def)

text \<open>What the decision on a donor says.\<close>

definition candidate_of :: "donor_evidence_record \<Rightarrow> donor_candidate_decision \<Rightarrow> bool" where
  "candidate_of donor c \<longleftrightarrow>
     dc_capability_id c = de_capability_id donor \<and> dc_evidence_class c = de_evidence_class donor \<and>
     dc_source_commit c = de_source_commit donor \<and> set (dc_blockers c) = set (de_blockers donor) \<and>
     (if admitted_modes donor = {} then dc_reuse_mode c = Reject
      else dc_reuse_mode c \<in> admitted_modes donor \<and>
        (\<forall>m \<in> admitted_modes donor. mode_rank (dc_reuse_mode c) \<le> mode_rank m)) \<and>
     dc_disposition c =
       (if admitted_modes donor = {} then Rejected
        else if de_blockers donor = [] then QualifiedCandidate else Held)"

lemma sorted_unique_simps [simp]:
  "set (sorted_unique xs) = set xs" "sorted (sorted_unique xs)" "distinct (sorted_unique xs)"
  "sorted_unique xs = [] \<longleftrightarrow> xs = []"
  by (simp_all add: sorted_unique_def)

lemma classify_donor_Ok: "\<exists>c. classify_donor donor = Ok c \<and> candidate_of donor c"
proof -
  have "admitted_modes donor = {} \<longleftrightarrow> select_reuse_mode donor = Reject"
    using select_reuse_mode_best [of donor] by (auto simp: admitted_modes_def split: if_splits)
  then show ?thesis
    using select_reuse_mode_best [of donor]
    by (auto simp: classify_donor_def candidate_of_def Let_def)
qed

text \<open>A topology that the target can take: nothing blocks it and it has what the target asks for.\<close>

definition topology_fits :: "target_brief_document \<Rightarrow> topology_option_record \<Rightarrow> bool" where
  "topology_fits target option \<longleftrightarrow>
     set (to_hard_blockers option) = {} \<and>
     (tb_repository_posture target = ''new_private_application'' \<longrightarrow> to_supports_new_application option) \<and>
     (tb_separate_trust_actors_required target \<longrightarrow> to_separate_trust_actors option)"

lemma topology_eligible_iff: "topology_eligible target option \<longleftrightarrow> topology_fits target option"
  by (auto simp: topology_eligible_def topology_fits_def)

definition least_topology ::
  "target_brief_document \<Rightarrow> topology_option_record list \<Rightarrow> topology_option_record \<Rightarrow> bool" where
  "least_topology target options option \<longleftrightarrow>
     option \<in> set options \<and> topology_fits target option \<and>
     (\<forall>other \<in> set options. topology_fits target other \<longrightarrow>
        to_complexity_rank option < to_complexity_rank other \<or>
        to_complexity_rank option = to_complexity_rank other \<and>
        to_topology_id option \<le> to_topology_id other)"

lemma select_topology_Ok:
  assumes "select_topology target options = Ok option"
  shows "least_topology target options option"
proof -
  let ?key = "\<lambda>option. (to_complexity_rank option, to_topology_id option)"
  let ?sorted = "sort_key ?key (filter (topology_eligible target) options)"
  from assms obtain rest where s: "?sorted = option # rest"
    by (auto simp: select_topology_def split: list.splits)
  have members: "set (option # rest) = {o' \<in> set options. topology_eligible target o'}"
    unfolding s [symmetric] by auto
  have "sorted (map ?key (option # rest))" unfolding s [symmetric] by simp
  then have "\<forall>other \<in> set (option # rest). ?key option \<le> ?key other" by auto
  with members show ?thesis
    by (auto simp: least_topology_def less_eq_prod_def topology_eligible_iff)
qed

lemma select_topology_decides:
  "(\<exists>option. select_topology target options = Ok option) \<longleftrightarrow>
     (\<exists>option \<in> set options. topology_fits target option)"
proof -
  let ?sorted = "sort_key (\<lambda>option. (to_complexity_rank option, to_topology_id option))
    (filter (topology_eligible target) options)"
  have "set ?sorted = {option \<in> set options. topology_eligible target option}" by auto
  then show ?thesis
    by (cases ?sorted) (auto simp: select_topology_def topology_eligible_iff)
qed

section \<open>Frozen results are intact\<close>

lemma digit_char_inj: "m < 16 \<Longrightarrow> n < 16 \<Longrightarrow> digit_char m = digit_char n \<Longrightarrow> m = n"
  by (auto simp: digit_char_def split: if_splits dest!: arg_cong [where f = "of_char :: char \<Rightarrow> nat"])

lemma hex_byte_inj: "hex_byte a = hex_byte b \<Longrightarrow> a = b"
proof -
  assume eq: "hex_byte a = hex_byte b"
  have lt: "unat x div 16 < 16" "unat x mod 16 < 16" for x :: "8 word"
    using unsigned_less [of x, where ?'a = nat] by simp_all
  from eq have "unat a div 16 = unat b div 16" "unat a mod 16 = unat b mod 16"
    using digit_char_inj lt by (auto simp: hex_byte_def)
  then have "unat a = unat b" by (metis div_mult_mod_eq)
  then show "a = b" by (simp add: word_unat_eq_iff)
qed

lemma hex_digest_inj: "concat (map hex_byte xs) = concat (map hex_byte ys) \<Longrightarrow> xs = ys"
proof (induction xs arbitrary: ys)
  case Nil
  then show ?case by (cases ys) (simp_all add: hex_byte_def)
next
  case (Cons x xs)
  then obtain y ys' where ys: "ys = y # ys'" by (cases ys) (simp_all add: hex_byte_def)
  with Cons.prems have "hex_byte x = hex_byte y" "concat (map hex_byte xs) = concat (map hex_byte ys')"
    by simp_all
  with Cons.IH hex_byte_inj ys show ?case by blast
qed

lemma compute_hash_clears [simp]:
  "compute_hash env (r\<lparr>rr_result_hash := h\<rparr>) = compute_hash env r"
  by (simp add: compute_hash_def)

lemma freeze_Ok:
  "freeze env r = Ok f \<longleftrightarrow> f = r\<lparr>rr_result_hash := compute_hash env r\<rparr> \<and>
     (\<exists>v. re_to_value env f = Ok v \<and>
        validate_fraa_contract (re_contracts env) ReconnaissanceResult v = Ok ())"
  by (auto simp: freeze_def verify_hash_def Let_def result_simps)

lemma load_recon_result_Ok:
  "load_recon_result env v = Ok r \<longleftrightarrow>
     validate_fraa_contract (re_contracts env) ReconnaissanceResult v = Ok () \<and>
     re_decode_result env v = Ok r \<and> rr_result_hash r = compute_hash env r"
  by (auto simp: load_recon_result_def verify_hash_def result_simps)

section \<open>What a result rests on\<close>

definition authority_denies_all :: "reuse_reconnaissance_input \<Rightarrow> bool" where
  "authority_denies_all input \<longleftrightarrow>
     ra_execution_owner (ri_authority input) = ''fa-local-operator'' \<and>
     \<not> ra_network_allowed (ri_authority input) \<and> \<not> ra_model_allowed (ri_authority input) \<and>
     \<not> ra_repository_mutation_allowed (ri_authority input) \<and>
     \<not> ra_hidden_oracle_allowed (ri_authority input)"

text \<open>What a document of the corpus is, by its kind.\<close>

datatype recon_part =
  TargetPart target_brief_document
| DonorsPart donor_evidence_document
| TopologiesPart topology_options_document
| ConstraintsPart constraints_document

fun part_kind :: "recon_part \<Rightarrow> string" where
  "part_kind (TargetPart _) = ''target_brief''"
| "part_kind (DonorsPart _) = ''donor_evidence''"
| "part_kind (TopologiesPart _) = ''topology_options''"
| "part_kind (ConstraintsPart _) = ''constraints''"

fun decodes_part :: "recon_env \<Rightarrow> json \<Rightarrow> recon_part \<Rightarrow> bool" where
  "decodes_part env v (TargetPart d) \<longleftrightarrow> re_decode_target env v = Ok d"
| "decodes_part env v (DonorsPart d) \<longleftrightarrow> re_decode_donors env v = Ok d"
| "decodes_part env v (TopologiesPart d) \<longleftrightarrow> re_decode_topologies env v = Ok d"
| "decodes_part env v (ConstraintsPart d) \<longleftrightarrow> re_decode_constraints env v = Ok d"

definition document_says :: "recon_env \<Rightarrow> corpus_document \<Rightarrow> recon_part \<Rightarrow> bool" where
  "document_says env document part \<longleftrightarrow>
     (\<exists>v. ce_from_str (re_contracts env) (cd_content document) = Ok v \<and>
        json_get v ''kind'' = Some (JString (part_kind part)) \<and> decodes_part env v part)"

text \<open>The documents that the corpus holds, in any order: one of each kind.\<close>

definition corpus_says ::
  "recon_env \<Rightarrow> corpus_document list \<Rightarrow> target_brief_document \<Rightarrow> donor_evidence_record list \<Rightarrow>
   topology_option_record list \<Rightarrow> constraints_document \<Rightarrow> bool" where
  "corpus_says env documents target donors options constraints \<longleftrightarrow>
     (\<exists>parts. list_all2 (document_says env) documents parts \<and>
        mset parts = {#TargetPart target, DonorsPart \<lparr>dd_donors = donors\<rparr>,
          TopologiesPart \<lparr>td_options = options\<rparr>, ConstraintsPart constraints#})"

text \<open>The slots of the reading loop hold the parts read so far.\<close>

definition parts_of :: "recon_documents \<Rightarrow> recon_part multiset" where
  "parts_of slots =
     image_mset TargetPart (mset (map the (filter (\<lambda>x. x \<noteq> None) [rs_target_brief slots]))) +
     image_mset DonorsPart (mset (map the (filter (\<lambda>x. x \<noteq> None) [rs_donor_evidence slots]))) +
     image_mset TopologiesPart (mset (map the (filter (\<lambda>x. x \<noteq> None) [rs_topology_options slots]))) +
     image_mset ConstraintsPart (mset (map the (filter (\<lambda>x. x \<noteq> None) [rs_constraints slots])))"

fun put_part :: "recon_part \<Rightarrow> recon_documents \<Rightarrow> recon_documents" where
  "put_part (TargetPart d) slots = slots\<lparr>rs_target_brief := Some d\<rparr>"
| "put_part (DonorsPart d) slots = slots\<lparr>rs_donor_evidence := Some d\<rparr>"
| "put_part (TopologiesPart d) slots = slots\<lparr>rs_topology_options := Some d\<rparr>"
| "put_part (ConstraintsPart d) slots = slots\<lparr>rs_constraints := Some d\<rparr>"

fun slot_free :: "recon_part \<Rightarrow> recon_documents \<Rightarrow> bool" where
  "slot_free (TargetPart d) slots \<longleftrightarrow> rs_target_brief slots = None"
| "slot_free (DonorsPart d) slots \<longleftrightarrow> rs_donor_evidence slots = None"
| "slot_free (TopologiesPart d) slots \<longleftrightarrow> rs_topology_options slots = None"
| "slot_free (ConstraintsPart d) slots \<longleftrightarrow> rs_constraints slots = None"

lemma set_once_Ok [result_simps]: "set_once slot v kind = Ok s \<longleftrightarrow> slot = None \<and> s = Some v"
  by (auto simp: set_once_def)

lemma parts_of_put: "slot_free p slots \<Longrightarrow> parts_of (put_part p slots) = add_mset p (parts_of slots)"
  by (cases p) (simp_all add: parts_of_def)

lemma parts_of_in:
  "TargetPart d \<in># parts_of slots \<longleftrightarrow> rs_target_brief slots = Some d"
  "DonorsPart e \<in># parts_of slots \<longleftrightarrow> rs_donor_evidence slots = Some e"
  "TopologiesPart f \<in># parts_of slots \<longleftrightarrow> rs_topology_options slots = Some f"
  "ConstraintsPart g \<in># parts_of slots \<longleftrightarrow> rs_constraints slots = Some g"
  by (auto simp: parts_of_def split: if_splits)

lemma slot_free_kind: "slot_free p slots \<longleftrightarrow> part_kind p \<notin> part_kind ` set_mset (parts_of slots)"
  by (cases p) (auto simp: parts_of_def)

lemma parts_of_no_documents [simp]: "parts_of no_documents = {#}"
  by (simp add: parts_of_def no_documents_def)

lemma read_document_Ok:
  "read_document env document slots = Ok slots' \<longleftrightarrow>
     (\<exists>p. document_says env document p \<and> slot_free p slots \<and> slots' = put_part p slots)"
proof
  assume "read_document env document slots = Ok slots'"
  then show "\<exists>p. document_says env document p \<and> slot_free p slots \<and> slots' = put_part p slots"
    unfolding read_document_def document_says_def
    by (auto simp: result_simps split: if_splits option.splits json.splits
        intro: exI [of _ "TargetPart _"] exI [of _ "DonorsPart _"] exI [of _ "TopologiesPart _"]
          exI [of _ "ConstraintsPart _"])
next
  assume "\<exists>p. document_says env document p \<and> slot_free p slots \<and> slots' = put_part p slots"
  then obtain p where p: "document_says env document p" "slot_free p slots" "slots' = put_part p slots"
    by blast
  then show "read_document env document slots = Ok slots'"
    by (cases p) (auto simp: document_says_def read_document_def set_once_def)
qed

lemma read_documents_parts:
  "read_documents env documents slots = Ok slots' \<Longrightarrow>
     \<exists>parts. list_all2 (document_says env) documents parts \<and> parts_of slots' = parts_of slots + mset parts"
proof (induction documents arbitrary: slots)
  case (Cons document documents)
  from Cons.prems obtain p where p: "document_says env document p" "slot_free p slots"
    and rest: "read_documents env documents (put_part p slots) = Ok slots'"
    by (auto simp: and_then_Ok read_document_Ok)
  from Cons.IH [OF rest] obtain parts where "list_all2 (document_says env) documents parts"
    "parts_of slots' = parts_of slots + mset (p # parts)" by (auto simp: parts_of_put [OF p(2)])
  with p(1) show ?case by (intro exI [of _ "p # parts"]) simp
qed simp

lemma read_documents_answers:
  assumes "list_all2 (document_says env) documents parts" "distinct (map part_kind parts)"
    and "part_kind ` set parts \<inter> part_kind ` set_mset (parts_of slots) = {}"
  shows "\<exists>slots'. read_documents env documents slots = Ok slots' \<and>
    parts_of slots' = parts_of slots + mset parts"
  using assms
proof (induction arbitrary: slots rule: list_all2_induct)
  case (Cons document documents p parts)
  then have free: "slot_free p slots" by (auto simp: slot_free_kind)
  with Cons.hyps(1) have read: "read_document env document slots = Ok (put_part p slots)"
    by (auto simp: read_document_Ok)
  from Cons.prems have "part_kind ` set parts \<inter> part_kind ` set_mset (parts_of (put_part p slots)) = {}"
    by (auto simp: parts_of_put [OF free])
  from Cons.IH [OF _ this] Cons.prems(1) show ?case
    by (auto simp: read parts_of_put [OF free])
qed simp

lemma corpus_says_iff:
  "corpus_says env documents target donors options constraints \<longleftrightarrow>
     read_documents env documents no_documents = Ok
       \<lparr>rs_target_brief = Some target, rs_donor_evidence = Some \<lparr>dd_donors = donors\<rparr>,
        rs_topology_options = Some \<lparr>td_options = options\<rparr>, rs_constraints = Some constraints\<rparr>"
  (is "_ \<longleftrightarrow> _ = Ok ?slots")
proof -
  let ?parts = "{#TargetPart target, DonorsPart \<lparr>dd_donors = donors\<rparr>,
    TopologiesPart \<lparr>td_options = options\<rparr>, ConstraintsPart constraints#}"
  have all: "parts_of ?slots = ?parts" by (simp add: parts_of_def)
  have only: "slots = ?slots" if "parts_of slots = ?parts" for slots
  proof -
    from that have "TargetPart target \<in># parts_of slots" "DonorsPart \<lparr>dd_donors = donors\<rparr> \<in># parts_of slots"
      "TopologiesPart \<lparr>td_options = options\<rparr> \<in># parts_of slots" "ConstraintsPart constraints \<in># parts_of slots"
      by simp_all
    then show ?thesis by (cases slots) (simp add: parts_of_in)
  qed
  show ?thesis
  proof
    assume "corpus_says env documents target donors options constraints"
    then obtain parts where parts: "list_all2 (document_says env) documents parts" "mset parts = ?parts"
      by (auto simp: corpus_says_def)
    have "mset (map part_kind parts) =
        mset [''target_brief'', ''donor_evidence'', ''topology_options'', ''constraints'']"
      using parts(2) by simp
    from mset_eq_imp_distinct_iff [OF this] have "distinct (map part_kind parts)" by simp
    from read_documents_answers [OF parts(1) this, of no_documents] parts(2) only
    show "read_documents env documents no_documents = Ok ?slots" by auto
  next
    assume "read_documents env documents no_documents = Ok ?slots"
    from read_documents_parts [OF this] show "corpus_says env documents target donors options constraints"
      by (simp add: corpus_says_def all) metis
  qed
qed

definition donors_decided ::
  "donor_evidence_record list \<Rightarrow> reuse_reconnaissance_result \<Rightarrow> bool" where
  "donors_decided donors r \<longleftrightarrow>
     sorted (map dc_capability_id (rr_donor_candidates r)) \<and>
     (\<exists>candidates. mset candidates = mset (rr_donor_candidates r) \<and>
        list_all2 candidate_of donors candidates) \<and>
     bp_donor_capability_ids (rr_draft_blueprint r) = map dc_capability_id
       (filter (\<lambda>c. dc_disposition c \<noteq> Rejected) (rr_donor_candidates r))"

definition topology_decided ::
  "target_brief_document \<Rightarrow> topology_option_record list \<Rightarrow> reuse_reconnaissance_result \<Rightarrow> bool" where
  "topology_decided target options r \<longleftrightarrow>
     (\<exists>option. least_topology target options option \<and>
        rr_selected_topology r = to_topology_id option \<and>
        bp_deployables (rr_draft_blueprint r) = to_deployables option \<and>
        bp_repository_posture (rr_draft_blueprint r) = to_repository_posture option) \<and>
     sorted (map ta_topology_id (rr_topology_alternatives r)) \<and>
     mset (map ta_topology_id (rr_topology_alternatives r)) = mset (map to_topology_id options) \<and>
     (\<forall>a \<in> set (rr_topology_alternatives r).
        ta_selected a \<longleftrightarrow> ta_topology_id a = rr_selected_topology r)"

definition blockers_decided ::
  "donor_evidence_record list \<Rightarrow> constraints_document \<Rightarrow> reuse_reconnaissance_result \<Rightarrow> bool" where
  "blockers_decided donors constraints r \<longleftrightarrow>
     sorted (rr_critical_blockers r) \<and> distinct (rr_critical_blockers r) \<and>
     set (rr_critical_blockers r) =
       set (cs_critical_blockers constraints) \<union> (\<Union>d \<in> set donors. set (de_blockers d))"

definition nothing_granted :: "reuse_reconnaissance_result \<Rightarrow> bool" where
  "nothing_granted r \<longleftrightarrow>
     \<not> ab_network_allowed (rr_authority_boundary r) \<and> \<not> ab_model_allowed (rr_authority_boundary r) \<and>
     \<not> ab_repository_mutation_allowed (rr_authority_boundary r)"

lemma validate_authority_boundary_Ok [result_simps]:
  "validate_authority_boundary input = Ok u \<longleftrightarrow> authority_denies_all input"
  by (auto simp: validate_authority_boundary_def authority_denies_all_def Let_def)

lemma classify_donors_Ok:
  assumes "try_map classify_donor donors = Ok candidates"
  shows "list_all2 candidate_of donors candidates"
  using assms unfolding try_map_Ok
  by (rule list_all2_mono) (metis classify_donor_Ok result.inject(1))

lemma classify_donors_total: "\<exists>candidates. try_map classify_donor donors = Ok candidates"
  by (induction donors) (use classify_donor_Ok in \<open>force simp: classify_donor_def Let_def\<close>)+

lemma candidates_blockers:
  "list_all2 candidate_of donors candidates \<Longrightarrow>
     (\<Union>c \<in> set candidates. set (dc_blockers c)) = (\<Union>d \<in> set donors. set (de_blockers d))"
  by (induction rule: list_all2_induct) (auto simp: candidate_of_def)

lemma assessed_ids:
  "mset (map ta_topology_id (sort_key ta_topology_id (map (assess_topology i) options))) =
     mset (map to_topology_id options)"
  by (simp only: mset_map mset_sort multiset.map_comp)
    (simp add: comp_def assess_topology_def)

lemma analyze_Ok:
  assumes "analyze env input aggregate documents = Ok r"
  shows "authority_denies_all input \<and> aggregate = ri_expected_corpus_aggregate_sha256 input \<and>
    (\<exists>target donors options constraints.
       corpus_says env documents target donors options constraints \<and>
       tb_application target = ri_target_application input \<and>
       tb_repository_posture target = repository_posture_label (ri_target_repository_posture input) \<and>
       donors_decided donors r \<and> topology_decided target options r \<and>
       blockers_decided donors constraints r) \<and>
    rr_run_id r = ri_run_id input \<and> rr_corpus_aggregate_sha256 r = aggregate \<and>
    nothing_granted r \<and> rr_result_hash r = compute_hash env r \<and>
    (\<exists>v. re_to_value env r = Ok v \<and>
       validate_fraa_contract (re_contracts env) ReconnaissanceResult v = Ok ())"
proof -
  from assms obtain slots target donors topologies constraints classified selected d where
    a: "authority_denies_all input" "aggregate = ri_expected_corpus_aggregate_sha256 input"
    and slots: "read_documents env documents no_documents = Ok slots" "rs_target_brief slots = Some target"
      "rs_donor_evidence slots = Some donors" "rs_topology_options slots = Some topologies"
      "rs_constraints slots = Some constraints"
    and t: "tb_application target = ri_target_application input"
      "tb_repository_posture target = repository_posture_label (ri_target_repository_posture input)"
    and c: "try_map classify_donor (dd_donors donors) = Ok classified"
    and s: "select_topology target (td_options topologies) = Ok selected"
    and f: "freeze env d = Ok r" and d: "rr_run_id d = ri_run_id input"
      "rr_corpus_aggregate_sha256 d = aggregate" "nothing_granted d"
      "rr_donor_candidates d = sort_key dc_capability_id classified"
      "bp_donor_capability_ids (rr_draft_blueprint d) = map dc_capability_id
         (filter (\<lambda>c. dc_disposition c \<noteq> Rejected) (rr_donor_candidates d))"
      "rr_selected_topology d = to_topology_id selected"
      "bp_deployables (rr_draft_blueprint d) = to_deployables selected"
      "bp_repository_posture (rr_draft_blueprint d) = to_repository_posture selected"
      "rr_topology_alternatives d = sort_key ta_topology_id
         (map (assess_topology (to_topology_id selected)) (td_options topologies))"
      "rr_critical_blockers d = sorted_unique
         (cs_critical_blockers constraints @ concat (map dc_blockers (rr_donor_candidates d)))"
    by (fastforce simp: analyze_def result_simps Let_def nothing_granted_def)
  have says: "corpus_says env documents target (dd_donors donors) (td_options topologies) constraints"
    using slots by (cases slots; cases donors; cases topologies) (simp add: corpus_says_iff)
  note frozen = f [unfolded freeze_Ok]
  note classified = classify_donors_Ok [OF c]
  have "donors_decided (dd_donors donors) r"
    using classified frozen d(4,5) by (auto simp: donors_decided_def intro: exI [of _ classified])
  moreover have "topology_decided target (td_options topologies) r"
    using select_topology_Ok [OF s] frozen d(6-9)
    by (auto simp: topology_decided_def assessed_ids assess_topology_def
        simp del: mset_map intro!: exI [of _ selected])
  moreover have "blockers_decided (dd_donors donors) constraints r"
    using candidates_blockers [OF classified] frozen d(4,10) by (simp add: blockers_decided_def)
  ultimately show ?thesis
    using a t says frozen d(1-3) by (auto simp: nothing_granted_def)
qed

text \<open>An analysis answers when its documents fit the input and some topology is eligible.\<close>

lemma analyze_answers:
  assumes "authority_denies_all input" "aggregate = ri_expected_corpus_aggregate_sha256 input"
    and says: "corpus_says env documents target donors options constraints"
    and "tb_application target = ri_target_application input"
    and "tb_repository_posture target = repository_posture_label (ri_target_repository_posture input)"
    and eligible: "\<exists>option \<in> set options. topology_fits target option"
    and frozen: "\<And>r. \<exists>f. freeze env r = Ok f"
  shows "\<exists>r. analyze env input aggregate documents = Ok r"
proof -
  obtain candidates where "try_map classify_donor donors = Ok candidates"
    using classify_donors_total by blast
  moreover obtain option where "select_topology target options = Ok option"
    using eligible by (auto simp flip: select_topology_decides)
  ultimately show ?thesis
    using assms(1,2,4,5) says frozen validate_authority_boundary_Ok [of input "()"]
    by (simp add: analyze_def corpus_says_iff Let_def)
qed

end
