(* ===== verification/Reconnaissance_Run.thy ===== *)
theory Reconnaissance_Run
  imports Reconnaissance Routing Coordination
begin

text \<open>
  The reconnaissance service, \<open>src/app/reuse_reconnaissance_service.rs\<close>: one run checks the plan against
  the six authorised steps, routes the decision, reads the sealed corpus, analyses it and reports the
  trace of the declared plan. A panic of coordination is \<open>None\<close>.
\<close>

record reuse_reconnaissance_run =
  rn_corpus_receipt :: sealed_corpus_read_receipt
  rn_result :: reuse_reconnaissance_result
  rn_execution_trace :: execution_trace

definition validate_cp1_plan_shape ::
  "execution_plan \<Rightarrow> reuse_reconnaissance_input \<Rightarrow> unit fa_local_result" where
  "validate_cp1_plan_shape plan input =
     (if map step_id (pl_steps plan) \<noteq> FRAA_CP1_STEP_IDS
      then Err (contract_invalid
        ''FRAA CP1 execution plan does not match the authorized six-step sequence'')
      else if pl_completion_policy plan \<noteq> AllStepsMustSucceed \<or> pl_fallback_references plan \<noteq> [] \<or>
        pl_referenced_capabilities plan \<noteq> [ri_capability_id input] \<or>
        pl_declared_side_effect_classes plan \<noteq> [NoSideEffect] \<or>
        list_ex (\<lambda>step. step_capability_id step \<noteq> ri_capability_id input \<or>
          step_declared_side_effect_class step \<noteq> NoSideEffect) (pl_steps plan)
      then Err (contract_invalid
        ''FRAA CP1 execution plan broadens capability, side effect, or fallback scope'')
      else Ok ())"

record recon_run_env =
  ne_hash :: hash_env
  ne_corpus :: corpus_env
  ne_recon :: recon_env
  ne_denied_at :: timestamp

text \<open>Everything before the coordination: the receipt, the result and the input to coordinate.\<close>

definition prepare_run ::
  "recon_run_env \<Rightarrow> reuse_reconnaissance_input \<Rightarrow> route_decision \<Rightarrow> execution_plan \<Rightarrow>
   capability_registry \<Rightarrow> string \<Rightarrow> coordination_context \<Rightarrow>
   (sealed_corpus_read_receipt \<times> reuse_reconnaissance_result \<times> coordination_input) fa_local_result" where
  "prepare_run env input d plan registry corpus_root ctx =
     and_then (validate_authority_boundary input) (\<lambda>_.
     and_then (ok_or (capability_for registry (ri_capability_id input)) (contract_invalid
       ''FRAA input references an unregistered read capability'')) (\<lambda>capability.
     and_then (fail_if (cap_capability_type capability \<noteq> LocalFileRead \<or>
         cap_side_effect_class capability \<noteq> NoSideEffect) (contract_invalid
       (''FRAA CP1 requires an explicit local_file_read capability with '' @
        ''side_effect_class none''))) (\<lambda>_.
     and_then (map_err fa_local_error.Denied (validate_plan (ne_hash env) (ne_denied_at env) plan registry))
       (\<lambda>validated.
     and_then (validate_cp1_plan_shape plan input) (\<lambda>_.
     and_then (fail_if (rd_resolved_approval_posture d \<noteq> PolicyPreapproved \<or> \<not> rd_execution_allowed d)
       (contract_invalid ''FRAA CP1 route must be policy_preapproved and executable'')) (\<lambda>_.
     and_then (new_routing_input d (Some validated)) (\<lambda>routing_input.
     and_then (select_route routing_input) (\<lambda>selected.
     and_then (fail_if (\<not> sr_executable selected) (contract_invalid
       ''FRAA CP1 routing did not select an executable bounded route'')) (\<lambda>_.
     and_then (read_candidate_visible (ne_corpus env)
       \<lparr>sq_allowed_root = corpus_root, sq_manifest_relative_path = ri_corpus_manifest_path input,
        sq_max_total_bytes = 1024 * 1024\<rparr>) (\<lambda>receipt.
     and_then (analyze (ne_recon env) input (sp_aggregate_sha256 receipt) (sp_documents receipt)) (\<lambda>result.
     and_then (new_coordination_input d (Some validated) CompleteDeclaredPlan ctx) (\<lambda>coordination.
     Ok (receipt, result, coordination)))))))))))))"

definition run_reconnaissance ::
  "recon_run_env \<Rightarrow> reuse_reconnaissance_input \<Rightarrow> route_decision \<Rightarrow> execution_plan \<Rightarrow>
   capability_registry \<Rightarrow> string \<Rightarrow> coordination_context \<Rightarrow>
   reuse_reconnaissance_run fa_local_result option" where
  "run_reconnaissance env input d plan registry corpus_root ctx =
     (case prepare_run env input d plan registry corpus_root ctx of
        Err e \<Rightarrow> Some (Err e)
      | Ok (receipt, result, coordination) \<Rightarrow>
          map_option (\<lambda>trace. and_then trace (\<lambda>t. Ok
            \<lparr>rn_corpus_receipt = receipt, rn_result = result, rn_execution_trace = t\<rparr>))
            (coordinate coordination))"

section \<open>What a run rests on\<close>

definition cp1_plan :: "reuse_reconnaissance_input \<Rightarrow> execution_plan \<Rightarrow> bool" where
  "cp1_plan input plan \<longleftrightarrow>
     map step_id (pl_steps plan) = FRAA_CP1_STEP_IDS \<and>
     pl_completion_policy plan = AllStepsMustSucceed \<and> pl_fallback_references plan = [] \<and>
     pl_referenced_capabilities plan = [ri_capability_id input] \<and>
     pl_declared_side_effect_classes plan = [NoSideEffect] \<and>
     (\<forall>step \<in> set (pl_steps plan). step_capability_id step = ri_capability_id input \<and>
        step_declared_side_effect_class step = NoSideEffect)"

definition read_only_capability :: "capability_registry \<Rightarrow> capability_id \<Rightarrow> bool" where
  "read_only_capability registry i \<longleftrightarrow>
     (\<exists>capability. capability_for registry i = Some capability \<and>
        cap_capability_type capability = LocalFileRead \<and>
        cap_side_effect_class capability = NoSideEffect)"

definition recon_authorised ::
  "recon_run_env \<Rightarrow> reuse_reconnaissance_input \<Rightarrow> route_decision \<Rightarrow> execution_plan \<Rightarrow>
   capability_registry \<Rightarrow> bool" where
  "recon_authorised env input d plan registry \<longleftrightarrow>
     authority_denies_all input \<and> read_only_capability registry (ri_capability_id input) \<and>
     plan_structure_valid registry plan \<and>
     pl_stable_plan_hash plan = compute_stable_plan_hash (ne_hash env) plan \<and> cp1_plan input plan \<and>
     coherent d \<and> rd_resolved_approval_posture d = PolicyPreapproved \<and>
     pl_correlation_id plan = rd_correlation_id d \<and> pl_originating_request_id plan = rd_request_id d \<and>
     requested_capability d = ri_capability_id input"

definition recon_request :: "string \<Rightarrow> reuse_reconnaissance_input \<Rightarrow> sealed_corpus_read_request" where
  "recon_request corpus_root input =
     \<lparr>sq_allowed_root = corpus_root, sq_manifest_relative_path = ri_corpus_manifest_path input,
      sq_max_total_bytes = 1024 * 1024\<rparr>"

abbreviation validated_with :: "recon_run_env \<Rightarrow> execution_plan \<Rightarrow> validated_execution_plan" where
  "validated_with env plan \<equiv>
     \<lparr>vp_plan = plan, vp_stable_plan_hash = compute_stable_plan_hash (ne_hash env) plan\<rparr>"

lemma validate_cp1_plan_shape_Ok [result_simps]:
  "validate_cp1_plan_shape plan input = Ok u \<longleftrightarrow> cp1_plan input plan"
  by (auto simp: validate_cp1_plan_shape_def cp1_plan_def list_ex_iff)

lemma coordination_input_complete:
  assumes "coherent d" "rd_resolved_approval_posture d = PolicyPreapproved" "plan_answers d plan"
  shows "new_coordination_input d (Some plan) CompleteDeclaredPlan ctx = Ok
    \<lparr>ci_route_decision = d, ci_validated_plan = Some plan, ci_directive = CompleteDeclaredPlan,
     ci_context = ctx\<rparr>"
  using assms check_decision_surface_Ok [of _ d "()"]
  by (auto simp: new_coordination_input_def validate_coordination_surface_def check_coordination_plan_def
      validate_coordination_plan_def plan_answers_def requested_capability_def)

text \<open>The preparation succeeds exactly for an authorised run whose corpus is read and analysed.\<close>

lemma prepare_run_Ok:
  "prepare_run env input d plan registry corpus_root ctx = Ok (receipt, result, coordination) \<longleftrightarrow>
     recon_authorised env input d plan registry \<and>
     read_candidate_visible (ne_corpus env) (recon_request corpus_root input) = Ok receipt \<and>
     analyze (ne_recon env) input (sp_aggregate_sha256 receipt) (sp_documents receipt) = Ok result \<and>
     coordination = \<lparr>ci_route_decision = d, ci_validated_plan = Some (validated_with env plan),
       ci_directive = CompleteDeclaredPlan, ci_context = ctx\<rparr>"
  (is "?l \<longleftrightarrow> ?r")
proof
  assume ?l
  then obtain capability input' selected where
    p: "authority_denies_all input" "capability_for registry (ri_capability_id input) = Some capability"
      "cap_capability_type capability = LocalFileRead" "cap_side_effect_class capability = NoSideEffect"
      "plan_structure_valid registry plan"
      "pl_stable_plan_hash plan = compute_stable_plan_hash (ne_hash env) plan"
      "cp1_plan input plan" "rd_resolved_approval_posture d = PolicyPreapproved"
      "read_candidate_visible (ne_corpus env) (recon_request corpus_root input) = Ok receipt"
      "analyze (ne_recon env) input (sp_aggregate_sha256 receipt) (sp_documents receipt) = Ok result"
    and i: "new_routing_input d (Some (validated_with env plan)) = Ok input'"
    and c: "new_coordination_input d (Some (validated_with env plan)) CompleteDeclaredPlan ctx =
      Ok coordination"
    by (auto simp: prepare_run_def result_simps validate_plan_Ok recon_request_def)
  from i have d: "coherent d" "plan_answers d (validated_with env plan)"
    by (auto simp: new_routing_input_Ok)
  with p(7) have "requested_capability d = ri_capability_id input"
    by (auto simp: plan_answers_def cp1_plan_def)
  with p d c coordination_input_complete [OF d(1) p(8) d(2)] show ?r
    by (auto simp: recon_authorised_def read_only_capability_def plan_answers_def)
next
  assume r: ?r
  then have d: "coherent d" "rd_resolved_approval_posture d = PolicyPreapproved"
    "plan_answers d (validated_with env plan)"
    by (auto simp: recon_authorised_def plan_answers_def cp1_plan_def)
  then obtain i where i: "new_routing_input d (Some (validated_with env plan)) = Ok i"
    by (auto simp: new_routing_input_Ok routable_posture_def)
  from select_route_new [OF i] d obtain route where
    s: "select_route i = Ok route" "sr_executable route" by auto
  from d have "rd_execution_allowed d" by (simp add: coherent_def)
  with r d i s coordination_input_complete [OF d, of ctx] show ?l
    by (auto simp: prepare_run_def result_simps validate_plan_Ok recon_request_def recon_authorised_def
        read_only_capability_def)
qed

lemma FRAA_steps_valid: "list_all is_valid_step_id FRAA_CP1_STEP_IDS"
  by (simp add: FRAA_CP1_STEP_IDS_def is_valid_step_id_def ascii_defs)

text \<open>An authorised run ends with a complete trace when its times are in order.\<close>

lemma run_reconnaissance_cases:
  assumes "\<And>bytes. length (he_sha256 (ne_hash env) bytes) = 32"
    and "cx_started_at_utc ctx \<le> cx_completed_at_utc ctx"
  shows "case prepare_run env input d plan registry corpus_root ctx of
      Err e \<Rightarrow> run_reconnaissance env input d plan registry corpus_root ctx = Some (Err e)
    | Ok (receipt, result, coordination) \<Rightarrow>
        (\<exists>t. run_reconnaissance env input d plan registry corpus_root ctx = Some (Ok
           \<lparr>rn_corpus_receipt = receipt, rn_result = result, rn_execution_trace = t\<rparr>) \<and>
         trace_entries t = planned_entries FRAA_CP1_STEP_IDS CompleteDeclaredPlan)"
proof (cases "prepare_run env input d plan registry corpus_root ctx")
  case (Err e)
  then show ?thesis by (simp add: run_reconnaissance_def)
next
  case (Ok p)
  obtain receipt result coordination where p: "p = (receipt, result, coordination)" by (cases p)
  note prep = Ok [unfolded p prepare_run_Ok]
  then have d: "coherent d" "rd_resolved_approval_posture d = PolicyPreapproved"
    "plan_answers d (validated_with env plan)"
    by (auto simp: recon_authorised_def plan_answers_def cp1_plan_def)
  note input = coordination_input_complete [OF d, of ctx]
  have adm: "admitted_posture (rd_resolved_approval_posture d)" by (simp add: d(2))
  have ids: "plan_step_ids (validated_with env plan) = FRAA_CP1_STEP_IDS"
    using prep by (simp add: recon_authorised_def cp1_plan_def plan_step_ids_def)
  have "plan_reportable (validated_with env plan)"
    using FRAA_steps_valid ids assms(1)
    by (simp add: plan_reportable_def compute_stable_plan_hash_def hex_digest_valid)
  from coordinate_admitted_total [OF adm this assms(2), of CompleteDeclaredPlan] obtain t where
    t: "coordinate_admitted_route d (validated_with env plan) CompleteDeclaredPlan ctx = Ok t"
    by auto
  with coordinate_admitted [OF input adm] prep have c: "coordinate coordination = Some (Ok t)" by simp
  from coordinate_admitted_entries [OF t] ids
  have "trace_entries t = planned_entries FRAA_CP1_STEP_IDS CompleteDeclaredPlan" by simp
  with c Ok p show ?thesis by (simp add: run_reconnaissance_def)
qed

lemma run_reconnaissance_Ok:
  assumes "run_reconnaissance env input d plan registry corpus_root ctx = Some (Ok run)"
  shows "recon_authorised env input d plan registry \<and>
    read_candidate_visible (ne_corpus env) (recon_request corpus_root input) = Ok (rn_corpus_receipt run) \<and>
    analyze (ne_recon env) input (sp_aggregate_sha256 (rn_corpus_receipt run))
      (sp_documents (rn_corpus_receipt run)) = Ok (rn_result run) \<and>
    trace_entries (rn_execution_trace run) = planned_entries FRAA_CP1_STEP_IDS CompleteDeclaredPlan"
proof -
  from assms obtain receipt result coordination t where
    prep: "prepare_run env input d plan registry corpus_root ctx = Ok (receipt, result, coordination)"
    and c: "coordinate coordination = Some (Ok t)"
    and run: "run = \<lparr>rn_corpus_receipt = receipt, rn_result = result, rn_execution_trace = t\<rparr>"
    by (auto simp: run_reconnaissance_def and_then_Ok split: result.splits)
  note p = prep [unfolded prepare_run_Ok]
  then have d: "coherent d" "rd_resolved_approval_posture d = PolicyPreapproved"
    "plan_answers d (validated_with env plan)"
    by (auto simp: recon_authorised_def plan_answers_def cp1_plan_def)
  have "coordinate \<lparr>ci_route_decision = d, ci_validated_plan = Some (validated_with env plan),
      ci_directive = CompleteDeclaredPlan, ci_context = ctx\<rparr> = Some (Ok t)"
    using c p by simp
  from coordinate_entries [OF coordination_input_complete [OF d] this]
  have "trace_entries t = planned_entries FRAA_CP1_STEP_IDS CompleteDeclaredPlan"
    using p by (simp add: d(2) plan_step_ids_def recon_authorised_def cp1_plan_def)
  with p run show ?thesis by simp
qed

end
