(* ===== verification/Reconnaissance_Properties.thy ===== *)
theory Reconnaissance_Properties
  imports Reconnaissance_Run Samples
begin

text \<open>
  The properties of sealed corpora and reuse reconnaissance, with the corpus, the plan and the services
  that they are applied to.
\<close>

section \<open>A corpus of four documents\<close>

definition sample_member :: "string \<Rightarrow> sealed_corpus_member" where
  "sample_member path = \<lparr>sm_path = path, sm_sha256 = sample_hash, sm_size_bytes = 1\<rparr>"

definition sample_manifest :: sealed_corpus_manifest where
  "sample_manifest =
     \<lparr>mf_schema_version = ''FraaSealedCorpusManifest.v0'', mf_corpus_id = ''c'',
      mf_exposure_class = ''candidate_visible'', mf_aggregate_profile = ''path-sha256-size-v1'',
      mf_members = map sample_member [''a'', ''b'', ''c'', ''d'']\<rparr>"

text \<open>Every path is a real file of one byte, its last character; every digest is zero.\<close>

definition sample_corpus_env :: corpus_env where
  "sample_corpus_env =
     \<lparr>co_symlink_metadata = (\<lambda>path. Ok \<lparr>fm_is_symlink = False, fm_is_dir = (path = ''/corpus''),
        fm_is_file = (path \<noteq> ''/corpus''), fm_len = 1\<rparr>),
      co_metadata = (\<lambda>_. Ok \<lparr>fm_is_symlink = False, fm_is_dir = False, fm_is_file = True, fm_len = 1\<rparr>),
      co_canonicalize = Ok, co_read_to_string = Ok, co_read = (\<lambda>path. Ok [last path]),
      co_is_utf8 = (\<lambda>_. True), co_sha256 = (\<lambda>_. replicate 32 0),
      co_parse_manifest = (\<lambda>_. Ok sample_manifest)\<rparr>"

lemma zero_digest: "concat (map hex_byte (replicate 32 0)) = sample_hash"
  using sample_hash_eq by (simp add: compute_stable_plan_hash_def sample_hash_env_def)

lemma sample_sha [simp]: "corpus_sha256_hex sample_corpus_env bytes = sample_hash"
  using zero_digest by (simp add: corpus_sha256_hex_def sample_corpus_env_def)

lemma sample_corpus_env_simps:
  "co_symlink_metadata sample_corpus_env path = Ok \<lparr>fm_is_symlink = False,
     fm_is_dir = (path = ''/corpus''), fm_is_file = (path \<noteq> ''/corpus''), fm_len = 1\<rparr>"
  "co_metadata sample_corpus_env path =
     Ok \<lparr>fm_is_symlink = False, fm_is_dir = False, fm_is_file = True, fm_len = 1\<rparr>"
  "co_canonicalize sample_corpus_env path = Ok path"
  "co_read_to_string sample_corpus_env path = Ok path"
  "co_read sample_corpus_env path = Ok [last path]" "co_is_utf8 sample_corpus_env bytes"
  "co_parse_manifest sample_corpus_env raw = Ok sample_manifest"
  by (simp_all add: sample_corpus_env_def)

definition plain :: "char \<Rightarrow> bool" where
  "plain c \<longleftrightarrow> c \<notin> {CHR ''/'', CHR ''.'', CHR 0x5C, CHR '':''}"

lemma plain_components:
  assumes "plain c"
  shows "path_components [c] = [Normal [c]]" "path_components (''/corpus/'' @ [c]) =
    [RootDir, Normal ''corpus'', Normal [c]]" "path_join ''/corpus'' [c] = ''/corpus/'' @ [c]"
    "relative_path_ok [c]"
  using assms
  by (simp_all add: plain_def path_components_def path_is_absolute_def part_components_def
      path_join_def relative_path_ok_def)

lemma corpus_components: "path_components ''/corpus'' = [RootDir, Normal ''corpus'']"
  by code_simp

lemma sample_file_below:
  "plain c \<Longrightarrow> relative_path_ok [c] \<and> no_oracle [c] \<and>
     file_below sample_corpus_env ''/corpus'' [c] (''/corpus/'' @ [c])"
  using plain_components [of c]
  by (simp add: no_oracle_def oracle_labels_def to_ascii_lowercase_def file_below_def
      sample_corpus_env_simps path_starts_with_def corpus_components)

lemma sample_member_bytes: "plain c \<Longrightarrow> member_bytes sample_corpus_env ''/corpus'' (sample_member [c]) [c]"
  using sample_file_below [of c]
  by (auto simp: member_bytes_def sample_member_def MAX_MEMBER_BYTES_def sample_corpus_env_simps)

definition sample_documents :: "corpus_document list" where
  "sample_documents = map (\<lambda>c. document_of (sample_member c) c) [''a'', ''b'', ''c'', ''d'']"

definition sample_receipt :: sealed_corpus_read_receipt where
  "sample_receipt =
     \<lparr>sp_corpus_id = ''c'', sp_aggregate_sha256 = sample_hash, sp_member_count = 4, sp_total_bytes = 4,
      sp_documents = sample_documents\<rparr>"

definition sample_recon_input :: reuse_reconnaissance_input where
  "sample_recon_input =
     \<lparr>ri_schema_version = ''FraaReconnaissanceInput.v0'', ri_run_id = ''r'', ri_capability_id = 7,
      ri_corpus_manifest_path = ''m'', ri_expected_corpus_aggregate_sha256 = sample_hash,
      ri_target_application = ''app'', ri_target_repository_posture = NewPrivateApplication,
      ri_required_capabilities = [], ri_prohibited_effects = [],
      ri_authority = \<lparr>ra_execution_owner = ''fa-local-operator'', ra_network_allowed = False,
        ra_model_allowed = False, ra_repository_mutation_allowed = False,
        ra_hidden_oracle_allowed = False\<rparr>\<rparr>"

lemma sample_corpus_read:
  "read_candidate_visible sample_corpus_env (recon_request ''/corpus'' sample_recon_input) = Ok sample_receipt"
proof -
  let ?request = "recon_request ''/corpus'' sample_recon_input"
  have plains: "plain CHR ''a''" "plain CHR ''b''" "plain CHR ''c''" "plain CHR ''d''" "plain CHR ''m''"
    by (simp_all add: plain_def)
  have sorted: "sort_key sm_path (mf_members sample_manifest) = mf_members sample_manifest"
    by (simp add: sample_manifest_def sample_member_def)
  have "corpus_at sample_corpus_env ?request ''/corpus'' sample_manifest"
    using sample_file_below [OF plains(5)]
    by (auto simp: corpus_at_def recon_request_def sample_recon_input_def sample_corpus_env_simps)
  moreover have "corpus_admissible sample_corpus_env ?request ''/corpus'' sample_manifest"
    using plains sample_member_bytes
    by (auto simp: corpus_admissible_def manifest_admitted_def sample_manifest_def sizes_def
        recon_request_def sample_member_def)
  moreover have "receipt_says sample_corpus_env ''/corpus'' sample_manifest sample_receipt"
    unfolding receipt_says_def sorted
    using plains sample_member_bytes
    by (auto simp: sample_receipt_def sample_manifest_def sizes_def sample_documents_def
        member_document_def) (simp_all add: sample_member_def)
  ultimately show ?thesis
    by (auto simp: read_candidate_visible_Ok)
qed

section \<open>An analysis\<close>

definition sample_donor :: donor_evidence_record where
  "sample_donor =
     \<lparr>de_capability_id = ''d1'', de_source_repo = ''repo'', de_source_commit = ''0'', de_source_paths = [],
      de_behavior_proven = True, de_evidence_class = SourceReviewAndTests,
      de_allowed_modes = [DirectDependency, InterfaceReuse, ServiceConsumption],
      de_prohibited_modes = [ServiceConsumption], de_blockers = [], de_preserved_tests = []\<rparr>"

definition sample_option :: "string \<Rightarrow> u32 \<Rightarrow> topology_option_record" where
  "sample_option i rank =
     \<lparr>to_topology_id = i, to_repository_posture = ''new'', to_supports_new_application = True,
      to_separate_trust_actors = True, to_complexity_rank = rank, to_deployables = [],
      to_hard_blockers = []\<rparr>"

definition sample_target :: target_brief_document where
  "sample_target =
     \<lparr>tb_application = ''app'', tb_repository_posture = ''new_private_application'',
      tb_separate_trust_actors_required = True, tb_required_capabilities = [],
      tb_authority = \<lparr>tg_topology_owner = ''o'', tg_operator_surface = ''s'', tg_execution_owner = ''e'',
        tg_mutation_owner = ''m'', tg_final_decision_owner = ''f''\<rparr>\<rparr>"

definition sample_kind :: "string \<Rightarrow> string" where
  "sample_kind content =
     (if content = ''a'' then ''target_brief'' else if content = ''b'' then ''donor_evidence''
      else if content = ''c'' then ''topology_options'' else ''constraints'')"

definition sample_recon_env :: "(json \<Rightarrow> (reuse_reconnaissance_result, string) result) \<Rightarrow> recon_env" where
  "sample_recon_env decode =
     \<lparr>re_contracts = \<lparr>ce_manifest_dir = [], ce_read_to_string = Ok,
        ce_from_str = (\<lambda>content. Ok (JObject [(''kind'', JString (sample_kind content))])),
        ce_from_slice = (\<lambda>_. Ok JNull), ce_build_validator = (\<lambda>_. Ok (\<lambda>_. [])),
        ce_debug_list = (\<lambda>_. [])\<rparr>,
      re_decode_input = (\<lambda>_. Ok sample_recon_input), re_decode_result = decode,
      re_decode_target = (\<lambda>_. Ok sample_target),
      re_decode_donors = (\<lambda>_. Ok \<lparr>dd_donors = [sample_donor]\<rparr>),
      re_decode_topologies = (\<lambda>_. Ok \<lparr>td_options = [sample_option ''t1'' 2, sample_option ''t2'' 1]\<rparr>),
      re_decode_constraints = (\<lambda>_. Ok \<lparr>cs_critical_blockers = [], cs_verification_obligations = []\<rparr>),
      re_to_value = (\<lambda>_. Ok JNull), re_to_vec = (\<lambda>_. []), re_sha256 = (\<lambda>_. replicate 32 0)\<rparr>"

definition sample_analysis ::
  "(json \<Rightarrow> (reuse_reconnaissance_result, string) result) \<Rightarrow> reuse_reconnaissance_result fa_local_result" where
  "sample_analysis decode = analyze (sample_recon_env decode) sample_recon_input sample_hash sample_documents"

lemma sample_schema_ok: "validate_fraa_contract (re_contracts (sample_recon_env decode)) name v = Ok ()"
  by (simp add: validate_fraa_contract_def load_json_value_def sample_recon_env_def)

definition sample_slots :: recon_documents where
  "sample_slots =
     \<lparr>rs_target_brief = Some sample_target, rs_donor_evidence = Some \<lparr>dd_donors = [sample_donor]\<rparr>,
      rs_topology_options = Some \<lparr>td_options = [sample_option ''t1'' 2, sample_option ''t2'' 1]\<rparr>,
      rs_constraints = Some \<lparr>cs_critical_blockers = [], cs_verification_obligations = []\<rparr>\<rparr>"

lemma sample_read: "read_documents (sample_recon_env decode) sample_documents no_documents = Ok sample_slots"
  by (simp add: sample_documents_def read_document_def sample_recon_env_def sample_kind_def no_documents_def
      document_of_def sample_member_def set_once_def sample_slots_def)

text \<open>The decoder of results plays no part in an analysis.\<close>

lemma sample_analysis_decode: "sample_analysis decode = sample_analysis decode'"
proof -
  have "freeze (sample_recon_env decode) r = freeze (sample_recon_env decode') r" for r
    using sample_schema_ok
    by (simp add: freeze_def verify_hash_def compute_hash_def Let_def) (simp add: sample_recon_env_def)
  then show ?thesis
    by (simp add: sample_analysis_def analyze_def sample_read)
qed

lemma sample_analysis_Ok: "\<exists>r. sample_analysis decode = Ok r"
  unfolding sample_analysis_def
proof (rule analyze_answers)
  show "\<exists>f. freeze (sample_recon_env decode) r = Ok f" for r
    using sample_schema_ok by (simp add: freeze_Ok) (simp add: sample_recon_env_def)
  show "authority_denies_all sample_recon_input"
    by (simp add: authority_denies_all_def sample_recon_input_def)
  show "corpus_says (sample_recon_env decode) sample_documents sample_target [sample_donor]
      [sample_option ''t1'' 2, sample_option ''t2'' 1]
      \<lparr>cs_critical_blockers = [], cs_verification_obligations = []\<rparr>"
    by (simp add: corpus_says_iff sample_read sample_slots_def)
  show "\<exists>option \<in> set [sample_option ''t1'' 2, sample_option ''t2'' 1].
      topology_fits sample_target option"
    by (simp add: topology_fits_def sample_option_def)
qed (simp_all add: sample_recon_input_def sample_target_def)

section \<open>A run\<close>

definition read_capability :: capability_record where
  "read_capability = sample_capability
     \<lparr>cap_capability_type := LocalFileRead, cap_side_effect_class := NoSideEffect\<rparr>"

definition read_registry :: capability_registry where
  "read_registry = \<lparr>reg_registry_version = ''1'', reg_capabilities = [read_capability]\<rparr>"

definition read_step :: "string \<Rightarrow> execution_plan_step" where
  "read_step i = \<lparr>step_id = i, step_capability_id = 7, step_declared_side_effect_class = NoSideEffect,
     step_timeout_budget_ms = 1\<rparr>"

definition read_plan :: execution_plan where
  "read_plan = sample_plan
     \<lparr>pl_steps := map read_step FRAA_CP1_STEP_IDS, pl_declared_max_step_count := 6,
      pl_declared_side_effect_classes := [NoSideEffect], pl_fallback_references := [],
      pl_completion_policy := AllStepsMustSucceed\<rparr>"

definition sample_run_env :: "(json \<Rightarrow> (reuse_reconnaissance_result, string) result) \<Rightarrow> recon_run_env" where
  "sample_run_env decode =
     \<lparr>ne_hash = sample_hash_env, ne_corpus = sample_corpus_env, ne_recon = sample_recon_env decode,
      ne_denied_at = 0\<rparr>"

lemma read_capability_for [simp]: "capability_for read_registry 7 = Some read_capability"
  by (simp add: capability_for_def read_registry_def read_capability_def sample_capability_def)

lemma read_plan_structure: "plan_structure_valid read_registry read_plan"
proof -
  have "capability_usable read_registry 7"
    by (simp add: capability_usable_def) (simp add: read_capability_def sample_capability_def)
  moreover have "step_declared read_registry read_plan s" if "s \<in> set (pl_steps read_plan)" for s
    using that by (auto simp: step_declared_def read_plan_def sample_plan_def read_step_def)
      (simp_all add: read_capability_def sample_capability_def)
  ultimately show ?thesis
    by (simp add: plan_structure_valid_def)
      (simp add: read_plan_def sample_plan_def read_step_def FRAA_CP1_STEP_IDS_def timeout_sum_def)
qed

lemma sample_recon_authorised:
  "recon_authorised (sample_run_env decode) sample_recon_input sample_decision read_plan read_registry"
  using read_plan_structure sample_coherent
  by (simp add: recon_authorised_def sample_run_env_def sample_hash_eq cp1_plan_def)
    (auto simp: read_plan_def sample_plan_def sample_recon_input_def authority_denies_all_def
      read_only_capability_def read_capability_def sample_decision_def requested_capability_def
      read_step_def comp_def)

lemma sample_digest_length: "length (he_sha256 (ne_hash (sample_run_env decode)) bytes) = 32"
  by (simp add: sample_run_env_def sample_hash_env_def)

section \<open>Properties\<close>

text \<open>C19: a sealed corpus is read exactly when its root is a real directory, its manifest lies below it
  and is admitted, its one to 64 members have distinct paths and sizes that fit the request, and every
  member is a regular file below the root, reached by a relative path without parent or oracle
  components, with the declared size and digest and UTF-8 text; the receipt lists the members in the
  order of their paths with their bytes and the digest of the whole. A component counts as an oracle one
  when it is, in either case, the whole word oracle, \<open>hidden_oracle\<close> or \<open>hidden-oracle\<close>: a file
  \<open>oracle-notes.json\<close> is read, although the boundary document refuses every path containing the word.
  Only the last component must not be a link; a link before it is followed as long as it stays below the
  root.\<close>

theorem corpus_reading_decides:
  "read_candidate_visible env request = Ok receipt \<longleftrightarrow>
     (\<exists>root manifest. corpus_at env request root manifest \<and>
        corpus_admissible env request root manifest \<and> receipt_says env root manifest receipt)"
  by (rule read_candidate_visible_Ok)

text \<open>C18: an analysis that succeeds was asked within an authority that denies network, model, mutation
  and oracle, on the corpus the input names; every donor has the best reuse mode that its evidence
  admits, and is rejected exactly without one; the selected topology is the least one that fits the
  target, with its deployables in the order of its option, and an alternative is marked exactly when it
  has its identifier; the critical blockers are those of the constraints and of the donors; and the
  result grants nothing and carries the hash of its content. (The design document says that every output
  collection is sorted before hashing; the deployables are not.)\<close>

theorem analysis_decides:
  assumes "analyze env input aggregate documents = Ok r"
  shows "authority_denies_all input \<and> aggregate = ri_expected_corpus_aggregate_sha256 input \<and>
    (\<exists>target donors options constraints.
       corpus_says env documents target donors options constraints \<and>
       tb_application target = ri_target_application input \<and>
       donors_decided donors r \<and> topology_decided target options r \<and>
       blockers_decided donors constraints r) \<and>
    rr_corpus_aggregate_sha256 r = aggregate \<and> nothing_granted r \<and>
    rr_result_hash r = compute_hash env r"
  using analyze_Ok [OF assms] by blast

theorem analysis_decides_witness:
  "\<exists>r. sample_analysis (\<lambda>_. Err []) = Ok r \<and> nothing_granted r \<and>
     topology_decided sample_target [sample_option ''t1'' 2, sample_option ''t2'' 1] r"
proof -
  obtain r where r: "sample_analysis (\<lambda>_. Err []) = Ok r"
    using sample_analysis_Ok by blast
  from analysis_decides [OF r [unfolded sample_analysis_def]] obtain target donors options constraints
    where "corpus_says (sample_recon_env (\<lambda>_. Err [])) sample_documents target donors options constraints"
      "topology_decided target options r" "nothing_granted r" by blast
  with r show ?thesis
    by (auto simp: corpus_says_iff sample_read sample_slots_def)
qed

text \<open>C20: round trip of results. The value that an analysis serialises loads again as the same result,
  when the derived decoder inverts the derived serialiser on it; and whatever value loads with the
  result's hash has content of the same digest, so a changed result does not load unless the digests
  collide.\<close>

theorem frozen_result_round_trip:
  assumes "analyze env input aggregate documents = Ok r"
    and "\<And>v. re_to_value env r = Ok v \<Longrightarrow> re_decode_result env v = Ok r"
  shows "\<exists>v. re_to_value env r = Ok v \<and> load_recon_result env v = Ok r \<and>
    (\<forall>v' r'. load_recon_result env v' = Ok r' \<and> rr_result_hash r' = rr_result_hash r \<longrightarrow>
       re_sha256 env (re_to_vec env (r'\<lparr>rr_result_hash := []\<rparr>)) =
       re_sha256 env (re_to_vec env (r\<lparr>rr_result_hash := []\<rparr>)))"
proof -
  from analyze_Ok [OF assms(1)] obtain v where v: "re_to_value env r = Ok v"
    "validate_fraa_contract (re_contracts env) ReconnaissanceResult v = Ok ()"
    "rr_result_hash r = compute_hash env r" by blast
  then have "load_recon_result env v = Ok r"
    using assms(2) by (simp add: load_recon_result_Ok)
  moreover have "re_sha256 env (re_to_vec env (r'\<lparr>rr_result_hash := []\<rparr>)) =
      re_sha256 env (re_to_vec env (r\<lparr>rr_result_hash := []\<rparr>))"
    if "load_recon_result env v' = Ok r'" "rr_result_hash r' = rr_result_hash r" for v' r'
  proof -
    from that v(3) have "compute_hash env r' = compute_hash env r" by (simp add: load_recon_result_Ok)
    then show ?thesis unfolding compute_hash_def by (rule hex_digest_inj)
  qed
  ultimately show ?thesis using v(1) by blast
qed

theorem frozen_result_round_trip_witness:
  "\<exists>r v. sample_analysis (\<lambda>_. Ok r) = Ok r \<and> re_to_value (sample_recon_env (\<lambda>_. Ok r)) r = Ok v \<and>
     load_recon_result (sample_recon_env (\<lambda>_. Ok r)) v = Ok r"
proof -
  obtain r where "sample_analysis (\<lambda>_. Err []) = Ok r"
    using sample_analysis_Ok by blast
  then have r: "sample_analysis (\<lambda>_. Ok r) = Ok r"
    using sample_analysis_decode by metis
  have "re_decode_result (sample_recon_env (\<lambda>_. Ok r)) v = Ok r" for v
    by (simp add: sample_recon_env_def)
  from frozen_result_round_trip [OF r [unfolded sample_analysis_def] this] r show ?thesis by blast
qed

text \<open>C17: a reconnaissance run never panics, and with a digest of 32 bytes and times in order it succeeds
  exactly when it is authorised, its corpus can be read and its documents can be analysed. Authorised
  means: an authority that denies everything, a registered capability that only reads local files, a
  valid plan of exactly the six steps for that capability without effects or fallbacks, and a
  preapproved decision that the plan answers. The trace then completes exactly these steps.\<close>

theorem reconnaissance_run_decides:
  assumes "\<And>bytes. length (he_sha256 (ne_hash env) bytes) = 32"
    and "cx_started_at_utc ctx \<le> cx_completed_at_utc ctx"
  shows "\<exists>r. run_reconnaissance env input d plan registry corpus_root ctx = Some r \<and>
    ((\<exists>run. r = Ok run) \<longleftrightarrow> recon_authorised env input d plan registry \<and>
       (\<exists>receipt result. read_candidate_visible (ne_corpus env) (recon_request corpus_root input) =
          Ok receipt \<and>
        analyze (ne_recon env) input (sp_aggregate_sha256 receipt) (sp_documents receipt) = Ok result)) \<and>
    (\<forall>run. r = Ok run \<longrightarrow>
       trace_entries (rn_execution_trace run) = planned_entries FRAA_CP1_STEP_IDS CompleteDeclaredPlan)"
proof (cases "prepare_run env input d plan registry corpus_root ctx")
  case (Err e)
  have "\<not> (recon_authorised env input d plan registry \<and>
       (\<exists>receipt result. read_candidate_visible (ne_corpus env) (recon_request corpus_root input) =
          Ok receipt \<and>
        analyze (ne_recon env) input (sp_aggregate_sha256 receipt) (sp_documents receipt) = Ok result))"
    using Err prepare_run_Ok [of env input d plan registry corpus_root ctx] by auto
  with Err show ?thesis by (simp add: run_reconnaissance_def)
next
  case (Ok p)
  obtain receipt result coordination where p: "p = (receipt, result, coordination)" by (cases p)
  note prep = Ok [unfolded p prepare_run_Ok]
  from run_reconnaissance_cases [OF assms, of input d plan registry corpus_root] Ok p prep
  show ?thesis by auto
qed

theorem reconnaissance_run_decides_witness:
  "\<exists>run. run_reconnaissance (sample_run_env (\<lambda>_. Err [])) sample_recon_input sample_decision read_plan
       read_registry ''/corpus'' sample_context = Some (Ok run) \<and>
     trace_entries (rn_execution_trace run) = planned_entries FRAA_CP1_STEP_IDS CompleteDeclaredPlan"
proof -
  let ?env = "sample_run_env (\<lambda>_. Err [])"
  have times: "cx_started_at_utc sample_context \<le> cx_completed_at_utc sample_context"
    by (simp add: sample_context_def)
  have "read_candidate_visible (ne_corpus ?env) (recon_request ''/corpus'' sample_recon_input) =
      Ok sample_receipt"
    using sample_corpus_read by (simp add: sample_run_env_def)
  moreover obtain result where "analyze (ne_recon ?env) sample_recon_input
      (sp_aggregate_sha256 sample_receipt) (sp_documents sample_receipt) = Ok result"
    using sample_analysis_Ok by (auto simp: sample_analysis_def sample_run_env_def sample_receipt_def)
  ultimately show ?thesis
    using reconnaissance_run_decides [OF sample_digest_length times, of "\<lambda>_. Err []" sample_recon_input
        sample_decision read_plan read_registry "''/corpus''"] sample_recon_authorised by blast
qed

end
