(* ===== verification/Serve.thy ===== *)
theory Serve
  imports Capabilities Texts "HOL-Library.Mapping"
begin

text \<open>
  The read-only daemon: \<open>src/app/serve_service.rs\<close> (the loaded registry with its reload),
  \<open>src/adapters/serve/token_verify.rs\<close> (the bearer token) and \<open>src/adapters/serve/http_server.rs\<close> (the
  one route and the serving loop).

  The JWT library, the UUID parser and the serialiser of records are the fields of \<open>serve_env\<close>, over a
  type \<open>'k\<close> of decoding keys; the registry file is read through \<open>contract_env\<close>. The library reads the
  clock when it decodes a token: that time is the argument \<open>now\<close>, so a token can expire between two
  requests.
\<close>

section \<open>Bearer tokens\<close>

definition REQUIRED_SCOPE :: string where
  "REQUIRED_SCOPE = ''capability:read''"

datatype auth_deny_reason =
  NoKeysConfigured | MissingHeader | Malformed | UnknownKid | BadSignature | Expired | WrongScope

record serve_token_claims =
  tc_scope :: "string option"

datatype jwt_algorithm = EdDSA

record jwt_validation =
  jv_algorithm :: jwt_algorithm
  jv_validate_aud :: bool

datatype jwt_error = ExpiredSignature | InvalidSignature | OtherJwtError

type_synonym public_keys = "(string, string) mapping"

record 'k serve_env =
  sv_decode_header :: "string \<Rightarrow> (string option, unit) result"
  sv_from_ed_pem :: "string \<Rightarrow> 'k option"
  sv_from_ed_components :: "string \<Rightarrow> 'k option"
  sv_decode :: "timestamp \<Rightarrow> string \<Rightarrow> 'k \<Rightarrow> jwt_validation \<Rightarrow> (serve_token_claims, jwt_error) result"
  sv_parse_uuid :: "string \<Rightarrow> uuid option"
  sv_record_json :: "capability_record \<Rightarrow> json"
  sv_decode_registry :: "json \<Rightarrow> (capability_registry, string) result"

definition str_strip_prefix :: "string \<Rightarrow> string \<Rightarrow> string option" where
  "str_strip_prefix s p = (if str_starts_with s p then Some (drop (length p) s) else None)"

definition decoding_key_from_configured_value :: "'k serve_env \<Rightarrow> string \<Rightarrow> 'k option" where
  "decoding_key_from_configured_value env v =
     (let trimmed = str_trim v in
      if str_contains trimmed ''-----BEGIN'' then sv_from_ed_pem env trimmed
      else sv_from_ed_components env trimmed)"

text \<open>\<open>Validation::new\<close> asks for the audience to be validated, which the source then turns off.\<close>

definition serve_validation :: jwt_validation where
  "serve_validation =
     (let validation = \<lparr>jv_algorithm = EdDSA, jv_validate_aud = True\<rparr> in
      validation\<lparr>jv_validate_aud := False\<rparr>)"

fun deny_reason :: "jwt_error \<Rightarrow> auth_deny_reason" where
  "deny_reason ExpiredSignature = Expired"
| "deny_reason InvalidSignature = BadSignature"
| "deny_reason OtherJwtError = Malformed"

definition bearer_token :: "string option \<Rightarrow> string option" where
  "bearer_token authorization_header =
     (case authorization_header of
        None \<Rightarrow> None
      | Some v \<Rightarrow>
          (case str_strip_prefix v ''Bearer '' of
             None \<Rightarrow> None
           | Some rest \<Rightarrow> let token = str_trim rest in if token = [] then None else Some token))"

definition verify_bearer_token ::
  "'k serve_env \<Rightarrow> timestamp \<Rightarrow> string option \<Rightarrow> public_keys \<Rightarrow> (unit, auth_deny_reason) result" where
  "verify_bearer_token env now authorization_header keys =
     (if Mapping.is_empty keys then Err NoKeysConfigured
      else
        and_then (ok_or (bearer_token authorization_header) MissingHeader) (\<lambda>token.
        and_then (map_err (\<lambda>_. Malformed) (sv_decode_header env token)) (\<lambda>header_kid.
        and_then (ok_or header_kid UnknownKid) (\<lambda>kid.
        and_then (ok_or (Mapping.lookup keys kid) UnknownKid) (\<lambda>raw_key.
        and_then (ok_or (decoding_key_from_configured_value env raw_key) UnknownKid) (\<lambda>key.
        and_then (map_err deny_reason (sv_decode env now token key serve_validation)) (\<lambda>claims.
        fail_if (tc_scope claims \<noteq> Some REQUIRED_SCOPE) WrongScope)))))))"

text \<open>
  The keys configured in an environment variable; \<open>read_var\<close> is \<open>None\<close> where \<open>std::env::var\<close> fails,
  and the parser displays its error as a text.
\<close>

definition load_public_keys_from_env ::
  "(string \<Rightarrow> string option) \<Rightarrow> (string \<Rightarrow> (public_keys, string) result) \<Rightarrow> string \<Rightarrow>
   (public_keys, string) result" where
  "load_public_keys_from_env read_var parse var_name =
     (let raw = str_trim (case read_var var_name of Some v \<Rightarrow> v | None \<Rightarrow> []) in
      if raw = [] then Ok Mapping.empty
      else map_err (\<lambda>e. var_name @ '' is not a JSON object of kid -> public key: '' @ e) (parse raw))"

section \<open>The registry being served\<close>

datatype serve_lookup_result = Found capability_record | NotFoundInRegistry | RegistryUnavailable

record serve_service =
  ss_registry_file :: string
  ss_registry :: "capability_registry option"

definition load_registry_from_file ::
  "'k serve_env \<Rightarrow> contract_env \<Rightarrow> string \<Rightarrow> capability_registry fa_local_result" where
  "load_registry_from_file env disk path =
     load_contract_from_path disk (sv_decode_registry env) CapabilityRegistry path"

definition load_service :: "'k serve_env \<Rightarrow> contract_env \<Rightarrow> string \<Rightarrow> serve_service fa_local_result" where
  "load_service env disk registry_file =
     and_then (load_registry_from_file env disk registry_file) (\<lambda>registry. Ok
       \<lparr>ss_registry_file = registry_file, ss_registry = Some registry\<rparr>)"

definition lookup_capability :: "serve_service \<Rightarrow> capability_id \<Rightarrow> serve_lookup_result" where
  "lookup_capability service i =
     (case ss_registry service of
        Some registry \<Rightarrow>
          (case capability_for registry i of Some r \<Rightarrow> Found r | None \<Rightarrow> NotFoundInRegistry)
      | None \<Rightarrow> RegistryUnavailable)"

text \<open>The lock is written only after the load succeeded.\<close>

definition reload ::
  "'k serve_env \<Rightarrow> contract_env \<Rightarrow> serve_service \<Rightarrow> serve_service \<times> unit fa_local_result" where
  "reload env disk service =
     (case load_registry_from_file env disk (ss_registry_file service) of
        Ok fresh \<Rightarrow> (service\<lparr>ss_registry := Some fresh\<rparr>, Ok ())
      | Err e \<Rightarrow> (service, Err e))"

section \<open>The route\<close>

datatype http_method = Get | OtherMethod string

record http_request =
  hr_method :: http_method
  hr_url :: string
  hr_headers :: "(string \<times> string) list"

record http_response =
  hp_status :: nat
  hp_body :: json

definition CAPABILITIES_PATH_PREFIX :: string where
  "CAPABILITIES_PATH_PREFIX = ''/api/v1/capabilities/''"

definition json_response :: "nat \<Rightarrow> json \<Rightarrow> http_response" where
  "json_response status body = \<lparr>hp_status = status, hp_body = body\<rparr>"

definition error_response :: "nat \<Rightarrow> string \<Rightarrow> http_response" where
  "error_response status error = json_response status (JObject [(''error'', JString error)])"

fun id_bytes_ok :: "nat \<Rightarrow> string \<Rightarrow> bool" where
  "id_bytes_ok index [] = True"
| "id_bytes_ok index (c # cs) =
     (if index \<in> {8, 13, 18, 23}
      then (if c \<noteq> CHR ''-'' then False else id_bytes_ok (Suc index) cs)
      else if \<not> is_ascii_hexdigit c then False else id_bytes_ok (Suc index) cs)"

definition parse_capability_id_segment :: "'k serve_env \<Rightarrow> string \<Rightarrow> capability_id option" where
  "parse_capability_id_segment env segment =
     (if length segment \<noteq> 36 then None
      else if \<not> id_bytes_ok 0 segment then None else sv_parse_uuid env segment)"

definition authorization_of :: "http_request \<Rightarrow> string option" where
  "authorization_of request = map_option snd
     (find (\<lambda>(field, v). to_ascii_lowercase field = ''authorization'') (hr_headers request))"

definition build_response ::
  "'k serve_env \<Rightarrow> timestamp \<Rightarrow> http_request \<Rightarrow> serve_service \<Rightarrow> public_keys \<Rightarrow> http_response" where
  "build_response env now request service keys =
     (if hr_method request \<noteq> Get then error_response 404 ''not_found''
      else
        let path = takeWhile (\<lambda>c. c \<noteq> CHR ''?'') (hr_url request) in
        case str_strip_prefix path CAPABILITIES_PATH_PREFIX of
          None \<Rightarrow> error_response 404 ''not_found''
        | Some id_segment \<Rightarrow>
            if id_segment = [] \<or> CHR ''/'' \<in> set id_segment then error_response 404 ''not_found''
            else
              (case parse_capability_id_segment env id_segment of
                 None \<Rightarrow> error_response 400 ''malformed_capability_id''
               | Some i \<Rightarrow>
                   (case verify_bearer_token env now (authorization_of request) keys of
                      Err _ \<Rightarrow> error_response 401 ''unauthorized''
                    | Ok _ \<Rightarrow>
                        (case lookup_capability service i of
                           Found r \<Rightarrow> json_response 200 (sv_record_json env r)
                         | NotFoundInRegistry \<Rightarrow> error_response 404 ''capability_not_found''
                         | RegistryUnavailable \<Rightarrow> error_response 503 ''registry_unavailable''))))"

section \<open>The serving loop\<close>

text \<open>
  The state between two iterations, with the requests answered so far, the times at which their tokens
  were checked and their answers. \<open>disk\<close> is what the registry file holds when an iteration reads it.
\<close>

record daemon_state =
  dm_reload_requested :: bool
  dm_service :: serve_service
  dm_answers :: "(timestamp \<times> http_request \<times> http_response) list"

datatype received = Request http_request | TimedOut | ReceiveFailed

definition request_reload :: "daemon_state \<Rightarrow> daemon_state" where
  "request_reload s = s\<lparr>dm_reload_requested := True\<rparr>"

definition handle_request ::
  "'k serve_env \<Rightarrow> public_keys \<Rightarrow> timestamp \<Rightarrow> http_request \<Rightarrow> daemon_state \<Rightarrow> daemon_state" where
  "handle_request env keys now request s = s\<lparr>dm_answers :=
     dm_answers s @ [(now, request, build_response env now request (dm_service s) keys)]\<rparr>"

definition serve_iteration ::
  "'k serve_env \<Rightarrow> public_keys \<Rightarrow> contract_env \<Rightarrow> timestamp \<Rightarrow> received \<Rightarrow> daemon_state \<Rightarrow> daemon_state" where
  "serve_iteration env keys disk now received s =
     (let s = (if dm_reload_requested s
               then s\<lparr>dm_reload_requested := False, dm_service := fst (reload env disk (dm_service s))\<rparr>
               else s) in
      case received of
        Request request \<Rightarrow> handle_request env keys now request s
      | TimedOut \<Rightarrow> s
      | ReceiveFailed \<Rightarrow> s)"

text \<open>What happens to the daemon: a signal, or an iteration of its loop.\<close>

datatype daemon_event = Sighup | Iteration contract_env timestamp received

inductive daemon_step ::
  "'k serve_env \<Rightarrow> public_keys \<Rightarrow> daemon_event \<Rightarrow> daemon_state \<Rightarrow> daemon_state \<Rightarrow> bool" for env keys where
  sighup: "daemon_step env keys Sighup s (request_reload s)"
| iteration: "daemon_step env keys (Iteration disk now received) s
    (serve_iteration env keys disk now received s)"

definition daemon_start :: "serve_service \<Rightarrow> daemon_state" where
  "daemon_start service = \<lparr>dm_reload_requested = False, dm_service = service, dm_answers = []\<rparr>"

inductive daemon_runs ::
  "'k serve_env \<Rightarrow> public_keys \<Rightarrow> daemon_event list \<Rightarrow> daemon_state \<Rightarrow> daemon_state \<Rightarrow> bool" for env keys where
  run_none: "daemon_runs env keys [] s s"
| run_step: "daemon_step env keys e s s1 \<Longrightarrow> daemon_runs env keys es s1 s' \<Longrightarrow>
    daemon_runs env keys (e # es) s s'"

inductive_cases daemon_sighupE: "daemon_step env keys Sighup s s'"
inductive_cases daemon_iterationE: "daemon_step env keys (Iteration disk now received) s s'"

section \<open>Authorised requests\<close>

text \<open>The token of a request verifies at \<open>now\<close> under a configured key and carries the one scope.\<close>

definition token_verified :: "'k serve_env \<Rightarrow> timestamp \<Rightarrow> public_keys \<Rightarrow> string option \<Rightarrow> bool" where
  "token_verified env now keys header \<longleftrightarrow>
     (\<exists>v token kid raw_key key claims.
        header = Some v \<and> str_starts_with v ''Bearer '' \<and> token = str_trim (drop (length ''Bearer '') v) \<and> token \<noteq> [] \<and>
        sv_decode_header env token = Ok (Some kid) \<and> Mapping.lookup keys kid = Some raw_key \<and>
        decoding_key_from_configured_value env raw_key = Some key \<and>
        sv_decode env now token key \<lparr>jv_algorithm = EdDSA, jv_validate_aud = False\<rparr> = Ok claims \<and>
        tc_scope claims = Some ''capability:read'')"

lemma bearer_token_Some:
  "bearer_token header = Some token \<longleftrightarrow>
     (\<exists>v. header = Some v \<and> str_starts_with v ''Bearer '' \<and> token = str_trim (drop (length ''Bearer '') v) \<and> token \<noteq> [])"
  by (auto simp: bearer_token_def str_strip_prefix_def Let_def split: option.splits)

lemma verify_bearer_token_Ok:
  "verify_bearer_token env now header keys = Ok () \<longleftrightarrow> token_verified env now keys header"
proof -
  have "Mapping.is_empty keys \<Longrightarrow> Mapping.lookup keys kid = None" for kid
    by (simp add: Mapping.is_empty_def keys_dom_lookup domIff set_eq_iff)
  then show ?thesis
    by (fastforce simp: verify_bearer_token_def token_verified_def result_simps bearer_token_Some
        serve_validation_def REQUIRED_SCOPE_def)
qed

section \<open>What the route answers\<close>

text \<open>The identifier of a request for the one route: 36 bytes in the shape of a UUID.\<close>

definition uuid_shaped :: "string \<Rightarrow> bool" where
  "uuid_shaped segment \<longleftrightarrow> length segment = 36 \<and>
     (\<forall>i < 36. if i \<in> {8, 13, 18, 23} then segment ! i = CHR ''-'' else is_ascii_hexdigit (segment ! i))"

definition route_segment :: "http_request \<Rightarrow> string \<Rightarrow> bool" where
  "route_segment request segment \<longleftrightarrow>
     hr_method request = Get \<and> segment \<noteq> [] \<and> CHR ''/'' \<notin> set segment \<and>
     takeWhile (\<lambda>c. c \<noteq> CHR ''?'') (hr_url request) = ''/api/v1/capabilities/'' @ segment"

lemma id_bytes_ok_iff:
  "id_bytes_ok index cs \<longleftrightarrow>
     (\<forall>i < length cs. if index + i \<in> {8, 13, 18, 23} then cs ! i = CHR ''-''
        else is_ascii_hexdigit (cs ! i))"
proof (induction index cs rule: id_bytes_ok.induct)
  case (1 index)
  show ?case by simp
next
  case (2 index c cs)
  have "(\<forall>i < length (c # cs). P i ((c # cs) ! i)) \<longleftrightarrow> P 0 c \<and> (\<forall>i < length cs. P (Suc i) (cs ! i))"
    for P :: "nat \<Rightarrow> char \<Rightarrow> bool"
    by (auto simp: nth_Cons split: nat.split)
  note all = this [of "\<lambda>i x. if index + i \<in> {8, 13, 18, 23} then x = CHR ''-'' else is_ascii_hexdigit x"]
  show ?case
    unfolding all id_bytes_ok.simps add_0_right add_Suc_right add_Suc [symmetric]
    using 2 by (cases "index \<in> {8, 13, 18, 23}"; cases "c = CHR ''-''"; cases "is_ascii_hexdigit c")
      (simp_all only: if_True if_False simp_thms)
qed

lemma parse_capability_id_segment_Some:
  "parse_capability_id_segment env segment = Some i \<longleftrightarrow>
     uuid_shaped segment \<and> sv_parse_uuid env segment = Some i"
  by (auto simp: parse_capability_id_segment_def uuid_shaped_def id_bytes_ok_iff)

lemma str_strip_prefix_Some: "str_strip_prefix s p = Some t \<longleftrightarrow> s = p @ t"
  by (auto simp: str_strip_prefix_def str_starts_with_iff)

text \<open>The table of the answers, by what is wrong with the request.\<close>

definition answer_fits ::
  "'k serve_env \<Rightarrow> timestamp \<Rightarrow> public_keys \<Rightarrow> capability_registry \<Rightarrow> http_request \<Rightarrow> http_response \<Rightarrow> bool" where
  "answer_fits env now keys registry request response \<longleftrightarrow>
     (if \<nexists>segment. route_segment request segment then response = error_response 404 ''not_found''
      else \<exists>segment. route_segment request segment \<and>
        (case parse_capability_id_segment env segment of
           None \<Rightarrow> response = error_response 400 ''malformed_capability_id''
         | Some i \<Rightarrow>
             if \<not> token_verified env now keys (authorization_of request)
             then response = error_response 401 ''unauthorized''
             else (case capability_for registry i of
                 None \<Rightarrow> response = error_response 404 ''capability_not_found''
               | Some r \<Rightarrow> response = json_response 200 (sv_record_json env r))))"

lemma route_segment_unique: "route_segment request a \<Longrightarrow> route_segment request b \<Longrightarrow> a = b"
  by (simp add: route_segment_def)

lemma no_route:
  "(\<nexists>segment. route_segment request segment) \<Longrightarrow>
     build_response env now request service keys = error_response 404 ''not_found''"
  by (auto simp: build_response_def route_segment_def CAPABILITIES_PATH_PREFIX_def Let_def
      str_strip_prefix_Some split: option.split)

lemma build_response_route:
  assumes "route_segment request segment"
  shows "build_response env now request service keys =
    (case parse_capability_id_segment env segment of
       None \<Rightarrow> error_response 400 ''malformed_capability_id''
     | Some i \<Rightarrow>
         (case verify_bearer_token env now (authorization_of request) keys of
            Err _ \<Rightarrow> error_response 401 ''unauthorized''
          | Ok _ \<Rightarrow>
              (case lookup_capability service i of
                 Found r \<Rightarrow> json_response 200 (sv_record_json env r)
               | NotFoundInRegistry \<Rightarrow> error_response 404 ''capability_not_found''
               | RegistryUnavailable \<Rightarrow> error_response 503 ''registry_unavailable'')))"
proof -
  from assms have "str_strip_prefix (takeWhile (\<lambda>c. c \<noteq> CHR ''?'') (hr_url request))
      CAPABILITIES_PATH_PREFIX = Some segment"
    by (simp add: route_segment_def str_strip_prefix_Some CAPABILITIES_PATH_PREFIX_def)
  with assms show ?thesis
    by (simp add: build_response_def route_segment_def)
qed

lemma build_response_fits:
  assumes "ss_registry service = Some registry"
  shows "answer_fits env now keys registry request (build_response env now request service keys)"
proof (cases "\<exists>segment. route_segment request segment")
  case False
  then show ?thesis by (simp add: answer_fits_def no_route)
next
  case True
  then obtain segment where s: "route_segment request segment" by blast
  have "case parse_capability_id_segment env segment of
      None \<Rightarrow> build_response env now request service keys = error_response 400 ''malformed_capability_id''
    | Some i \<Rightarrow>
        if \<not> token_verified env now keys (authorization_of request)
        then build_response env now request service keys = error_response 401 ''unauthorized''
        else (case capability_for registry i of
            None \<Rightarrow> build_response env now request service keys = error_response 404 ''capability_not_found''
          | Some r \<Rightarrow> build_response env now request service keys = json_response 200 (sv_record_json env r))"
    unfolding build_response_route [OF s] verify_bearer_token_Ok [symmetric]
    using assms
    by (auto simp: lookup_capability_def split: option.split result.split)
  with True s show ?thesis
    by (simp only: answer_fits_def if_False simp_thms) blast
qed

section \<open>The registry in force\<close>

text \<open>
  The registry that the file says, read as \<open>disk\<close> holds it: the file parses, the validator compiled from
  the schema file of capability registries finds no error in it, and it decodes.
\<close>

definition registry_says ::
  "'k serve_env \<Rightarrow> contract_env \<Rightarrow> string \<Rightarrow> capability_registry \<Rightarrow> bool" where
  "registry_says env disk path registry \<longleftrightarrow>
     (\<exists>raw v schema_raw schema validator.
        ce_read_to_string disk path = Ok raw \<and> ce_from_str disk raw = Ok v \<and>
        ce_read_to_string disk (ce_manifest_dir disk @ ''/schemas/capability-registry.schema.json'') =
          Ok schema_raw \<and>
        ce_from_str disk schema_raw = Ok schema \<and> ce_build_validator disk schema = Ok validator \<and>
        validator v = [] \<and> sv_decode_registry env v = Ok registry)"

text \<open>The newest registry among those that a file said one after the other.\<close>

definition newest_said ::
  "'k serve_env \<Rightarrow> string \<Rightarrow> contract_env list \<Rightarrow> capability_registry \<Rightarrow> bool" where
  "newest_said env path disks registry \<longleftrightarrow>
     (\<exists>older disk newer. disks = older @ disk # newer \<and> registry_says env disk path registry \<and>
        (\<forall>d \<in> set newer. \<nexists>r. registry_says env d path r))"

text \<open>The states of the disk from which a run reloads: the one of the first iteration after a signal.\<close>

fun reload_disks :: "bool \<Rightarrow> daemon_event list \<Rightarrow> contract_env list" where
  "reload_disks due [] = []"
| "reload_disks due (Sighup # es) = reload_disks True es"
| "reload_disks due (Iteration disk now received # es) =
     (if due then [disk] else []) @ reload_disks False es"

text \<open>The requests of a run, each with its time and the disks loaded from until then.\<close>

fun occasions ::
  "bool \<Rightarrow> contract_env list \<Rightarrow> daemon_event list \<Rightarrow> (contract_env list \<times> timestamp \<times> http_request) list" where
  "occasions due disks [] = []"
| "occasions due disks (Sighup # es) = occasions True disks es"
| "occasions due disks (Iteration disk now received # es) =
     (let disks = disks @ (if due then [disk] else []) in
      (case received of Request request \<Rightarrow> [(disks, now, request)] | _ \<Rightarrow> []) @
      occasions False disks es)"

definition answered_at ::
  "'k serve_env \<Rightarrow> public_keys \<Rightarrow> string \<Rightarrow> contract_env list \<times> timestamp \<times> http_request \<Rightarrow>
   timestamp \<times> http_request \<times> http_response \<Rightarrow> bool" where
  "answered_at env keys path = (\<lambda>(disks, now, request) (now', request', response).
     now' = now \<and> request' = request \<and>
     (\<exists>registry. newest_said env path disks registry \<and>
        answer_fits env now keys registry request response))"

definition in_force :: "'k serve_env \<Rightarrow> string \<Rightarrow> contract_env list \<Rightarrow> serve_service \<Rightarrow> bool" where
  "in_force env path disks service \<longleftrightarrow> ss_registry_file service = path \<and>
     (\<exists>registry. ss_registry service = Some registry \<and> newest_said env path disks registry)"

lemma list_all2_in_set2: "list_all2 P xs ys \<Longrightarrow> y \<in> set ys \<Longrightarrow> \<exists>x \<in> set xs. P x y"
  by (induction rule: list_all2_induct) auto

lemma load_registry_from_file_Ok:
  "load_registry_from_file env disk path = Ok registry \<longleftrightarrow> registry_says env disk path registry"
  by (simp add: load_registry_from_file_def load_contract_from_path_def load_json_value_def
      and_then_Ok map_err_Ok contract_loading_decides registry_says_def)
    blast

lemma newest_said_next:
  "registry_says env disk path registry \<Longrightarrow> newest_said env path (disks @ [disk]) registry"
  "\<nexists>r. registry_says env disk path r \<Longrightarrow> newest_said env path disks registry \<Longrightarrow>
     newest_said env path (disks @ [disk]) registry"
proof -
  show "registry_says env disk path registry \<Longrightarrow> newest_said env path (disks @ [disk]) registry"
    unfolding newest_said_def by (intro exI [of _ disks] exI [of _ disk] exI [of _ "[]"]) simp
  assume "\<nexists>r. registry_says env disk path r" "newest_said env path disks registry"
  then obtain older d newer where "disks = older @ d # newer" "registry_says env d path registry"
    "\<forall>d \<in> set (newer @ [disk]). \<nexists>r. registry_says env d path r"
    by (auto simp: newest_said_def)
  then show "newest_said env path (disks @ [disk]) registry"
    unfolding newest_said_def by (intro exI [of _ older] exI [of _ d] exI [of _ "newer @ [disk]"]) simp
qed

lemma load_service_in_force:
  "load_service env disk path = Ok service \<Longrightarrow> in_force env path [disk] service"
  using newest_said_next(1) [where disks = "[]"]
  by (auto simp: load_service_def and_then_Ok load_registry_from_file_Ok in_force_def)

lemma reload_in_force:
  assumes "in_force env path disks service"
  shows "in_force env path (disks @ [disk]) (fst (reload env disk service))"
proof -
  from assms obtain registry where path: "ss_registry_file service = path"
    and registry: "ss_registry service = Some registry" "newest_said env path disks registry"
    by (auto simp: in_force_def)
  show ?thesis
  proof (cases "load_registry_from_file env disk path")
    case (Ok fresh)
    then show ?thesis
      using newest_said_next(1) [OF Ok [unfolded load_registry_from_file_Ok]] path
      by (simp add: in_force_def reload_def)
  next
    case (Err e)
    then have "\<nexists>r. registry_says env disk path r"
      by (simp flip: load_registry_from_file_Ok)
    with newest_said_next(2) registry Err path show ?thesis
      by (simp add: in_force_def reload_def)
  qed
qed

text \<open>A run keeps the newest registry in force and answers each request under the one of its time.\<close>

lemma daemon_runs_answers:
  assumes "daemon_runs env keys es s s'" and "in_force env path disks (dm_service s)"
  shows "in_force env path (disks @ reload_disks (dm_reload_requested s) es) (dm_service s') \<and>
    (\<exists>answers. dm_answers s' = dm_answers s @ answers \<and>
       list_all2 (answered_at env keys path) (occasions (dm_reload_requested s) disks es) answers)"
  using assms
proof (induction arbitrary: disks)
  case (run_none s)
  then show ?case by simp
next
  case (run_step e s s1 es s')
  show ?case
  proof (cases e)
    case Sighup
    with run_step.hyps(1) have "s1 = request_reload s" by (auto elim: daemon_sighupE)
    with run_step.IH [of disks] run_step.prems Sighup show ?thesis
      by (simp add: request_reload_def)
  next
    case (Iteration disk now received)
    define service where "service = (if dm_reload_requested s then fst (reload env disk (dm_service s))
      else dm_service s)"
    define disks' where "disks' = disks @ (if dm_reload_requested s then [disk] else [])"
    have force: "in_force env path disks' service"
      using run_step.prems by (simp add: service_def disks'_def reload_in_force)
    then obtain registry where registry: "ss_registry service = Some registry" "newest_said env path disks' registry"
      by (auto simp: in_force_def)
    from run_step.hyps(1) Iteration have s1: "s1 = serve_iteration env keys disk now received s"
      by (auto elim: daemon_iterationE)
    then have fields: "dm_reload_requested s1 = False" "dm_service s1 = service"
      "dm_answers s1 = dm_answers s @ (case received of
         Request request \<Rightarrow> [(now, request, build_response env now request service keys)] | _ \<Rightarrow> [])"
      by (auto simp: serve_iteration_def handle_request_def service_def split: received.split)
    have one: "list_all2 (answered_at env keys path)
        (case received of Request request \<Rightarrow> [(disks', now, request)] | _ \<Rightarrow> [])
        (case received of
           Request request \<Rightarrow> [(now, request, build_response env now request service keys)] | _ \<Rightarrow> [])"
      using registry(2) build_response_fits [OF registry(1)]
      by (cases received) (simp_all add: answered_at_def, blast)
    from run_step.IH [of disks'] force fields obtain answers where
      "in_force env path (disks' @ reload_disks False es) (dm_service s')"
      "dm_answers s' = dm_answers s1 @ answers"
      "list_all2 (answered_at env keys path) (occasions False disks' es) answers"
      by auto
    with fields one Iteration show ?thesis
      by (simp add: disks'_def [symmetric] Let_def)
        (auto simp: disks'_def intro: list_all2_appendI)
  qed
qed

section \<open>Properties\<close>

text \<open>C12: whatever signals, requests, receive errors and states of the disk the daemon meets after a
  start that loaded, it always serves the newest registry that its file said at the start or at a
  reload: the first iteration after a signal reads the same file again, a file that cannot be read,
  fails the schema of capability registries or does not decode leaves the registry as it was, and every
  other replaces it. The answers are those of the requests received, in their order, and each is the
  one that the table of answers asks for under the registry in force at that time; so the daemon never
  answers that the registry is unavailable, whereas the 503 clause of its scoping packet asks for this
  answer after a failed reload.\<close>

theorem daemon_serves_loaded_registry:
  assumes "load_service env disk path = Ok service"
    and "daemon_runs env keys events (daemon_start service) s"
  shows "(\<exists>registry. ss_registry (dm_service s) = Some registry \<and>
      newest_said env path (disk # reload_disks False events) registry) \<and>
    list_all2 (answered_at env keys path) (occasions False [disk] events) (dm_answers s)"
  using daemon_runs_answers [OF assms(2), of path "[disk]"] load_service_in_force [OF assms(1)]
  by (simp add: daemon_start_def in_force_def)

text \<open>C11: the daemon reveals a capability record only to an authorised request: every answer with status
  200 went to a GET of the one route with a UUID-shaped identifier, whose bearer token verified at that
  time with EdDSA under the configured key of its key identifier and carries the scope
  \<open>capability:read\<close>, and its body is the record that the newest registry said by the file when the
  request came has for this identifier.\<close>

theorem daemon_reveals_only_to_authorised:
  assumes "load_service env disk path = Ok service"
    and "daemon_runs env keys events (daemon_start service) s"
    and "(now, request, response) \<in> set (dm_answers s)" and "hp_status response = 200"
  shows "\<exists>segment i disks registry r. route_segment request segment \<and> uuid_shaped segment \<and>
    sv_parse_uuid env segment = Some i \<and> token_verified env now keys (authorization_of request) \<and>
    (disks, now, request) \<in> set (occasions False [disk] events) \<and>
    newest_said env path disks registry \<and> capability_for registry i = Some r \<and>
    hp_body response = sv_record_json env r"
proof -
  from daemon_runs_answers [OF assms(2), of path "[disk]"] load_service_in_force [OF assms(1)]
  have "list_all2 (answered_at env keys path) (occasions False [disk] events) (dm_answers s)"
    by (auto simp: daemon_start_def)
  from list_all2_in_set2 [OF this assms(3)] obtain disks registry where
    o: "(disks, now, request) \<in> set (occasions False [disk] events)"
    and registry: "newest_said env path disks registry" "answer_fits env now keys registry request response"
    by (force simp: answered_at_def)
  from registry(2) assms(4) obtain segment i r where s: "route_segment request segment"
    and i: "parse_capability_id_segment env segment = Some i"
    and t: "token_verified env now keys (authorization_of request)"
    and r: "capability_for registry i = Some r" "hp_body response = sv_record_json env r"
    by (auto simp: answer_fits_def error_response_def json_response_def split: if_splits option.splits)
  from i have "uuid_shaped segment" "sv_parse_uuid env segment = Some i"
    by (simp_all add: parse_capability_id_segment_Some)
  with s t r o registry(1) show ?thesis by blast
qed

text \<open>A daemon with one key, whose library accepts one token until it expires.\<close>

definition sample_serve_env :: "unit serve_env" where
  "sample_serve_env =
     \<lparr>sv_decode_header = (\<lambda>_. Ok (Some ''k'')), sv_from_ed_pem = (\<lambda>_. None),
      sv_from_ed_components = (\<lambda>_. Some ()),
      sv_decode = (\<lambda>now token _ _. if token \<noteq> ''t'' then Err InvalidSignature
        else if now \<le> 100 then Ok \<lparr>tc_scope = Some ''capability:read''\<rparr> else Err ExpiredSignature),
      sv_parse_uuid = (\<lambda>_. Some 7), sv_record_json = (\<lambda>_. JNull),
      sv_decode_registry = (\<lambda>_. Ok \<lparr>reg_registry_version = ''1'', reg_capabilities =
        [\<lparr>cap_capability_id = 7, cap_owner_service = [], cap_capability_type = LocalFileRead,
          cap_side_effect_class = NoSideEffect, cap_approval_posture = PolicyPreapproved,
          cap_allowed_requester_classes = [], cap_timeout_budget_ms = 1, cap_retry_budget = 0,
          cap_max_duration_budget_ms = 1, cap_max_cpu_budget = None, cap_max_mem_budget_mb = None,
          cap_enabled_state = Enabled, cap_review_class = NoReview,
          cap_provenance = \<lparr>cp_source_kind = RegistryFile, cp_issued_at = 0\<rparr>,
          cap_revocation_state = Active, cap_version_range = None\<rparr>]\<rparr>)\<rparr>"

definition sample_disk :: contract_env where
  "sample_disk =
     \<lparr>ce_manifest_dir = [], ce_read_to_string = Ok, ce_from_str = (\<lambda>_. Ok JNull),
      ce_from_slice = (\<lambda>_. Ok JNull), ce_build_validator = (\<lambda>_. Ok (\<lambda>_. [])), ce_debug_list = (\<lambda>_. [])\<rparr>"

definition sample_service :: serve_service where
  "sample_service = (case load_service sample_serve_env sample_disk ''r'' of Ok service \<Rightarrow> service
     | Err _ \<Rightarrow> \<lparr>ss_registry_file = [], ss_registry = None\<rparr>)"

definition sample_get :: http_request where
  "sample_get =
     \<lparr>hr_method = Get, hr_url = ''/api/v1/capabilities/77777777-7777-4777-8777-777777777777'',
      hr_headers = [(''AUTHORIZATION'', ''Bearer t'')]\<rparr>"

definition sample_keys :: public_keys where
  "sample_keys = Mapping.update ''k'' ''x'' Mapping.empty"

lemma sample_service_loads: "load_service sample_serve_env sample_disk ''r'' = Ok sample_service"
  by (simp add: sample_service_def load_service_def load_registry_from_file_def sample_serve_env_def
      sample_disk_def load_contract_from_path_def load_json_value_def deserialize_contract_value_def
      validate_contract_value_def)

text \<open>The file is unreadable at the reload, so the first registry stays in force.\<close>

definition lost_disk :: contract_env where
  "lost_disk = sample_disk\<lparr>ce_read_to_string := (\<lambda>_. Err ''not found'')\<rparr>"

definition sample_events :: "daemon_event list" where
  "sample_events = [Sighup, Iteration lost_disk 5 (Request sample_get)]"

definition served :: daemon_state where
  "served = serve_iteration sample_serve_env sample_keys lost_disk 5 (Request sample_get)
     (request_reload (daemon_start sample_service))"

lemma served_reached:
  "daemon_runs sample_serve_env sample_keys sample_events (daemon_start sample_service) served"
  unfolding served_def sample_events_def
  by (rule run_step [OF daemon_step.sighup run_step [OF daemon_step.iteration run_none]])

lemma sample_get_authorised:
  "route_segment sample_get ''77777777-7777-4777-8777-777777777777''"
  "parse_capability_id_segment sample_serve_env ''77777777-7777-4777-8777-777777777777'' = Some 7"
  "verify_bearer_token sample_serve_env 5 (authorization_of sample_get) sample_keys = Ok ()"
proof -
  show "route_segment sample_get ''77777777-7777-4777-8777-777777777777''"
    by (simp add: route_segment_def sample_get_def)
  have "is_ascii_hexdigit CHR ''7''" "is_ascii_hexdigit CHR ''4''" "is_ascii_hexdigit CHR ''8''"
    by (simp_all add: ascii_defs)
  then have "id_bytes_ok 0 ''77777777-7777-4777-8777-777777777777''" by simp
  then show "parse_capability_id_segment sample_serve_env ''77777777-7777-4777-8777-777777777777'' = Some 7"
    by (simp add: parse_capability_id_segment_def sample_serve_env_def)
  have trim: "str_trim ''t'' = ''t''" "str_trim ''x'' = ''x''"
  proof -
    have plain: "\<forall>p \<in> set white_space. p = [] \<or> \<not> str_starts_with ''t'' p \<and> \<not> str_starts_with ''x'' p"
      "\<forall>p \<in> set (map rev white_space). p = [] \<or> \<not> str_starts_with ''t'' p \<and> \<not> str_starts_with ''x'' p"
      by code_simp+
    have "strip_prefixes white_space ''t'' = ''t''" "strip_prefixes white_space ''x'' = ''x''"
      "strip_prefixes (map rev white_space) ''t'' = ''t''" "strip_prefixes (map rev white_space) ''x'' = ''x''"
      by (rule strip_prefixes_done, use plain in blast)+
    then show "str_trim ''t'' = ''t''" "str_trim ''x'' = ''x''"
      by (simp_all add: str_trim_def)
  qed
  have "authorization_of sample_get = Some ''Bearer t''"
    unfolding authorization_of_def sample_get_def by code_simp
  then have "bearer_token (authorization_of sample_get) = Some ''t''"
    using trim(1) by (simp add: bearer_token_def str_strip_prefix_def)
  then show "verify_bearer_token sample_serve_env 5 (authorization_of sample_get) sample_keys = Ok ()"
    using trim(2)
    by (simp add: verify_bearer_token_def sample_keys_def lookup_update sample_serve_env_def
        decoding_key_from_configured_value_def REQUIRED_SCOPE_def Mapping.is_empty_def)
qed

lemma served_answers:
  "dm_answers served = [(5, sample_get, json_response 200 JNull)]"
proof -
  have "lookup_capability (dm_service (served\<lparr>dm_answers := []\<rparr>)) 7 \<in> range Found"
    by (simp add: served_def serve_iteration_def request_reload_def daemon_start_def handle_request_def
        reload_def sample_service_def load_service_def load_registry_from_file_def sample_serve_env_def
        sample_disk_def lost_disk_def load_contract_from_path_def load_json_value_def
        deserialize_contract_value_def validate_contract_value_def lookup_capability_def capability_for_def)
  moreover have "sv_record_json sample_serve_env r = JNull" for r
    by (simp add: sample_serve_env_def)
  ultimately have "build_response sample_serve_env 5 sample_get (dm_service served) sample_keys =
      json_response 200 JNull"
    unfolding build_response_route [OF sample_get_authorised(1)]
    using sample_get_authorised(2,3) by auto
  then show ?thesis
    by (simp add: served_def serve_iteration_def request_reload_def daemon_start_def handle_request_def
        Let_def)
qed

theorem daemon_serves_loaded_registry_witness:
  "\<exists>registry. ss_registry (dm_service served) = Some registry \<and>
     newest_said sample_serve_env ''r'' [sample_disk, lost_disk] registry \<and> length (dm_answers served) = 1"
  using daemon_serves_loaded_registry [OF sample_service_loads served_reached] served_answers
  by (auto simp: sample_events_def)

theorem daemon_reveals_only_to_authorised_witness:
  "token_verified sample_serve_env 5 sample_keys (authorization_of sample_get)"
  using daemon_reveals_only_to_authorised [OF sample_service_loads served_reached, of 5 sample_get
      "json_response 200 JNull"]
  by (auto simp: served_answers json_response_def)

end
