(* ===== verification/Labels.thy ===== *)
theory Labels
  imports Gnat_Negotiation Forensics
begin

text \<open>
  The names that the derived serialisers print for enumerations: each is declared with
  \<open>rename_all = "snake_case"\<close> in the source.
\<close>

fun execution_state_label :: "execution_state \<Rightarrow> string" where
  "execution_state_label execution_state.Denied = ''denied''"
| "execution_state_label execution_state.ReviewRequired = ''review_required''"
| "execution_state_label WaitingExplicitApproval = ''waiting_explicit_approval''"
| "execution_state_label AdmittedNotStarted = ''admitted_not_started''"
| "execution_state_label InProgress = ''in_progress''"
| "execution_state_label Degraded = ''degraded''"
| "execution_state_label PartialSuccess = ''partial_success''"
| "execution_state_label CompletedWithConstraints = ''completed_with_constraints''"
| "execution_state_label execution_state.Completed = ''completed''"
| "execution_state_label execution_state.Failed = ''failed''"
| "execution_state_label execution_state.Canceled = ''canceled''"

fun approval_posture_label :: "approval_posture \<Rightarrow> string" where
  "approval_posture_label approval_posture.Denied = ''denied''"
| "approval_posture_label approval_posture.ReviewRequired = ''review_required''"
| "approval_posture_label ExplicitOperatorApproval = ''explicit_operator_approval''"
| "approval_posture_label PolicyPreapproved = ''policy_preapproved''"
| "approval_posture_label ExecuteAllowed = ''execute_allowed''"

fun degraded_subtype_label :: "degraded_subtype \<Rightarrow> string" where
  "degraded_subtype_label DegradedPreStart = ''degraded_pre_start''"
| "degraded_subtype_label DegradedInFlight = ''degraded_in_flight''"
| "degraded_subtype_label DegradedFallbackEquivalent = ''degraded_fallback_equivalent''"
| "degraded_subtype_label DegradedFallbackLimited = ''degraded_fallback_limited''"
| "degraded_subtype_label DegradedPartial = ''degraded_partial''"
| "degraded_subtype_label UnavailableDependencyBlock = ''unavailable_dependency_block''"

fun forensic_event_type_label :: "forensic_event_type \<Rightarrow> string" where
  "forensic_event_type_label DenialIssued = ''denial_issued''"
| "forensic_event_type_label RouteDecisionResolved = ''route_decision_resolved''"
| "forensic_event_type_label ReviewPackagePrepared = ''review_package_prepared''"
| "forensic_event_type_label ExecutionStatusObserved = ''execution_status_observed''"

fun gnat_event_type_label :: "gnat_forensic_event_type \<Rightarrow> string" where
  "gnat_event_type_label GnatDispatchNegotiated = ''gnat_dispatch_negotiated''"
| "gnat_event_type_label GnatShardDispatched = ''gnat_shard_dispatched''"

lemma forensic_event_type_label_inj:
  "forensic_event_type_label a = forensic_event_type_label b \<longleftrightarrow> a = b"
  by (cases a; cases b) simp_all

end
