(* ===== verification/Http_Client.thy ===== *)
theory Http_Client
  imports Contracts
begin

text \<open>
  What the integrations use of the HTTP client \<open>ureq\<close>: posting a JSON body under a timeout, and the
  three kinds of answer the source distinguishes. The client acts on a world \<open>'w\<close>; its timeout bounds
  the whole call, so posting always answers.
\<close>

text \<open>
  \<open>HttpOk\<close> carries the status and what \<open>into_json\<close> makes of the body, \<open>HttpStatus\<close> is
  \<open>ureq::Error::Status\<close> with what \<open>into_string\<close> makes of the body, \<open>HttpTransport\<close> the displayed error.
\<close>

datatype http_answer =
  HttpOk nat "(json, string) result"
| HttpStatus nat "(string, unit) result"
| HttpTransport string

text \<open>\<open>hc_read_var\<close> is \<open>None\<close> where \<open>std::env::var\<close> fails; timeouts are in seconds.\<close>

record 'w http_client =
  hc_read_var :: "string \<Rightarrow> string option"
  hc_post :: "string \<Rightarrow> nat \<Rightarrow> json \<Rightarrow> 'w \<Rightarrow> 'w \<times> http_answer"

definition base_url_from_env :: "'w http_client \<Rightarrow> string \<Rightarrow> string \<Rightarrow> string" where
  "base_url_from_env client var fallback =
     (case hc_read_var client var of Some url \<Rightarrow> url | None \<Rightarrow> fallback)"

fun unreadable_or :: "(string, unit) result \<Rightarrow> string" where
  "unreadable_or (Ok body) = body"
| "unreadable_or (Err _) = ''<unreadable response body>''"

end
