(* ===== verification/Neuronforge.thy ===== *)
theory Neuronforge
  imports Http_Client Gnat_Shard Forensic_Recording
begin

text \<open>
  The NeuronForge Local integration: \<open>src/integrations/neuronforge_local/mod.rs\<close> (the one admitted task
  and its dispatch over HTTP), \<open>forensics.rs\<close> beside it (the forensic event of a dispatch) and
  \<open>src/app/neuronforge_dispatch_pipeline_service.rs\<close> (a run that dispatches, builds the event and
  records it).
\<close>

section \<open>Dispatching a task\<close>

definition ADMITTED_TASK_ID :: string where
  "ADMITTED_TASK_ID = ''analyze.style.scene.v1''"

definition NEURONFORGE_LOCAL_DEFAULT_URL :: string where
  "NEURONFORGE_LOCAL_DEFAULT_URL = ''http://127.0.0.1:9011''"

definition NEURONFORGE_LOCAL_TASK_DISPATCH_PATH :: string where
  "NEURONFORGE_LOCAL_TASK_DISPATCH_PATH = ''/api/v1/fa-local/task-dispatch''"

definition NEURONFORGE_REQUEST_TIMEOUT_SECONDS :: nat where
  "NEURONFORGE_REQUEST_TIMEOUT_SECONDS = 180"

record model_resource_disclosure =
  mr_route_class :: string
  mr_model_id :: string
  mr_resource_budget_class :: string
  mr_execution_mode :: string

record nf_dispatch_request =
  nq_dispatch_id :: string
  nq_request_id :: string
  nq_task_id :: string
  nq_scene_text :: string
  nq_model_resource_disclosure :: model_resource_disclosure
  nq_operator_visible_message :: string

datatype nf_dispatch_result =
  NfCompleted json
| NfNotCompleted json
| NfDispatchUnavailable string

record 'w nf_adapter =
  na_adapter_id :: string
  na_dispatch_task :: "nf_dispatch_request \<Rightarrow> 'w \<Rightarrow> ('w \<times> nf_dispatch_result) option"

record nf_adapter_config =
  nc_base_url_override :: "string option"

text \<open>\<open>nv_debug_text\<close> is \<open>{:?}\<close> of a text, \<open>nv_now_json\<close> the serialised wall clock.\<close>

record 'w nf_env =
  nv_client :: "'w http_client"
  nv_now_json :: "'w \<Rightarrow> json"
  nv_debug_text :: "string \<Rightarrow> string"

definition neuronforge_local_base_url :: "'w nf_env \<Rightarrow> string" where
  "neuronforge_local_base_url env =
     base_url_from_env (nv_client env) ''NEURONFORGE_LOCAL_URL'' NEURONFORGE_LOCAL_DEFAULT_URL"

definition nf_base_url :: "'w nf_env \<Rightarrow> nf_adapter_config \<Rightarrow> string" where
  "nf_base_url env config =
     (case nc_base_url_override config of
        Some url \<Rightarrow> url
      | None \<Rightarrow> neuronforge_local_base_url env)"

definition disclosure_json :: "model_resource_disclosure \<Rightarrow> json" where
  "disclosure_json d = json_object
     [(''route_class'', JString (mr_route_class d)),
      (''model_id'', JString (mr_model_id d)),
      (''resource_budget_class'', JString (mr_resource_budget_class d)),
      (''execution_mode'', JString (mr_execution_mode d))]"

definition dispatch_body :: "nf_dispatch_request \<Rightarrow> json \<Rightarrow> json" where
  "dispatch_body request now = json_object
     [(''contract_version'', JString ''FaLocalTaskDispatch.v1''),
      (''dispatch_id'', JString (nq_dispatch_id request)),
      (''request_id'', JString (nq_request_id request)),
      (''source_service_id'', JString ''fa-local''),
      (''destination_service_id'', JString ''neuronforge-local''),
      (''task_id'', JString (nq_task_id request)),
      (''scene_text'', JString (nq_scene_text request)),
      (''model_resource_disclosure'', disclosure_json (nq_model_resource_disclosure request)),
      (''operator_visible_message'', JString (nq_operator_visible_message request)),
      (''created_at'', now)]"

text \<open>The field of a receipt, \<open>receipt.get(..).and_then(Value::as_str)\<close>.\<close>

definition validation_field :: "json \<Rightarrow> string option" where
  "validation_field receipt =
     (case json_get receipt ''schema_validation_status'' of Some (JString s) \<Rightarrow> Some s | _ \<Rightarrow> None)"

definition receipt_outcome :: "(string \<Rightarrow> string) \<Rightarrow> json \<Rightarrow> nf_dispatch_result" where
  "receipt_outcome debug_text receipt =
     (case validation_field receipt of
        Some s \<Rightarrow>
          if s = ''valid'' then NfCompleted receipt
          else if s = ''degraded'' \<or> s = ''failed'' then NfNotCompleted receipt
          else NfDispatchUnavailable
            (''NeuronForge Local receipt had an unrecognized or missing '' @
             ''schema_validation_status: Some('' @ debug_text s @ '')'')
      | None \<Rightarrow> NfDispatchUnavailable
          (''NeuronForge Local receipt had an unrecognized or missing '' @
           ''schema_validation_status: None''))"

fun answer_outcome :: "(string \<Rightarrow> string) \<Rightarrow> string \<Rightarrow> http_answer \<Rightarrow> nf_dispatch_result" where
  "answer_outcome debug_text url (HttpOk status (Ok receipt)) = receipt_outcome debug_text receipt"
| "answer_outcome debug_text url (HttpOk status (Err e)) = NfDispatchUnavailable
     (''NeuronForge Local returned a response that could not be parsed as JSON: '' @ e)"
| "answer_outcome debug_text url (HttpStatus status body) = NfDispatchUnavailable
     (''NeuronForge Local rejected the dispatch (status '' @ show_nat status @ ''): '' @
      unreadable_or body)"
| "answer_outcome debug_text url (HttpTransport e) = NfDispatchUnavailable
     (''could not reach NeuronForge Local at '' @ url @ '': '' @ e)"

definition dispatch_task ::
  "'w nf_env \<Rightarrow> nf_adapter_config \<Rightarrow> nf_dispatch_request \<Rightarrow> 'w \<Rightarrow> 'w \<times> nf_dispatch_result" where
  "dispatch_task env config request w =
     (if nq_task_id request \<noteq> ADMITTED_TASK_ID
      then (w, NfDispatchUnavailable
        (''task '' @ nv_debug_text env (nq_task_id request) @
         '' is not admitted for FA-Local dispatch (only '' @
         nv_debug_text env ADMITTED_TASK_ID @ '' is)''))
      else
        let body = dispatch_body request (nv_now_json env w);
            url = nf_base_url env config @ NEURONFORGE_LOCAL_TASK_DISPATCH_PATH;
            (w', response) = hc_post (nv_client env) url NEURONFORGE_REQUEST_TIMEOUT_SECONDS body w in
        (w', answer_outcome (nv_debug_text env) url response))"

definition http_neuronforge_adapter :: "'w nf_env \<Rightarrow> nf_adapter_config \<Rightarrow> 'w nf_adapter" where
  "http_neuronforge_adapter env config =
     \<lparr>na_adapter_id = ''http-neuronforge-local'',
      na_dispatch_task = (\<lambda>request w. Some (dispatch_task env config request w))\<rparr>"

section \<open>Forensic events\<close>

datatype nf_dispatch_outcome = OutcomeCompleted | OutcomeNotCompleted | OutcomeUnavailable

datatype nf_receipt_status = StatusValid | StatusDegraded | StatusFailed

datatype nf_redaction_level = NfNoRedaction | NfSensitiveRedacted | NfLinkageOnly

record nf_forensic_event =
  nf_forensic_event_id :: forensic_event_id
  nf_dispatch_id :: string
  nf_request_id :: string
  nf_task_id :: string
  nf_outcome :: nf_dispatch_outcome
  nf_receipt_validation_status :: "nf_receipt_status option"
  nf_timestamp_utc :: timestamp
  nf_summary :: string
  nf_redaction_level :: nf_redaction_level
  nf_payload_minimized :: bool

record validated_nf_event =
  vn_event :: nf_forensic_event

definition load_nf_event ::
  "contract_env \<Rightarrow> (json \<Rightarrow> (nf_forensic_event, string) result) \<Rightarrow> json \<Rightarrow>
   nf_forensic_event fa_local_result" where
  "load_nf_event env decode v =
     deserialize_contract_value env decode NeuronForgeTaskDispatchForensicEvent v"

definition validate_nf_event :: "nf_forensic_event \<Rightarrow> unit fa_local_result" where
  "validate_nf_event e =
     and_then (checks
       [fail_if (nf_summary e = [] \<or> chars_count (nf_summary e) > 160) (contract_invalid
          (''neuronforge task dispatch forensic event summary must be '' @
           ''between 1 and 160 characters'')),
        fail_if (nf_dispatch_id e = [] \<or> length (nf_dispatch_id e) > 200) (contract_invalid
          (''neuronforge task dispatch forensic event dispatch_id must be '' @
           ''between 1 and 200 characters'')),
        fail_if (nf_request_id e = [] \<or> length (nf_request_id e) > 200) (contract_invalid
          (''neuronforge task dispatch forensic event request_id must be '' @
           ''between 1 and 200 characters'')),
        fail_if (nf_task_id e = [] \<or> length (nf_task_id e) > 200) (contract_invalid
          (''neuronforge task dispatch forensic event task_id must be '' @
           ''between 1 and 200 characters'')),
        fail_if (\<not> nf_payload_minimized e) (contract_invalid
          (''neuronforge task dispatch forensic event payload_minimized must '' @
           ''remain true for bounded forensics''))]) (\<lambda>_.
     case nf_outcome e of
       OutcomeUnavailable \<Rightarrow> fail_if (nf_receipt_validation_status e \<noteq> None) (contract_invalid
         (''dispatch_unavailable neuronforge task dispatch forensic event '' @
          ''must not include receipt_validation_status''))
     | OutcomeCompleted \<Rightarrow> fail_if (nf_receipt_validation_status e \<noteq> Some StatusValid) (contract_invalid
         (''completed neuronforge task dispatch forensic event requires '' @
          ''receipt_validation_status valid''))
     | OutcomeNotCompleted \<Rightarrow>
         fail_if (nf_receipt_validation_status e \<notin> {Some StatusDegraded, Some StatusFailed})
           (contract_invalid
             (''not_completed neuronforge task dispatch forensic event requires '' @
              ''receipt_validation_status degraded or failed'')))"

definition new_nf_event :: "nf_forensic_event \<Rightarrow> nf_forensic_event fa_local_result" where
  "new_nf_event event = and_then (validate_nf_event event) (\<lambda>_. Ok event)"

definition validated_nf :: "nf_forensic_event \<Rightarrow> validated_nf_event fa_local_result" where
  "validated_nf event = and_then (validate_nf_event event) (\<lambda>_. Ok \<lparr>vn_event = event\<rparr>)"

definition new_validated_nf_event :: "nf_forensic_event \<Rightarrow> validated_nf_event fa_local_result" where
  "new_validated_nf_event event = validated_nf event"

section \<open>The run\<close>

record nf_record_outcome =
  no_event :: validated_nf_event
  no_export_reference :: "string option"

record nf_run_result =
  nw_outcome :: nf_dispatch_result
  nw_forensic_record :: nf_record_outcome

record 'w nf_export_adapter =
  nt_adapter_id :: string
  nt_export_event :: "validated_nf_event \<Rightarrow> 'w \<Rightarrow> ('w \<times> forensic_export_result) option"

definition receipt_validation_status_from_receipt ::
  "(string \<Rightarrow> string) \<Rightarrow> json \<Rightarrow> nf_receipt_status fa_local_result" where
  "receipt_validation_status_from_receipt debug_text receipt =
     and_then (ok_or (validation_field receipt) (contract_invalid
       ''NeuronForge Local receipt missing schema_validation_status field'')) (\<lambda>status.
     if status = ''degraded'' then Ok StatusDegraded
     else if status = ''failed'' then Ok StatusFailed
     else Err (contract_invalid
       (''NeuronForge Local receipt reported an unrecognized schema_validation_status '' @
        ''for a not-completed outcome: '' @ debug_text status)))"

fun debug_status :: "nf_receipt_status \<Rightarrow> string" where
  "debug_status StatusValid = ''Valid''"
| "debug_status StatusDegraded = ''Degraded''"
| "debug_status StatusFailed = ''Failed''"

fun nf_event_parts ::
  "(string \<Rightarrow> string) \<Rightarrow> nf_dispatch_request \<Rightarrow> nf_dispatch_result \<Rightarrow>
   (nf_dispatch_outcome \<times> nf_receipt_status option \<times> string) fa_local_result" where
  "nf_event_parts debug_text request (NfCompleted receipt) =
     Ok (OutcomeCompleted, Some StatusValid,
         ''NeuronForge Local dispatch '' @ nq_dispatch_id request @ '' completed for task '' @
         nq_task_id request @ ''.'')"
| "nf_event_parts debug_text request (NfNotCompleted receipt) =
     and_then (receipt_validation_status_from_receipt debug_text receipt) (\<lambda>status.
     Ok (OutcomeNotCompleted, Some status,
         ''NeuronForge Local dispatch '' @ nq_dispatch_id request @ '' did not complete ('' @
         debug_status status @ '').''))"
| "nf_event_parts debug_text request (NfDispatchUnavailable summary) =
     Ok (OutcomeUnavailable, None, summary)"

definition build_nf_event ::
  "(string \<Rightarrow> string) \<Rightarrow> forensic_event_id \<Rightarrow> nf_dispatch_request \<Rightarrow> nf_dispatch_result \<Rightarrow>
   timestamp \<Rightarrow> validated_nf_event fa_local_result" where
  "build_nf_event debug_text fresh request outcome now =
     and_then (nf_event_parts debug_text request outcome) (\<lambda>(dispatch_outcome, status, summary).
     and_then (new_nf_event
       \<lparr>nf_forensic_event_id = fresh,
        nf_dispatch_id = nq_dispatch_id request,
        nf_request_id = nq_request_id request,
        nf_task_id = nq_task_id request,
        nf_outcome = dispatch_outcome,
        nf_receipt_validation_status = status,
        nf_timestamp_utc = now,
        nf_summary = char_bounded_summary summary,
        nf_redaction_level = NfLinkageOnly,
        nf_payload_minimized = True\<rparr>) validated_nf)"

definition call_nf_export ::
  "'w nf_export_adapter \<Rightarrow> validated_nf_event \<Rightarrow> ('w, forensic_export_result) effect" where
  "call_nf_export adapter event w = map_option (\<lambda>(w', r). (w', Ok r)) (nt_export_event adapter event w)"

definition record_nf_event ::
  "'w nf_export_adapter option \<Rightarrow> validated_nf_event \<Rightarrow> ('w, nf_record_outcome) effect" where
  "record_nf_event export_adapter event =
     (case export_adapter of
        Some adapter \<Rightarrow>
          and_do (call_nf_export adapter event) (\<lambda>result.
          and_do (pure_do (map_export_result (nt_adapter_id adapter) result)) (\<lambda>receipt.
          pure_do (Ok \<lparr>no_event = event, no_export_reference = Some (er_export_reference receipt)\<rparr>)))
      | None \<Rightarrow> pure_do (Ok \<lparr>no_event = event, no_export_reference = None\<rparr>))"

definition call_task ::
  "'w nf_adapter \<Rightarrow> nf_dispatch_request \<Rightarrow> ('w, nf_dispatch_result) effect" where
  "call_task adapter request w = map_option (\<lambda>(w', r). (w', Ok r)) (na_dispatch_task adapter request w)"

definition run_neuronforge ::
  "(string \<Rightarrow> string) \<Rightarrow> forensic_event_id \<Rightarrow> nf_dispatch_request \<Rightarrow> 'w nf_adapter \<Rightarrow>
   'w nf_export_adapter option \<Rightarrow> timestamp \<Rightarrow> ('w, nf_run_result) effect" where
  "run_neuronforge debug_text fresh request adapter export_adapter now =
     and_do (call_task adapter request) (\<lambda>outcome.
     and_do (pure_do (build_nf_event debug_text fresh request outcome now)) (\<lambda>event.
     and_do (record_nf_event export_adapter event) (\<lambda>forensic_record.
     pure_do (Ok \<lparr>nw_outcome = outcome, nw_forensic_record = forensic_record\<rparr>))))"

section \<open>What a dispatch reports\<close>

definition nf_event_wf :: "nf_forensic_event \<Rightarrow> bool" where
  "nf_event_wf e \<longleftrightarrow>
     nf_summary e \<noteq> [] \<and> chars_count (nf_summary e) \<le> 160 \<and>
     (\<forall>i \<in> {nf_dispatch_id e, nf_request_id e, nf_task_id e}. i \<noteq> [] \<and> length i \<le> 200) \<and>
     nf_payload_minimized e \<and>
     nf_receipt_validation_status e \<in>
       (case nf_outcome e of OutcomeUnavailable \<Rightarrow> {None} | OutcomeCompleted \<Rightarrow> {Some StatusValid}
        | OutcomeNotCompleted \<Rightarrow> {Some StatusDegraded, Some StatusFailed})"

lemma validate_nf_event_Ok: "validate_nf_event e = Ok () \<longleftrightarrow> nf_event_wf e"
  by (cases "nf_outcome e")
    (auto simp: validate_nf_event_def nf_event_wf_def result_simps not_less)

interpretation nf_wrapper: validated_type validate_nf_event
    "\<lambda>e. \<lparr>vn_event = e\<rparr>" vn_event new_nf_event new_validated_nf_event
  by unfold_locales
    (simp_all add: new_nf_event_def new_validated_nf_event_def validated_nf_def)

lemma build_validated_nf_Ok:
  "and_then (new_nf_event e) validated_nf = Ok v \<longleftrightarrow> nf_event_wf e \<and> v = \<lparr>vn_event = e\<rparr>"
  by (auto simp: nf_wrapper.construct_Ok validated_nf_def validate_nf_event_Ok result_simps)

definition ids_bounded :: "nf_dispatch_request \<Rightarrow> bool" where
  "ids_bounded request \<longleftrightarrow>
     (\<forall>i \<in> {nq_dispatch_id request, nq_request_id request, nq_task_id request}. i \<noteq> [] \<and> length i \<le> 200)"

text \<open>A result that its receipt backs: a completed one says valid, the other says degraded or failed.\<close>

fun nf_backed :: "nf_dispatch_result \<Rightarrow> bool" where
  "nf_backed (NfCompleted receipt) \<longleftrightarrow> validation_field receipt = Some ''valid''"
| "nf_backed (NfNotCompleted receipt) \<longleftrightarrow>
     validation_field receipt \<in> {Some ''degraded'', Some ''failed''}"
| "nf_backed (NfDispatchUnavailable summary) \<longleftrightarrow> True"

text \<open>An event says a result: its outcome, and the status that the receipt carries.\<close>

definition nf_event_says :: "nf_dispatch_request \<Rightarrow> nf_dispatch_result \<Rightarrow> nf_forensic_event \<Rightarrow> bool" where
  "nf_event_says request result e \<longleftrightarrow>
     nf_dispatch_id e = nq_dispatch_id request \<and> nf_request_id e = nq_request_id request \<and>
     nf_task_id e = nq_task_id request \<and> nf_redaction_level e = NfLinkageOnly \<and>
     (case result of
        NfCompleted receipt \<Rightarrow>
          nf_outcome e = OutcomeCompleted \<and> nf_receipt_validation_status e = Some StatusValid
      | NfNotCompleted receipt \<Rightarrow>
          nf_outcome e = OutcomeNotCompleted \<and>
          nf_receipt_validation_status e =
            Some (if validation_field receipt = Some ''degraded'' then StatusDegraded else StatusFailed)
      | NfDispatchUnavailable summary \<Rightarrow>
          nf_outcome e = OutcomeUnavailable \<and> nf_receipt_validation_status e = None \<and>
          nf_summary e = char_bounded_summary summary)"

lemma receipt_outcome_backed: "nf_backed (receipt_outcome debug_text receipt)"
  by (cases "validation_field receipt") (auto simp: receipt_outcome_def)

lemma answer_outcome_backed: "nf_backed (answer_outcome debug_text url answer)"
  by (cases "(debug_text, url, answer)" rule: answer_outcome.cases) (simp_all add: receipt_outcome_backed)

lemma dispatch_task_backed: "nf_backed (snd (dispatch_task env config request w))"
  by (simp add: dispatch_task_def Let_def answer_outcome_backed split: prod.split)

definition nf_event_of ::
  "forensic_event_id \<Rightarrow> nf_dispatch_request \<Rightarrow> nf_dispatch_outcome \<Rightarrow> nf_receipt_status option \<Rightarrow>
   timestamp \<Rightarrow> string \<Rightarrow> nf_forensic_event" where
  "nf_event_of fresh request d s now t =
     \<lparr>nf_forensic_event_id = fresh, nf_dispatch_id = nq_dispatch_id request,
      nf_request_id = nq_request_id request, nf_task_id = nq_task_id request, nf_outcome = d,
      nf_receipt_validation_status = s, nf_timestamp_utc = now, nf_summary = char_bounded_summary t,
      nf_redaction_level = NfLinkageOnly, nf_payload_minimized = True\<rparr>"

lemma nf_event_of_wf:
  "nf_event_wf (nf_event_of fresh request d s now t) \<longleftrightarrow> ids_bounded request \<and>
     s \<in> (case d of OutcomeUnavailable \<Rightarrow> {None} | OutcomeCompleted \<Rightarrow> {Some StatusValid}
        | OutcomeNotCompleted \<Rightarrow> {Some StatusDegraded, Some StatusFailed})"
  by (simp add: nf_event_of_def nf_event_wf_def ids_bounded_def char_bounded_summary_fits)

lemma not_completed_status:
  assumes "validation_field receipt \<in> {Some ''degraded'', Some ''failed''}"
  shows "receipt_validation_status_from_receipt debug_text receipt =
    Ok (if validation_field receipt = Some ''degraded'' then StatusDegraded else StatusFailed)"
  using assms by (auto simp: receipt_validation_status_from_receipt_def)

lemma nf_event_parts_backed:
  assumes "nf_backed outcome"
  shows "\<exists>d s t. nf_event_parts debug_text request outcome = Ok (d, s, t) \<and>
    nf_event_says request outcome (nf_event_of fresh request d s now t) \<and>
    s \<in> (case d of OutcomeUnavailable \<Rightarrow> {None} | OutcomeCompleted \<Rightarrow> {Some StatusValid}
      | OutcomeNotCompleted \<Rightarrow> {Some StatusDegraded, Some StatusFailed})"
proof (cases outcome)
  case (NfNotCompleted receipt)
  with assms have v: "validation_field receipt \<in> {Some ''degraded'', Some ''failed''}"
    by (simp only: nf_backed.simps)
  show ?thesis
    unfolding NfNotCompleted nf_event_parts.simps not_completed_status [OF v] and_then.simps
    by (simp add: nf_event_says_def nf_event_of_def)
qed (simp_all add: nf_event_says_def nf_event_of_def)

lemma build_nf_event_backed:
  assumes "nf_backed outcome"
  shows "(if ids_bounded request
    then \<exists>event. build_nf_event debug_text fresh request outcome now = Ok \<lparr>vn_event = event\<rparr> \<and>
      nf_event_wf event \<and> nf_event_says request outcome event
    else \<exists>e. build_nf_event debug_text fresh request outcome now = Err e)"
proof -
  obtain d s t where parts: "nf_event_parts debug_text request outcome = Ok (d, s, t)"
    "nf_event_says request outcome (nf_event_of fresh request d s now t)"
    and wf: "nf_event_wf (nf_event_of fresh request d s now t) \<longleftrightarrow> ids_bounded request"
    using nf_event_parts_backed [OF assms] nf_event_of_wf by metis
  have "build_nf_event debug_text fresh request outcome now =
      and_then (new_nf_event (nf_event_of fresh request d s now t)) validated_nf"
    by (simp add: build_nf_event_def parts(1) nf_event_of_def)
  with build_validated_nf_Ok [of "nf_event_of fresh request d s now t"] wf parts(2) show ?thesis
    by (auto simp: result_not_Ok [symmetric])
qed

text \<open>The world after the one request of an admitted dispatch.\<close>

definition posted :: "'w nf_env \<Rightarrow> nf_adapter_config \<Rightarrow> nf_dispatch_request \<Rightarrow> 'w \<Rightarrow> 'w" where
  "posted env config request w =
     fst (hc_post (nv_client env) (nf_base_url env config @ ''/api/v1/fa-local/task-dispatch'') 180
       (dispatch_body request (nv_now_json env w)) w)"

text \<open>C23: a run through the HTTP adapter without an export sink always ends. It sends nothing unless
  the task is the admitted one, and otherwise posts once, to the configured address under the timeout;
  a completed result carries a receipt that says valid, one that is not completed a receipt that says
  degraded or failed. The run answers with that result and one well-formed event that says it exactly
  when its three identifiers have 1 to 200 bytes; otherwise it errs, after the dispatch.\<close>

theorem neuronforge_run_truthful:
  "\<exists>w' outcome r.
    run_neuronforge debug_text fresh request (http_neuronforge_adapter env config) None now w = Some (w', r) \<and>
    (if nq_task_id request = ''analyze.style.scene.v1'' then w' = posted env config request w
     else w' = w \<and> (\<exists>summary. outcome = NfDispatchUnavailable summary)) \<and>
    nf_backed outcome \<and>
    (if ids_bounded request
     then \<exists>event. r = Ok \<lparr>nw_outcome = outcome, nw_forensic_record =
         \<lparr>no_event = \<lparr>vn_event = event\<rparr>, no_export_reference = None\<rparr>\<rparr> \<and>
       nf_event_wf event \<and> nf_event_says request outcome event
     else \<exists>e. r = Err e)"
proof -
  obtain w' outcome where d: "dispatch_task env config request w = (w', outcome)"
    by (cases "dispatch_task env config request w")
  from d have w': "if nq_task_id request = ''analyze.style.scene.v1'' then w' = posted env config request w
     else w' = w \<and> (\<exists>summary. outcome = NfDispatchUnavailable summary)"
    by (auto simp: dispatch_task_def ADMITTED_TASK_ID_def posted_def
        NEURONFORGE_LOCAL_TASK_DISPATCH_PATH_def NEURONFORGE_REQUEST_TIMEOUT_SECONDS_def Let_def split: prod.splits if_splits)
  from d have backed: "nf_backed outcome"
    using dispatch_task_backed [of env config request w] by simp
  have run: "run_neuronforge debug_text fresh request (http_neuronforge_adapter env config) None now w =
      Some (w', and_then (build_nf_event debug_text fresh request outcome now) (\<lambda>event. Ok
        \<lparr>nw_outcome = outcome, nw_forensic_record = \<lparr>no_event = event, no_export_reference = None\<rparr>\<rparr>))"
    by (cases "build_nf_event debug_text fresh request outcome now")
      (simp_all add: run_neuronforge_def and_do_def call_task_def http_neuronforge_adapter_def d pure_do_def
        record_nf_event_def)
  from build_nf_event_backed [OF backed, of request debug_text fresh now] show ?thesis
    unfolding run using w' backed by (auto split: if_splits)
qed

end
