(* ===== verification/Export_Sinks.thy ===== *)
theory Export_Sinks
  imports Labels Neuronforge Gnat_Pipeline
begin

text \<open>
  The export sinks of the three event families: \<open>src/adapters/exports/jsonl_forensic_export.rs\<close> and
  \<open>sqlite_forensic_store.rs\<close>, and the \<open>forensic_export.rs\<close> of \<open>src/integrations/cortex\<close> and
  \<open>src/integrations/neuronforge_local\<close>, which repeat both for their own events. The bodies are written
  once, over the texts, statements and columns in which the copies differ.

  The file system and \<open>rusqlite\<close> are the records \<open>jsonl_env\<close> and \<open>sqlite_env\<close> over a world \<open>'w\<close>. The
  mutex around a connection is never held by a call that panics, so locking succeeds.
\<close>

section \<open>Line files\<close>

text \<open>How opening a file for appending fails: \<open>ErrorKind::NotFound\<close> or any other way.\<close>

datatype open_failure = FileNotFound | OtherOpenFailure

text \<open>\<open>jl_append\<close> is \<open>write_all\<close> on the opened file; it is false when the write failed.\<close>

record 'w jsonl_env =
  jl_open_append :: "string \<Rightarrow> 'w \<Rightarrow> 'w \<times> (unit, open_failure) result"
  jl_append :: "string \<Rightarrow> string \<Rightarrow> 'w \<Rightarrow> 'w \<times> bool"

record jsonl_config =
  jc_export_file_path :: string

record jsonl_texts =
  jt_adapter_id :: string
  jt_not_serialized :: string
  jt_no_directory :: string
  jt_no_sink :: string
  jt_write_failed :: string

definition line_end :: string where
  "line_end = [CHR 0x0A]"

text \<open>\<open>writeln!(file, "{line}")\<close> writes the line and then its end.\<close>

definition write_line :: "'w jsonl_env \<Rightarrow> string \<Rightarrow> string \<Rightarrow> 'w \<Rightarrow> 'w \<times> bool" where
  "write_line env path line w =
     (let (w1, written) = jl_append env path line w in
      if written then jl_append env path line_end w1 else (w1, False))"

definition jsonl_export ::
  "'w jsonl_env \<Rightarrow> jsonl_texts \<Rightarrow> jsonl_config \<Rightarrow> (string, string) result \<Rightarrow> string \<Rightarrow> 'w \<Rightarrow>
   'w \<times> forensic_export_result" where
  "jsonl_export env texts config printed reference w =
     (case printed of
        Err _ \<Rightarrow> (w, forensic_export_result.Unsupported (jt_not_serialized texts))
      | Ok line \<Rightarrow>
          let (w1, opened) = jl_open_append env (jc_export_file_path config) w in
          (case opened of
             Err FileNotFound \<Rightarrow> (w1, forensic_export_result.DependencyUnavailable (jt_no_directory texts))
           | Err OtherOpenFailure \<Rightarrow> (w1, forensic_export_result.DependencyUnavailable (jt_no_sink texts))
           | Ok _ \<Rightarrow>
               let (w2, written) = write_line env (jc_export_file_path config) line w1 in
               (w2, if written then Exported reference
                    else forensic_export_result.DependencyUnavailable (jt_write_failed texts))))"

definition forensic_jsonl_texts :: jsonl_texts where
  "forensic_jsonl_texts =
     \<lparr>jt_adapter_id = ''jsonl-forensic-export'',
      jt_not_serialized = ''forensic event could not be serialized for jsonl export'',
      jt_no_directory = ''jsonl forensic export directory is unavailable'',
      jt_no_sink = ''jsonl forensic export sink is unavailable'',
      jt_write_failed = ''jsonl forensic export write failed''\<rparr>"

definition gnat_jsonl_texts :: jsonl_texts where
  "gnat_jsonl_texts =
     \<lparr>jt_adapter_id = ''jsonl-gnat-forensic-export'',
      jt_not_serialized = ''gnat dispatch forensic event could not be serialized for jsonl export'',
      jt_no_directory = ''jsonl gnat forensic export directory is unavailable'',
      jt_no_sink = ''jsonl gnat forensic export sink is unavailable'',
      jt_write_failed = ''jsonl gnat forensic export write failed''\<rparr>"

definition nf_jsonl_texts :: jsonl_texts where
  "nf_jsonl_texts =
     \<lparr>jt_adapter_id = ''jsonl-neuronforge-forensic-export'',
      jt_not_serialized =
        ''neuronforge task dispatch forensic event could not be serialized for jsonl export'',
      jt_no_directory = ''jsonl neuronforge forensic export directory is unavailable'',
      jt_no_sink = ''jsonl neuronforge forensic export sink is unavailable'',
      jt_write_failed = ''jsonl neuronforge forensic export write failed''\<rparr>"

definition jsonl_forensic_adapter ::
  "'w jsonl_env \<Rightarrow> (forensic_event \<Rightarrow> (string, string) result) \<Rightarrow> (uuid \<Rightarrow> string) \<Rightarrow> jsonl_config \<Rightarrow>
   'w export_adapter" where
  "jsonl_forensic_adapter env print show_uuid config =
     \<lparr>ea_adapter_id = jt_adapter_id forensic_jsonl_texts,
      ea_export_event = (\<lambda>event w. Some (jsonl_export env forensic_jsonl_texts config
        (print (vf_event event)) (show_uuid (fe_forensic_event_id (vf_event event))) w))\<rparr>"

definition jsonl_gnat_adapter ::
  "'w jsonl_env \<Rightarrow> (gnat_forensic_event \<Rightarrow> (string, string) result) \<Rightarrow> (uuid \<Rightarrow> string) \<Rightarrow> jsonl_config \<Rightarrow>
   'w gnat_export_adapter" where
  "jsonl_gnat_adapter env print show_uuid config =
     \<lparr>gt_adapter_id = jt_adapter_id gnat_jsonl_texts,
      gt_export_event = (\<lambda>event w. Some (jsonl_export env gnat_jsonl_texts config
        (print (vg_event event)) (show_uuid (gf_forensic_event_id (vg_event event))) w))\<rparr>"

definition jsonl_nf_adapter ::
  "'w jsonl_env \<Rightarrow> (nf_forensic_event \<Rightarrow> (string, string) result) \<Rightarrow> (uuid \<Rightarrow> string) \<Rightarrow> jsonl_config \<Rightarrow>
   'w nf_export_adapter" where
  "jsonl_nf_adapter env print show_uuid config =
     \<lparr>nt_adapter_id = jt_adapter_id nf_jsonl_texts,
      nt_export_event = (\<lambda>event w. Some (jsonl_export env nf_jsonl_texts config
        (print (vn_event event)) (show_uuid (nf_forensic_event_id (vn_event event))) w))\<rparr>"

section \<open>Stores\<close>

datatype sql_value = SqlText string | SqlNull

text \<open>
  \<open>sl_query_texts\<close> prepares a statement and reads the first column of every row as a text, each of which
  may fail; it leaves the store as it is.
\<close>

record 'w sqlite_env =
  sl_open :: "string \<Rightarrow> 'w \<Rightarrow> 'w \<times> (unit, string) result"
  sl_execute_batch :: "string \<Rightarrow> 'w \<Rightarrow> 'w \<times> (unit, string) result"
  sl_execute :: "string \<Rightarrow> sql_value list \<Rightarrow> 'w \<Rightarrow> 'w \<times> (unit, string) result"
  sl_query_texts :: "string \<Rightarrow> sql_value list \<Rightarrow> 'w \<Rightarrow> ((string, string) result list, string) result"

text \<open>The printers of identifiers and instants.\<close>

record sink_printers =
  sp_uuid :: "uuid \<Rightarrow> string"
  sp_rfc3339 :: "timestamp \<Rightarrow> string"

definition sql_lines :: "string list \<Rightarrow> string" where
  "sql_lines ls = str_join line_end ls"

definition FORENSIC_SCHEMA :: string where
  "FORENSIC_SCHEMA = sql_lines
     ['''',
      ''CREATE TABLE IF NOT EXISTS forensic_events ('',
      ''    forensic_event_id TEXT PRIMARY KEY,'',
      ''    correlation_id TEXT NOT NULL,'',
      ''    request_id TEXT NOT NULL,'',
      ''    event_type TEXT NOT NULL,'',
      ''    execution_state TEXT NOT NULL,'',
      ''    timestamp_utc TEXT NOT NULL,'',
      ''    event_json TEXT NOT NULL'',
      '');'',
      ''CREATE INDEX IF NOT EXISTS idx_forensic_events_correlation_id ON forensic_events(correlation_id);'',
      ''CREATE INDEX IF NOT EXISTS idx_forensic_events_event_type ON forensic_events(event_type);'',
      '''']"

definition GNAT_SCHEMA :: string where
  "GNAT_SCHEMA = sql_lines
     ['''',
      ''CREATE TABLE IF NOT EXISTS gnat_dispatch_forensic_events ('',
      ''    forensic_event_id TEXT PRIMARY KEY,'',
      ''    correlation_id TEXT NOT NULL,'',
      ''    run_id TEXT NOT NULL,'',
      ''    event_type TEXT NOT NULL,'',
      ''    shard_id TEXT,'',
      ''    timestamp_utc TEXT NOT NULL,'',
      ''    event_json TEXT NOT NULL'',
      '');'',
      ''CREATE INDEX IF NOT EXISTS idx_gnat_dispatch_forensic_events_run_id '' @
        ''ON gnat_dispatch_forensic_events(run_id);'',
      ''CREATE INDEX IF NOT EXISTS idx_gnat_dispatch_forensic_events_event_type '' @
        ''ON gnat_dispatch_forensic_events(event_type);'',
      '''']"

definition NEURONFORGE_SCHEMA :: string where
  "NEURONFORGE_SCHEMA = sql_lines
     ['''',
      ''CREATE TABLE IF NOT EXISTS neuronforge_task_dispatch_forensic_events ('',
      ''    forensic_event_id TEXT PRIMARY KEY,'',
      ''    dispatch_id TEXT NOT NULL,'',
      ''    request_id TEXT NOT NULL,'',
      ''    task_id TEXT NOT NULL,'',
      ''    outcome TEXT NOT NULL,'',
      ''    timestamp_utc TEXT NOT NULL,'',
      ''    event_json TEXT NOT NULL'',
      '');'',
      ''CREATE INDEX IF NOT EXISTS idx_neuronforge_task_dispatch_forensic_events_dispatch_id '' @
        ''ON neuronforge_task_dispatch_forensic_events(dispatch_id);'',
      ''CREATE INDEX IF NOT EXISTS idx_neuronforge_task_dispatch_forensic_events_outcome '' @
        ''ON neuronforge_task_dispatch_forensic_events(outcome);'',
      '''']"

definition open_store :: "'w sqlite_env \<Rightarrow> string \<Rightarrow> string \<Rightarrow> 'w \<Rightarrow> 'w \<times> unit fa_local_result" where
  "open_store env schema path w =
     (let (w1, opened) = sl_open env path w in
      case opened of
        Err e \<Rightarrow> (w1, Err (Sqlite e))
      | Ok _ \<Rightarrow> let (w2, created) = sl_execute_batch env schema w1 in (w2, map_err Sqlite created))"

definition open_forensic_store :: "'w sqlite_env \<Rightarrow> string \<Rightarrow> 'w \<Rightarrow> 'w \<times> unit fa_local_result" where
  "open_forensic_store env = open_store env FORENSIC_SCHEMA"

definition open_gnat_store :: "'w sqlite_env \<Rightarrow> string \<Rightarrow> 'w \<Rightarrow> 'w \<times> unit fa_local_result" where
  "open_gnat_store env = open_store env GNAT_SCHEMA"

definition open_nf_store :: "'w sqlite_env \<Rightarrow> string \<Rightarrow> 'w \<Rightarrow> 'w \<times> unit fa_local_result" where
  "open_nf_store env = open_store env NEURONFORGE_SCHEMA"

text \<open>The event is printed before the statement is run; \<open>row\<close> are the parameters with the printed event.\<close>

definition insert_row ::
  "'w sqlite_env \<Rightarrow> string \<Rightarrow> (string \<Rightarrow> sql_value list) \<Rightarrow> (string, string) result \<Rightarrow> 'w \<Rightarrow>
   'w \<times> unit fa_local_result" where
  "insert_row env statement row printed w =
     (case printed of
        Err e \<Rightarrow> (w, Err (Serialization e))
      | Ok event_json \<Rightarrow>
          let (w', executed) = sl_execute env statement (row event_json) w in
          (w', map_err Sqlite executed))"

definition store_export ::
  "'w \<times> unit fa_local_result \<Rightarrow> string \<Rightarrow> string \<Rightarrow> 'w \<times> forensic_export_result" where
  "store_export inserted reference failed =
     (fst inserted, case snd inserted of
        Ok _ \<Rightarrow> Exported reference
      | Err _ \<Rightarrow> forensic_export_result.DependencyUnavailable failed)"

definition FORENSIC_INSERT :: string where
  "FORENSIC_INSERT = sql_lines
     [''INSERT INTO forensic_events'',
      ''                (forensic_event_id, correlation_id, request_id, event_type, '' @
        ''execution_state, timestamp_utc, event_json)'',
      ''             VALUES (?1, ?2, ?3, ?4, ?5, ?6, ?7)'']"

definition forensic_row :: "sink_printers \<Rightarrow> forensic_event \<Rightarrow> string \<Rightarrow> sql_value list" where
  "forensic_row ps e event_json =
     map SqlText
       [sp_uuid ps (fe_forensic_event_id e), sp_uuid ps (fe_correlation_id e),
        sp_uuid ps (fe_request_id e), forensic_event_type_label (fe_event_type e),
        execution_state_label (fe_execution_state e), sp_rfc3339 ps (fe_timestamp_utc e), event_json]"

definition insert_forensic ::
  "'w sqlite_env \<Rightarrow> sink_printers \<Rightarrow> (forensic_event \<Rightarrow> (string, string) result) \<Rightarrow> forensic_event \<Rightarrow>
   'w \<Rightarrow> 'w \<times> unit fa_local_result" where
  "insert_forensic env ps print e = insert_row env FORENSIC_INSERT (forensic_row ps e) (print e)"

definition sqlite_forensic_store ::
  "'w sqlite_env \<Rightarrow> sink_printers \<Rightarrow> (forensic_event \<Rightarrow> (string, string) result) \<Rightarrow> 'w export_adapter" where
  "sqlite_forensic_store env ps print =
     \<lparr>ea_adapter_id = ''sqlite-forensic-store'',
      ea_export_event = (\<lambda>event w. Some (store_export (insert_forensic env ps print (vf_event event) w)
        (sp_uuid ps (fe_forensic_event_id (vf_event event))) ''sqlite forensic store write failed''))\<rparr>"

definition GNAT_INSERT :: string where
  "GNAT_INSERT = sql_lines
     [''INSERT INTO gnat_dispatch_forensic_events'',
      ''                (forensic_event_id, correlation_id, run_id, event_type, shard_id, '' @
        ''timestamp_utc, event_json)'',
      ''             VALUES (?1, ?2, ?3, ?4, ?5, ?6, ?7)'']"

definition gnat_row :: "sink_printers \<Rightarrow> gnat_forensic_event \<Rightarrow> string \<Rightarrow> sql_value list" where
  "gnat_row ps e event_json =
     [SqlText (sp_uuid ps (gf_forensic_event_id e)), SqlText (sp_uuid ps (gf_correlation_id e)),
      SqlText (gf_run_id e), SqlText (gnat_event_type_label (gf_event_type e)),
      (case gf_shard_id e of Some i \<Rightarrow> SqlText i | None \<Rightarrow> SqlNull),
      SqlText (sp_rfc3339 ps (gf_timestamp_utc e)), SqlText event_json]"

definition insert_gnat ::
  "'w sqlite_env \<Rightarrow> sink_printers \<Rightarrow> (gnat_forensic_event \<Rightarrow> (string, string) result) \<Rightarrow>
   gnat_forensic_event \<Rightarrow> 'w \<Rightarrow> 'w \<times> unit fa_local_result" where
  "insert_gnat env ps print e = insert_row env GNAT_INSERT (gnat_row ps e) (print e)"

definition sqlite_gnat_store ::
  "'w sqlite_env \<Rightarrow> sink_printers \<Rightarrow> (gnat_forensic_event \<Rightarrow> (string, string) result) \<Rightarrow>
   'w gnat_export_adapter" where
  "sqlite_gnat_store env ps print =
     \<lparr>gt_adapter_id = ''sqlite-gnat-forensic-store'',
      gt_export_event = (\<lambda>event w. Some (store_export (insert_gnat env ps print (vg_event event) w)
        (sp_uuid ps (gf_forensic_event_id (vg_event event))) ''sqlite gnat forensic store write failed''))\<rparr>"

definition NEURONFORGE_INSERT :: string where
  "NEURONFORGE_INSERT = sql_lines
     [''INSERT INTO neuronforge_task_dispatch_forensic_events'',
      ''                (forensic_event_id, dispatch_id, request_id, task_id, outcome, '' @
        ''timestamp_utc, event_json)'',
      ''             VALUES (?1, ?2, ?3, ?4, ?5, ?6, ?7)'']"

fun nf_outcome_label :: "nf_dispatch_outcome \<Rightarrow> string" where
  "nf_outcome_label OutcomeCompleted = ''completed''"
| "nf_outcome_label OutcomeNotCompleted = ''not_completed''"
| "nf_outcome_label OutcomeUnavailable = ''dispatch_unavailable''"

definition nf_row :: "sink_printers \<Rightarrow> nf_forensic_event \<Rightarrow> string \<Rightarrow> sql_value list" where
  "nf_row ps e event_json =
     map SqlText
       [sp_uuid ps (nf_forensic_event_id e), nf_dispatch_id e, nf_request_id e, nf_task_id e,
        nf_outcome_label (nf_outcome e), sp_rfc3339 ps (nf_timestamp_utc e), event_json]"

definition insert_nf ::
  "'w sqlite_env \<Rightarrow> sink_printers \<Rightarrow> (nf_forensic_event \<Rightarrow> (string, string) result) \<Rightarrow>
   nf_forensic_event \<Rightarrow> 'w \<Rightarrow> 'w \<times> unit fa_local_result" where
  "insert_nf env ps print e = insert_row env NEURONFORGE_INSERT (nf_row ps e) (print e)"

definition sqlite_nf_store ::
  "'w sqlite_env \<Rightarrow> sink_printers \<Rightarrow> (nf_forensic_event \<Rightarrow> (string, string) result) \<Rightarrow>
   'w nf_export_adapter" where
  "sqlite_nf_store env ps print =
     \<lparr>nt_adapter_id = ''sqlite-neuronforge-forensic-store'',
      nt_export_event = (\<lambda>event w. Some (store_export (insert_nf env ps print (vn_event event) w)
        (sp_uuid ps (nf_forensic_event_id (vn_event event)))
        ''sqlite neuronforge forensic store write failed''))\<rparr>"

section \<open>Queries\<close>

definition query_statement :: "string \<Rightarrow> string" where
  "query_statement predicate =
     ''SELECT event_json FROM forensic_events WHERE '' @ predicate @ '' ORDER BY timestamp_utc ASC''"

definition query_where ::
  "'w sqlite_env \<Rightarrow> (string \<Rightarrow> (forensic_event, string) result) \<Rightarrow> string \<Rightarrow> sql_value list \<Rightarrow> 'w \<Rightarrow>
   forensic_event list fa_local_result" where
  "query_where env parse predicate params w =
     and_then (map_err Sqlite (sl_query_texts env (query_statement predicate) params w)) (\<lambda>rows.
     try_map (\<lambda>row.
       and_then (map_err Sqlite row) (\<lambda>text. map_err Serialization (parse text))) rows)"

definition query_by_correlation_id ::
  "'w sqlite_env \<Rightarrow> sink_printers \<Rightarrow> (string \<Rightarrow> (forensic_event, string) result) \<Rightarrow> correlation_id \<Rightarrow>
   'w \<Rightarrow> forensic_event list fa_local_result" where
  "query_by_correlation_id env ps parse i =
     query_where env parse ''correlation_id = ?1'' [SqlText (sp_uuid ps i)]"

definition query_by_event_type ::
  "'w sqlite_env \<Rightarrow> (string \<Rightarrow> (forensic_event, string) result) \<Rightarrow> forensic_event_type \<Rightarrow> 'w \<Rightarrow>
   forensic_event list fa_local_result" where
  "query_by_event_type env parse event_type =
     query_where env parse ''event_type = ?1'' [SqlText (forensic_event_type_label event_type)]"

end
