(* ===== verification/Export_Facts.thy ===== *)
theory Export_Facts
  imports Export_Sinks
begin

text \<open>
  What the export sinks keep: the answers of a sink stay within the bounds that the recorder asks for, and
  a store answers its queries with exactly the events whose recording was reported.
\<close>

section \<open>Sinks within the bounds of the recorder\<close>

text \<open>
  The recorder refuses adapter identifiers and texts that are not bounded. A sink that keeps to the
  bounds is never refused: its receipt is lost only with the event itself.
\<close>

locale bounded_sink =
  fixes adapter_id :: string
    and answers :: "forensic_export_result set"
  assumes id_bounded: "adapter_id \<noteq> [] \<and> length adapter_id \<le> 64"
    and exported_bounded: "Exported reference \<in> answers \<Longrightarrow> bounded_text reference"
begin

lemma exported_receipt:
  assumes "Exported reference \<in> answers"
  shows "map_export_result adapter_id (Exported reference) =
    Ok \<lparr>er_adapter_id = adapter_id, er_export_reference = reference\<rparr>"
  using exported_bounded [OF assms] id_bounded
  by (simp add: map_export_result_def validate_adapter_id_def validate_export_reference_def)

lemma receipt_exported:
  assumes "r \<in> answers" "map_export_result adapter_id r = Ok receipt"
  shows "r = Exported (er_export_reference receipt)"
  using assms(2) by (cases r) (auto simp: map_export_result_def result_simps)

lemma receipt_iff:
  assumes "r \<in> answers"
  shows "(\<exists>receipt. map_export_result adapter_id r = Ok receipt) \<longleftrightarrow> (\<exists>reference. r = Exported reference)"
  using assms exported_receipt receipt_exported by blast

end

text \<open>The answers of the crate's sinks: the printed identifier of the event, or a failure.\<close>

definition sink_answers :: "forensic_export_result set" where
  "sink_answers = {r. \<forall>reference. r = Exported reference \<longrightarrow> length reference = 36}"

lemma sink_answers_bounded: "Exported reference \<in> sink_answers \<Longrightarrow> bounded_text reference"
  by (auto simp: sink_answers_def)

interpretation forensic_jsonl: bounded_sink "''jsonl-forensic-export''" sink_answers
  by unfold_locales (auto simp: sink_answers_bounded)

interpretation gnat_jsonl: bounded_sink "''jsonl-gnat-forensic-export''" sink_answers
  by unfold_locales (auto simp: sink_answers_bounded)

interpretation nf_jsonl: bounded_sink "''jsonl-neuronforge-forensic-export''" sink_answers
  by unfold_locales (auto simp: sink_answers_bounded)

interpretation forensic_store: bounded_sink "''sqlite-forensic-store''" sink_answers
  by unfold_locales (auto simp: sink_answers_bounded)

interpretation gnat_store: bounded_sink "''sqlite-gnat-forensic-store''" sink_answers
  by unfold_locales (auto simp: sink_answers_bounded)

interpretation nf_store: bounded_sink "''sqlite-neuronforge-forensic-store''" sink_answers
  by unfold_locales (auto simp: sink_answers_bounded)

lemma store_export_answers:
  "length reference = 36 \<Longrightarrow> snd (store_export inserted reference failed) \<in> sink_answers"
  by (simp add: store_export_def sink_answers_def split: result.split)

lemma jsonl_export_answers:
  "length reference = 36 \<Longrightarrow> snd (jsonl_export env texts config printed reference w) \<in> sink_answers"
  by (simp add: jsonl_export_def sink_answers_def Let_def split: result.split prod.split open_failure.split)

section \<open>Recording one event after another\<close>

fun record_all ::
  "(forensic_event_id \<times> forensic_record_input) list \<Rightarrow> 'w export_adapter \<Rightarrow> 'w \<Rightarrow>
   ('w \<times> exported_forensic_record fa_local_result list) option" where
  "record_all [] adapter w = Some (w, [])"
| "record_all ((fresh, input) # inputs) adapter w =
     (case record_and_export_event fresh input adapter w of
        None \<Rightarrow> None
      | Some (w1, r) \<Rightarrow> map_option (\<lambda>(w2, rs). (w2, r # rs)) (record_all inputs adapter w1))"

text \<open>The events that were reported as recorded and exported.\<close>

definition reported :: "exported_forensic_record fa_local_result list \<Rightarrow> forensic_event list" where
  "reported rs = map (vf_event \<circ> xr_event) (List.map_filter ok_value rs)"

lemma reported_simps [simp]:
  "reported [] = []" "reported (Ok x # rs) = vf_event (xr_event x) # reported rs"
  "reported (Err e # rs) = reported rs"
  by (simp_all add: reported_def)

text \<open>An adapter that always answers, with \<open>step event w\<close>, and within the bounds.\<close>

lemma record_and_export_cases:
  assumes "ea_export_event adapter = (\<lambda>event w. Some (step event w))"
    and "\<And>event w. snd (step event w) \<in> sink_answers"
    and "bounded_sink (ea_adapter_id adapter) sink_answers"
    and "record_and_export_event fresh input adapter w = Some (w', r)"
  shows "(\<exists>e. r = Err e \<and> w' = w \<and> record_event fresh input = Err e) \<or>
    (\<exists>event. record_event fresh input = Ok event \<and> w' = fst (step event w) \<and>
      (case r of
         Ok x \<Rightarrow> xr_event x = event \<and> (\<exists>reference. snd (step event w) = Exported reference)
       | Err _ \<Rightarrow> \<nexists>reference. snd (step event w) = Exported reference))"
proof (cases "record_event fresh input")
  case (Err e)
  with assms(4) show ?thesis
    by (simp add: record_and_export_event_def record_and_export_event_via_def)
next
  case (Ok event)
  obtain w1 answer where s: "step event w = (w1, answer)" by (cases "step event w")
  from assms(4) Ok s have run: "w' = w1"
    "r = and_then (map_export_result (ea_adapter_id adapter) answer) (\<lambda>receipt.
      Ok \<lparr>xr_event = event, xr_export_receipt = receipt\<rparr>)"
    by (auto simp: record_and_export_event_def record_and_export_event_via_def and_do_def call_export_def
        assms(1) pure_do_def split: result.splits)
  from assms(2) [of event w] s have "answer \<in> sink_answers" by simp
  from bounded_sink.receipt_iff [OF assms(3) this] have
    "(\<exists>receipt. map_export_result (ea_adapter_id adapter) answer = Ok receipt) \<longleftrightarrow>
      (\<exists>reference. answer = Exported reference)" .
  then show ?thesis
    using Ok s run by (cases "map_export_result (ea_adapter_id adapter) answer") auto
qed

section \<open>The store as a table\<close>

text \<open>
  The behaviour of SQLite on the statements of the source: an insertion appends its row and needs a key
  that is not there, or changes nothing and fails; a query returns the last column of the selected rows
  in the order of the time column.
\<close>

fun sql_text :: "sql_value \<Rightarrow> string" where
  "sql_text (SqlText t) = t"
| "sql_text SqlNull = []"

definition selects :: "nat \<Rightarrow> sql_value \<Rightarrow> sql_value list list \<Rightarrow> (string, string) result list \<Rightarrow> bool" where
  "selects column v rows texts \<longleftrightarrow>
     (\<exists>selected. mset selected = mset (filter (\<lambda>row. row ! column = v) rows) \<and>
        sorted (map (\<lambda>row. sql_text (row ! 5)) selected) \<and>
        texts = map (\<lambda>row. Ok (sql_text (row ! 6))) selected)"

definition table_semantics :: "'w sqlite_env \<Rightarrow> ('w \<Rightarrow> sql_value list list) \<Rightarrow> bool" where
  "table_semantics env rows \<longleftrightarrow>
     (\<forall>values w w' r. sl_execute env FORENSIC_INSERT values w = (w', r) \<longrightarrow>
        (case r of
           Ok _ \<Rightarrow> rows w' = rows w @ [values] \<and> hd values \<notin> hd ` set (rows w)
         | Err _ \<Rightarrow> rows w' = rows w)) \<and>
     (\<forall>v w. \<exists>texts. sl_query_texts env (query_statement ''correlation_id = ?1'') [v] w = Ok texts \<and>
        selects 1 v (rows w) texts) \<and>
     (\<forall>v w. \<exists>texts. sl_query_texts env (query_statement ''event_type = ?1'') [v] w = Ok texts \<and>
        selects 3 v (rows w) texts)"

text \<open>The rows of a list of events.\<close>

definition stored ::
  "sink_printers \<Rightarrow> (forensic_event \<Rightarrow> (string, string) result) \<Rightarrow> forensic_event list \<Rightarrow>
   sql_value list list \<Rightarrow> bool" where
  "stored ps print es rows \<longleftrightarrow>
     list_all2 (\<lambda>e row. \<exists>text. print e = Ok text \<and> row = forensic_row ps e text) es rows"

lemma stored_snoc:
  "stored ps print es rows \<Longrightarrow> print e = Ok text \<Longrightarrow>
     stored ps print (es @ [e]) (rows @ [forensic_row ps e text])"
  unfolding stored_def by (rule list_all2_appendI) auto

lemma insert_forensic_rows:
  assumes "table_semantics env rows"
  shows "case snd (insert_forensic env ps print e w) of
      Ok _ \<Rightarrow> (\<exists>text. print e = Ok text \<and>
        rows (fst (insert_forensic env ps print e w)) = rows w @ [forensic_row ps e text]) \<and>
        SqlText (sp_uuid ps (fe_forensic_event_id e)) \<notin> hd ` set (rows w)
    | Err _ \<Rightarrow> rows (fst (insert_forensic env ps print e w)) = rows w"
proof (cases "print e")
  case (Err m)
  then show ?thesis by (simp add: insert_forensic_def insert_row_def)
next
  case (Ok t)
  obtain w' r where "sl_execute env FORENSIC_INSERT (forensic_row ps e t) w = (w', r)"
    by (cases "sl_execute env FORENSIC_INSERT (forensic_row ps e t) w")
  moreover from this assms have "case r of
      Ok _ \<Rightarrow> rows w' = rows w @ [forensic_row ps e t] \<and> hd (forensic_row ps e t) \<notin> hd ` set (rows w)
    | Err _ \<Rightarrow> rows w' = rows w"
    unfolding table_semantics_def by blast
  ultimately show ?thesis
    using Ok by (cases r) (simp_all add: insert_forensic_def insert_row_def forensic_row_def)
qed

lemma store_sink: "bounded_sink (ea_adapter_id (sqlite_forensic_store env ps print)) sink_answers"
  unfolding sqlite_forensic_store_def export_adapter.simps by (rule forensic_store.bounded_sink_axioms)

lemma record_all_stored:
  assumes "table_semantics env rows" "\<And>i. length (sp_uuid ps i) = 36"
    and "record_all inputs (sqlite_forensic_store env ps print) w = Some (w', results)"
    and "stored ps print es (rows w)" "distinct (map hd (rows w))"
  shows "stored ps print (es @ reported results) (rows w') \<and> distinct (map hd (rows w'))"
  using assms(3-5)
proof (induction inputs arbitrary: w es results)
  case Nil
  then show ?case by simp
next
  case (Cons x inputs)
  obtain fresh input where x: "x = (fresh, input)" by (cases x)
  let ?adapter = "sqlite_forensic_store env ps print"
  from Cons.prems(1) x obtain w1 r rs where step: "record_and_export_event fresh input ?adapter w = Some (w1, r)"
    and rest: "record_all inputs ?adapter w1 = Some (w', rs)" and results: "results = r # rs"
    by (auto split: option.splits)
  have "(\<exists>e. r = Err e \<and> w1 = w) \<or>
    (\<exists>event. w1 = fst (insert_forensic env ps print (vf_event event) w) \<and>
      (case r of
         Ok x \<Rightarrow> xr_event x = event \<and> snd (insert_forensic env ps print (vf_event event) w) = Ok ()
       | Err _ \<Rightarrow> \<exists>e. snd (insert_forensic env ps print (vf_event event) w) = Err e))"
    using record_and_export_cases [OF _ _ store_sink step, of
        "\<lambda>event w. store_export (insert_forensic env ps print (vf_event event) w)
           (sp_uuid ps (fe_forensic_event_id (vf_event event))) ''sqlite forensic store write failed''"]
      store_export_answers assms(2)
    by (fastforce simp: sqlite_forensic_store_def store_export_def split: result.splits)
  then consider (same) e where "r = Err e" "rows w1 = rows w"
    | (added) y t where "r = Ok y" "print (vf_event (xr_event y)) = Ok t"
      "rows w1 = rows w @ [forensic_row ps (vf_event (xr_event y)) t]"
      "SqlText (sp_uuid ps (fe_forensic_event_id (vf_event (xr_event y)))) \<notin> hd ` set (rows w)"
    using insert_forensic_rows [OF assms(1), where ps = ps and print = print and w = w]
    by (cases r) (force split: result.splits)+
  then show ?case
  proof cases
    case same
    with Cons.IH [OF rest, of es] Cons.prems(2,3) results show ?thesis by simp
  next
    case added
    with Cons.prems(2) have "stored ps print (es @ [vf_event (xr_event y)]) (rows w1)"
      by (simp add: stored_snoc)
    moreover from added Cons.prems(3) have "distinct (map hd (rows w1))"
      by (simp add: forensic_row_def image_iff)
    ultimately show ?thesis
      using Cons.IH [OF rest] results added(1) by fastforce
  qed
qed

text \<open>A query reads back the events of the rows it selects.\<close>

lemma stored_filter:
  assumes "stored ps print es rows"
    and "\<And>e text. forensic_row ps e text ! column = v \<longleftrightarrow> P e"
  shows "stored ps print (filter P es) (filter (\<lambda>row. row ! column = v) rows)"
  using assms(1) unfolding stored_def
proof (induction rule: list_all2_induct)
  case (Cons e es row rows)
  then show ?case using assms(2) [of e] by (cases "P e") auto
qed simp

lemma query_where_finds:
  assumes "stored ps print es (rows w)"
    and "\<And>e text. print e = Ok text \<Longrightarrow> parse text = Ok e"
    and "\<And>e text. forensic_row ps e text ! column = v \<longleftrightarrow> P e"
    and "sl_query_texts env (query_statement predicate) [v] w = Ok texts" "selects column v (rows w) texts"
  shows "\<exists>found. query_where env parse predicate [v] w = Ok found \<and> mset found = mset (filter P es) \<and>
    sorted (map (sp_rfc3339 ps \<circ> fe_timestamp_utc) found)"
proof -
  define read where "read = (\<lambda>row :: sql_value list. case parse (sql_text (row ! 6)) of Ok e \<Rightarrow> e | Err _ \<Rightarrow> undefined)"
  have row: "parse (sql_text (r ! 6)) = Ok (read r) \<and> sql_text (r ! 5) = sp_rfc3339 ps (fe_timestamp_utc (read r))"
    if "\<exists>e text. print e = Ok text \<and> r = forensic_row ps e text" for r
    using that assms(2) by (auto simp: read_def forensic_row_def)
  have rows: "list_all2 (\<lambda>e row. \<exists>text. print e = Ok text \<and> row = forensic_row ps e text)
      (filter P es) (filter (\<lambda>row. row ! column = v) (rows w))"
    using stored_filter [OF assms(1,3)] by (simp add: stored_def)
  then have "map read (filter (\<lambda>row. row ! column = v) (rows w)) = filter P es"
    by (induction rule: list_all2_induct) (auto simp: assms(2) read_def forensic_row_def)
  moreover from rows have each: "\<forall>r \<in> set (filter (\<lambda>row. row ! column = v) (rows w)).
      \<exists>e text. print e = Ok text \<and> r = forensic_row ps e text"
    by (induction rule: list_all2_induct) auto
  moreover from assms(5) obtain selected where
    sel: "mset selected = mset (filter (\<lambda>row. row ! column = v) (rows w))"
    "sorted (map (\<lambda>row. sql_text (row ! 5)) selected)"
    "texts = map (\<lambda>row. Ok (sql_text (row ! 6))) selected" unfolding selects_def by blast
  ultimately have "mset (map read selected) = mset (filter P es)"
    by (metis mset_map)
  moreover from sel(1) each have good: "\<forall>r \<in> set selected. \<exists>e text. print e = Ok text \<and> r = forensic_row ps e text"
    by (metis set_mset_mset)
  have "try_map (\<lambda>row. and_then (map_err Sqlite row) (\<lambda>text. map_err Serialization (parse text))) texts =
      Ok (map read selected)"
    using good unfolding sel(3) by (induction selected) (auto simp: row)
  moreover have "map (sp_rfc3339 ps \<circ> fe_timestamp_utc) (map read selected) =
      map (\<lambda>row. sql_text (row ! 5)) selected"
    using good row by simp
  then have "sorted (map (sp_rfc3339 ps \<circ> fe_timestamp_utc) (map read selected))"
    using sel(2) by (simp only:)
  ultimately show ?thesis
    unfolding query_where_def assms(4) map_err.simps and_then.simps by blast
qed

end
