(* ===== verification/Export_Properties.thy ===== *)
theory Export_Properties
  imports Export_Facts Samples "HOL-Library.Sublist"
begin

text \<open>
  The properties of the export sinks: what the recorder reports as exported is what a store finds and
  what a line file holds.
\<close>

section \<open>Line files\<close>

text \<open>The lines of a text, as a reader splits them.\<close>

fun split_lines :: "string \<Rightarrow> string \<Rightarrow> string list" where
  "split_lines cur [] = (if cur = [] then [] else [rev cur])"
| "split_lines cur (c # s) =
     (if c = CHR 0x0A then rev cur # split_lines [] s else split_lines (c # cur) s)"

lemma split_lines_line:
  "CHR 0x0A \<notin> set t \<Longrightarrow> split_lines cur (t @ line_end @ s) = (rev cur @ t) # split_lines [] s"
  by (induction t arbitrary: cur) (auto simp: line_end_def)

lemma split_lines_concat:
  "\<forall>t \<in> set ts. CHR 0x0A \<notin> set t \<Longrightarrow> split_lines [] (concat (map (\<lambda>t. t @ line_end) ts)) = ts"
  by (induction ts) (simp_all add: split_lines_line)

lemma split_lines_more:
  "CHR 0x0A \<notin> set t \<Longrightarrow> split_lines cur (t @ s) = split_lines (rev t @ cur) s"
  by (induction t arbitrary: cur) auto

text \<open>
  The behaviour of a file opened for appending: \<open>write_all\<close> appends a text, and when it fails only a proper
  part of it from its start, since the \<open>write\<close> that fails has written nothing.
\<close>

definition append_semantics :: "'w jsonl_env \<Rightarrow> string \<Rightarrow> ('w \<Rightarrow> string) \<Rightarrow> bool" where
  "append_semantics env path contents_of \<longleftrightarrow>
     (\<forall>w. contents_of (fst (jl_open_append env path w)) = contents_of w) \<and>
     (\<forall>s w. \<exists>part. contents_of (fst (jl_append env path s w)) = contents_of w @ part \<and>
        (if snd (jl_append env path s w) then part = s else strict_prefix part s))"

lemma append_semanticsD:
  assumes "append_semantics env path contents_of" "jl_append env path s w = (w', ok)"
  obtains part where "contents_of w' = contents_of w @ part" "if ok then part = s else strict_prefix part s"
  using assms unfolding append_semantics_def by (metis fst_conv snd_conv)

lemma write_line_appends:
  assumes "append_semantics env path contents_of" and "write_line env path line w = (w', written)"
  shows "\<exists>piece. contents_of w' = contents_of w @ piece \<and>
    (if written then piece = line @ line_end else prefix piece line)"
proof -
  obtain w1 ok where a: "jl_append env path line w = (w1, ok)" by fastforce
  obtain part where part: "contents_of w1 = contents_of w @ part"
    "if ok then part = line else strict_prefix part line"
    using append_semanticsD [OF assms(1) a] by blast
  show ?thesis
  proof (cases ok)
    case False
    with assms(2) a part show ?thesis by (auto simp: write_line_def strict_prefix_def)
  next
    case True
    obtain w2 ended where b: "jl_append env path line_end w1 = (w2, ended)" by fastforce
    obtain ending where "contents_of w2 = contents_of w1 @ ending"
      "if ended then ending = line_end else strict_prefix ending line_end"
      using append_semanticsD [OF assms(1) b] by blast
    with assms(2) a b part True show ?thesis
      by (auto simp: write_line_def line_end_def strict_prefix_def prefix_Cons split: if_splits)
  qed
qed

text \<open>What recording a fact leaves in the file: the line of a reported event, or a part of a text.\<close>

definition piece_of ::
  "(forensic_event \<Rightarrow> (string, string) result) \<Rightarrow> exported_forensic_record fa_local_result \<Rightarrow> string \<Rightarrow> bool" where
  "piece_of print r piece \<longleftrightarrow>
     (case r of
        Ok x \<Rightarrow> \<exists>text. print (vf_event (xr_event x)) = Ok text \<and> piece = text @ line_end
      | Err _ \<Rightarrow> piece = [] \<or> (\<exists>event text. print event = Ok text \<and> prefix piece text))"

lemma jsonl_export_appends:
  assumes "append_semantics env (jc_export_file_path config) contents_of"
    and "jsonl_export env texts config printed reference w = (w', r)"
  shows "\<exists>piece. contents_of w' = contents_of w @ piece \<and>
    (if \<exists>x. r = Exported x then \<exists>text. printed = Ok text \<and> piece = text @ line_end
     else piece = [] \<or> (\<exists>text. printed = Ok text \<and> prefix piece text))"
proof (cases printed)
  case (Err e)
  with assms(2) show ?thesis by (auto simp: jsonl_export_def)
next
  case (Ok t)
  let ?path = "jc_export_file_path config"
  obtain w1 opened where o1: "jl_open_append env ?path w = (w1, opened)"
    by (cases "jl_open_append env ?path w")
  from assms(1) o1 have w1: "contents_of w1 = contents_of w"
    unfolding append_semantics_def by (metis fst_conv)
  obtain w2 written where l: "write_line env ?path t w1 = (w2, written)" by fastforce
  from write_line_appends [OF assms(1) l] obtain piece where
    "contents_of w2 = contents_of w @ piece" "if written then piece = t @ line_end else prefix piece t"
    by (auto simp: w1)
  with assms(2) Ok o1 l w1 show ?thesis
    by (cases opened) (auto simp: jsonl_export_def split: open_failure.splits if_splits)
qed

lemma jsonl_sink:
  "bounded_sink (ea_adapter_id (jsonl_forensic_adapter env print show_uuid config)) sink_answers"
  unfolding jsonl_forensic_adapter_def export_adapter.simps forensic_jsonl_texts_def jsonl_texts.simps
  by (rule forensic_jsonl.bounded_sink_axioms)

lemma record_all_pieces:
  assumes "append_semantics env (jc_export_file_path config) contents_of" "\<And>i. length (show_uuid i) = 36"
    and "record_all inputs (jsonl_forensic_adapter env print show_uuid config) w = Some (w', results)"
  shows "\<exists>pieces. list_all2 (piece_of print) results pieces \<and> contents_of w' = contents_of w @ concat pieces"
  using assms(3)
proof (induction inputs arbitrary: w results)
  case Nil
  then show ?case by simp
next
  case (Cons x inputs)
  obtain fresh input where x: "x = (fresh, input)" by (cases x)
  let ?adapter = "jsonl_forensic_adapter env print show_uuid config"
  from Cons.prems x obtain w1 r rs where step: "record_and_export_event fresh input ?adapter w = Some (w1, r)"
    and rest: "record_all inputs ?adapter w1 = Some (w', rs)" and results: "results = r # rs"
    by (auto split: option.splits)
  from Cons.IH [OF rest] obtain pieces where pieces: "list_all2 (piece_of print) rs pieces"
    "contents_of w' = contents_of w1 @ concat pieces" by blast
  define run where "run = (\<lambda>event :: validated_forensic_event. jsonl_export env forensic_jsonl_texts config (print (vf_event event))
    (show_uuid (fe_forensic_event_id (vf_event event))))"
  have "ea_export_event ?adapter = (\<lambda>event w. Some (run event w))"
    "\<And>event w. snd (run event w) \<in> sink_answers"
    by (simp_all add: jsonl_forensic_adapter_def run_def jsonl_export_answers assms(2))
  note answers = this
  have "\<exists>piece. piece_of print r piece \<and> contents_of w1 = contents_of w @ piece"
    using record_and_export_cases [OF answers jsonl_sink step]
  proof (elim disjE exE conjE)
    fix e assume "r = Err e" "w1 = w"
    then show ?thesis by (simp add: piece_of_def)
  next
    fix event
    assume w1: "w1 = fst (run event w)"
      and r: "case r of Ok x \<Rightarrow> xr_event x = event \<and> (\<exists>reference. snd (run event w) = Exported reference)
        | Err _ \<Rightarrow> \<nexists>reference. snd (run event w) = Exported reference"
    have "jsonl_export env forensic_jsonl_texts config (print (vf_event event))
        (show_uuid (fe_forensic_event_id (vf_event event))) w = (w1, snd (run event w))"
      by (simp add: w1 run_def)
    from jsonl_export_appends [OF assms(1) this] obtain piece where
      "contents_of w1 = contents_of w @ piece"
      "if \<exists>x. snd (run event w) = Exported x
       then \<exists>t. print (vf_event event) = Ok t \<and> piece = t @ line_end
       else piece = [] \<or> (\<exists>t. print (vf_event event) = Ok t \<and> prefix piece t)" by blast
    with r show ?thesis
      by (intro exI [of _ piece]) (cases r; auto simp: piece_of_def)
  qed
  then obtain piece where "piece_of print r piece" "contents_of w1 = contents_of w @ piece" by blast
  with pieces results show ?case by (intro exI [of _ "piece # pieces"]) simp
qed

text \<open>
  The lines of the file: each reported event ends one, behind what failed writes left of others; at most
  one more is left without its end.
\<close>

lemma pieces_lines:
  assumes "list_all2 (piece_of print) results pieces"
    and "\<And>e text. print e = Ok text \<Longrightarrow> CHR 0x0A \<notin> set text"
  shows "\<exists>lines rest. split_lines cur (concat pieces) = lines @ rest \<and> length rest \<le> 1 \<and>
    list_all2 (\<lambda>e line. \<exists>text. print e = Ok text \<and> suffix text line) (reported results) lines"
  using assms(1)
proof (induction arbitrary: cur rule: list_all2_induct)
  case Nil
  show ?case by (intro exI [of _ "[]"] exI [of _ "split_lines cur []"]) simp
next
  case (Cons r results piece pieces)
  show ?case
  proof (cases r)
    case (Ok x)
    with Cons(1) obtain t where t: "print (vf_event (xr_event x)) = Ok t" "piece = t @ line_end"
      by (auto simp: piece_of_def)
    from Cons.IH [of "[]"] obtain lines rest where "split_lines [] (concat pieces) = lines @ rest"
      "length rest \<le> 1" "list_all2 (\<lambda>e line. \<exists>text. print e = Ok text \<and> suffix text line) (reported results) lines"
      by blast
    moreover have "split_lines cur (concat (piece # pieces)) = (rev cur @ t) # split_lines [] (concat pieces)"
      using split_lines_line [OF assms(2) [OF t(1)]] by (simp add: t(2))
    ultimately show ?thesis
      using t(1) Ok by (intro exI [of _ "(rev cur @ t) # lines"] exI [of _ rest]) (auto simp: suffix_def)
  next
    case (Err e)
    with Cons(1) assms(2) have "CHR 0x0A \<notin> set piece"
      by (auto simp: piece_of_def dest: set_mono_prefix)
    with Cons.IH [of "rev piece @ cur"] Err show ?thesis by (simp add: split_lines_more)
  qed
qed

lemma pieces_parse:
  assumes "list_all2 (piece_of print) results pieces"
    and "\<And>e text. print e = Ok text \<Longrightarrow> parse text = Ok e \<and> CHR 0x0A \<notin> set text"
    and "list_all2 (\<lambda>r piece. (\<exists>e. r = Err e) \<longrightarrow> piece = []) results pieces"
  shows "try_map parse (split_lines [] (concat pieces)) = Ok (reported results)"
  using assms(1,3)
proof (induction rule: list_all2_induct)
  case Nil
  then show ?case by simp
next
  case (Cons r results piece pieces)
  show ?case
  proof (cases r)
    case (Ok x)
    with Cons(1) obtain t where t: "print (vf_event (xr_event x)) = Ok t" "piece = t @ line_end"
      by (auto simp: piece_of_def)
    with t Cons assms(2) [OF t(1)] Ok split_lines_line [of t "[]" "concat pieces"] show ?thesis
      by simp
  next
    case (Err e)
    with Cons show ?thesis by simp
  qed
qed

section \<open>Properties\<close>

text \<open>C21: round trip through the store. After any facts were recorded one after the other through the
  SQLite store, starting from an empty table, both queries answer, and find exactly the events whose
  recording was reported, each once, in the order of their printed times; no two of them share an
  identifier.\<close>

theorem recorded_events_are_found:
  assumes "table_semantics env rows" and "rows w = []"
    and "inj (sp_uuid ps)" and "\<And>i. length (sp_uuid ps i) = 36"
    and "\<And>e text. print e = Ok text \<Longrightarrow> parse text = Ok e"
    and "record_all inputs (sqlite_forensic_store env ps print) w = Some (w', results)"
  shows "(\<exists>found. query_by_correlation_id env ps parse i w' = Ok found \<and>
      mset found = mset (filter (\<lambda>e. fe_correlation_id e = i) (reported results)) \<and>
      sorted (map (sp_rfc3339 ps \<circ> fe_timestamp_utc) found)) \<and>
    (\<exists>found. query_by_event_type env parse event_type w' = Ok found \<and>
      mset found = mset (filter (\<lambda>e. fe_event_type e = event_type) (reported results)) \<and>
      sorted (map (sp_rfc3339 ps \<circ> fe_timestamp_utc) found)) \<and>
    distinct (map fe_forensic_event_id (reported results))"
proof -
  from record_all_stored [OF assms(1,4,6), of "[]"] assms(2)
  have stored: "stored ps print (reported results) (rows w')" and distinct: "distinct (map hd (rows w'))"
    by (simp_all add: stored_def)
  from assms(1) obtain texts1 texts2 where
    t1: "sl_query_texts env (query_statement ''correlation_id = ?1'') [SqlText (sp_uuid ps i)] w' = Ok texts1"
      "selects 1 (SqlText (sp_uuid ps i)) (rows w') texts1" and
    t2: "sl_query_texts env (query_statement ''event_type = ?1'')
        [SqlText (forensic_event_type_label event_type)] w' = Ok texts2"
      "selects 3 (SqlText (forensic_event_type_label event_type)) (rows w') texts2"
    unfolding table_semantics_def by meson
  have "forensic_row ps e t ! 1 = SqlText (sp_uuid ps i) \<longleftrightarrow> fe_correlation_id e = i"
    "forensic_row ps e t ! 3 = SqlText (forensic_event_type_label event_type) \<longleftrightarrow>
      fe_event_type e = event_type" for e t
    using assms(3) by (simp_all add: forensic_row_def inj_eq forensic_event_type_label_inj)
  note columns = this
  note finds =
    query_where_finds [where rows = rows and w = w' and P = "\<lambda>e. fe_correlation_id e = i", OF stored assms(5) columns(1) t1]
    query_where_finds [where rows = rows and w = w' and P = "\<lambda>e. fe_event_type e = event_type",
      OF stored assms(5) columns(2) t2]
  have "map hd (rows w') = map (\<lambda>e. SqlText (sp_uuid ps (fe_forensic_event_id e))) (reported results)"
    using stored unfolding stored_def
    by (induction rule: list_all2_induct) (auto simp: forensic_row_def)
  with distinct have "distinct (map fe_forensic_event_id (reported results))"
    by (auto simp: distinct_map inj_on_def)
  with finds show ?thesis
    by (simp add: query_by_correlation_id_def query_by_event_type_def)
qed

text \<open>C26: round trip through the line file. After any facts were recorded through the JSONL sink into an
  empty file, the file is what the recordings left one after the other: for each reported event its
  line, and for each other fact nothing or a part of a text that a failed write left. So every reported
  event stands at the end of one line, in their order, and at most one more line is left without its end;
  and when no failed write left anything, the lines parse back as exactly the reported events. A part
  that a failed write left runs into the line of the next event, which then does not parse.\<close>

theorem recorded_events_are_lines:
  assumes "append_semantics env (jc_export_file_path config) contents_of" and "contents_of w = []"
    and "\<And>i. length (show_uuid i) = 36"
    and "\<And>e text. print e = Ok text \<Longrightarrow> parse text = Ok e \<and> CHR 0x0A \<notin> set text"
    and "record_all inputs (jsonl_forensic_adapter env print show_uuid config) w = Some (w', results)"
  shows "\<exists>pieces lines rest. list_all2 (piece_of print) results pieces \<and> contents_of w' = concat pieces \<and>
    split_lines [] (contents_of w') = lines @ rest \<and> length rest \<le> 1 \<and>
    list_all2 (\<lambda>e line. \<exists>text. print e = Ok text \<and> suffix text line) (reported results) lines \<and>
    (list_all2 (\<lambda>r piece. (\<exists>e. r = Err e) \<longrightarrow> piece = []) results pieces \<longrightarrow>
       try_map parse (split_lines [] (contents_of w')) = Ok (reported results))"
proof -
  from record_all_pieces [OF assms(1,3,5)] assms(2) obtain pieces where
    pieces: "list_all2 (piece_of print) results pieces" "contents_of w' = concat pieces" by auto
  from pieces_lines [OF pieces(1)] assms(4) obtain lines rest where
    "split_lines [] (concat pieces) = lines @ rest" "length rest \<le> 1"
    "list_all2 (\<lambda>e line. \<exists>text. print e = Ok text \<and> suffix text line) (reported results) lines" by blast
  moreover have "try_map parse (split_lines [] (concat pieces)) = Ok (reported results)"
    if "list_all2 (\<lambda>r piece. (\<exists>e. r = Err e) \<longrightarrow> piece = []) results pieces"
    using pieces_parse [OF pieces(1) assms(4) that] .
  ultimately show ?thesis
    unfolding pieces(2) using pieces(1)
    by - (rule exI [of _ pieces], rule exI [of _ lines], rule exI [of _ rest], blast)
qed

section \<open>Witnesses\<close>

text \<open>A printer of identifiers: their 16 bytes, padded.\<close>

definition byte_uuid :: "uuid \<Rightarrow> string" where
  "byte_uuid u = map (\<lambda>i. Char (bit u (8 * i)) (bit u (8 * i + 1)) (bit u (8 * i + 2)) (bit u (8 * i + 3))
     (bit u (8 * i + 4)) (bit u (8 * i + 5)) (bit u (8 * i + 6)) (bit u (8 * i + 7))) [0..<16] @
     replicate 20 (CHR ''-'')"

lemma byte_uuid_length [simp]: "length (byte_uuid u) = 36"
  by (simp add: byte_uuid_def)

lemma byte_uuid_nonempty [simp]: "byte_uuid u \<noteq> []"
  by (simp add: byte_uuid_def)

lemma byte_uuid_inj: "inj byte_uuid"
proof (rule injI)
  fix u v :: uuid
  assume "byte_uuid u = byte_uuid v"
  then have chars: "\<forall>i \<in> {0..<16}. Char (bit u (8 * i)) (bit u (8 * i + 1)) (bit u (8 * i + 2))
      (bit u (8 * i + 3)) (bit u (8 * i + 4)) (bit u (8 * i + 5)) (bit u (8 * i + 6)) (bit u (8 * i + 7)) =
    Char (bit v (8 * i)) (bit v (8 * i + 1)) (bit v (8 * i + 2))
      (bit v (8 * i + 3)) (bit v (8 * i + 4)) (bit v (8 * i + 5)) (bit v (8 * i + 6)) (bit v (8 * i + 7))"
    unfolding byte_uuid_def append_same_eq map_eq_conv atLeastLessThan_upt .
  have bytes: "bit u (8 * i + j) = bit v (8 * i + j)" if "i < 16" "j < 8" for i j
  proof -
    from that(2) have "j = 0 \<or> j = 1 \<or> j = 2 \<or> j = 3 \<or> j = 4 \<or> j = 5 \<or> j = 6 \<or> j = 7" by arith
    with chars that(1) show ?thesis by (elim disjE) simp_all
  qed
  show "u = v"
  proof (rule bit_word_eqI)
    fix n assume "n < LENGTH(128)"
    then have "n div 8 < 16" "n mod 8 < 8" by simp_all
    from bytes [OF this] show "bit u n = bit v n" by simp
  qed
qed

definition sample_fact :: forensic_record_input where
  "sample_fact =
     \<lparr>fi_kind = forensic_record_kind.RouteDecisionResolved sample_decision,
      fi_redaction_level = redaction_level.LinkageOnly, fi_context = new_record_context 5\<rparr>"

lemma sample_fact_recorded: "\<exists>v. record_event 11 sample_fact = Ok v"
proof -
  have input: "new_record_input (forensic_record_kind.RouteDecisionResolved sample_decision)
      redaction_level.LinkageOnly (new_record_context 5) = Ok sample_fact"
    using sample_coherent by (simp add: new_record_input_Ok sample_fact_def)
  have "summary_recordable ''admitted'' AdmittedNotStarted None"
    unfolding summary_recordable_def summary_truthful_def by code_simp
  then have "kind_recordable (forensic_record_kind.RouteDecisionResolved sample_decision)"
    by (simp add: sample_decision_def)
  with record_event_decides(1) [OF input] show ?thesis by simp
qed

text \<open>A printer that knows one event.\<close>

definition sample_print :: "forensic_event \<Rightarrow> (string, string) result" where
  "sample_print e = (if record_event 11 sample_fact = Ok \<lparr>vf_event = e\<rparr> then Ok ''e'' else Err [])"

definition sample_parse :: "string \<Rightarrow> (forensic_event, string) result" where
  "sample_parse _ = map_err (\<lambda>_. []) (and_then (record_event 11 sample_fact) (\<lambda>v. Ok (vf_event v)))"

lemma sample_print_parse: "sample_print e = Ok t \<Longrightarrow> sample_parse t = Ok e \<and> CHR 0x0A \<notin> set t"
  by (auto simp: sample_print_def sample_parse_def split: if_splits)

definition sample_table :: "sql_value list list sqlite_env" where
  "sample_table =
     \<lparr>sl_open = (\<lambda>_ w. (w, Ok ())), sl_execute_batch = (\<lambda>_ w. (w, Ok ())),
      sl_execute = (\<lambda>_ values w.
        if hd values \<in> hd ` set w then (w, Err ''UNIQUE constraint failed'') else (w @ [values], Ok ())),
      sl_query_texts = (\<lambda>sql params w.
        let column = (if sql = query_statement ''event_type = ?1'' then 3 else 1) in
        Ok (map (\<lambda>row. Ok (sql_text (row ! 6)))
          (sort_key (\<lambda>row. sql_text (row ! 5)) (filter (\<lambda>row. row ! column = hd params) w))))\<rparr>"

lemma sample_table_semantics: "table_semantics sample_table (\<lambda>w. w)"
proof -
  have "selects column v w (map (\<lambda>row. Ok (sql_text (row ! 6)))
      (sort_key (\<lambda>row. sql_text (row ! 5)) (filter (\<lambda>row. row ! column = v) w)))" for column v w
    unfolding selects_def by (metis mset_sort sorted_sort_key)
  moreover have "query_statement ''correlation_id = ?1'' \<noteq> query_statement ''event_type = ?1''"
    by (simp add: query_statement_def)
  ultimately show ?thesis
    by (auto simp: table_semantics_def sample_table_def split: if_splits)
qed

definition sample_sink_printers :: sink_printers where
  "sample_sink_printers = \<lparr>sp_uuid = byte_uuid, sp_rfc3339 = (\<lambda>_. [])\<rparr>"

lemma sample_sink_printers_simps [simp]:
  "sp_uuid sample_sink_printers = byte_uuid" "sp_rfc3339 sample_sink_printers t = []"
  by (simp_all add: sample_sink_printers_def)

theorem recorded_events_are_found_witness:
  "\<exists>w' results. record_all [(11, sample_fact)]
      (sqlite_forensic_store sample_table sample_sink_printers sample_print) [] = Some (w', results) \<and>
    length (reported results) = 1 \<and>
    (\<exists>found. query_by_correlation_id sample_table sample_sink_printers sample_parse
        (rd_correlation_id sample_decision) w' = Ok found)"
proof -
  obtain v where v: "record_event 11 sample_fact = Ok v" using sample_fact_recorded by blast
  then have "sample_print (vf_event v) = Ok ''e''" by (simp add: sample_print_def)
  let ?store = "sqlite_forensic_store sample_table sample_sink_printers sample_print"
  obtain w' results where run: "record_all [(11, sample_fact)] ?store [] = Some (w', results)"
    "length (reported results) = 1"
    using v \<open>sample_print (vf_event v) = Ok ''e''\<close>
    by (auto simp: record_and_export_event_def record_and_export_event_via_def and_do_def call_export_def
        sqlite_forensic_store_def store_export_def insert_forensic_def insert_row_def sample_table_def
        pure_do_def forensic_row_def map_export_result_def validate_adapter_id_def
        validate_export_reference_def)
  have "inj (sp_uuid sample_sink_printers)" "length (sp_uuid sample_sink_printers i) = 36"
    "sample_print e = Ok t \<Longrightarrow> sample_parse t = Ok e" for i e t
    using byte_uuid_inj sample_print_parse by simp_all
  from recorded_events_are_found [where parse = sample_parse, OF sample_table_semantics refl this run(1)] run
  show ?thesis by blast
qed

text \<open>
  A file whose second write fails, which is the end of the first line: recorded twice, the event stands
  once behind what is left of the first attempt, and the line does not parse.
\<close>

definition failing_file :: "(string \<times> nat) jsonl_env" where
  "failing_file =
     \<lparr>jl_open_append = (\<lambda>_ w. (w, Ok ())),
      jl_append = (\<lambda>_ s (t, n). if n = 1 \<and> s \<noteq> [] then ((t, 2), False) else ((t @ s, Suc n), True))\<rparr>"

definition strict_parse :: "string \<Rightarrow> (forensic_event, string) result" where
  "strict_parse t = (if t = ''e'' then sample_parse t else Err ''not an event'')"

lemma sample_print_strict_parse: "sample_print e = Ok t \<Longrightarrow> strict_parse t = Ok e \<and> CHR 0x0A \<notin> set t"
  using sample_print_parse [of e t] by (auto simp: strict_parse_def sample_print_def split: if_splits)

lemma unavailable_lost: "\<exists>e. map_export_result i (forensic_export_result.DependencyUnavailable m) = Err e"
  by (cases "map_export_result i (forensic_export_result.DependencyUnavailable m)")
    (auto simp: map_export_result_def result_simps)

lemma failing_file_semantics: "append_semantics failing_file path fst"
  by (auto simp: append_semantics_def failing_file_def strict_prefix_def split: prod.split)

theorem recorded_events_are_lines_witness:
  "\<exists>w' results line. record_all [(11, sample_fact), (11, sample_fact)]
      (jsonl_forensic_adapter failing_file sample_print byte_uuid \<lparr>jc_export_file_path = ''f''\<rparr>) ([], 0) =
        Some (w', results) \<and>
    length (reported results) = 1 \<and> split_lines [] (fst w') = [line] \<and> suffix ''e'' line \<and>
    strict_parse line = Err ''not an event''"
proof -
  let ?adapter = "jsonl_forensic_adapter failing_file sample_print byte_uuid \<lparr>jc_export_file_path = ''f''\<rparr>"
  obtain v where v: "record_event 11 sample_fact = Ok v" using sample_fact_recorded by blast
  then have printed: "sample_print (vf_event v) = Ok ''e''" by (simp add: sample_print_def)
  have writes: "write_line failing_file ''f'' ''e'' ([], 0) = ((''e'', 2), False)"
    "write_line failing_file ''f'' ''e'' (''e'', 2) = ((''ee'' @ line_end, 4), True)"
    by (simp_all add: write_line_def failing_file_def line_end_def)
  have opened: "jl_open_append failing_file i w = (w, Ok ())" for i w
    by (simp add: failing_file_def)
  obtain e where "map_export_result (jt_adapter_id forensic_jsonl_texts)
      (forensic_export_result.DependencyUnavailable (jt_write_failed forensic_jsonl_texts)) = Err e"
    using unavailable_lost by blast
  then have "record_and_export_event 11 sample_fact ?adapter ([], 0) = Some ((''e'', 2), Err e)"
    using v printed
    by (simp add: record_and_export_event_def record_and_export_event_via_def and_do_def call_export_def
        jsonl_forensic_adapter_def jsonl_export_def pure_do_def opened writes)
  moreover have "\<exists>x. record_and_export_event 11 sample_fact ?adapter (''e'', 2) =
      Some ((''ee'' @ line_end, 4), Ok x)"
    using v printed
    by (auto simp: record_and_export_event_def record_and_export_event_via_def and_do_def call_export_def
        jsonl_forensic_adapter_def jsonl_export_def pure_do_def opened writes map_export_result_def
        validate_adapter_id_def validate_export_reference_def forensic_jsonl_texts_def)
  ultimately obtain results where run: "record_all [(11, sample_fact), (11, sample_fact)] ?adapter ([], 0) =
      Some ((''ee'' @ line_end, 4), results)" "length (reported results) = 1"
    by auto
  have split: "split_lines [] (''ee'' @ line_end) = [''ee'']" by (simp add: line_end_def)
  from recorded_events_are_lines [OF failing_file_semantics fst_conv byte_uuid_length
      sample_print_strict_parse run(1)] obtain lines rest where "split_lines [] (''ee'' @ line_end) = lines @ rest"
    "list_all2 (\<lambda>e line. \<exists>text. sample_print e = Ok text \<and> suffix text line) (reported results) lines"
    by auto
  with split run(2) have "suffix ''e'' ''ee''"
    by (auto simp: suffix_def)
  with run split show ?thesis
    by (intro exI [of _ "(''ee'' @ line_end, 4)"] exI [of _ results] exI [of _ "''ee''"])
      (simp add: strict_parse_def)
qed

end
