(* ===== verification/Friction.thy ===== *)
theory Friction
  imports Forensics
begin

text \<open>
  Friction payloads, \<open>src/domain/friction/mod.rs\<close>: what an operator is shown when a request is denied,
  waits, or runs under a constraint, and the validation that ties its kind to the action asked for, the
  posture, the state and the links. The digest check, the fallback subtypes and the narration check have
  the bodies of \<open>src/domain/forensics\<close> and are the definitions of \<open>Vocabulary\<close> and \<open>Forensics\<close>.
\<close>

section \<open>Payloads\<close>

datatype friction_kind = Denial | ReviewFriction | ExplicitApprovalRequired | ExecutionConstraint

text \<open>\<open>FrictionKind::ReviewRequired\<close> is \<open>ReviewFriction\<close>.\<close>

datatype operator_action = Stop | ReviewAction | ApproveOrDecline | Acknowledge

type_synonym friction_payload_id = uuid

record friction_payload =
  fp_friction_payload_id :: friction_payload_id
  fp_correlation_id :: correlation_id
  fp_request_id :: request_id
  fp_friction_kind :: friction_kind
  fp_operator_action :: operator_action
  fp_route_decision_id :: "route_decision_id option"
  fp_execution_plan_id :: "execution_plan_id option"
  fp_stable_plan_hash :: "string option"
  fp_review_package_id :: "review_package_id option"
  fp_forensic_event_id :: "forensic_event_id option"
  fp_current_posture :: approval_posture
  fp_execution_state :: execution_state
  fp_degraded_subtype :: "degraded_subtype option"
  fp_denial_guards :: "denial_guard list"
  fp_operator_visible_summary :: string
  fp_payload_minimized :: bool
  fp_created_at_utc :: timestamp

record validated_friction_payload =
  vr_payload :: friction_payload

definition load_friction_payload ::
  "contract_env \<Rightarrow> (json \<Rightarrow> (friction_payload, string) result) \<Rightarrow> json \<Rightarrow>
   friction_payload fa_local_result" where
  "load_friction_payload env decode v = deserialize_contract_value env decode FrictionPayload v"

section \<open>The checks of the validation\<close>

definition friction_required_summary :: "string \<Rightarrow> unit fa_local_result" where
  "friction_required_summary summary = fail_if (summary = [] \<or> length summary > 160)
     (contract_invalid
       ''friction payload operator_visible_summary must be between 1 and 160 characters'')"

fun friction_optional_plan_link ::
  "execution_plan_id option \<Rightarrow> string option \<Rightarrow> unit fa_local_result" where
  "friction_optional_plan_link (Some _) (Some _) = Ok ()"
| "friction_optional_plan_link None None = Ok ()"
| "friction_optional_plan_link _ _ = Err (contract_invalid
     (''friction payload execution_plan_id and stable_plan_hash '' @
      ''must be present together or absent together''))"

definition validate_denial_guards :: "denial_guard list \<Rightarrow> unit fa_local_result" where
  "validate_denial_guards guards =
     and_then (fail_if (length guards > 5) (contract_invalid
       ''friction payload denial_guards must contain at most 5 items'')) (\<lambda>_.
     checks (map (\<lambda>guard. fail_if (dg_summary guard = [] \<or> length (dg_summary guard) > 500)
       (contract_invalid (''friction payload denial guard summaries '' @
         ''must be between 1 and 500 characters''))) guards))"

text \<open>\<open>require_posture\<close>, \<open>require_state\<close> and \<open>require_action\<close> share one body.\<close>

definition require_one_of :: "'a \<Rightarrow> 'a list \<Rightarrow> string \<Rightarrow> unit fa_local_result" where
  "require_one_of v allowed message =
     (if v \<in> set allowed then Ok () else Err (contract_invalid message))"

definition require_non_empty_denial_guards :: "denial_guard list \<Rightarrow> string \<Rightarrow> unit fa_local_result" where
  "require_non_empty_denial_guards guards message =
     (if guards = [] then Err (contract_invalid message) else Ok ())"

definition require_empty_denial_guards :: "denial_guard list \<Rightarrow> string \<Rightarrow> unit fa_local_result" where
  "require_empty_denial_guards guards message =
     (if guards = [] then Ok () else Err (contract_invalid message))"

definition friction_require_none :: "'a option \<Rightarrow> string \<Rightarrow> unit fa_local_result" where
  "friction_require_none v message = (if v = None then Ok () else Err (contract_invalid message))"

definition friction_require_some :: "'a option \<Rightarrow> string \<Rightarrow> 'a fa_local_result" where
  "friction_require_some v message = ok_or v (contract_invalid message)"

text \<open>\<open>require_some(v, message)?;\<close> as a statement.\<close>

definition friction_includes :: "'a option \<Rightarrow> string \<Rightarrow> unit fa_local_result" where
  "friction_includes v message = and_then (friction_require_some v message) (\<lambda>_. Ok ())"

fun friction_posture_state_pair :: "approval_posture \<Rightarrow> execution_state \<Rightarrow> unit fa_local_result" where
  "friction_posture_state_pair p execution_state.Denied = require_one_of p [approval_posture.Denied]
     ''denied friction payload state must use denied posture''"
| "friction_posture_state_pair p execution_state.ReviewRequired =
     require_one_of p [approval_posture.ReviewRequired]
       ''review_required friction payload state must use review_required posture''"
| "friction_posture_state_pair p WaitingExplicitApproval = require_one_of p [ExplicitOperatorApproval]
     (''waiting_explicit_approval friction payload state must use '' @
      ''explicit_operator_approval posture'')"
| "friction_posture_state_pair p AdmittedNotStarted = Err (contract_invalid
     (''friction payload execution_state must represent active friction, '' @
      ''not friction-free execution''))"
| "friction_posture_state_pair p InProgress = Err (contract_invalid
     (''friction payload execution_state must represent active friction, '' @
      ''not friction-free execution''))"
| "friction_posture_state_pair p execution_state.Completed = Err (contract_invalid
     (''friction payload execution_state must represent active friction, '' @
      ''not friction-free execution''))"
| "friction_posture_state_pair p _ = require_one_of p [PolicyPreapproved, ExecuteAllowed]
     (''constrained friction payload states must use policy_preapproved or '' @
      ''execute_allowed posture'')"

definition friction_degraded_subtype :: "execution_state \<Rightarrow> degraded_subtype option \<Rightarrow> unit fa_local_result" where
  "friction_degraded_subtype state subtype =
     (let constrained = (''constrained friction payload must include degraded_subtype for degraded '' @
            ''or partial_success state'');
          fallback = (''completed_with_constraints friction payload must include an explicit '' @
            ''fallback degraded_subtype'') in
      case state of
        Degraded \<Rightarrow> friction_includes subtype constrained
      | PartialSuccess \<Rightarrow> friction_includes subtype constrained
      | CompletedWithConstraints \<Rightarrow> and_then (friction_require_some subtype fallback) (\<lambda>d.
          fail_if (\<not> event_explicit_fallback (Some d)) (contract_invalid fallback))
      | _ \<Rightarrow> fail_if (subtype \<noteq> None) (contract_invalid
          ''friction payload must not include degraded_subtype for this execution_state''))"

text \<open>The final \<open>match\<close> of the validation on the kind.\<close>

fun validate_friction_kind :: "friction_kind \<Rightarrow> friction_payload \<Rightarrow> unit fa_local_result" where
  "validate_friction_kind Denial p = checks
     [require_one_of (fp_operator_action p) [Stop]
        ''denial friction payload must use stop operator_action'',
      require_one_of (fp_current_posture p) [approval_posture.Denied]
        ''denial friction payload must use denied posture'',
      require_one_of (fp_execution_state p) [execution_state.Denied]
        ''denial friction payload must use denied execution_state'',
      require_non_empty_denial_guards (fp_denial_guards p)
        ''denial friction payload must include at least one denial guard'',
      friction_require_none (fp_execution_plan_id p)
        ''denial friction payload must not include execution_plan_id'',
      friction_require_none (fp_stable_plan_hash p)
        ''denial friction payload must not include stable_plan_hash'',
      friction_require_none (fp_review_package_id p)
        ''denial friction payload must not include review_package_id'',
      friction_require_none (fp_degraded_subtype p)
        ''denial friction payload must not include degraded_subtype'']"
| "validate_friction_kind ReviewFriction p = checks
     [require_one_of (fp_operator_action p) [ReviewAction]
        ''review_required friction payload must use review operator_action'',
      require_one_of (fp_current_posture p) [approval_posture.ReviewRequired]
        ''review_required friction payload must use review_required posture'',
      require_one_of (fp_execution_state p) [execution_state.ReviewRequired]
        ''review_required friction payload must use review_required execution_state'',
      friction_includes (fp_route_decision_id p)
        ''review_required friction payload must include route_decision_id'',
      require_empty_denial_guards (fp_denial_guards p)
        ''review_required friction payload must not include denial guards'',
      friction_require_none (fp_execution_plan_id p)
        ''review_required friction payload must not include execution_plan_id'',
      friction_require_none (fp_stable_plan_hash p)
        ''review_required friction payload must not include stable_plan_hash'',
      friction_require_none (fp_review_package_id p)
        ''review_required friction payload must not include review_package_id'',
      friction_require_none (fp_degraded_subtype p)
        ''review_required friction payload must not include degraded_subtype'']"
| "validate_friction_kind ExplicitApprovalRequired p = checks
     [require_one_of (fp_operator_action p) [ApproveOrDecline]
        (''explicit_approval_required friction payload must use approve_or_decline '' @
         ''operator_action''),
      require_one_of (fp_current_posture p) [ExplicitOperatorApproval]
        (''explicit_approval_required friction payload must use explicit_operator_approval '' @
         ''posture''),
      require_one_of (fp_execution_state p) [WaitingExplicitApproval]
        (''explicit_approval_required friction payload must use waiting_explicit_approval '' @
         ''execution_state''),
      friction_includes (fp_route_decision_id p)
        ''explicit_approval_required friction payload must include route_decision_id'',
      friction_includes (fp_execution_plan_id p)
        ''explicit_approval_required friction payload must include execution_plan_id'',
      friction_includes (fp_stable_plan_hash p)
        ''explicit_approval_required friction payload must include stable_plan_hash'',
      friction_includes (fp_review_package_id p)
        ''explicit_approval_required friction payload must include review_package_id'',
      require_empty_denial_guards (fp_denial_guards p)
        ''explicit_approval_required friction payload must not include denial guards'',
      friction_require_none (fp_degraded_subtype p)
        ''explicit_approval_required friction payload must not include degraded_subtype'']"
| "validate_friction_kind ExecutionConstraint p = checks
     [require_one_of (fp_operator_action p) [Acknowledge]
        ''execution_constraint friction payload must use acknowledge operator_action'',
      require_one_of (fp_current_posture p) [PolicyPreapproved, ExecuteAllowed]
        (''execution_constraint friction payload must use policy_preapproved or '' @
         ''execute_allowed posture''),
      require_one_of (fp_execution_state p)
        [Degraded, PartialSuccess, CompletedWithConstraints, execution_state.Failed,
         execution_state.Canceled]
        ''execution_constraint friction payload must use a constrained execution_state'',
      friction_includes (fp_execution_plan_id p)
        ''execution_constraint friction payload must include execution_plan_id'',
      friction_includes (fp_stable_plan_hash p)
        ''execution_constraint friction payload must include stable_plan_hash'',
      require_empty_denial_guards (fp_denial_guards p)
        ''execution_constraint friction payload must not include denial guards'',
      friction_require_none (fp_review_package_id p)
        ''execution_constraint friction payload must not include review_package_id'']"

definition validate_friction :: "friction_payload \<Rightarrow> unit fa_local_result" where
  "validate_friction p = checks
     [friction_required_summary (fp_operator_visible_summary p),
      friction_optional_plan_link (fp_execution_plan_id p) (fp_stable_plan_hash p),
      validate_denial_guards (fp_denial_guards p),
      friction_posture_state_pair (fp_current_posture p) (fp_execution_state p),
      friction_degraded_subtype (fp_execution_state p) (fp_degraded_subtype p),
      fail_if (\<not> fp_payload_minimized p) (contract_invalid
        ''friction payload payload_minimized must remain true for bounded friction''),
      (case fp_stable_plan_hash p of
         None \<Rightarrow> Ok ()
       | Some hash \<Rightarrow> fail_if (\<not> is_valid_hash hash) (contract_invalid
           ''friction payload stable_plan_hash must be a 64-character lowercase hex digest'')),
      fail_if (mentions_semantic_or_workflow_narration (fp_operator_visible_summary p))
        (contract_invalid (''friction payload summary must not narrate planner, workflow, '' @
          ''or semantic interpretation'')),
      validate_friction_kind (fp_friction_kind p) p]"

text \<open>\<open>FrictionPayload::new\<close>, \<open>validated\<close> and \<open>ValidatedFrictionPayload::new\<close>.\<close>

definition new_friction_payload :: "friction_payload \<Rightarrow> friction_payload fa_local_result" where
  "new_friction_payload payload = and_then (validate_friction payload) (\<lambda>_. Ok payload)"

definition validated_friction :: "friction_payload \<Rightarrow> validated_friction_payload fa_local_result" where
  "validated_friction payload = and_then (validate_friction payload) (\<lambda>_. Ok \<lparr>vr_payload = payload\<rparr>)"

definition new_validated_friction :: "friction_payload \<Rightarrow> validated_friction_payload fa_local_result" where
  "new_validated_friction payload = validated_friction payload"

section \<open>What a payload may say\<close>

text \<open>
  A row per kind: the action it asks for, the states it may report and its links. Postures and degraded
  subtypes follow from the state as they do for the event of an observed status.
\<close>

definition constrained_states :: "execution_state set" where
  "constrained_states =
     {Degraded, PartialSuccess, CompletedWithConstraints, execution_state.Failed, execution_state.Canceled}"

fun friction_row :: "friction_kind \<Rightarrow> friction_payload \<Rightarrow> bool" where
  "friction_row Denial p \<longleftrightarrow>
     fp_operator_action p = Stop \<and> fp_execution_state p = execution_state.Denied \<and>
     fp_denial_guards p \<noteq> [] \<and> fp_stable_plan_hash p = None \<and> fp_review_package_id p = None"
| "friction_row ReviewFriction p \<longleftrightarrow>
     fp_operator_action p = ReviewAction \<and> fp_execution_state p = execution_state.ReviewRequired \<and>
     fp_denial_guards p = [] \<and> fp_route_decision_id p \<noteq> None \<and>
     fp_stable_plan_hash p = None \<and> fp_review_package_id p = None"
| "friction_row ExplicitApprovalRequired p \<longleftrightarrow>
     fp_operator_action p = ApproveOrDecline \<and> fp_execution_state p = WaitingExplicitApproval \<and>
     fp_denial_guards p = [] \<and> fp_route_decision_id p \<noteq> None \<and>
     fp_stable_plan_hash p \<noteq> None \<and> fp_review_package_id p \<noteq> None"
| "friction_row ExecutionConstraint p \<longleftrightarrow>
     fp_operator_action p = Acknowledge \<and> fp_execution_state p \<in> constrained_states \<and>
     fp_denial_guards p = [] \<and> fp_stable_plan_hash p \<noteq> None \<and> fp_review_package_id p = None"

definition friction_wf :: "friction_payload \<Rightarrow> bool" where
  "friction_wf p \<longleftrightarrow>
     bounded_text (fp_operator_visible_summary p) \<and>
     \<not> mentions_semantic_or_workflow_narration (fp_operator_visible_summary p) \<and>
     fp_payload_minimized p \<and>
     (fp_execution_plan_id p = None \<longleftrightarrow> fp_stable_plan_hash p = None) \<and>
     pred_option is_valid_hash (fp_stable_plan_hash p) \<and>
     length (fp_denial_guards p) \<le> 5 \<and>
     (\<forall>guard \<in> set (fp_denial_guards p). dg_summary guard \<noteq> [] \<and> length (dg_summary guard) \<le> 500) \<and>
     fp_current_posture p \<in> state_postures (fp_execution_state p) \<and>
     fp_degraded_subtype p \<in> event_subtypes ExecutionStatusObserved (fp_execution_state p) \<and>
     friction_row (fp_friction_kind p) p"

lemma friction_checks_Ok [result_simps]:
  "friction_required_summary s = Ok u \<longleftrightarrow> bounded_text s"
  "friction_optional_plan_link i h = Ok u \<longleftrightarrow> (i = None \<longleftrightarrow> h = None)"
  "require_one_of x xs m = Ok u \<longleftrightarrow> x \<in> set xs"
  "require_non_empty_denial_guards gs m = Ok u \<longleftrightarrow> gs \<noteq> []"
  "require_empty_denial_guards gs m = Ok u \<longleftrightarrow> gs = []"
  "friction_require_none v m = Ok u \<longleftrightarrow> v = None"
  "friction_includes v m = Ok u \<longleftrightarrow> v \<noteq> None"
  "friction_require_some v m = Ok y \<longleftrightarrow> v = Some y"
  by (auto simp: friction_required_summary_def require_one_of_def require_non_empty_denial_guards_def
      require_empty_denial_guards_def friction_require_none_def friction_includes_def
      friction_require_some_def result_simps not_less elim!: friction_optional_plan_link.elims)

lemma validate_denial_guards_Ok [result_simps]:
  "validate_denial_guards guards = Ok u \<longleftrightarrow> length guards \<le> 5 \<and>
     (\<forall>guard \<in> set guards. dg_summary guard \<noteq> [] \<and> length (dg_summary guard) \<le> 500)"
  by (auto simp: validate_denial_guards_def result_simps checks_Ok not_less)

lemma friction_posture_state_pair_Ok [result_simps]:
  "friction_posture_state_pair p state = Ok u \<longleftrightarrow>
     p \<in> state_postures state \<and> state \<notin> {AdmittedNotStarted, InProgress, execution_state.Completed}"
  by (cases state) (simp_all add: result_simps state_postures_def)

lemma friction_degraded_subtype_Ok [result_simps]:
  "friction_degraded_subtype state subtype = Ok u \<longleftrightarrow>
     subtype \<in> event_subtypes ExecutionStatusObserved state"
  by (cases state; cases subtype)
    (auto simp: friction_degraded_subtype_def event_explicit_fallback_def fallback_subtypes_def
      Let_def result_simps)

lemma validate_friction_kind_Ok:
  assumes "fp_execution_plan_id p = None \<longleftrightarrow> fp_stable_plan_hash p = None"
    and "fp_current_posture p \<in> state_postures (fp_execution_state p)"
    and "fp_degraded_subtype p \<in> event_subtypes ExecutionStatusObserved (fp_execution_state p)"
  shows "validate_friction_kind kind p = Ok () \<longleftrightarrow> friction_row kind p"
  using assms by (cases kind) (auto simp: result_simps state_postures_def constrained_states_def)

lemma friction_row_states:
  "friction_row kind p \<Longrightarrow>
     fp_execution_state p \<notin> {AdmittedNotStarted, InProgress, execution_state.Completed}"
  by (cases kind) (auto simp: constrained_states_def)

lemma validate_friction_Ok: "validate_friction p = Ok () \<longleftrightarrow> friction_wf p"
proof -
  have hash: "(case fp_stable_plan_hash p of None \<Rightarrow> Ok ()
      | Some hash \<Rightarrow> fail_if (\<not> is_valid_hash hash) m) = Ok () \<longleftrightarrow>
      pred_option is_valid_hash (fp_stable_plan_hash p)" for m :: fa_local_error
    by (cases "fp_stable_plan_hash p") (simp_all add: result_simps)
  show ?thesis
    unfolding validate_friction_def friction_wf_def checks_Cons_Ok checks_Nil_Ok hash
    using validate_friction_kind_Ok [of p "fp_friction_kind p"]
      friction_row_states [of "fp_friction_kind p" p]
    by (auto simp: result_simps)
qed

interpretation friction_wrapper: validated_type validate_friction
    "\<lambda>p. \<lparr>vr_payload = p\<rparr>" vr_payload new_friction_payload new_validated_friction
  by unfold_locales
    (simp_all add: new_friction_payload_def new_validated_friction_def validated_friction_def)

text \<open>C24: building a friction payload succeeds exactly on well-formed ones, and keeps them as they are:
  a bounded minimized summary that narrates neither semantics nor workflow, a whole plan link with a
  valid hash, at most five bounded denial guards, and for its kind the one operator action, the states
  with their postures and degraded subtypes, and the links; a friction-free state is never shown.\<close>

theorem friction_building_decides:
  "and_then (new_friction_payload p) new_validated_friction = Ok v \<longleftrightarrow>
     friction_wf p \<and> v = \<lparr>vr_payload = p\<rparr>"
  by (auto simp: friction_wrapper.build_twice friction_wrapper.wrap_new_Ok validate_friction_Ok)

end
