(* ===== verification/Df_Local.thy ===== *)
theory Df_Local
  imports Http_Client Labels Gnat_Shard Execution_Status
begin

text \<open>
  The writeback of execution statuses to DataForge Local, \<open>src/integrations/df_local/mod.rs\<close>, and the
  projection of the service's own facts onto the canonical service status,
  \<open>src/domain/service_status/mod.rs\<close>.
\<close>

section \<open>The artifact of a status\<close>

definition ARTIFACT_PRODUCER_SYSTEM :: string where
  "ARTIFACT_PRODUCER_SYSTEM = ''fa-local-operator''"

definition PRODUCED_BY_COMPONENT :: string where
  "PRODUCED_BY_COMPONENT = ''execution_service.status_emitter''"

definition EXECUTION_STATUS_EVENT_FAMILY :: string where
  "EXECUTION_STATUS_EVENT_FAMILY = ''execution_status_event''"

definition EXECUTION_STATUS_EVENT_VERSION :: u32 where
  "EXECUTION_STATUS_EVENT_VERSION = 1"

definition DATAFORGE_LOCAL_DEFAULT_URL :: string where
  "DATAFORGE_LOCAL_DEFAULT_URL = ''http://127.0.0.1:8005''"

definition DATAFORGE_LOCAL_STATUS_EVENTS_PATH :: string where
  "DATAFORGE_LOCAL_STATUS_EVENTS_PATH = ''/api/v1/execution-bridge/status-events''"

definition DF_REQUEST_TIMEOUT_SECONDS :: nat where
  "DF_REQUEST_TIMEOUT_SECONDS = 10"

record writeback_request =
  wq_request_id :: request_id
  wq_correlation_id :: correlation_id
  wq_status :: validated_execution_status

record writeback_result =
  wr_request_id :: request_id
  wr_correlation_id :: correlation_id
  wr_acknowledged :: bool

definition new_writeback_request :: "validated_execution_status \<Rightarrow> writeback_request" where
  "new_writeback_request status =
     \<lparr>wq_request_id = st_request_id (vs_status status),
      wq_correlation_id = st_correlation_id (vs_status status), wq_status = status\<rparr>"

text \<open>
  \<open>df_uuid\<close> prints identifiers, \<open>df_time\<close> serialises instants as texts, \<open>df_print\<close> is
  \<open>Value::to_string\<close>; \<open>df_sha256\<close> is SHA-256.
\<close>

record 'w df_env =
  df_client :: "'w http_client"
  df_uuid :: "uuid \<Rightarrow> string"
  df_time :: "timestamp \<Rightarrow> string"
  df_print :: "json \<Rightarrow> string"
  df_sha256 :: "string \<Rightarrow> 8 word list"

definition df_hex_digest :: "'w df_env \<Rightarrow> string \<Rightarrow> string" where
  "df_hex_digest env bytes = concat (map hex_byte (df_sha256 env bytes))"

definition compute_idempotency_key ::
  "'w df_env \<Rightarrow> string \<Rightarrow> uuid \<Rightarrow> u32 \<Rightarrow> uuid \<Rightarrow> string" where
  "compute_idempotency_key env family artifact_id version lineage_root_id =
     df_hex_digest env (family @ ''|'' @ df_uuid env artifact_id @ ''|'' @ show_nat (unat version) @ ''|'' @
       df_uuid env lineage_root_id)"

definition dataforge_local_base_url :: "'w df_env \<Rightarrow> string" where
  "dataforge_local_base_url env =
     base_url_from_env (df_client env) ''DATAFORGE_LOCAL_URL'' DATAFORGE_LOCAL_DEFAULT_URL"

text \<open>An optional value is serialised as itself or as null.\<close>

definition json_option :: "('a \<Rightarrow> string) \<Rightarrow> 'a option \<Rightarrow> json" where
  "json_option show v = (case v of None \<Rightarrow> JNull | Some x \<Rightarrow> JString (show x))"

definition status_payload :: "'w df_env \<Rightarrow> execution_status \<Rightarrow> json" where
  "status_payload env s = json_object
     [(''request_id'', JString (df_uuid env (st_request_id s))),
      (''correlation_id'', JString (df_uuid env (st_correlation_id s))),
      (''state'', JString (execution_state_label (st_state s))),
      (''current_posture'', JString (approval_posture_label (st_current_posture s))),
      (''execution_plan_id'', json_option (df_uuid env) (st_execution_plan_id s)),
      (''stable_plan_hash'', json_option id (st_stable_plan_hash s)),
      (''degraded_subtype'', json_option degraded_subtype_label (st_degraded_subtype s)),
      (''updated_at_utc'', JString (df_time env (st_updated_at_utc s))),
      (''started_at_utc'', json_option (df_time env) (st_started_at_utc s)),
      (''completed_at_utc'', json_option (df_time env) (st_completed_at_utc s)),
      (''current_step'', json_option id (st_current_step s)),
      (''completion_summary'', json_option id (st_completion_summary s)),
      (''failure_summary'', json_option id (st_failure_summary s)),
      (''truthful_operator_summary'', JString (st_truthful_user_visible_summary s))]"

text \<open>\<open>fresh\<close> is the identifier that is drawn, \<open>now\<close> the clock.\<close>

definition build_status_event_artifact ::
  "'w df_env \<Rightarrow> uuid \<Rightarrow> timestamp \<Rightarrow> writeback_request \<Rightarrow> json" where
  "build_status_event_artifact env fresh now request =
     (let artifact_id = fresh;
          lineage_root_id = artifact_id;
          idempotency_key = compute_idempotency_key env EXECUTION_STATUS_EVENT_FAMILY artifact_id
            EXECUTION_STATUS_EVENT_VERSION lineage_root_id;
          payload = status_payload env (vs_status (wq_status request));
          signature = ''sha256:'' @ df_hex_digest env (df_print env payload) in
      json_object
        [(''artifact_id'', JString (df_uuid env artifact_id)),
         (''artifact_family'', JString EXECUTION_STATUS_EVENT_FAMILY),
         (''artifact_version'', JNumber (uint EXECUTION_STATUS_EVENT_VERSION)),
         (''produced_by_system'', JString ARTIFACT_PRODUCER_SYSTEM),
         (''produced_by_component'', JString PRODUCED_BY_COMPONENT),
         (''source_scope'', JString ''local''),
         (''lineage_root_id'', JString (df_uuid env lineage_root_id)),
         (''parent_artifact_id'', JNull),
         (''trace_id'', JString (df_uuid env (wq_correlation_id request))),
         (''idempotency_key'', JString idempotency_key),
         (''created_at'', JString (df_time env now)),
         (''recorded_at'', JString (df_time env now)),
         (''sensitivity_class'', JString ''internal''),
         (''visibility_class'', JString ''operator''),
         (''promotion_class'', JString ''local_only''),
         (''validation_status'', JString ''valid''),
         (''signer_identity'', JString (ARTIFACT_PRODUCER_SYSTEM @ ''/'' @ PRODUCED_BY_COMPONENT @
            ''@execution-bridge-v1'')),
         (''signature'', JString signature),
         (''payload'', payload)])"

section \<open>Posting it\<close>

fun writeback_answer :: "string \<Rightarrow> writeback_request \<Rightarrow> http_answer \<Rightarrow> writeback_result fa_local_result" where
  "writeback_answer url request (HttpOk status body) =
     Ok \<lparr>wr_request_id = wq_request_id request, wr_correlation_id = wq_correlation_id request,
         wr_acknowledged = (status = 200 \<or> status = 201)\<rparr>"
| "writeback_answer url request (HttpStatus status body) =
     Err (WritebackFailed (''DataForge Local rejected the writeback (status '' @ show_nat status @ ''): '' @
       unreadable_or body))"
| "writeback_answer url request (HttpTransport e) =
     Err (WritebackFailed (''could not reach DataForge Local at '' @ url @ '': '' @ e))"

definition post_execution_status_event ::
  "'w df_env \<Rightarrow> uuid \<Rightarrow> timestamp \<Rightarrow> writeback_request \<Rightarrow> 'w \<Rightarrow>
   'w \<times> writeback_result fa_local_result" where
  "post_execution_status_event env fresh now request w =
     (let artifact = build_status_event_artifact env fresh now request;
          url = dataforge_local_base_url env @ DATAFORGE_LOCAL_STATUS_EVENTS_PATH;
          (w', response) = hc_post (df_client env) url DF_REQUEST_TIMEOUT_SECONDS artifact w in
      (w', writeback_answer url request response))"

section \<open>The service status\<close>

definition SERVICE_CLASS :: string where
  "SERVICE_CLASS = ''execution''"

definition CANONICAL_SCHEMA_FILE_NAME :: string where
  "CANONICAL_SCHEMA_FILE_NAME = ''forge_local_runtime/service-status.schema.json''"

definition vendored_schema_dir :: "contract_env \<Rightarrow> string" where
  "vendored_schema_dir env = ce_manifest_dir env @ ''/schemas/forge_local_runtime''"

definition canonical_schema_path :: "contract_env \<Rightarrow> string" where
  "canonical_schema_path env = vendored_schema_dir env @ ''/service-status.schema.json''"

definition denial_state_schema_path :: "contract_env \<Rightarrow> string" where
  "denial_state_schema_path env = vendored_schema_dir env @ ''/denial-state.schema.json''"

record operational_facts =
  of_execution_enabled :: bool
  of_writeback_wired :: bool

definition fa_local_operational_facts :: operational_facts where
  "fa_local_operational_facts = \<lparr>of_execution_enabled = True, of_writeback_wired = True\<rparr>"

definition status_message :: string where
  "status_message =
     ''FA Local validates and dispatches execution requests, and stages execution '' @
     ''status events to DataForge Local's execution bridge.''"

text \<open>\<open>build\<close> is the schema builder with the denial-state schema as its registered resource.\<close>

definition build_canonical_service_status_envelope ::
  "contract_env \<Rightarrow> (json \<Rightarrow> json \<Rightarrow> (json \<Rightarrow> string list, string) result) \<Rightarrow> string \<Rightarrow>
   json fa_local_result" where
  "build_canonical_service_status_envelope env build now =
     (let facts = fa_local_operational_facts in
      if \<not> of_execution_enabled facts \<or> \<not> of_writeback_wired facts
      then Err (InternalInvariant (''operational_facts() reported a combination '' @
        ''build_canonical_service_status_envelope has no honest envelope for yet -- '' @
        ''update this projection before shipping the change that flipped it.''))
      else
        let state = ''ready'';
            envelope = json_object
              [(''service_id'', JString SERVICE_ID),
               (''service_class'', JString SERVICE_CLASS),
               (''state'', JString state),
               (''operator_visible_message'', JString status_message),
               (''readiness_summary'', json_object
                 [(''readiness_class'', JString state), (''summary'', JString status_message)]),
               (''last_updated_at'', JString now)] in
        and_then (load_json_value env (canonical_schema_path env)) (\<lambda>schema.
        and_then (load_json_value env (denial_state_schema_path env)) (\<lambda>denial_state_schema.
        and_then (map_err (SchemaCompile CANONICAL_SCHEMA_FILE_NAME) (build denial_state_schema schema))
          (\<lambda>validator.
            let errors = validator envelope in
            if errors \<noteq> [] then Err (SchemaValidation CANONICAL_SCHEMA_FILE_NAME errors)
            else Ok envelope))))"

section \<open>Facts\<close>

lemma map_of_sort_key:
  assumes "distinct (map fst kvs)"
  shows "map_of (sort_key f kvs) k = map_of kvs k"
proof -
  have "mset (map fst (sort_key f kvs)) = mset (map fst kvs)" by simp
  then have "distinct (map fst (sort_key f kvs))"
    using assms mset_eq_imp_distinct_iff by blast
  then have "map_of (sort_key f kvs) k = Some v \<longleftrightarrow> map_of kvs k = Some v" for v
    using assms by simp
  then show ?thesis by (metis not_None_eq)
qed

lemma json_get_object:
  "distinct (map fst kvs) \<Longrightarrow> json_get (json_object kvs) k = map_of kvs k"
  by (simp add: json_object_def map_of_sort_key)

lemma label_inj:
  "execution_state_label a = execution_state_label b \<longleftrightarrow> a = b"
  "approval_posture_label p = approval_posture_label q \<longleftrightarrow> p = q"
  "degraded_subtype_label d = degraded_subtype_label e \<longleftrightarrow> d = e"
proof -
  show "execution_state_label a = execution_state_label b \<longleftrightarrow> a = b" by (cases a; cases b) simp_all
  show "approval_posture_label p = approval_posture_label q \<longleftrightarrow> p = q" by (cases p; cases q) simp_all
  show "degraded_subtype_label d = degraded_subtype_label e \<longleftrightarrow> d = e" by (cases d; cases e) simp_all
qed

lemma json_option_inj:
  "inj show \<Longrightarrow> json_option show x = json_option show y \<longleftrightarrow> x = y"
  by (cases x; cases y) (auto simp: json_option_def inj_eq)

text \<open>The keys of a payload.\<close>

definition payload_keys :: "string list" where
  "payload_keys =
     [''request_id'', ''correlation_id'', ''state'', ''current_posture'', ''execution_plan_id'',
      ''stable_plan_hash'', ''degraded_subtype'', ''updated_at_utc'', ''started_at_utc'', ''completed_at_utc'',
      ''current_step'', ''completion_summary'', ''failure_summary'', ''truthful_operator_summary'']"

lemma payload_keys_distinct: "distinct payload_keys"
  unfolding payload_keys_def by code_simp

lemma zip_payload: "status_payload env s = json_object (zip payload_keys
  [JString (df_uuid env (st_request_id s)), JString (df_uuid env (st_correlation_id s)),
   JString (execution_state_label (st_state s)), JString (approval_posture_label (st_current_posture s)),
   json_option (df_uuid env) (st_execution_plan_id s), json_option id (st_stable_plan_hash s),
   json_option degraded_subtype_label (st_degraded_subtype s), JString (df_time env (st_updated_at_utc s)),
   json_option (df_time env) (st_started_at_utc s), json_option (df_time env) (st_completed_at_utc s),
   json_option id (st_current_step s), json_option id (st_completion_summary s),
   json_option id (st_failure_summary s), JString (st_truthful_user_visible_summary s)])"
  by (simp add: status_payload_def payload_keys_def)

lemma zip_object_inj:
  assumes "json_object (zip ks vs) = json_object (zip ks us)"
    and "distinct ks" "length vs = length ks" "length us = length ks"
  shows "vs = us"
proof (rule nth_equalityI)
  show "length vs = length us" using assms(3,4) by simp
next
  fix i assume i: "i < length vs"
  have "distinct (map fst (zip ks vs))" "distinct (map fst (zip ks us))" using assms(2-4) by simp_all
  with assms(1) have "map_of (zip ks vs) (ks ! i) = map_of (zip ks us) (ks ! i)"
    by (metis json_get_object)
  with i assms show "vs ! i = us ! i"
    by (simp add: map_of_zip_nth)
qed

text \<open>The payload of an artifact says everything about its status.\<close>

lemma payload_inj:
  assumes "inj (df_uuid env)" "inj (df_time env)" "status_payload env s = status_payload env t"
  shows "s = t"
proof -
  note fields = zip_object_inj [OF assms(3) [unfolded zip_payload] payload_keys_distinct,
      simplified length_Cons list.size payload_keys_def, simplified]
  have "json_option (df_uuid env) x = json_option (df_uuid env) y \<longleftrightarrow> x = y"
    "json_option (df_time env) u = json_option (df_time env) v \<longleftrightarrow> u = v"
    "json_option id a = json_option id b \<longleftrightarrow> a = b"
    "json_option degraded_subtype_label d = json_option degraded_subtype_label e \<longleftrightarrow> d = e"
    for x y u v a b d e
    using assms(1,2) by (simp_all add: json_option_inj inj_def label_inj)
  with fields assms(1,2) show ?thesis
    by (cases s; cases t) (simp add: inj_eq label_inj)
qed

text \<open>A service status is reported exactly when both vendored schemas load, compile and accept it.\<close>

lemma service_status_Ok:
  "build_canonical_service_status_envelope env build now = Ok envelope \<longleftrightarrow>
     (\<exists>schema denial validator.
        load_json_value env (canonical_schema_path env) = Ok schema \<and>
        load_json_value env (denial_state_schema_path env) = Ok denial \<and>
        build denial schema = Ok validator \<and> validator envelope = [] \<and>
        envelope = json_object
          [(''service_id'', JString ''fa-local''), (''service_class'', JString ''execution''),
           (''state'', JString ''ready''), (''operator_visible_message'', JString status_message),
           (''readiness_summary'', json_object
             [(''readiness_class'', JString ''ready''), (''summary'', JString status_message)]),
           (''last_updated_at'', JString now)])"
  by (auto simp: build_canonical_service_status_envelope_def fa_local_operational_facts_def SERVICE_ID_def
      SERVICE_CLASS_def Let_def result_simps split: if_splits)

text \<open>The keys of an artifact are distinct, so that its entries are the ones it was built from.\<close>

lemma artifact_get:
  "json_get (build_status_event_artifact env fresh now request) ''promotion_class'' = Some (JString ''local_only'')"
  "json_get (build_status_event_artifact env fresh now request) ''artifact_id'' = Some (JString (df_uuid env fresh))"
  "json_get (build_status_event_artifact env fresh now request) ''lineage_root_id'' = Some (JString (df_uuid env fresh))"
  "json_get (build_status_event_artifact env fresh now request) ''parent_artifact_id'' = Some JNull"
  "json_get (build_status_event_artifact env fresh now request) ''trace_id'' =
     Some (JString (df_uuid env (wq_correlation_id request)))"
  "json_get (build_status_event_artifact env fresh now request) ''payload'' =
     Some (status_payload env (vs_status (wq_status request)))"
  unfolding build_status_event_artifact_def Let_def
  by (subst json_get_object; simp)+

section \<open>Properties\<close>

text \<open>C25: writing a status back posts one artifact under the timeout: a root of its lineage that is local
  only, and whose payload is the payload of this status and of no other. The result says whose status it
  was, and acknowledges it exactly when the service answered 200 or 201; a refusal or a failed transport
  is an error of the writeback. An answer that the HTTP client does not count as a refusal, such as 202 or
  304, is a result without acknowledgement, although the comment of the function makes every answer
  outside 200 to 299 an error; and one table of the documents calls the artifact promotable.\<close>

theorem status_writeback_decides:
  assumes "inj (df_uuid env)" and "inj (df_time env)"
    and "post_execution_status_event env fresh now (new_writeback_request status) w = (w', r)"
  shows "\<exists>url artifact answer. hc_post (df_client env) url 10 artifact w = (w', answer) \<and>
    json_get artifact ''promotion_class'' = Some (JString ''local_only'') \<and>
    json_get artifact ''lineage_root_id'' = json_get artifact ''artifact_id'' \<and>
    json_get artifact ''parent_artifact_id'' = Some JNull \<and>
    json_get artifact ''trace_id'' = Some (JString (df_uuid env (st_correlation_id (vs_status status)))) \<and>
    (\<forall>other. json_get artifact ''payload'' = Some (status_payload env other) \<longleftrightarrow> other = vs_status status) \<and>
    (case answer of
       HttpOk code _ \<Rightarrow> r = Ok
         \<lparr>wr_request_id = st_request_id (vs_status status),
          wr_correlation_id = st_correlation_id (vs_status status), wr_acknowledged = (code \<in> {200, 201})\<rparr>
     | _ \<Rightarrow> \<exists>m. r = Err (WritebackFailed m))"
proof -
  let ?request = "new_writeback_request status"
  let ?artifact = "build_status_event_artifact env fresh now ?request"
  let ?url = "dataforge_local_base_url env @ DATAFORGE_LOCAL_STATUS_EVENTS_PATH"
  obtain answer where post: "hc_post (df_client env) ?url 10 ?artifact w = (w', answer)"
    and r: "r = writeback_answer ?url ?request answer"
    using assms(3)
    by (auto simp: post_execution_status_event_def DF_REQUEST_TIMEOUT_SECONDS_def Let_def split: prod.splits)
  have "json_get ?artifact ''payload'' = Some (status_payload env other) \<longleftrightarrow> other = vs_status status" for other
    using payload_inj [OF assms(1,2), of "vs_status status" other]
    by (auto simp: artifact_get new_writeback_request_def)
  moreover have "case answer of
      HttpOk code _ \<Rightarrow> r = Ok
        \<lparr>wr_request_id = st_request_id (vs_status status),
         wr_correlation_id = st_correlation_id (vs_status status), wr_acknowledged = (code \<in> {200, 201})\<rparr>
    | _ \<Rightarrow> \<exists>m. r = Err (WritebackFailed m)"
    by (cases answer) (simp_all add: r new_writeback_request_def)
  moreover have "json_get ?artifact ''trace_id'' =
      Some (JString (df_uuid env (st_correlation_id (vs_status status))))"
    by (simp add: artifact_get new_writeback_request_def)
  ultimately show ?thesis
    using post artifact_get(1-4) [of env fresh now ?request]
    by (intro exI [of _ ?url] exI [of _ ?artifact] exI [of _ answer]) simp
qed

text \<open>A service that records every artifact and answers 201.\<close>

definition sample_df_env :: "json list df_env" where
  "sample_df_env =
     \<lparr>df_client = \<lparr>hc_read_var = (\<lambda>_. None),
        hc_post = (\<lambda>url timeout body w. (w @ [body], HttpOk 201 (Ok JNull)))\<rparr>,
      df_uuid = (\<lambda>u. replicate (unat u) CHR ''u''),
      df_time = (\<lambda>t. if t < 0 then CHR ''-'' # replicate (nat (- t)) CHR ''t'' else replicate (nat t) CHR ''t''),
      df_print = (\<lambda>_. []), df_sha256 = (\<lambda>_. [])\<rparr>"

lemma sample_df_inj: "inj (df_uuid sample_df_env)" "inj (df_time sample_df_env)"
proof -
  have "length (df_uuid sample_df_env u) = unat u" for u by (simp add: sample_df_env_def)
  then show "inj (df_uuid sample_df_env)" by (metis injI unsigned_word_eqI)
  show "inj (df_time sample_df_env)"
  proof (rule injI)
    fix s t assume "df_time sample_df_env s = df_time sample_df_env t"
    then have "(if s < 0 then CHR ''-'' # replicate (nat (- s)) CHR ''t'' else replicate (nat s) CHR ''t'') =
        (if t < 0 then CHR ''-'' # replicate (nat (- t)) CHR ''t'' else replicate (nat t) CHR ''t'')"
      by (simp add: sample_df_env_def)
    then show "s = t"
      by (auto simp: Cons_replicate_eq eq_commute [of "replicate _ _" "_ # _"] replicate_eq_replicate
          split: if_splits)
  qed
qed

definition sample_written_status :: validated_execution_status where
  "sample_written_status = \<lparr>vs_status =
     \<lparr>st_request_id = 1, st_correlation_id = 2, st_execution_plan_id = Some 3, st_stable_plan_hash = None,
      st_current_posture = PolicyPreapproved, st_state = execution_state.Completed,
      st_degraded_subtype = None, st_started_at_utc = Some 4, st_updated_at_utc = 5,
      st_completed_at_utc = Some 5, st_current_step = None, st_completion_summary = Some ''finished'',
      st_failure_summary = None, st_truthful_user_visible_summary = ''finished''\<rparr>\<rparr>"

theorem status_writeback_decides_witness:
  "\<exists>artifact. post_execution_status_event sample_df_env 9 6 (new_writeback_request sample_written_status) [] =
     ([artifact], Ok \<lparr>wr_request_id = 1, wr_correlation_id = 2, wr_acknowledged = True\<rparr>) \<and>
   json_get artifact ''promotion_class'' = Some (JString ''local_only'')"
proof -
  obtain w' r where post: "post_execution_status_event sample_df_env 9 6
      (new_writeback_request sample_written_status) [] = (w', r)"
    by (cases "post_execution_status_event sample_df_env 9 6 (new_writeback_request sample_written_status) []")
  have client: "hc_post (df_client sample_df_env) url n body w = (w @ [body], HttpOk 201 (Ok JNull))"
    for url n body w by (simp add: sample_df_env_def)
  from status_writeback_decides [OF sample_df_inj post] obtain url artifact answer where
    sent: "hc_post (df_client sample_df_env) url 10 artifact [] = (w', answer)"
    and promoted: "json_get artifact ''promotion_class'' = Some (JString ''local_only'')"
    and answered: "case answer of
       HttpOk code _ \<Rightarrow> r = Ok
         \<lparr>wr_request_id = st_request_id (vs_status sample_written_status),
          wr_correlation_id = st_correlation_id (vs_status sample_written_status),
          wr_acknowledged = (code \<in> {200, 201})\<rparr>
     | _ \<Rightarrow> \<exists>m. r = Err (WritebackFailed m)" by blast
  from sent answered have "w' = [artifact]"
    "r = Ok \<lparr>wr_request_id = 1, wr_correlation_id = 2, wr_acknowledged = True\<rparr>"
    by (auto simp: client sample_written_status_def)
  with post promoted show ?thesis by blast
qed

end
