(* ===== verification/Arguments.thy ===== *)
theory Arguments
  imports Pipeline
begin

text \<open>
  The command line of the runner, \<open>src/bin/fa_local_run.rs\<close>: its flags, the port, the nmap profile and
  the values of \<open>--adapter\<close>. The UUID parser and \<open>{:?}\<close> of a text are arguments; \<open>str::parse::<u16>\<close> of
  the standard library is written out.
\<close>

section \<open>Flags\<close>

text \<open>\<open>args.windows(2)\<close>.\<close>

definition windows2 :: "string list \<Rightarrow> (string \<times> string) list" where
  "windows2 args = zip args (tl args)"

definition flag_path :: "string list \<Rightarrow> string \<Rightarrow> string option" where
  "flag_path args flag = map_option snd (find (\<lambda>w. fst w = flag) (windows2 args))"

text \<open>The values of a repeatable flag.\<close>

definition flag_values :: "string list \<Rightarrow> string \<Rightarrow> string list" where
  "flag_values args flag = map snd (filter (\<lambda>w. fst w = flag) (windows2 args))"

section \<open>Ports\<close>

definition digit_value :: "char \<Rightarrow> nat" where
  "digit_value c = of_char c - 48"

fun u16_digits :: "16 word \<Rightarrow> string \<Rightarrow> (16 word, string) result" where
  "u16_digits acc [] = Ok acc"
| "u16_digits acc (c # cs) =
     (if \<not> is_ascii_digit c then Err ''invalid digit found in string''
      else
        let n = unat acc * 10 + digit_value c in
        if 2 ^ 16 \<le> n then Err ''number too large to fit in target type''
        else u16_digits (of_nat n) cs)"

definition parse_u16 :: "string \<Rightarrow> (16 word, string) result" where
  "parse_u16 s =
     (if s = [] then Err ''cannot parse integer from empty string''
      else if s = ''+'' \<or> s = ''-'' then Err ''invalid digit found in string''
      else u16_digits 0 (if hd s = CHR ''+'' then tl s else s))"

section \<open>Adapter values\<close>

text \<open>\<open>value.split(sep)\<close>.\<close>

fun str_split :: "char \<Rightarrow> string \<Rightarrow> string list" where
  "str_split sep [] = [[]]"
| "str_split sep (c # cs) =
     (if c = sep then [] # str_split sep cs
      else (case str_split sep cs of [] \<Rightarrow> [[c]] | p # ps \<Rightarrow> (c # p) # ps))"

fun nmap_profile :: "string option \<Rightarrow> nmap_scan_profile option" where
  "nmap_profile None = Some LoopbackTcpConnectV1"
| "nmap_profile (Some p) =
     (if p = ''loopback'' then Some LoopbackTcpConnectV1
      else if p = ''private-subnet'' then Some AuthorizedPrivateSubnetTcpConnectV1
      else None)"

definition parse_selection ::
  "(string \<Rightarrow> string) \<Rightarrow> string \<Rightarrow> string \<Rightarrow> string list \<Rightarrow> (adapter_selection, string) result" where
  "parse_selection debug v kind params =
     (if kind = ''local-file-write'' then
        (case params of
           [root] \<Rightarrow> Ok (adapter_selection.LocalFileWrite root)
         | _ \<Rightarrow> Err (''invalid --adapter value '' @ debug v @
             '': local-file-write takes exactly one parameter, the delivery directory''))
      else if kind = ''nmap-preflight'' then
        (if length params < 1 \<or> 2 < length params
         then Err (''invalid --adapter value '' @ debug v @
           '': nmap-preflight takes <BINARY>[:<loopback|private-subnet>]'')
         else
           let given = (if length params = 2 then Some (params ! 1) else None) in
           (case nmap_profile given of
              Some profile \<Rightarrow> Ok (NmapPreflight (params ! 0) profile)
            | None \<Rightarrow> Err (''invalid --adapter nmap profile '' @ debug (the given) @
                '' (expected loopback or private-subnet)'')))
      else Err (''unknown --adapter kind '' @ debug kind @
        '' (expected local-file-write or nmap-preflight)''))"

definition parse_capability_scoped_adapter ::
  "(string \<Rightarrow> string) \<Rightarrow> (string \<Rightarrow> (uuid, string) result) \<Rightarrow> string \<Rightarrow>
   (capability_scoped_adapter_selection, string) result" where
  "parse_capability_scoped_adapter debug parse_uuid v =
     (let parts = str_split CHR '':'' v in
      if length parts < 3
      then Err (''invalid --adapter value '' @ debug v @
        '' (expected <CAPABILITY_UUID>:<local-file-write|nmap-preflight>:<PARAMS>)'')
      else
        and_then (map_err (\<lambda>e. ''invalid --adapter capability id '' @ debug (parts ! 0) @ '': '' @ e)
          (parse_uuid (parts ! 0))) (\<lambda>capability_id.
        and_then (parse_selection debug v (parts ! 1) (drop 2 parts)) (\<lambda>selection.
        Ok \<lparr>sa_capability_id = capability_id, sa_selection = selection\<rparr>)))"

section \<open>Facts\<close>

text \<open>A flag is given by its first occurrence that something follows.\<close>

lemma windows2_nth: "i < length (windows2 args) \<Longrightarrow> windows2 args ! i = (args ! i, args ! Suc i)"
  by (auto simp: windows2_def nth_tl)

lemma length_windows2: "length (windows2 args) = length args - 1"
  by (auto simp: windows2_def)

lemma flag_path_Some:
  "flag_path args flag = Some v \<longleftrightarrow>
     (\<exists>i. Suc i < length args \<and> args ! i = flag \<and> args ! Suc i = v \<and> (\<forall>j < i. args ! j \<noteq> flag))"
proof -
  have "flag_path args flag = Some v \<longleftrightarrow>
      (\<exists>i < length (windows2 args). fst (windows2 args ! i) = flag \<and> snd (windows2 args ! i) = v \<and>
        (\<forall>j < i. fst (windows2 args ! j) \<noteq> flag))"
  proof -
    have "flag_path args flag = Some v \<longleftrightarrow>
        (\<exists>w. find (\<lambda>w. fst w = flag) (windows2 args) = Some w \<and> snd w = v)"
      by (auto simp: flag_path_def)
    then show ?thesis unfolding find_Some_iff by blast
  qed
  also have "\<dots> \<longleftrightarrow>
      (\<exists>i. Suc i < length args \<and> args ! i = flag \<and> args ! Suc i = v \<and> (\<forall>j < i. args ! j \<noteq> flag))"
    by (rule ex_cong1) (auto simp: windows2_nth length_windows2)
  finally show ?thesis .
qed

lemma windows2_snoc:
  "windows2 (args @ [x]) = windows2 args @ (if args = [] then [] else [(last args, x)])"
proof (rule nth_equalityI)
  fix i
  assume "i < length (windows2 (args @ [x]))"
  then have i: "i < length args" by (simp add: length_windows2)
  show "windows2 (args @ [x]) ! i = (windows2 args @ (if args = [] then [] else [(last args, x)])) ! i"
  proof (cases "Suc i < length args")
    case True
    then have "i < length args - 1" "args \<noteq> []" by auto
    with True show ?thesis by (simp add: length_windows2 windows2_nth nth_append)
  next
    case False
    with i have "i = length args - 1" "args \<noteq> []" by auto
    then show ?thesis by (simp add: length_windows2 windows2_nth nth_append last_conv_nth)
  qed
qed (simp add: length_windows2)

text \<open>A flag with nothing after it is not given, and stands for nothing else.\<close>

lemma flag_path_dangling:
  "last args \<noteq> flag \<or> args = [] \<Longrightarrow> flag_path (args @ [x]) flag = flag_path args flag"
  by (auto simp: flag_path_def windows2_snoc find_append split: option.splits)

lemma flag_values_dangling:
  "last args \<noteq> flag \<or> args = [] \<Longrightarrow> flag_values (args @ [x]) flag = flag_values args flag"
  by (auto simp: flag_values_def windows2_snoc)

section \<open>Splitting\<close>

lemma str_split_not_Nil: "str_split sep s \<noteq> []"
  by (induction s) (auto split: list.splits)

lemma str_join_push: "str_join sep ((c # p) # ps) = c # str_join sep (p # ps)"
  by (cases ps) simp_all

lemma str_split_join: "str_join [sep] (str_split sep s) = s"
proof (induction s)
  case (Cons c s)
  then show ?case
    using str_split_not_Nil [of sep s]
    by (auto simp: str_join_push neq_Nil_conv split: list.splits)
qed simp

lemma str_split_parts: "p \<in> set (str_split sep s) \<Longrightarrow> sep \<notin> set p"
  by (induction s arbitrary: p) (auto split: list.splits if_splits)

lemma str_split_plain: "sep \<notin> set p \<Longrightarrow> str_split sep p = [p]"
  by (induction p) auto

lemma str_split_append: "sep \<notin> set p \<Longrightarrow> str_split sep (p @ sep # s) = p # str_split sep s"
  by (induction p) auto

lemma str_split_of_join:
  "ps \<noteq> [] \<Longrightarrow> \<forall>p \<in> set ps. sep \<notin> set p \<Longrightarrow> str_split sep (str_join [sep] ps) = ps"
proof (induction ps rule: induct_list012)
  case (3 p q ps)
  then show ?case by (simp add: str_split_append)
qed (simp_all add: str_split_plain)

lemma str_split_iff:
  "str_split sep s = ps \<longleftrightarrow> ps \<noteq> [] \<and> (\<forall>p \<in> set ps. sep \<notin> set p) \<and> s = str_join [sep] ps"
  using str_split_of_join str_split_join str_split_parts str_split_not_Nil by metis

section \<open>What a port is\<close>

definition decimal_from :: "nat \<Rightarrow> string \<Rightarrow> nat" where
  "decimal_from n ds = foldl (\<lambda>n c. n * 10 + digit_value c) n ds"

lemma decimal_from_simps [simp]:
  "decimal_from n [] = n" "decimal_from n (c # cs) = decimal_from (n * 10 + digit_value c) cs"
  "decimal_from n (ds @ es) = decimal_from (decimal_from n ds) es"
  by (simp_all add: decimal_from_def)

lemma decimal_from_ge: "n \<le> decimal_from n ds"
proof (induction ds arbitrary: n)
  case (Cons c ds)
  have "n \<le> n * 10 + digit_value c" by simp
  also have "\<dots> \<le> decimal_from n (c # ds)" using Cons by simp
  finally show ?case .
qed simp

lemma u16_digits_Ok:
  "u16_digits acc cs = Ok n \<longleftrightarrow> list_all is_ascii_digit cs \<and> decimal_from (unat acc) cs = unat n"
proof (induction cs arbitrary: acc)
  case (Cons c cs)
  let ?m = "unat acc * 10 + digit_value c"
  show ?case
  proof (cases "2 ^ 16 \<le> ?m")
    case True
    have "unat n < 2 ^ 16" using unsigned_less [of n] by simp
    with True decimal_from_ge [of ?m cs] have "decimal_from (unat acc) (c # cs) \<noteq> unat n" by simp
    with True show ?thesis by simp
  next
    case False
    then have "take_bit 16 ?m = ?m" by (intro take_bit_nat_eq_self) simp
    then have "unat (of_nat ?m :: 16 word) = ?m" by (simp only: unsigned_of_nat len_num1 len_bit0 mult_1_right) simp
    with False Cons.IH [of "of_nat ?m"] show ?thesis by simp
  qed
qed (auto simp: word_unat_eq_iff)

text \<open>A port is a text of decimal digits, after an optional plus sign, whose value fits in 16 bits.\<close>

lemma parse_u16_Ok:
  "parse_u16 s = Ok n \<longleftrightarrow>
     (\<exists>ds. ds \<noteq> [] \<and> list_all is_ascii_digit ds \<and> (s = ds \<or> s = ''+'' @ ds) \<and> decimal_from 0 ds = unat n)"
proof -
  have plus: "\<not> is_ascii_digit CHR ''+''" "\<not> is_ascii_digit CHR ''-''" by (simp_all add: ascii_defs)
  show ?thesis
  proof (cases "s = [] \<or> s = ''+'' \<or> s = ''-''")
    case True
    then show ?thesis using plus by (auto simp: parse_u16_def)
  next
    case False
    then obtain c cs where s: "s = c # cs" by (cases s) auto
    show ?thesis
    proof (cases "c = CHR ''+''")
      case True
      with False s plus show ?thesis
        by (auto simp: parse_u16_def u16_digits_Ok simp del: u16_digits.simps)
    next
      case other: False
      with False s plus show ?thesis
        by (auto simp: parse_u16_def u16_digits_Ok simp del: u16_digits.simps)
    qed
  qed
qed

lemma decimal_show_nat: "decimal_from 0 (show_nat k) = k"
proof (induction k rule: show_nat.induct)
  case (1 k)
  have digit: "digit_value (digit_char d) = d" if "d < 10" for d
    using that by (simp add: digit_value_def digit_char_def)
  show ?case
  proof (cases "k < 10")
    case True
    then show ?thesis by (simp add: show_nat.simps [of k] digit)
  next
    case False
    with 1 show ?thesis by (simp add: show_nat.simps [of k] digit)
  qed
qed

section \<open>What an adapter value says\<close>

fun selection_path :: "adapter_selection \<Rightarrow> string" where
  "selection_path (adapter_selection.LocalFileWrite root) = root"
| "selection_path (NmapPreflight binary profile) = binary"

text \<open>The parts that follow the capability; the loopback profile may be left out.\<close>

fun selection_parts :: "adapter_selection \<Rightarrow> string list set" where
  "selection_parts (adapter_selection.LocalFileWrite root) = {[''local-file-write'', root]}"
| "selection_parts (NmapPreflight binary LoopbackTcpConnectV1) =
     {[''nmap-preflight'', binary], [''nmap-preflight'', binary, ''loopback'']}"
| "selection_parts (NmapPreflight binary AuthorizedPrivateSubnetTcpConnectV1) =
     {[''nmap-preflight'', binary, ''private-subnet'']}"

definition adapter_value_says :: "string \<Rightarrow> string \<Rightarrow> adapter_selection \<Rightarrow> bool" where
  "adapter_value_says v i selection \<longleftrightarrow>
     CHR '':'' \<notin> set i \<and> CHR '':'' \<notin> set (selection_path selection) \<and>
     (\<exists>ps \<in> selection_parts selection. v = str_join '':'' (i # ps))"

lemma nmap_profile_Some:
  "nmap_profile given = Some profile \<longleftrightarrow>
     (case profile of
        LoopbackTcpConnectV1 \<Rightarrow> given = None \<or> given = Some ''loopback''
      | AuthorizedPrivateSubnetTcpConnectV1 \<Rightarrow> given = Some ''private-subnet'')"
  by (cases given; cases profile) auto

lemma parse_selection_Ok:
  "parse_selection debug v kind params = Ok selection \<longleftrightarrow> kind # params \<in> selection_parts selection"
proof -
  consider "params = []" | a where "params = [a]" | a b where "params = [a, b]" | "2 < length params"
    by (cases params rule: remdups_adj.cases) (auto simp: neq_Nil_conv, metis list.exhaust)
  note params = this
  consider "kind = ''local-file-write''" | "kind = ''nmap-preflight''"
    | "kind \<noteq> ''local-file-write''" "kind \<noteq> ''nmap-preflight''" by blast
  then show ?thesis
  proof cases
    case 1
    then show ?thesis
      by (cases selection rule: selection_parts.cases) (auto simp: parse_selection_def split: list.splits)
  next
    case 2
    have kinds: "''nmap-preflight'' \<noteq> ''local-file-write''" by simp
    from params show ?thesis
      by cases (cases selection rule: selection_parts.cases;
          auto simp: parse_selection_def 2 kinds Let_def nmap_profile_Some split: option.splits)+
  next
    case 3
    then show ?thesis
      by (cases selection rule: selection_parts.cases) (simp_all add: parse_selection_def)
  qed
qed

text \<open>A value of \<open>--adapter\<close> is accepted exactly when it says a selection, for the capability it names.\<close>

lemma str_join_selection:
  assumes "ps \<in> selection_parts selection" and "CHR '':'' \<notin> set i"
    and "CHR '':'' \<notin> set (selection_path selection)"
  shows "str_split CHR '':'' (str_join '':'' (i # ps)) = i # ps"
  using assms
  by (intro str_split_of_join) (cases selection rule: selection_parts.cases, auto)+

lemma parse_adapter_Ok:
  "parse_capability_scoped_adapter debug parse_uuid v = Ok a \<longleftrightarrow>
     (\<exists>i. adapter_value_says v i (sa_selection a) \<and> parse_uuid i = Ok (sa_capability_id a))"
  (is "?l \<longleftrightarrow> ?r")
proof
  assume ?l
  then obtain i kind params where parts: "str_split CHR '':'' v = i # kind # params"
    and i: "parse_uuid i = Ok (sa_capability_id a)"
    and sel: "parse_selection debug v kind params = Ok (sa_selection a)"
    by (auto simp: parse_capability_scoped_adapter_def Let_def result_simps neq_Nil_conv
        Suc_le_length_iff numeral_3_eq_3 not_less split: if_splits)
  note split = parts [unfolded str_split_iff]
  from sel have says: "kind # params \<in> selection_parts (sa_selection a)" by (simp add: parse_selection_Ok)
  then have "selection_path (sa_selection a) \<in> set (i # kind # params)"
    by (cases "sa_selection a" rule: selection_parts.cases) auto
  with split have "CHR '':'' \<notin> set i" "CHR '':'' \<notin> set (selection_path (sa_selection a))"
    "v = str_join '':'' (i # kind # params)"
    by auto
  with says i show ?r
    unfolding adapter_value_says_def by blast
next
  assume ?r
  then obtain i ps where i: "CHR '':'' \<notin> set i" "parse_uuid i = Ok (sa_capability_id a)"
    and path: "CHR '':'' \<notin> set (selection_path (sa_selection a))"
    and ps: "ps \<in> selection_parts (sa_selection a)" "v = str_join '':'' (i # ps)"
    by (auto simp: adapter_value_says_def)
  from ps(1) obtain kind p params where shape: "ps = kind # p # params"
    by (cases "sa_selection a" rule: selection_parts.cases) auto
  have "parse_selection debug v kind (p # params) = Ok (sa_selection a)"
    using ps(1) by (simp add: parse_selection_Ok shape)
  with str_join_selection [OF ps(1) i(1) path] i(2) show ?l
    by (simp add: parse_capability_scoped_adapter_def Let_def ps(2) shape)
qed

end
