(* ===== verification/Runner.thy ===== *)
theory Runner
  imports Arguments Export_Sinks Serve Df_Local
begin

text \<open>
  The command-line runner, \<open>src/bin/fa_local_run.rs\<close>: one arm of \<open>main\<close> per subcommand, each reading its
  flags and files, running one service of the crate and ending the process with an exit code and what
  it printed.

  The process is a function of its arguments and of a world \<open>'w\<close>. It ends (\<open>Ended\<close>), or it serves and
  never ends (\<open>Serving\<close>, from the state in which the daemon starts); \<open>None\<close> is a panic or a call that
  never returns. What the arms do not define themselves (files, the console, the printers and parsers
  of \<open>serde_json\<close>, identifiers, clocks) are the fields of the environments, one per group of commands.
\<close>

section \<open>The process\<close>

record process_end =
  en_code :: int
  en_stdout :: string
  en_stderr :: string

datatype process_outcome =
  Ended process_end
| Serving "16 word" public_keys daemon_state

type_synonym 'w process = "'w \<Rightarrow> ('w \<times> process_outcome) option"

text \<open>
  \<open>cn_read\<close> is \<open>std::fs::read\<close>, \<open>cn_read_text\<close> is \<open>std::fs::read_to_string\<close>, \<open>cn_pretty\<close> and \<open>cn_compact\<close>
  the two printers of \<open>serde_json\<close>; \<open>cn_read_var\<close> is \<open>None\<close> where \<open>std::env::var\<close> fails.
\<close>

record 'w console_env =
  cn_version :: string
  cn_contracts :: contract_env
  cn_read :: "string \<Rightarrow> 'w \<Rightarrow> (string, string) result"
  cn_read_text :: "string \<Rightarrow> 'w \<Rightarrow> (string, string) result"
  cn_stdin :: "'w \<Rightarrow> (string, string) result"
  cn_read_var :: "string \<Rightarrow> string option"
  cn_pretty :: "json \<Rightarrow> string"
  cn_compact :: "json \<Rightarrow> string"
  cn_debug_text :: "string \<Rightarrow> string"
  cn_parse_uuid :: "string \<Rightarrow> (uuid, string) result"
  cn_show_uuid :: "uuid \<Rightarrow> string"

definition print_lines :: "string list \<Rightarrow> string" where
  "print_lines ls = concat (map (\<lambda>l. l @ line_end) ls)"

definition quoted :: "string \<Rightarrow> string" where
  "quoted s = [CHR 0x22] @ s @ [CHR 0x22]"

text \<open>A line \<open>"key": value\<close> of the documents that are printed line by line.\<close>

definition member_line :: "string \<Rightarrow> string \<Rightarrow> string" where
  "member_line key v = ''  '' @ quoted key @ '': '' @ v"

definition fails_with :: "string \<Rightarrow> process_end" where
  "fails_with message =
     \<lparr>en_code = 1, en_stdout = [], en_stderr = print_lines [''error: '' @ message]\<rparr>"

definition fails_as :: "string \<Rightarrow> 'w console_env \<Rightarrow> fa_local_error \<Rightarrow> process_end" where
  "fails_as status env e =
     \<lparr>en_code = 1, en_stdout = [],
      en_stderr = print_lines
        [''{'', member_line ''status'' (quoted status @ '',''),
         member_line ''error'' (quoted (show_error (ce_debug_list (cn_contracts env)) e)), ''}'']\<rparr>"

definition prints :: "int \<Rightarrow> string list \<Rightarrow> process_end" where
  "prints code ls = \<lparr>en_code = code, en_stdout = print_lines ls, en_stderr = []\<rparr>"

definition prints_document :: "'w console_env \<Rightarrow> int \<Rightarrow> json \<Rightarrow> process_end" where
  "prints_document env code document = prints code [cn_pretty env document]"

definition ends :: "process_end \<Rightarrow> 'w process" where
  "ends e w = Some (w, Ended e)"

text \<open>The end of a command whose flags or files may already have ended it.\<close>

fun end_of :: "(process_end, process_end) result \<Rightarrow> process_end" where
  "end_of (Ok e) = e"
| "end_of (Err e) = e"

section \<open>Flags and files\<close>

definition require_flag :: "string list \<Rightarrow> string \<Rightarrow> string \<Rightarrow> (string, process_end) result" where
  "require_flag args command flag =
     ok_or (flag_path args flag) (fails_with (command @ '' requires '' @ flag))"

definition read_json_file :: "'w console_env \<Rightarrow> 'w \<Rightarrow> string \<Rightarrow> (json, process_end) result" where
  "read_json_file env w path =
     and_then (map_err (\<lambda>e. fails_with (''could not read file '' @ cn_debug_text env path @ '': '' @ e))
       (cn_read env path w)) (\<lambda>bytes.
     map_err (\<lambda>e. fails_with (''could not parse '' @ cn_debug_text env path @ '' as JSON: '' @ e))
       (ce_from_slice (cn_contracts env) bytes))"

text \<open>The four contract files of \<open>route\<close> and \<open>execute\<close>, in the order they are read.\<close>

definition contract_paths ::
  "string list \<Rightarrow> string \<Rightarrow> (string \<times> string \<times> string \<times> string, process_end) result" where
  "contract_paths args command =
     (case (flag_path args ''--request'', flag_path args ''--requester-trust'',
            flag_path args ''--policy'', flag_path args ''--capability-registry'') of
        (Some r, Some t, Some p, Some c) \<Rightarrow> Ok (r, t, p, c)
      | _ \<Rightarrow> Err (fails_with (command @
          '' requires --request, --requester-trust, --policy, and --capability-registry'')))"

definition read_contracts ::
  "'w console_env \<Rightarrow> string list \<Rightarrow> string \<Rightarrow> 'w \<Rightarrow> (json \<times> json \<times> json \<times> json, process_end) result" where
  "read_contracts env args command w =
     and_then (contract_paths args command) (\<lambda>(r, t, p, c).
     and_then (read_json_file env w r) (\<lambda>request.
     and_then (read_json_file env w t) (\<lambda>requester_trust.
     and_then (read_json_file env w p) (\<lambda>policy.
     and_then (read_json_file env w c) (\<lambda>capability_registry.
     Ok (request, requester_trust, policy, capability_registry))))))"

text \<open>
  The forensic sink of a command: a line file, a store that is opened now, or none. \<open>store\<close> names the
  store in the message.
\<close>

definition choose_sink ::
  "'w console_env \<Rightarrow> string list \<Rightarrow> string \<Rightarrow> (jsonl_config \<Rightarrow> 'a) \<Rightarrow>
   (string \<Rightarrow> 'w \<Rightarrow> 'w \<times> unit fa_local_result) \<Rightarrow> 'a \<Rightarrow> 'w \<Rightarrow> 'w \<times> ('a option, process_end) result" where
  "choose_sink env args store jsonl open_at sqlite w =
     (case (flag_path args ''--forensic-export'', flag_path args ''--forensic-sqlite'') of
        (Some _, Some _) \<Rightarrow>
          (w, Err (fails_with ''--forensic-export and --forensic-sqlite are mutually exclusive''))
      | (Some path, None) \<Rightarrow> (w, Ok (Some (jsonl \<lparr>jc_export_file_path = path\<rparr>)))
      | (None, Some path) \<Rightarrow>
          let (w', opened) = open_at path w in
          (w', and_then (map_err (\<lambda>e. fails_with (''could not open '' @ store @ '' '' @
              cn_debug_text env path @ '': '' @ show_error (ce_debug_list (cn_contracts env)) e)) opened)
            (\<lambda>_. Ok (Some sqlite)))
      | (None, None) \<Rightarrow> (w, Ok None))"

section \<open>validate\<close>

fun environment_mode_debug :: "environment_mode \<Rightarrow> string" where
  "environment_mode_debug Dev = ''Dev''"
| "environment_mode_debug Test = ''Test''"
| "environment_mode_debug Staging = ''Staging''"
| "environment_mode_debug Prod = ''Prod''"
| "environment_mode_debug Airgapped = ''Airgapped''"
| "environment_mode_debug TestHarness = ''TestHarness''"

definition validate_input :: "'w console_env \<Rightarrow> string list \<Rightarrow> 'w \<Rightarrow> (string, process_end) result" where
  "validate_input env args w =
     (case flag_path args ''--request'' of
        Some path \<Rightarrow> map_err (\<lambda>e. fails_with
          (''could not read request file '' @ cn_debug_text env path @ '': '' @ e)) (cn_read env path w)
      | None \<Rightarrow> map_err (\<lambda>e. fails_with (''could not read from stdin: '' @ e)) (cn_stdin env w))"

definition validate_command ::
  "'w console_env \<Rightarrow> (json \<Rightarrow> (execution_request, string) result) \<Rightarrow> string list \<Rightarrow> 'w process" where
  "validate_command env decode args w = ends (end_of
     (and_then (validate_input env args w) (\<lambda>bytes.
      case validate_request_bytes (cn_contracts env) decode bytes of
        Ok result \<Rightarrow>
          let request = iv_request result in
          Ok (prints 0
            [''{'', member_line ''status'' (quoted ''valid'' @ '',''),
             member_line ''request_id'' (quoted (cn_show_uuid env (er_request_id request)) @ '',''),
             member_line ''correlation_id''
               (quoted (cn_show_uuid env (er_correlation_id request)) @ '',''),
             member_line ''environment_mode''
               (quoted (environment_mode_debug (er_environment_mode request))), ''}''])
      | Err e \<Rightarrow> Err (fails_as ''invalid'' env e)))) w"

section \<open>route and execute\<close>

text \<open>
  \<open>xe_decision_id\<close> and \<open>xe_decided_at\<close> are what \<open>RouteResolutionContext::default\<close> draws and reads;
  the printers of route decisions, denial guards, statuses and events are derived.
\<close>

record 'w execute_env =
  xe_pipeline :: "'w pipeline_env"
  xe_decision_id :: route_decision_id
  xe_decided_at :: timestamp
  xe_decision_json :: "route_decision \<Rightarrow> json"
  xe_denial_json :: "denial_guard \<Rightarrow> json"
  xe_status_json :: "execution_status \<Rightarrow> json"
  xe_event_json :: "forensic_event \<Rightarrow> json"
  xe_jsonl :: "'w jsonl_env"
  xe_sqlite :: "'w sqlite_env"
  xe_printers :: sink_printers
  xe_print_event :: "forensic_event \<Rightarrow> (string, string) result"
  xe_parse_event :: "string \<Rightarrow> (forensic_event, string) result"
  xe_decode_event_type :: "json \<Rightarrow> (forensic_event_type, string) result"

definition default_context :: "'w execute_env \<Rightarrow> route_resolution_context" where
  "default_context x = new_route_resolution_context (xe_decision_id x) (xe_decided_at x)"

definition resolve_inputs ::
  "'w execute_env \<Rightarrow> json \<times> json \<times> json \<times> json \<Rightarrow> route_decision fa_local_result option" where
  "resolve_inputs x inputs =
     (case inputs of (request, requester_trust, policy, capability_registry) \<Rightarrow>
        resolve_route_decision (pe_contracts (xe_pipeline x)) (pe_decoders (xe_pipeline x))
          (pe_show_uuid (xe_pipeline x)) (pe_now (xe_pipeline x)) request requester_trust policy
          capability_registry (default_context x))"

definition route_end :: "'w console_env \<Rightarrow> 'w execute_env \<Rightarrow> route_decision fa_local_result \<Rightarrow> process_end" where
  "route_end env x resolved =
     (case resolved of
        Ok d \<Rightarrow> prints_document env (if rd_execution_allowed d then 0 else 1) (xe_decision_json x d)
      | Err e \<Rightarrow> fails_as ''error'' env e)"

definition route_command :: "'w console_env \<Rightarrow> 'w execute_env \<Rightarrow> string list \<Rightarrow> 'w process" where
  "route_command env x args w =
     (case read_contracts env args ''route'' w of
        Err e \<Rightarrow> ends e w
      | Ok inputs \<Rightarrow>
          (case resolve_inputs x inputs of
             None \<Rightarrow> None
           | Some resolved \<Rightarrow> ends (route_end env x resolved) w))"

definition execute_selection ::
  "'w console_env \<Rightarrow> string list \<Rightarrow> (adapter_selection option, process_end) result" where
  "execute_selection env args =
     (case (flag_path args ''--local-file-write-root'', flag_path args ''--nmap-binary'') of
        (Some root, None) \<Rightarrow> Ok (Some (adapter_selection.LocalFileWrite root))
      | (None, Some binary) \<Rightarrow>
          let given = flag_path args ''--nmap-profile'' in
          (case nmap_profile given of
             Some profile \<Rightarrow> Ok (Some (NmapPreflight binary profile))
           | None \<Rightarrow> Err (fails_with (''unknown --nmap-profile '' @ cn_debug_text env (the given) @
               '' (expected loopback or private-subnet)'')))
      | (None, None) \<Rightarrow> Ok None
      | (Some _, Some _) \<Rightarrow>
          Err (fails_with ''--local-file-write-root and --nmap-binary are mutually exclusive''))"

definition execute_additional ::
  "'w console_env \<Rightarrow> string list \<Rightarrow> (capability_scoped_adapter_selection list, process_end) result" where
  "execute_additional env args = map_err fails_with
     (try_map (parse_capability_scoped_adapter (cn_debug_text env) (cn_parse_uuid env))
       (flag_values args ''--adapter''))"

definition optional_plan ::
  "'w console_env \<Rightarrow> string list \<Rightarrow> 'w \<Rightarrow> (json option, process_end) result" where
  "optional_plan env args w =
     (case flag_path args ''--plan'' of
        None \<Rightarrow> Ok None
      | Some path \<Rightarrow> and_then (read_json_file env w path) (\<lambda>plan. Ok (Some plan)))"

definition execute_inputs ::
  "'w console_env \<Rightarrow> string list \<Rightarrow> 'w \<Rightarrow>
   (execution_pipeline_inputs \<times> adapter_selection option \<times> capability_scoped_adapter_selection list,
    process_end) result" where
  "execute_inputs env args w =
     and_then (read_contracts env args ''execute'' w)
       (\<lambda>(request, requester_trust, policy, capability_registry).
     and_then (optional_plan env args w) (\<lambda>plan.
     and_then (execute_selection env args) (\<lambda>selection.
     and_then (execute_additional env args) (\<lambda>additional.
     Ok (\<lparr>pi_request = request, pi_requester_trust = requester_trust, pi_policy = policy,
          pi_capability_registry = capability_registry, pi_execution_plan = plan\<rparr>,
         selection, additional)))))"

definition execute_sink ::
  "'w console_env \<Rightarrow> 'w execute_env \<Rightarrow> string list \<Rightarrow> 'w \<Rightarrow>
   'w \<times> ('w export_adapter option, process_end) result" where
  "execute_sink env x args = choose_sink env args ''forensic sqlite store''
     (jsonl_forensic_adapter (xe_jsonl x) (xe_print_event x) (cn_show_uuid env))
     (open_forensic_store (xe_sqlite x))
     (sqlite_forensic_store (xe_sqlite x) (xe_printers x) (xe_print_event x))"

definition execute_mode :: "string list \<Rightarrow> dispatch_mode" where
  "execute_mode args =
     (if list_ex (\<lambda>arg. arg = ''--per-step-dispatch'') args then PerStep else WholeRoute)"

definition finished_state :: "execution_state \<Rightarrow> bool" where
  "finished_state s \<longleftrightarrow>
     s \<in> {execution_state.Completed, CompletedWithConstraints, PartialSuccess}"

text \<open>\<open>final_status\<close> panics on an empty trace.\<close>

definition execute_exit_code :: "execution_pipeline_outcome \<Rightarrow> int option" where
  "execute_exit_code out =
     (if po_plan_denial out \<noteq> None then Some 1
      else
        (case po_execution_trace out of
           Some trace \<Rightarrow> map_option
             (\<lambda>final. of_bool (\<not> finished_state (st_state (vs_status final)))) (final_status trace)
         | None \<Rightarrow> Some (of_bool (\<not> rd_execution_allowed (po_route_decision out)))))"

definition record_document :: "json \<Rightarrow> string option \<Rightarrow> json" where
  "record_document event reference =
     json_object [(''event'', event), (''export_reference'', json_option (\<lambda>r. r) reference)]"

definition execute_document :: "'w execute_env \<Rightarrow> execution_pipeline_outcome \<Rightarrow> json" where
  "execute_document x out = json_object
     ((''route_decision'', xe_decision_json x (po_route_decision out)) #
      (case po_execution_trace out of
         Some trace \<Rightarrow> [(''execution_trace'',
           JArray (map (\<lambda>status. xe_status_json x (vs_status status)) (tr_statuses trace)))]
       | None \<Rightarrow> []) @
      (case po_plan_denial out of
         Some denial \<Rightarrow> [(''plan_denial'', xe_denial_json x denial)]
       | None \<Rightarrow> []) @
      [(''forensic_records'', JArray (map (\<lambda>r. record_document
          (xe_event_json x (vf_event (fo_event r))) (fo_export_reference r)) (po_forensic_records out)))])"

definition execute_end ::
  "'w console_env \<Rightarrow> 'w execute_env \<Rightarrow> execution_pipeline_outcome fa_local_result \<Rightarrow> process_end option"
where
  "execute_end env x outcome =
     (case outcome of
        Ok out \<Rightarrow> map_option (\<lambda>code. prints_document env code (execute_document x out))
          (execute_exit_code out)
      | Err e \<Rightarrow> Some (fails_as ''error'' env e))"

definition execute_command :: "'w console_env \<Rightarrow> 'w execute_env \<Rightarrow> string list \<Rightarrow> 'w process" where
  "execute_command env x args w =
     (case execute_inputs env args w of
        Err e \<Rightarrow> ends e w
      | Ok (inputs, selection, additional) \<Rightarrow>
          let (w1, sink) = execute_sink env x args w in
          (case sink of
             Err e \<Rightarrow> ends e w1
           | Ok export_adapter \<Rightarrow> do {
               (w2, outcome) \<leftarrow> run_pipeline (xe_pipeline x) inputs selection additional
                 (execute_mode args) export_adapter (default_context x) w1;
               ended \<leftarrow> execute_end env x outcome;
               ends ended w2
             }))"

section \<open>forensics-query\<close>

text \<open>The query that the flags ask for, on the opened store.\<close>

definition forensics_query ::
  "'w console_env \<Rightarrow> 'w execute_env \<Rightarrow> string list \<Rightarrow> 'w \<Rightarrow>
   (forensic_event list fa_local_result, process_end) result" where
  "forensics_query env x args w =
     (case (flag_path args ''--correlation-id'', flag_path args ''--event-type'') of
        (Some v, None) \<Rightarrow>
          and_then (map_err (\<lambda>e. fails_with
              (''invalid --correlation-id '' @ cn_debug_text env v @ '': '' @ e)) (cn_parse_uuid env v))
            (\<lambda>i. Ok (query_by_correlation_id (xe_sqlite x) (xe_printers x) (xe_parse_event x) i w))
      | (None, Some v) \<Rightarrow>
          and_then (map_err (\<lambda>e. fails_with
              (''invalid --event-type '' @ cn_debug_text env v @ '': '' @ e))
              (xe_decode_event_type x (JString v)))
            (\<lambda>t. Ok (query_by_event_type (xe_sqlite x) (xe_parse_event x) t w))
      | _ \<Rightarrow> Err (fails_with
          ''forensics-query requires exactly one of --correlation-id or --event-type''))"

definition query_end ::
  "'w console_env \<Rightarrow> 'w execute_env \<Rightarrow> forensic_event list fa_local_result \<Rightarrow> process_end" where
  "query_end env x found =
     (case found of
        Ok events \<Rightarrow> prints_document env 0 (JArray (map (xe_event_json x) events))
      | Err e \<Rightarrow> fails_as ''error'' env e)"

definition forensics_query_command ::
  "'w console_env \<Rightarrow> 'w execute_env \<Rightarrow> string list \<Rightarrow> 'w process" where
  "forensics_query_command env x args w =
     (case require_flag args ''forensics-query'' ''--sqlite'' of
        Err e \<Rightarrow> ends e w
      | Ok path \<Rightarrow>
          let (w1, opened) = open_forensic_store (xe_sqlite x) path w in
          ends (end_of
            (and_then (map_err (\<lambda>e. fails_with (''could not open forensic sqlite store '' @
                cn_debug_text env path @ '': '' @ show_error (ce_debug_list (cn_contracts env)) e)) opened)
              (\<lambda>_. and_then (forensics_query env x args w1) (\<lambda>found. Ok (query_end env x found))))) w1)"

section \<open>serve\<close>

text \<open>\<open>vx_bind\<close> is \<open>Server::http\<close> on the loopback address with a port.\<close>

record ('w, 'k) serve_command_env =
  vx_serve :: "'k serve_env"
  vx_parse_keys :: "string \<Rightarrow> (public_keys, string) result"
  vx_bind :: "16 word \<Rightarrow> 'w \<Rightarrow> 'w \<times> (unit, string) result"

definition DEFAULT_SERVE_PORT :: "16 word" where
  "DEFAULT_SERVE_PORT = 8012"

definition DEFAULT_PUBLIC_KEYS_ENV :: string where
  "DEFAULT_PUBLIC_KEYS_ENV = ''FA_LOCAL_SERVE_PUBLIC_KEYS''"

definition serve_port :: "'w console_env \<Rightarrow> string list \<Rightarrow> (16 word, process_end) result" where
  "serve_port env args =
     (case flag_path args ''--port'' of
        Some v \<Rightarrow> map_err (\<lambda>e. fails_with
          (''invalid --port '' @ cn_debug_text env v @ '': '' @ e)) (parse_u16 v)
      | None \<Rightarrow> Ok DEFAULT_SERVE_PORT)"

definition serve_inputs ::
  "'w console_env \<Rightarrow> ('w, 'k) serve_command_env \<Rightarrow> string list \<Rightarrow>
   (serve_service \<times> 16 word \<times> public_keys, process_end) result" where
  "serve_inputs env v args =
     and_then (fail_if (cn_read_var env ''FA_LOCAL_SERVE_ENABLED'' = None) (fails_with
       (''serve requires FA_LOCAL_SERVE_ENABLED to be set (default-off; see '' @
        ''docs/plans/active/BDS_FAL_DAEMON_v0.1/02_IMPLEMENTATION_SCOPING_PACKET.md)''))) (\<lambda>_.
     and_then (require_flag args ''serve'' ''--registry-file'') (\<lambda>registry_file.
     and_then (serve_port env args) (\<lambda>port.
     let public_keys_env = (case flag_path args ''--public-keys-env'' of
           Some name \<Rightarrow> name | None \<Rightarrow> DEFAULT_PUBLIC_KEYS_ENV) in
     and_then (map_err (\<lambda>e. fails_with (''invalid '' @ public_keys_env @ '': '' @ e))
       (load_public_keys_from_env (cn_read_var env) (vx_parse_keys v) public_keys_env)) (\<lambda>public_keys.
     and_then (map_err (\<lambda>e. fails_with (''could not load --registry-file '' @
         cn_debug_text env registry_file @ '': '' @ show_error (ce_debug_list (cn_contracts env)) e))
       (load_service (vx_serve v) (cn_contracts env) registry_file)) (\<lambda>service.
     Ok (service, port, public_keys))))))"

definition run_server ::
  "('w, 'k) serve_command_env \<Rightarrow> serve_service \<Rightarrow> 16 word \<Rightarrow> 'w \<Rightarrow> 'w \<times> daemon_state fa_local_result" where
  "run_server v service port w =
     (let address = ''127.0.0.1:'' @ show_nat (unat port);
          (w', bound) = vx_bind v port w in
      (w', and_then (map_err (\<lambda>e. InternalInvariant (''could not bind '' @ address @ '': '' @ e)) bound)
        (\<lambda>_. Ok (daemon_start service))))"

definition serve_command ::
  "'w console_env \<Rightarrow> ('w, 'k) serve_command_env \<Rightarrow> string list \<Rightarrow> 'w process" where
  "serve_command env v args w =
     (case serve_inputs env v args of
        Err e \<Rightarrow> ends e w
      | Ok (service, port, public_keys) \<Rightarrow>
          let (w', started) = run_server v service port w in
          (case started of
             Ok state \<Rightarrow> Some (w', Serving port public_keys state)
           | Err e \<Rightarrow> ends (fails_with
               (''serve failed: '' @ show_error (ce_debug_list (cn_contracts env)) e)) w'))"

section \<open>gnat-dispatch\<close>

record ('w, 'p) gnat_command_env =
  gx_run :: gnat_run_env
  gx_now :: timestamp
  gx_shards :: "('w, 'p) shard_env"
  gx_decode_envelope :: "json \<Rightarrow> (gnat_dispatch_envelope, string) result"
  gx_decode_enrichments :: "json \<Rightarrow> (string \<rightharpoonup> gnat_shard_enrichment, string) result"
  gx_denial_json :: "denial_guard \<Rightarrow> json"
  gx_admission_json :: "gnat_dispatch_admission \<Rightarrow> json"
  gx_event_json :: "gnat_forensic_event \<Rightarrow> json"
  gx_jsonl :: "'w jsonl_env"
  gx_sqlite :: "'w sqlite_env"
  gx_printers :: sink_printers
  gx_print_event :: "gnat_forensic_event \<Rightarrow> (string, string) result"

text \<open>One entry of \<open>shard_results\<close>, and whether the shard completed.\<close>

fun shard_document :: "string \<times> gnat_shard_dispatch_result \<Rightarrow> json" where
  "shard_document (shard_id, GnatCompleted receipt) = json_object
     [(''shard_id'', JString shard_id), (''outcome'', JString ''completed''), (''receipt'', receipt)]"
| "shard_document (shard_id, GnatNotCompleted receipt) = json_object
     [(''shard_id'', JString shard_id), (''outcome'', JString ''not_completed''), (''receipt'', receipt)]"
| "shard_document (shard_id, GnatDispatchUnavailable summary) = json_object
     [(''shard_id'', JString shard_id), (''outcome'', JString ''dispatch_unavailable''),
      (''summary'', JString summary)]"

fun shard_completed :: "gnat_shard_dispatch_result \<Rightarrow> bool" where
  "shard_completed (GnatCompleted receipt) = True"
| "shard_completed (GnatNotCompleted receipt) = False"
| "shard_completed (GnatDispatchUnavailable summary) = False"

fun gnat_outcome_fields ::
  "('w, 'p) gnat_command_env \<Rightarrow> gnat_run_outcome \<Rightarrow> (string \<times> json) list \<times> int" where
  "gnat_outcome_fields g (GnatDenied denial) =
     ([(''outcome'', JString ''denied''), (''denial'', gx_denial_json g denial)], 1)"
| "gnat_outcome_fields g (GnatSerialFallback admission) =
     ([(''outcome'', JString ''serial_fallback_permitted''),
       (''admission'', gx_admission_json g admission)], 1)"
| "gnat_outcome_fields g (GnatDispatched admission shard_results) =
     ([(''outcome'', JString ''dispatched''), (''admission'', gx_admission_json g admission),
       (''shard_results'', JArray (map shard_document shard_results))],
      of_bool (\<not> list_all (shard_completed \<circ> snd) shard_results))"

definition gnat_dispatch_result_to_json ::
  "('w, 'p) gnat_command_env \<Rightarrow> gnat_run_result \<Rightarrow> json \<times> int" where
  "gnat_dispatch_result_to_json g result =
     (let forensic_events = map (\<lambda>r. record_document (gx_event_json g (vg_event (go_event r)))
            (go_export_reference r)) (gw_forensic_events result);
          (fields, exit_code) = gnat_outcome_fields g (gw_outcome result) in
      (json_object (fields @ [(''forensic_events'', JArray forensic_events)]), exit_code))"

definition gnat_sink ::
  "'w console_env \<Rightarrow> ('w, 'p) gnat_command_env \<Rightarrow> string list \<Rightarrow> 'w \<Rightarrow>
   'w \<times> ('w gnat_export_adapter option, process_end) result" where
  "gnat_sink env g args = choose_sink env args ''gnat forensic sqlite store''
     (jsonl_gnat_adapter (gx_jsonl g) (gx_print_event g) (cn_show_uuid env))
     (open_gnat_store (gx_sqlite g))
     (sqlite_gnat_store (gx_sqlite g) (gx_printers g) (gx_print_event g))"

definition gnat_flags ::
  "string list \<Rightarrow> (string \<times> string \<times> cortex_subprocess_config, process_end) result" where
  "gnat_flags args =
     and_then (require_flag args ''gnat-dispatch'' ''--envelope'') (\<lambda>envelope_path.
     and_then (require_flag args ''gnat-dispatch'' ''--shard-enrichment'') (\<lambda>enrichment_path.
     and_then (require_flag args ''gnat-dispatch'' ''--cortex-repo-root'') (\<lambda>repo_root.
     Ok (envelope_path, enrichment_path,
       \<lparr>cs_python_binary = (case flag_path args ''--cortex-python'' of
          Some python \<Rightarrow> python | None \<Rightarrow> ''python3''),
        cs_cortex_repo_root = repo_root\<rparr>))))"

definition gnat_files ::
  "'w console_env \<Rightarrow> ('w, 'p) gnat_command_env \<Rightarrow> string \<Rightarrow> string \<Rightarrow> 'w \<Rightarrow>
   (gnat_dispatch_envelope \<times> (string \<rightharpoonup> gnat_shard_enrichment), process_end) result" where
  "gnat_files env g envelope_path enrichment_path w =
     and_then (read_json_file env w envelope_path) (\<lambda>envelope_value.
     and_then (map_err (\<lambda>e. fails_with (''invalid --envelope: '' @
         show_error (ce_debug_list (cn_contracts env)) e))
       (load_gnat_envelope (cn_contracts env) (gx_decode_envelope g) envelope_value)) (\<lambda>envelope.
     and_then (read_json_file env w enrichment_path) (\<lambda>enrichment_value.
     and_then (map_err (\<lambda>e. fails_with (''invalid --shard-enrichment: '' @ e))
       (gx_decode_enrichments g enrichment_value)) (\<lambda>enrichments.
     Ok (envelope, enrichments)))))"

definition gnat_end ::
  "'w console_env \<Rightarrow> ('w, 'p) gnat_command_env \<Rightarrow> gnat_run_result fa_local_result \<Rightarrow> process_end" where
  "gnat_end env g result =
     (case result of
        Ok result \<Rightarrow>
          let (document, exit_code) = gnat_dispatch_result_to_json g result in
          prints_document env exit_code document
      | Err e \<Rightarrow> fails_as ''error'' env e)"

definition gnat_dispatch_command ::
  "'w console_env \<Rightarrow> ('w, 'p) gnat_command_env \<Rightarrow> string list \<Rightarrow> 'w process" where
  "gnat_dispatch_command env g args w =
     (case gnat_flags args of
        Err e \<Rightarrow> ends e w
      | Ok (envelope_path, enrichment_path, config) \<Rightarrow>
          let (w1, sink) = gnat_sink env g args w in
          (case and_then sink (\<lambda>export_adapter.
               and_then (gnat_files env g envelope_path enrichment_path w1) (\<lambda>files.
               Ok (export_adapter, files))) of
             Err e \<Rightarrow> ends e w1
           | Ok (export_adapter, envelope, enrichments) \<Rightarrow> do {
               (w2, result) \<leftarrow> run_gnat (gx_run g) envelope ready_default enrichments
                 (cortex_subprocess_adapter (gx_shards g) config) export_adapter (gx_now g) w1;
               ends (gnat_end env g result) w2
             }))"

section \<open>neuronforge-dispatch\<close>

text \<open>The identifiers that are drawn are printed as texts; \<open>nx_event_id\<close> is the identifier of the event.\<close>

record 'w nf_command_env =
  nx_adapter :: "'w nf_env"
  nx_now :: timestamp
  nx_dispatch_id :: string
  nx_request_id :: string
  nx_event_id :: forensic_event_id
  nx_event_json :: "nf_forensic_event \<Rightarrow> json"
  nx_jsonl :: "'w jsonl_env"
  nx_sqlite :: "'w sqlite_env"
  nx_printers :: sink_printers
  nx_print_event :: "nf_forensic_event \<Rightarrow> (string, string) result"

definition nf_scene :: "'w console_env \<Rightarrow> string list \<Rightarrow> 'w \<Rightarrow> (string, process_end) result" where
  "nf_scene env args w =
     and_then (require_flag args ''neuronforge-dispatch'' ''--scene'') (\<lambda>scene_path.
     map_err (\<lambda>e. fails_with
         (''could not read --scene '' @ cn_debug_text env scene_path @ '': '' @ e))
       (cn_read_text env scene_path w))"

definition nf_sink ::
  "'w console_env \<Rightarrow> 'w nf_command_env \<Rightarrow> string list \<Rightarrow> 'w \<Rightarrow>
   'w \<times> ('w nf_export_adapter option, process_end) result" where
  "nf_sink env n args = choose_sink env args ''neuronforge forensic sqlite store''
     (jsonl_nf_adapter (nx_jsonl n) (nx_print_event n) (cn_show_uuid env))
     (open_nf_store (nx_sqlite n))
     (sqlite_nf_store (nx_sqlite n) (nx_printers n) (nx_print_event n))"

definition nf_request :: "'w nf_command_env \<Rightarrow> string list \<Rightarrow> string \<Rightarrow> nf_dispatch_request" where
  "nf_request n args scene_text =
     \<lparr>nq_dispatch_id = nx_dispatch_id n,
      nq_request_id = nx_request_id n,
      nq_task_id = ADMITTED_TASK_ID,
      nq_scene_text = scene_text,
      nq_model_resource_disclosure =
        \<lparr>mr_route_class = ''WORKHORSE_LOCAL'',
         mr_model_id = (case flag_path args ''--model'' of Some m \<Rightarrow> m | None \<Rightarrow> ''qwen2.5:14b''),
         mr_resource_budget_class = ''workhorse_local'',
         mr_execution_mode = ''local_model''\<rparr>,
      nq_operator_visible_message =
        ''FA-Local dispatched one bounded style-analysis task; the result is a '' @
        ''non-canonical candidate only.''\<rparr>"

fun nf_outcome_fields :: "nf_dispatch_result \<Rightarrow> (string \<times> json) list \<times> int" where
  "nf_outcome_fields (NfCompleted receipt) =
     ([(''outcome'', JString ''completed''), (''receipt'', receipt)], 0)"
| "nf_outcome_fields (NfNotCompleted receipt) =
     ([(''outcome'', JString ''not_completed''), (''receipt'', receipt)], 1)"
| "nf_outcome_fields (NfDispatchUnavailable summary) =
     ([(''outcome'', JString ''dispatch_unavailable''), (''summary'', JString summary)], 1)"

definition nf_end ::
  "'w console_env \<Rightarrow> 'w nf_command_env \<Rightarrow> nf_run_result fa_local_result \<Rightarrow> process_end" where
  "nf_end env n result =
     (case result of
        Ok result \<Rightarrow>
          let recorded = nw_forensic_record result;
              (fields, exit_code) = nf_outcome_fields (nw_outcome result) in
          prints_document env exit_code (json_object (fields @ [(''forensic_event'',
            record_document (nx_event_json n (vn_event (no_event recorded)))
              (no_export_reference recorded))]))
      | Err e \<Rightarrow> fails_as ''error'' env e)"

definition neuronforge_command ::
  "'w console_env \<Rightarrow> 'w nf_command_env \<Rightarrow> string list \<Rightarrow> 'w process" where
  "neuronforge_command env n args w =
     (case nf_scene env args w of
        Err e \<Rightarrow> ends e w
      | Ok scene_text \<Rightarrow>
          let (w1, sink) = nf_sink env n args w in
          (case sink of
             Err e \<Rightarrow> ends e w1
           | Ok export_adapter \<Rightarrow> do {
               (w2, result) \<leftarrow> run_neuronforge (nv_debug_text (nx_adapter n)) (nx_event_id n)
                 (nf_request n args scene_text)
                 (http_neuronforge_adapter (nx_adapter n)
                   \<lparr>nc_base_url_override = flag_path args ''--neuronforge-url''\<rparr>)
                 export_adapter (nx_now n) w1;
               ends (nf_end env n result) w2
             }))"

section \<open>status\<close>

definition em_dash :: string where
  "em_dash = map char_of [226, 128, 148 :: nat]"

fun show_bool :: "bool \<Rightarrow> string" where
  "show_bool True = ''true''"
| "show_bool False = ''false''"

definition status_command :: "'w console_env \<Rightarrow> 'w process" where
  "status_command env =
     (let facts = fa_local_operational_facts in
      ends (prints 0
        [''{'', member_line ''service'' (quoted ''fa-local-operator'' @ '',''),
         member_line ''version'' (quoted (cn_version env) @ '',''),
         member_line ''execution_enabled'' (show_bool (of_execution_enabled facts) @ '',''),
         member_line ''writeback_wired'' (show_bool (of_writeback_wired facts) @ '',''),
         member_line ''note'' (quoted (''bounded local execution consumer '' @ em_dash @
           '' execution enabled; DataForge Local writeback wired (Phase X4)'')), ''}'']))"

text \<open>\<open>build\<close> is the schema builder with its registered resource, \<open>now\<close> the printed clock.\<close>

definition canonical_status_command ::
  "'w console_env \<Rightarrow> (json \<Rightarrow> json \<Rightarrow> (json \<Rightarrow> string list, string) result) \<Rightarrow> string \<Rightarrow> 'w process" where
  "canonical_status_command env build now =
     ends (case build_canonical_service_status_envelope (cn_contracts env) build now of
        Ok envelope \<Rightarrow> prints (if json_get envelope ''state'' = Some (JString ''ready'') then 0 else 1)
          [cn_compact env envelope]
      | Err e \<Rightarrow> fails_as ''error'' env e)"

section \<open>The command line\<close>

definition usage_lines :: "string list" where
  "usage_lines =
     [''FA Local '' @ em_dash @ '' bounded local execution control service'',
      '''',
      ''USAGE:'',
      ''  fa-local-run <COMMAND>'',
      '''',
      ''COMMANDS:'',
      ''  validate          Validate a bounded execution request against FA Local contract '' @
        ''schema'',
      ''  route             Resolve a bounded route decision from a request, '' @
        ''requester-trust envelope, policy artifact, and capability registry'',
      ''  execute           Resolve a route decision and, if admitted, validate the plan, '' @
        ''dispatch through an adapter, and record forensic evidence'',
      ''  forensics-query   Query a SQLite forensic store by correlation-id or event-type'',
      ''  serve             Serve one read-only capability-registry lookup route over HTTP '' @
        ''(default-off; requires FA_LOCAL_SERVE_ENABLED)'',
      ''  gnat-dispatch     Negotiate a Cortex Gnat dispatch envelope, dispatch every '' @
        ''declared shard if admitted, and record a forensic event for each outcome'',
      ''  neuronforge-dispatch  Dispatch the one ADR-002-admitted task '' @
        ''(analyze.style.scene.v1) to NeuronForge Local and report its outcome'',
      ''  status            Emit a structured FA Local posture and readiness report'',
      ''  canonical-status  Emit FA Local's status on forge-local-systems-runtime's '' @
        ''canonical schema (FC-LTA-P007)'',
      '''',
      ''OPTIONS FOR validate:'',
      ''  --request <FILE>   Read request JSON from file (default: stdin)'',
      '''',
      ''OPTIONS FOR route (all required):'',
      ''  --request <FILE>              Execution request JSON'',
      ''  --requester-trust <FILE>      Requester-trust envelope JSON'',
      ''  --policy <FILE>               Policy artifact JSON'',
      ''  --capability-registry <FILE>  Capability registry JSON'',
      '''',
      ''OPTIONS FOR execute (same required flags as route, plus):'',
      ''  --plan <FILE>                    Execution plan JSON (required if the route '' @
        ''admits execution)'',
      ''  --local-file-write-root <DIR>    Dispatch through the local-file-write adapter'',
      ''  --nmap-binary <FILE>             Dispatch through the nmap-preflight adapter'',
      ''  --nmap-profile <loopback|private-subnet>  Nmap scan profile (default: loopback)'',
      ''  --forensic-export <FILE>         Append every recorded forensic event to this '' @
        ''JSONL file'',
      ''  --forensic-sqlite <FILE>         Record every forensic event into a queryable '' @
        ''SQLite store (mutually exclusive with --forensic-export)'',
      ''  --per-step-dispatch              Dispatch each declared plan step to its own '' @
        ''capability-scoped adapter, one call per step, instead of one call for the whole plan'',
      ''  --adapter <CAP_UUID>:<KIND>:<PARAMS>  Register an additional adapter for an '' @
        ''explicit capability (repeatable); most useful with --per-step-dispatch on a '' @
        ''heterogeneous plan'',
      ''      KIND=local-file-write:  PARAMS=<DIR>'',
      ''      KIND=nmap-preflight:    PARAMS=<BINARY>[:<loopback|private-subnet>] (default: '' @
        ''loopback)'',
      ''      DIR and BINARY must not themselves contain ':' -- the value is split on ':'' @ [CHR 0x27],
      '''',
      ''OPTIONS FOR forensics-query:'',
      ''  --sqlite <FILE>              SQLite forensic store to query (required)'',
      ''  --correlation-id <UUID>      Return events for this correlation id, oldest first'',
      ''  --event-type <TYPE>          Return events of this type, oldest first '' @
        ''(denial_issued, route_decision_resolved, review_package_prepared, '' @
        ''execution_status_observed)'',
      ''  (exactly one of --correlation-id or --event-type is required)'',
      '''',
      ''OPTIONS FOR serve (--registry-file required; requires FA_LOCAL_SERVE_ENABLED to be '' @
        ''set):'',
      ''  --registry-file <FILE>       A capability-registry.schema.json-valid file to load '' @
        ''and serve'',
      ''  --port <PORT>                Port to listen on (default: 8012, per '' @
        ''PORT_REGISTRY.md)'',
      ''  --public-keys-env <NAME>     Env var carrying a JSON {kid: public_key} map '' @
        ''(default: FA_LOCAL_SERVE_PUBLIC_KEYS)'',
      ''  Send SIGHUP to reload --registry-file; a failed reload keeps serving the previous '' @
        ''good registry'',
      '''',
      ''OPTIONS FOR gnat-dispatch (--envelope, --shard-enrichment, and --cortex-repo-root '' @
        ''required; the rest optional):'',
      ''  --envelope <FILE>            A GnatDispatchEnvelope.v1 JSON file '' @
        ''(Cortex-constructed)'',
      ''  --shard-enrichment <FILE>    A JSON object keyed by shard_id, one entry per shard '' @
        ''declared in the envelope --'',
      ''                               each entry supplies exactly what the envelope's own '' @
        ''shard summary never'',
      ''                               carries: source_path_token, media_type, '' @
        ''fingerprint_algorithm,'',
      ''                               fingerprint_byte_count, fingerprint_modified_at, '' @
        ''max_bytes, and local_path'',
      ''                               (the real filesystem path, which no schema-validated '' @
        ''contract ever carries)'',
      ''  --cortex-repo-root <DIR>     The Cortex (COR) checkout root -- '' @
        ''cortex_runtime.gnats.shard_cli must resolve from here'',
      ''  --cortex-python <BINARY>     Python interpreter to spawn Cortex's CLI with '' @
        ''(default: python3)'',
      ''  --forensic-export <FILE>     Also append every recorded forensic event to this '' @
        ''JSONL file (mutually exclusive with --forensic-sqlite)'',
      ''  --forensic-sqlite <FILE>     Also record every forensic event into a queryable '' @
        ''SQLite store (mutually exclusive with --forensic-export)'',
      '''',
      ''OPTIONS FOR neuronforge-dispatch (--scene required; the rest optional):'',
      ''  --scene <FILE>               Plain-text scene file to analyze '' @
        ''(analyze.style.scene.v1's only admitted task)'',
      ''  --neuronforge-url <URL>      NeuronForge Local base URL (default: '' @
        ''$NEURONFORGE_LOCAL_URL or http://127.0.0.1:9011)'',
      ''  --model <ID>                 Ollama model id to request (default: qwen2.5:14b, '' @
        ''this repo's documented baseline)'',
      ''  --forensic-export <FILE>     Also append the recorded forensic event to this '' @
        ''JSONL file (mutually exclusive with --forensic-sqlite)'',
      ''  --forensic-sqlite <FILE>     Also record the forensic event into a queryable '' @
        ''SQLite store (mutually exclusive with --forensic-export)'',
      '''',
      ''EXIT CODES:'',
      ''  0   Success (for route/execute: the resolved posture admits execution and, for '' @
        ''execute, it completed)'',
      ''  1   Validation failure, a non-admitting or non-completing outcome, or an '' @
        ''operational error'']"

definition usage_end :: "string list \<Rightarrow> process_end" where
  "usage_end args =
     \<lparr>en_code = (if 1 < length args \<and> (args ! 1 = ''--help'' \<or> args ! 1 = ''-h'') then 0 else 1),
      en_stdout = [], en_stderr = print_lines usage_lines\<rparr>"

record ('w, 'p, 'k) runner_env =
  rn_console :: "'w console_env"
  rn_execute :: "'w execute_env"
  rn_serve :: "('w, 'k) serve_command_env"
  rn_gnat :: "('w, 'p) gnat_command_env"
  rn_neuronforge :: "'w nf_command_env"
  rn_build_status_schema :: "json \<Rightarrow> json \<Rightarrow> (json \<Rightarrow> string list, string) result"
  rn_now_text :: string

definition run_main :: "('w, 'p, 'k) runner_env \<Rightarrow> string list \<Rightarrow> 'w process" where
  "run_main rn args =
     (if length args \<le> 1 then ends (usage_end args)
      else
        let command = args ! 1; env = rn_console rn in
        if command = ''validate''
        then validate_command env (dc_execution_request (pe_decoders (xe_pipeline (rn_execute rn)))) args
        else if command = ''route'' then route_command env (rn_execute rn) args
        else if command = ''execute'' then execute_command env (rn_execute rn) args
        else if command = ''forensics-query'' then forensics_query_command env (rn_execute rn) args
        else if command = ''serve'' then serve_command env (rn_serve rn) args
        else if command = ''gnat-dispatch'' then gnat_dispatch_command env (rn_gnat rn) args
        else if command = ''neuronforge-dispatch'' then neuronforge_command env (rn_neuronforge rn) args
        else if command = ''status'' then status_command env
        else if command = ''canonical-status''
        then canonical_status_command env (rn_build_status_schema rn) (rn_now_text rn)
        else if command \<in> {''--version'', ''-V''}
        then ends (prints 0 [''fa-local-run '' @ cn_version env])
        else if command \<in> {''--help'', ''-h''} then ends (usage_end args)
        else ends \<lparr>en_code = 1, en_stdout = [],
          en_stderr = print_lines
            [''error: unknown command '' @ cn_debug_text env command,
             ''Run '' @ [CHR 0x27] @ ''fa-local-run --help'' @ [CHR 0x27] @ '' for usage.'']\<rparr>)"

end
