(* ===== verification/Runner_Facts.thy ===== *)
theory Runner_Facts
  imports Runner Pipeline_Runs Gnat_Runs
begin

text \<open>
  What the ends of the runner's commands say: an early end is a failure (\<open>failed\<close>), and the exit code
  of a command that ran its service is 0 exactly when the service did what was asked.
\<close>

section \<open>Failures\<close>

definition failed :: "process_end \<Rightarrow> bool" where
  "failed e \<longleftrightarrow> en_code e = 1 \<and> en_stdout e = [] \<and> en_stderr e \<noteq> []"

text \<open>An end has exit code 0 or 1 and printed on exactly one of the two streams.\<close>

definition well_ended :: "process_end \<Rightarrow> bool" where
  "well_ended e \<longleftrightarrow> en_code e \<in> {0, 1} \<and> (en_stdout e = [] \<longleftrightarrow> en_stderr e \<noteq> [])"

named_theorems failures \<open>an early end is a failure\<close>

lemma print_lines_Nil: "print_lines ls = [] \<longleftrightarrow> ls = []"
  by (cases ls) (auto simp: print_lines_def line_end_def)

lemma failed_simps [simp]: "failed (fails_with m)" "failed (fails_as s env e)"
  by (simp_all add: failed_def fails_with_def fails_as_def print_lines_Nil)

lemma failed_well_ended: "failed e \<Longrightarrow> well_ended e"
  by (simp add: failed_def well_ended_def)

lemma failed_code: "failed e \<Longrightarrow> en_code e = 1"
  by (simp add: failed_def)

lemma prints_well_ended [simp]: "well_ended (prints code ls) \<longleftrightarrow> code \<in> {0, 1} \<and> ls \<noteq> []"
  by (auto simp: well_ended_def prints_def print_lines_Nil)

lemma prints_document_well_ended [simp]: "well_ended (prints_document env code v) \<longleftrightarrow> code \<in> {0, 1}"
  by (auto simp: prints_document_def)

lemma fails_code [simp]: "en_code (fails_with m) = 1" "en_code (fails_as s env e) = 1"
  by (simp_all add: fails_with_def fails_as_def)

lemma prints_document_code [simp]: "en_code (prints_document env code v) = code"
  by (simp add: prints_document_def prints_def)

lemma require_flag_Err [failures]: "require_flag args command flag = Err e \<Longrightarrow> failed e"
  by (auto simp: require_flag_def result_errs)

lemma read_json_file_Err [failures]: "read_json_file env w path = Err e \<Longrightarrow> failed e"
  by (auto simp: read_json_file_def result_errs)

lemma contract_paths_Err [failures]: "contract_paths args command = Err e \<Longrightarrow> failed e"
  by (auto simp: contract_paths_def split: option.splits)

lemma read_contracts_Err [failures]: "read_contracts env args command w = Err e \<Longrightarrow> failed e"
  by (auto simp: read_contracts_def result_errs intro: failures split: prod.splits)

lemma choose_sink_Err [failures]:
  "choose_sink env args store jsonl open_at sqlite w = (w', Err e) \<Longrightarrow> failed e"
  by (auto simp: choose_sink_def result_errs split: option.splits prod.splits)

lemma validate_input_Err [failures]: "validate_input env args w = Err e \<Longrightarrow> failed e"
  by (auto simp: validate_input_def result_errs split: option.splits)

lemma execute_selection_Err [failures]: "execute_selection env args = Err e \<Longrightarrow> failed e"
  by (auto simp: execute_selection_def Let_def split: option.splits)

lemma execute_additional_Err [failures]: "execute_additional env args = Err e \<Longrightarrow> failed e"
  by (auto simp: execute_additional_def result_errs)

lemma optional_plan_Err [failures]: "optional_plan env args w = Err e \<Longrightarrow> failed e"
  by (auto simp: optional_plan_def result_errs intro: failures split: option.splits)

lemma execute_inputs_Err [failures]: "execute_inputs env args w = Err e \<Longrightarrow> failed e"
  by (auto simp: execute_inputs_def result_errs intro: failures split: prod.splits)

lemma execute_sink_Err [failures]: "execute_sink env x args w = (w', Err e) \<Longrightarrow> failed e"
  unfolding execute_sink_def by (rule choose_sink_Err)

lemma forensics_query_Err [failures]: "forensics_query env x args w = Err e \<Longrightarrow> failed e"
  by (auto simp: forensics_query_def result_errs split: option.splits)

lemma serve_port_Err [failures]: "serve_port env args = Err e \<Longrightarrow> failed e"
  by (auto simp: serve_port_def result_errs split: option.splits)

lemma serve_inputs_Err [failures]: "serve_inputs env v args = Err e \<Longrightarrow> failed e"
  by (auto simp: serve_inputs_def result_errs Let_def intro: failures)

lemma gnat_flags_Err [failures]: "gnat_flags args = Err e \<Longrightarrow> failed e"
  by (auto simp: gnat_flags_def result_errs intro: failures)

lemma gnat_files_Err [failures]: "gnat_files env g ep np w = Err e \<Longrightarrow> failed e"
  by (auto simp: gnat_files_def result_errs intro: failures)

lemma gnat_sink_Err [failures]: "gnat_sink env g args w = (w', Err e) \<Longrightarrow> failed e"
  unfolding gnat_sink_def by (rule choose_sink_Err)

lemma nf_scene_Err [failures]: "nf_scene env args w = Err e \<Longrightarrow> failed e"
  by (auto simp: nf_scene_def result_errs intro: failures)

lemma nf_sink_Err [failures]: "nf_sink env n args w = (w', Err e) \<Longrightarrow> failed e"
  unfolding nf_sink_def by (rule choose_sink_Err)

section \<open>The ends of the services\<close>

lemma ends_Some: "ends e w = Some (w', r) \<longleftrightarrow> w' = w \<and> r = Ended e"
  by (auto simp: ends_def)

lemma validate_command_ends:
  "\<exists>w' e. validate_command env decode args w = Some (w', Ended e) \<and> well_ended e"
proof (cases "validate_input env args w")
  case (Err e)
  then show ?thesis
    using failures(1) validate_input_Err [OF Err]
    by (auto simp: validate_command_def ends_def failed_well_ended)
next
  case (Ok bytes)
  then show ?thesis
    by (auto simp: validate_command_def ends_def failed_well_ended Let_def split: result.splits)
qed

lemma route_end_well: "well_ended (route_end env x resolved)"
  by (auto simp: route_end_def failed_well_ended split: result.splits)

lemma execute_end_well: "execute_end env x outcome = Some e \<Longrightarrow> well_ended e"
  by (auto simp: execute_end_def execute_exit_code_def failed_well_ended
      split: result.splits option.splits if_splits)

lemma query_end_well: "well_ended (query_end env x found)"
  by (auto simp: query_end_def failed_well_ended split: result.splits)

lemma gnat_outcome_code: "snd (gnat_outcome_fields g outcome) \<in> {0, 1}"
  by (cases outcome) auto

lemma gnat_end_well: "well_ended (gnat_end env g result)"
  using gnat_outcome_code [of g]
  by (auto simp: gnat_end_def gnat_dispatch_result_to_json_def Let_def failed_well_ended
      split: result.splits prod.splits) (metis snd_conv)+

lemma nf_end_well: "well_ended (nf_end env n result)"
proof (cases result)
  case (Ok r)
  have "snd (nf_outcome_fields (nw_outcome r)) \<in> {0, 1}" by (cases "nw_outcome r") auto
  with Ok show ?thesis by (auto simp: nf_end_def Let_def split: prod.splits)
qed (simp add: nf_end_def failed_well_ended)

section \<open>Commands\<close>

lemma route_command_cases:
  assumes "route_command env x args w = Some (w', r)"
  obtains e where "r = Ended e" "w' = w" "failed e"
  | inputs resolved where "read_contracts env args ''route'' w = Ok inputs"
      "resolve_inputs x inputs = Some resolved" "r = Ended (route_end env x resolved)" "w' = w"
proof (cases "read_contracts env args ''route'' w")
  case (Err e)
  with assms read_contracts_Err [OF Err] that(1) show ?thesis
    by (simp add: route_command_def ends_Some)
next
  case (Ok inputs)
  with assms that(2) show ?thesis
    by (auto simp: route_command_def ends_Some split: option.splits)
qed

lemma execute_command_cases:
  assumes "execute_command env x args w = Some (w', r)"
  obtains e where "r = Ended e" "failed e"
  | inputs selection additional w1 sink outcome e where
      "execute_inputs env args w = Ok (inputs, selection, additional)"
      "execute_sink env x args w = (w1, Ok sink)"
      "run_pipeline (xe_pipeline x) inputs selection additional (execute_mode args) sink
         (default_context x) w1 = Some (w', outcome)"
      "execute_end env x outcome = Some e" "r = Ended e"
proof (cases "execute_inputs env args w")
  case (Err e)
  with assms execute_inputs_Err [OF Err] that(1) show ?thesis
    by (simp add: execute_command_def ends_Some)
next
  case (Ok given)
  obtain inputs selection additional where given: "given = (inputs, selection, additional)"
    by (cases given) auto
  obtain w1 s where sink: "execute_sink env x args w = (w1, s)" by fastforce
  show ?thesis
  proof (cases s)
    case (Err e)
    with assms Ok given sink execute_sink_Err [of env x args w w1 e] that(1) show ?thesis
      by (simp add: execute_command_def ends_Some)
  next
    case s: (Ok export)
    from assms Ok given sink s that(2) show ?thesis
      by (auto simp: execute_command_def ends_Some split: Option.bind_splits)
  qed
qed

lemma forensics_query_command_ends:
  "\<exists>w' e. forensics_query_command env x args w = Some (w', Ended e) \<and> well_ended e"
proof (cases "require_flag args ''forensics-query'' ''--sqlite''")
  case (Err e)
  then show ?thesis
    using require_flag_Err [OF Err] by (simp add: forensics_query_command_def ends_def failed_well_ended)
next
  case (Ok path)
  obtain w1 opened where o: "open_forensic_store (xe_sqlite x) path w = (w1, opened)" by fastforce
  show ?thesis
  proof (cases "forensics_query env x args w1")
    case (Err e)
    with Ok o forensics_query_Err [OF Err] show ?thesis
      by (cases opened) (simp_all add: forensics_query_command_def ends_def failed_well_ended)
  next
    case found: (Ok found)
    with Ok o query_end_well [of env x found] show ?thesis
      by (cases opened) (simp_all add: forensics_query_command_def ends_def failed_well_ended)
  qed
qed

lemma serve_command_cases:
  assumes "serve_command env v args w = Some (w', r)"
  obtains e where "r = Ended e" "failed e"
  | service port public_keys where "serve_inputs env v args = Ok (service, port, public_keys)"
      "vx_bind v port w = (w', Ok ())" "r = Serving port public_keys (daemon_start service)"
proof (cases "serve_inputs env v args")
  case (Err e)
  with assms serve_inputs_Err [OF Err] that(1) show ?thesis
    by (simp add: serve_command_def ends_Some)
next
  case (Ok given)
  obtain service port public_keys where given: "given = (service, port, public_keys)"
    by (cases given) auto
  obtain w1 bound where b: "vx_bind v port w = (w1, bound)" by fastforce
  from assms Ok given b that show ?thesis
    by (cases bound) (auto simp: serve_command_def run_server_def ends_Some)
qed

lemma gnat_dispatch_command_cases:
  assumes "gnat_dispatch_command env g args w = Some (w', r)"
  obtains e where "r = Ended e" "failed e"
  | envelope_path enrichment_path config w1 sink envelope enrichments result where
      "gnat_flags args = Ok (envelope_path, enrichment_path, config)"
      "gnat_sink env g args w = (w1, Ok sink)"
      "gnat_files env g envelope_path enrichment_path w1 = Ok (envelope, enrichments)"
      "run_gnat (gx_run g) envelope ready_default enrichments
         (cortex_subprocess_adapter (gx_shards g) config) sink (gx_now g) w1 = Some (w', result)"
      "r = Ended (gnat_end env g result)"
proof (cases "gnat_flags args")
  case (Err e)
  with assms gnat_flags_Err [OF Err] that(1) show ?thesis
    by (simp add: gnat_dispatch_command_def ends_Some)
next
  case (Ok given)
  obtain ep np config where given: "given = (ep, np, config)" by (cases given) auto
  obtain w1 s where sink: "gnat_sink env g args w = (w1, s)" by fastforce
  show ?thesis
  proof (cases s)
    case (Err e)
    with assms Ok given sink gnat_sink_Err [of env g args w w1 e] that(1) show ?thesis
      by (simp add: gnat_dispatch_command_def ends_Some)
  next
    case s: (Ok export)
    show ?thesis
    proof (cases "gnat_files env g ep np w1")
      case (Err e)
      with assms Ok given sink s gnat_files_Err [OF Err] that(1) show ?thesis
        by (simp add: gnat_dispatch_command_def ends_Some)
    next
      case files: (Ok files)
      obtain envelope enrichments where "files = (envelope, enrichments)" by (cases files) auto
      with assms Ok given sink s files that(2) show ?thesis
        by (auto simp: gnat_dispatch_command_def ends_Some split: Option.bind_splits)
    qed
  qed
qed

lemma neuronforge_command_cases:
  assumes "neuronforge_command env n args w = Some (w', r)"
  obtains e where "r = Ended e" "failed e"
  | scene_text w1 sink result where
      "nf_scene env args w = Ok scene_text" "nf_sink env n args w = (w1, Ok sink)"
      "run_neuronforge (nv_debug_text (nx_adapter n)) (nx_event_id n) (nf_request n args scene_text)
         (http_neuronforge_adapter (nx_adapter n)
           \<lparr>nc_base_url_override = flag_path args ''--neuronforge-url''\<rparr>) sink (nx_now n) w1 =
       Some (w', result)"
      "r = Ended (nf_end env n result)"
proof (cases "nf_scene env args w")
  case (Err e)
  with assms nf_scene_Err [OF Err] that(1) show ?thesis
    by (simp add: neuronforge_command_def ends_Some)
next
  case (Ok scene_text)
  obtain w1 s where sink: "nf_sink env n args w = (w1, s)" by fastforce
  show ?thesis
  proof (cases s)
    case (Err e)
    with assms Ok sink nf_sink_Err [of env n args w w1 e] that(1) show ?thesis
      by (simp add: neuronforge_command_def ends_Some)
  next
    case s: (Ok export)
    from assms Ok sink s that(2) show ?thesis
      by (auto simp: neuronforge_command_def ends_Some split: Option.bind_splits)
  qed
qed

section \<open>The process\<close>

text \<open>Only \<open>serve\<close> serves.\<close>

definition ends_only :: "'w process \<Rightarrow> bool" where
  "ends_only m \<longleftrightarrow> (\<forall>w w' r. m w = Some (w', r) \<longrightarrow> (\<exists>e. r = Ended e))"

lemma ends_only_ends: "ends_only (ends e)"
  by (simp add: ends_only_def ends_Some)

lemma ends_onlyI: "(\<And>w. \<exists>w' e. m w = Some (w', Ended e) \<and> well_ended e) \<Longrightarrow> ends_only m"
proof -
  assume m: "\<And>w. \<exists>w' e. m w = Some (w', Ended e) \<and> well_ended e"
  show ?thesis
    unfolding ends_only_def
  proof (intro allI impI)
    fix w w' r
    assume "m w = Some (w', r)"
    with m [of w] show "\<exists>e. r = Ended e" by auto
  qed
qed

lemma ends_only_if: "ends_only m \<Longrightarrow> ends_only m' \<Longrightarrow> ends_only (if b then m else m')"
  by simp

lemma commands_end_only:
  "ends_only (validate_command env decode args)" "ends_only (route_command env x args)"
  "ends_only (execute_command env x args)" "ends_only (forensics_query_command env x args)"
  "ends_only (gnat_dispatch_command env g args)" "ends_only (neuronforge_command env n args)"
  "ends_only (status_command env)" "ends_only (canonical_status_command env build now)"
proof -
  show "ends_only (validate_command env decode args)"
    by (rule ends_onlyI) (rule validate_command_ends)
  show "ends_only (route_command env x args)"
    by (auto simp: ends_only_def elim!: route_command_cases)
  show "ends_only (execute_command env x args)"
    by (auto simp: ends_only_def elim!: execute_command_cases)
  show "ends_only (forensics_query_command env x args)"
    by (rule ends_onlyI) (rule forensics_query_command_ends)
  show "ends_only (gnat_dispatch_command env g args)"
    by (auto simp: ends_only_def elim!: gnat_dispatch_command_cases)
  show "ends_only (neuronforge_command env n args)"
    by (auto simp: ends_only_def elim!: neuronforge_command_cases)
qed (simp_all add: status_command_def canonical_status_command_def Let_def ends_only_ends)

lemma run_main_serves:
  assumes "run_main rn args w = Some (w', Serving port public_keys state)"
  shows "1 < length args" "args ! 1 = ''serve''"
    "serve_command (rn_console rn) (rn_serve rn) args w = Some (w', Serving port public_keys state)"
proof -
  have "ends_only (run_main rn args)" if "\<not> (1 < length args \<and> args ! 1 = ''serve'')"
    using that unfolding run_main_def Let_def
    by (cases "length args \<le> 1")
      (simp_all only: if_True if_False not_le simp_thms ends_only_ends,
       intro ends_only_if commands_end_only ends_only_ends)
  with assms show serve: "1 < length args" "args ! 1 = ''serve''"
    by (auto simp: ends_only_def)
  from assms serve show
    "serve_command (rn_console rn) (rn_serve rn) args w = Some (w', Serving port public_keys state)"
    by (simp add: run_main_def)
qed

section \<open>Runs that finished\<close>

text \<open>
  A run that carried its plan out: an authorised request, an accepted plan that answers the decision,
  a trace that ends finished, and one event for each of its statuses.
\<close>

definition finished_run ::
  "'w pipeline_env \<Rightarrow> execution_pipeline_inputs \<Rightarrow> timestamp \<Rightarrow> execution_pipeline_outcome \<Rightarrow> bool" where
  "finished_run env inputs at out \<longleftrightarrow>
     evidenced out \<and>
     (\<exists>t er r p c plan. po_execution_trace out = Some t \<and>
        finished_state (st_state (vs_status (last (tr_statuses t)))) \<and>
        authorised (pe_contracts env) (pe_decoders env) (pi_request inputs) (pi_requester_trust inputs)
          (pi_policy inputs) (pi_capability_registry inputs) at er r p c \<and>
        declared_plan_valid env inputs plan \<and> plan_answers (po_route_decision out) plan)"

lemma run_pipeline_traced:
  assumes run: "run_pipeline env inputs selection additional mode export ctx w = Some (w', Ok out)"
    and t: "po_execution_trace out = Some t"
  shows "\<exists>er r p c plan. authorised (pe_contracts env) (pe_decoders env) (pi_request inputs)
      (pi_requester_trust inputs) (pi_policy inputs) (pi_capability_registry inputs)
      (rc_decided_at_utc ctx) er r p c \<and>
    declared_plan_valid env inputs plan \<and> plan_answers (po_route_decision out) plan"
  using run
proof (cases rule: run_pipeline_cases)
  case (2 d)
  with t show ?thesis
    by (auto simp: record_and_stop_def and_do_Ok pipeline_outcome_def)
next
  case (3 d)
  have "rd_resolved_approval_posture d \<noteq> approval_posture.Denied" using 3(2) by auto
  from decision_authorised [OF 3(1) this] obtain er r p c where
    auth: "authorised (pe_contracts env) (pe_decoders env) (pi_request inputs)
      (pi_requester_trust inputs) (pi_policy inputs) (pi_capability_registry inputs)
      (rc_decided_at_utc ctx) er r p c"
    by blast
  from 3(3) show ?thesis
  proof (cases rule: run_admitted_cases)
    case (2 denial)
    with t show ?thesis by (auto simp: pipeline_outcome_def)
  next
    case plan: (3 plan)
    from plan(2) have "plan_answers d plan" "po_route_decision out = d"
      by (auto simp: deliver_and_record_def and_do_Ok new_routing_input_Ok pipeline_outcome_def)
    with auth plan(1) show ?thesis by blast
  qed simp
qed simp

lemma evidenced_exit_code:
  assumes "evidenced out" and "coherent (po_route_decision out)"
  shows "execute_exit_code out =
    Some (case po_execution_trace out of
      Some t \<Rightarrow> of_bool (\<not> finished_state (st_state (vs_status (last (tr_statuses t))))) | None \<Rightarrow> 1)"
proof (cases "po_execution_trace out")
  case None
  with assms show ?thesis
    by (auto simp: execute_exit_code_def evidenced_def coherent_def Let_def split: if_splits)
next
  case (Some t)
  with assms have "tr_statuses t \<noteq> []" "po_plan_denial out = None"
    by (auto simp: evidenced_def lawful_run_def trace_entries_def Let_def)
  with Some show ?thesis by (simp add: execute_exit_code_def final_status_Some)
qed

text \<open>The runner never panics on the outcome of a run, and its exit code is 0 exactly when it finished.\<close>

lemma execute_end_Ok:
  assumes run: "run_pipeline env inputs selection additional mode export ctx w = Some (w', Ok out)"
  shows "\<exists>code. execute_end cn x (Ok out) = Some (prints_document cn code (execute_document x out)) \<and>
    (code = 0 \<longleftrightarrow> finished_run env inputs (rc_decided_at_utc ctx) out)"
proof -
  note ev = run_pipeline_evidence [OF run]
  then have coh: "coherent (po_route_decision out)" by (blast intro: resolved_coherent)
  show ?thesis
  proof (cases "po_execution_trace out")
    case None
    with ev evidenced_exit_code [OF _ coh] show ?thesis
      by (intro exI [of _ 1]) (simp add: execute_end_def finished_run_def)
  next
    case (Some t)
    let ?final = "st_state (vs_status (last (tr_statuses t)))"
    from Some ev evidenced_exit_code [OF _ coh]
    have "execute_end cn x (Ok out) =
        Some (prints_document cn (of_bool (\<not> finished_state ?final)) (execute_document x out))"
      by (simp add: execute_end_def)
    moreover from Some ev run_pipeline_traced [OF run Some]
    have "finished_run env inputs (rc_decided_at_utc ctx) out \<longleftrightarrow> finished_state ?final"
      by (simp add: finished_run_def)
    ultimately show ?thesis by (intro exI [of _ "of_bool (\<not> finished_state ?final)"]) simp
  qed
qed

section \<open>Dispatches that completed\<close>

text \<open>Every result of a dispatch is an answer of the adapter to a declared request.\<close>

lemma deliver_shards_called:
  assumes "deliver_shards env envelope adapter export_adapter now n requests w =
    Some (w', Ok (results, events))"
  shows "\<forall>(i, result) \<in> set results. \<exists>request \<in> set requests. \<exists>w1 w2.
    ga_deliver_shard adapter request w1 = Some (w2, result)"
  using assms
proof (induction requests arbitrary: n w w' results events)
  case Nil
  then show ?case by auto
next
  case (Cons request requests)
  then obtain result w1 w2 results' events' where
    "ga_deliver_shard adapter request w = Some (w1, result)"
    "deliver_shards env envelope adapter export_adapter now (Suc n) requests w2 =
       Some (w', Ok (results', events'))"
    "results = (sr_shard_id request, result) # results'"
    by (auto simp: and_do_Ok call_shard_def)
  with Cons.IH [of "Suc n" w2 w' results' events'] show ?case by fastforce
qed

lemma run_gnat_called:
  assumes run: "run_gnat env envelope capabilities enrichments adapter export_adapter now w =
      Some (w', Ok result)"
    and dispatched: "gw_outcome result = GnatDispatched admission results"
  shows "\<forall>(i, r) \<in> set results. \<exists>request \<in> set (declared_requests envelope enrichments). \<exists>w1 w2.
    ga_deliver_shard adapter request w1 = Some (w2, r)"
proof (cases "negotiate (gn_denied_at env) envelope capabilities")
  case (Ok a)
  with run dispatched show ?thesis
    by (cases "gd_state a")
      (auto simp: run_gnat_def and_do_Ok build_shard_requests_Ok dest!: deliver_shards_called)
next
  case (Err denial)
  with run dispatched show ?thesis by (auto simp: run_gnat_def and_do_Ok)
qed

text \<open>Every shard the envelope declares, in its order, with a receipt in the state \<open>complete\<close>.\<close>

definition all_shards_complete :: "gnat_dispatch_envelope \<Rightarrow> gnat_run_outcome \<Rightarrow> bool" where
  "all_shards_complete envelope outcome \<longleftrightarrow>
     (\<exists>admission receipts. outcome = GnatDispatched admission
        (zip (map gs_shard_id (gp_shards (ge_plan envelope))) (map GnatCompleted receipts)) \<and>
        length receipts = length (gp_shards (ge_plan envelope)) \<and>
        (\<forall>receipt \<in> set receipts. json_get receipt ''state'' = Some (JString ''complete'')))"

lemma shard_completed_iff: "shard_completed result \<longleftrightarrow> (\<exists>receipt. result = GnatCompleted receipt)"
  by (cases result) auto

lemma all_completed_iff:
  "list_all (shard_completed \<circ> snd) results \<longleftrightarrow>
     (\<exists>receipts. results = zip (map fst results) (map GnatCompleted receipts) \<and>
        length receipts = length results)"
proof
  assume "list_all (shard_completed \<circ> snd) results"
  then show "\<exists>receipts. results = zip (map fst results) (map GnatCompleted receipts) \<and>
      length receipts = length results"
  proof (induction results)
    case (Cons r results)
    then obtain receipt receipts where "snd r = GnatCompleted receipt"
      "results = zip (map fst results) (map GnatCompleted receipts)" "length receipts = length results"
      by (auto simp: shard_completed_iff)
    then show ?case by (intro exI [of _ "receipt # receipts"]) (cases r, simp)
  qed simp
next
  assume "\<exists>receipts. results = zip (map fst results) (map GnatCompleted receipts) \<and>
      length receipts = length results"
  then obtain receipts where "results = zip (map fst results) (map GnatCompleted receipts)"
    "length receipts = length results" by blast
  then have "set (map snd results) = GnatCompleted ` set receipts"
    by (metis map_snd_zip length_map list.set_map)
  then show "list_all (shard_completed \<circ> snd) results"
    by (auto simp: list_all_iff shard_completed_iff)
qed

lemma gnat_end_Ok:
  assumes run: "run_gnat env envelope capabilities enrichments (cortex_subprocess_adapter sx config)
      export_adapter now w = Some (w', Ok result)"
  shows "en_code (gnat_end cn g (Ok result)) = 0 \<longleftrightarrow> all_shards_complete envelope (gw_outcome result)"
proof (cases "gw_outcome result")
  case (GnatDispatched admission results)
  have ids: "map fst results = map gs_shard_id (gp_shards (ge_plan envelope))"
    using run_gnat_reported [OF run] GnatDispatched by simp
  from run_gnat_called [OF run GnatDispatched]
  have backed: "\<forall>(i, r) \<in> set results. receipt_backed r"
    by (auto simp: cortex_subprocess_adapter_def dest!: deliver_shard_backed)
  have "en_code (gnat_end cn g (Ok result)) = 0 \<longleftrightarrow> list_all (shard_completed \<circ> snd) results"
    by (simp add: gnat_end_def gnat_dispatch_result_to_json_def Let_def GnatDispatched)
  also have "\<dots> \<longleftrightarrow> (\<exists>receipts. results = zip (map fst results) (map GnatCompleted receipts) \<and>
      length receipts = length results)"
    by (rule all_completed_iff)
  also have "\<dots> \<longleftrightarrow> all_shards_complete envelope (gw_outcome result)"
  proof -
    have "length results = length (gp_shards (ge_plan envelope))"
      using arg_cong [OF ids, of length] by simp
    moreover have "\<forall>receipt \<in> set receipts. json_get receipt ''state'' = Some (JString ''complete'')"
      if "results = zip (map fst results) (map GnatCompleted receipts)" "length receipts = length results"
      for receipts
    proof -
      from that have "GnatCompleted ` set receipts = snd ` set results"
        by (metis map_snd_zip length_map list.set_map)
      then have "\<exists>i. (i, GnatCompleted receipt) \<in> set results" if "receipt \<in> set receipts" for receipt
        using that by (metis image_iff imageI prod.collapse)
      with backed show ?thesis by fastforce
    qed
    ultimately show ?thesis
      by (auto simp: all_shards_complete_def GnatDispatched ids)
  qed
  finally show ?thesis .
qed (simp_all add: gnat_end_def gnat_dispatch_result_to_json_def Let_def all_shards_complete_def)

section \<open>Ports\<close>

lemma show_nat_not_Nil: "show_nat k \<noteq> []"
  by (subst show_nat.simps) simp

lemma parse_u16_show_nat: "parse_u16 (show_nat k) = Ok n \<longleftrightarrow> k < 2 ^ 16 \<and> n = of_nat k"
proof -
  have "\<not> is_ascii_digit CHR ''+''" by (simp add: ascii_defs)
  then have "show_nat k \<noteq> ''+'' @ ds" for ds
    using show_nat_digits [of k] by (auto simp: list_all_iff)
  then have "parse_u16 (show_nat k) = Ok n \<longleftrightarrow> k = unat n"
    using show_nat_digits [of k] show_nat_not_Nil [of k] by (auto simp: parse_u16_Ok decimal_show_nat)
  also have "\<dots> \<longleftrightarrow> k < 2 ^ 16 \<and> n = of_nat k"
  proof
    assume "k = unat n"
    then show "k < 2 ^ 16 \<and> n = of_nat k" using unsigned_less [of n] by simp
  next
    assume k: "k < 2 ^ 16 \<and> n = of_nat k"
    then have "take_bit 16 k = k" by (intro take_bit_nat_eq_self) simp
    with k show "k = unat n" by (simp add: unsigned_of_nat)
  qed
  finally show ?thesis .
qed

end
