(* ===== verification/Runner_Ends.thy ===== *)
theory Runner_Ends
  imports Runner_Facts
begin

text \<open>
  What the end of each command says: its exit code is 0 exactly when the command succeeded, and its
  output goes to the stream that fits. The table \<open>command_succeeded\<close> says when a command succeeded, from
  what it read and from what its service answered.
\<close>

section \<open>The commands that run a service\<close>

lemma execute_command_code:
  assumes "execute_command env x args w = Some (w', Ended e)"
  shows "en_code e = 0 \<longleftrightarrow>
    (\<exists>inputs selection additional w1 sink out.
       execute_inputs env args w = Ok (inputs, selection, additional) \<and>
       execute_sink env x args w = (w1, Ok sink) \<and>
       run_pipeline (xe_pipeline x) inputs selection additional (execute_mode args) sink
         (default_context x) w1 = Some (w', Ok out) \<and>
       finished_run (xe_pipeline x) inputs (xe_decided_at x) out)"
    (is "_ \<longleftrightarrow> ?finished")
proof
  have at: "rc_decided_at_utc (default_context x) = xe_decided_at x"
    by (simp add: default_context_def new_route_resolution_context_def)
  {
    assume code: "en_code e = 0"
    from assms show ?finished
    proof (cases rule: execute_command_cases)
      case (1 d)
      with code show ?thesis by (simp add: failed_def)
    next
      case (2 inputs selection additional w1 sink outcome d)
      with code obtain out where out: "outcome = Ok out"
        by (cases outcome) (auto simp: execute_end_def dest: failed_code)
      from execute_end_Ok [OF 2(3) [unfolded out], of env x] 2(4,5) out code
      have "finished_run (xe_pipeline x) inputs (xe_decided_at x) out"
        by (auto simp: at)
      with 2 out show ?thesis by blast
    qed
  next
    assume ?finished
    then obtain inputs selection additional w1 sink out where
      run: "execute_inputs env args w = Ok (inputs, selection, additional)"
        "execute_sink env x args w = (w1, Ok sink)"
        "run_pipeline (xe_pipeline x) inputs selection additional (execute_mode args) sink
           (default_context x) w1 = Some (w', Ok out)"
      and finished: "finished_run (xe_pipeline x) inputs (xe_decided_at x) out"
      by blast
    from execute_end_Ok [OF run(3), of env x] finished
    have "execute_end env x (Ok out) = Some (prints_document env 0 (execute_document x out))"
      by (auto simp: at)
    with run assms show "en_code e = 0" by (simp add: execute_command_def ends_Some)
  }
qed

lemma gnat_dispatch_command_code:
  assumes "gnat_dispatch_command env g args w = Some (w', Ended e)"
  shows "en_code e = 0 \<longleftrightarrow>
    (\<exists>envelope_path enrichment_path config w1 sink envelope enrichments result.
       gnat_flags args = Ok (envelope_path, enrichment_path, config) \<and>
       gnat_sink env g args w = (w1, Ok sink) \<and>
       gnat_files env g envelope_path enrichment_path w1 = Ok (envelope, enrichments) \<and>
       run_gnat (gx_run g) envelope ready_default enrichments
         (cortex_subprocess_adapter (gx_shards g) config) sink (gx_now g) w1 = Some (w', Ok result) \<and>
       all_shards_complete envelope (gw_outcome result) \<and> dispatch_admitted envelope ready_default)"
    (is "_ \<longleftrightarrow> ?complete")
proof
  assume code: "en_code e = 0"
  from assms show ?complete
  proof (cases rule: gnat_dispatch_command_cases)
    case (1 d)
    with code show ?thesis by (simp add: failed_def)
  next
    case (2 ep np config w1 sink envelope enrichments r)
    with code obtain result where r: "r = Ok result"
      by (cases r) (auto simp: gnat_end_def dest: failed_code)
    from gnat_end_Ok [OF 2(4) [unfolded r], of env g] 2(5) r code
    have complete: "all_shards_complete envelope (gw_outcome result)" by simp
    with run_gnat_reported [OF 2(4) [unfolded r]] have "dispatch_admitted envelope ready_default"
      by (auto simp: all_shards_complete_def)
    with 2 r complete show ?thesis by blast
  qed
next
  assume ?complete
  then obtain ep np config w1 sink envelope enrichments result where
    run: "gnat_flags args = Ok (ep, np, config)" "gnat_sink env g args w = (w1, Ok sink)"
      "gnat_files env g ep np w1 = Ok (envelope, enrichments)"
      "run_gnat (gx_run g) envelope ready_default enrichments
         (cortex_subprocess_adapter (gx_shards g) config) sink (gx_now g) w1 = Some (w', Ok result)"
    and complete: "all_shards_complete envelope (gw_outcome result)"
    by blast
  from assms run have "e = gnat_end env g (Ok result)"
    by (simp add: gnat_dispatch_command_def ends_Some)
  with gnat_end_Ok [OF run(4), of env g] complete show "en_code e = 0" by simp
qed

section \<open>Ends that tell the outcome\<close>

text \<open>
  An end tells whether its command succeeded: by its code, and by the stream, since a failure is printed
  on the standard output only by a command that \<open>reports\<close> outcomes.
\<close>

definition end_tells :: "bool \<Rightarrow> bool \<Rightarrow> process_end \<Rightarrow> bool" where
  "end_tells success reports e \<longleftrightarrow>
     en_code e = (if success then 0 else 1) \<and> (en_stdout e = [] \<longleftrightarrow> en_stderr e \<noteq> []) \<and>
     (en_stdout e = [] \<longrightarrow> \<not> success) \<and> (en_stdout e \<noteq> [] \<longrightarrow> success \<or> reports)"

definition tells :: "'w process \<Rightarrow> ('w \<Rightarrow> 'w \<Rightarrow> bool) \<Rightarrow> bool \<Rightarrow> bool" where
  "tells m success reports \<longleftrightarrow>
     (\<forall>w w' e. m w = Some (w', Ended e) \<longrightarrow> end_tells (success w w') reports e)"

lemma end_tells_failed: "failed e \<Longrightarrow> \<not> success \<Longrightarrow> end_tells success reports e"
  by (simp add: end_tells_def failed_def)

lemma end_tells_prints:
  "ls \<noteq> [] \<Longrightarrow> end_tells success reports (prints code ls) \<longleftrightarrow>
     code = (if success then 0 else 1) \<and> (success \<or> reports)"
  by (auto simp: end_tells_def prints_def print_lines_Nil)

lemma end_tells_prints_document:
  "end_tells success reports (prints_document env code v) \<longleftrightarrow>
     code = (if success then 0 else 1) \<and> (success \<or> reports)"
  by (simp add: prints_document_def end_tells_prints)

text \<open>A command that ran a service and prints its result, or fails with its error.\<close>

lemma end_tells_code:
  assumes "well_ended e" and "en_code e = 0 \<longleftrightarrow> success" and "en_stdout e = [] \<longrightarrow> en_code e = 1"
  shows "end_tells success True e"
  using assms by (auto simp: end_tells_def well_ended_def)

lemma end_tells_says:
  assumes "end_tells success reports e" and "reports \<longrightarrow> P"
  shows "en_code e = (if success then 0 else 1) \<and> (en_stdout e = [] \<longleftrightarrow> en_stderr e \<noteq> []) \<and>
    (if success then en_stdout e \<noteq> [] else en_stdout e \<noteq> [] \<longrightarrow> P)"
  using assms by (auto simp: end_tells_def)

section \<open>When a command succeeded\<close>

definition request_valid ::
  "'w console_env \<Rightarrow> (json \<Rightarrow> (execution_request, string) result) \<Rightarrow> string list \<Rightarrow> 'w \<Rightarrow> bool" where
  "request_valid env decode args w \<longleftrightarrow>
     (\<exists>bytes intake. validate_input env args w = Ok bytes \<and>
        validate_request_bytes (cn_contracts env) decode bytes = Ok intake)"

text \<open>The route of the contracts that were read is admitted, on an authorised request.\<close>

definition route_admitted :: "'w console_env \<Rightarrow> 'w execute_env \<Rightarrow> string list \<Rightarrow> 'w \<Rightarrow> bool" where
  "route_admitted env x args w \<longleftrightarrow>
     (\<exists>request trust policy registry d er r p c.
        read_contracts env args ''route'' w = Ok (request, trust, policy, registry) \<and>
        resolve_inputs x (request, trust, policy, registry) = Some (Ok d) \<and>
        admitted_posture (rd_resolved_approval_posture d) \<and>
        authorised (pe_contracts (xe_pipeline x)) (pe_decoders (xe_pipeline x)) request trust policy registry
          (xe_decided_at x) er r p c)"

definition execute_finished :: "'w console_env \<Rightarrow> 'w execute_env \<Rightarrow> string list \<Rightarrow> 'w \<Rightarrow> 'w \<Rightarrow> bool" where
  "execute_finished env x args w w' \<longleftrightarrow>
     (\<exists>inputs selection additional w1 sink out.
        execute_inputs env args w = Ok (inputs, selection, additional) \<and>
        execute_sink env x args w = (w1, Ok sink) \<and>
        run_pipeline (xe_pipeline x) inputs selection additional (execute_mode args) sink
          (default_context x) w1 = Some (w', Ok out) \<and>
        finished_run (xe_pipeline x) inputs (xe_decided_at x) out)"

definition query_answered :: "'w console_env \<Rightarrow> 'w execute_env \<Rightarrow> string list \<Rightarrow> 'w \<Rightarrow> 'w \<Rightarrow> bool" where
  "query_answered env x args w w' \<longleftrightarrow>
     (\<exists>path found. flag_path args ''--sqlite'' = Some path \<and>
        open_forensic_store (xe_sqlite x) path w = (w', Ok ()) \<and>
        forensics_query env x args w' = Ok (Ok found))"

definition gnat_completed :: "'w console_env \<Rightarrow> ('w, 'p) gnat_command_env \<Rightarrow> string list \<Rightarrow> 'w \<Rightarrow> 'w \<Rightarrow> bool" where
  "gnat_completed env g args w w' \<longleftrightarrow>
     (\<exists>envelope_path enrichment_path config w1 sink envelope enrichments result.
        gnat_flags args = Ok (envelope_path, enrichment_path, config) \<and>
        gnat_sink env g args w = (w1, Ok sink) \<and>
        gnat_files env g envelope_path enrichment_path w1 = Ok (envelope, enrichments) \<and>
        run_gnat (gx_run g) envelope ready_default enrichments
          (cortex_subprocess_adapter (gx_shards g) config) sink (gx_now g) w1 = Some (w', Ok result) \<and>
        all_shards_complete envelope (gw_outcome result) \<and> dispatch_admitted envelope ready_default)"

definition neuronforge_completed :: "'w console_env \<Rightarrow> 'w nf_command_env \<Rightarrow> string list \<Rightarrow> 'w \<Rightarrow> 'w \<Rightarrow> bool" where
  "neuronforge_completed env n args w w' \<longleftrightarrow>
     (\<exists>scene_text w1 sink result receipt. nf_scene env args w = Ok scene_text \<and>
        nf_sink env n args w = (w1, Ok sink) \<and>
        run_neuronforge (nv_debug_text (nx_adapter n)) (nx_event_id n) (nf_request n args scene_text)
          (http_neuronforge_adapter (nx_adapter n)
            \<lparr>nc_base_url_override = flag_path args ''--neuronforge-url''\<rparr>) sink (nx_now n) w1 =
          Some (w', Ok result) \<and>
        nw_outcome result = NfCompleted receipt)"

definition command_succeeded :: "('w, 'p, 'k) runner_env \<Rightarrow> string list \<Rightarrow> 'w \<Rightarrow> 'w \<Rightarrow> bool" where
  "command_succeeded rn args w w' \<longleftrightarrow> 1 < length args \<and>
     (let command = args ! 1; env = rn_console rn; x = rn_execute rn in
      command = ''validate'' \<and>
        request_valid env (dc_execution_request (pe_decoders (xe_pipeline x))) args w \<or>
      command = ''route'' \<and> route_admitted env x args w \<or>
      command = ''execute'' \<and> execute_finished env x args w w' \<or>
      command = ''forensics-query'' \<and> query_answered env x args w w' \<or>
      command = ''gnat-dispatch'' \<and> gnat_completed env (rn_gnat rn) args w w' \<or>
      command = ''neuronforge-dispatch'' \<and> neuronforge_completed env (rn_neuronforge rn) args w w' \<or>
      command = ''canonical-status'' \<and>
        (\<exists>envelope. build_canonical_service_status_envelope (cn_contracts env)
           (rn_build_status_schema rn) (rn_now_text rn) = Ok envelope) \<or>
      command \<in> {''status'', ''--version'', ''-V'', ''--help'', ''-h''})"

section \<open>Commands\<close>

lemma validate_command_tells:
  "tells (validate_command env decode args) (\<lambda>w _. request_valid env decode args w) False"
  unfolding tells_def
proof (intro allI impI)
  fix w w' e
  assume run: "validate_command env decode args w = Some (w', Ended e)"
  show "end_tells (request_valid env decode args w) False e"
  proof (cases "validate_input env args w")
    case (Err d)
    with run validate_input_Err [OF Err] show ?thesis
      by (auto simp: validate_command_def ends_Some request_valid_def end_tells_failed)
  next
    case (Ok bytes)
    with run show ?thesis
      by (cases "validate_request_bytes (cn_contracts env) decode bytes")
        (auto simp: validate_command_def ends_Some request_valid_def end_tells_failed end_tells_prints Let_def)
  qed
qed

lemma route_command_tells: "tells (route_command env x args) (\<lambda>w _. route_admitted env x args w) True"
  unfolding tells_def
proof (intro allI impI)
  fix w w' e
  assume run: "route_command env x args w = Some (w', Ended e)"
  show "end_tells (route_admitted env x args w) True e"
  proof (cases "read_contracts env args ''route'' w")
    case (Err d)
    with run read_contracts_Err [OF Err] show ?thesis
      by (auto simp: route_command_def ends_Some route_admitted_def end_tells_failed)
  next
    case (Ok inputs)
    obtain request trust policy registry where inputs: "inputs = (request, trust, policy, registry)"
      by (cases inputs) auto
    from run Ok obtain resolved where resolved: "resolve_inputs x inputs = Some resolved"
      and e: "e = route_end env x resolved"
      by (auto simp: route_command_def ends_Some split: option.splits)
    show ?thesis
    proof (cases resolved)
      case (Err d)
      with resolved Ok have "\<not> route_admitted env x args w" unfolding route_admitted_def by auto
      with e Err show ?thesis by (simp add: route_end_def end_tells_failed)
    next
      case d: (Ok d)
      note decision = resolved [unfolded d inputs resolve_inputs_def prod.case]
      have allowed: "rd_execution_allowed d \<longleftrightarrow> admitted_posture (rd_resolved_approval_posture d)"
        using resolved_coherent [OF decision] by (auto simp: coherent_def Let_def split: if_splits)
      have at: "rc_decided_at_utc (default_context x) = xe_decided_at x"
        by (simp add: default_context_def new_route_resolution_context_def)
      have "rd_execution_allowed d \<longleftrightarrow> route_admitted env x args w"
      proof
        assume "rd_execution_allowed d"
        moreover from this allowed have "rd_resolved_approval_posture d \<noteq> approval_posture.Denied" by auto
        from decision_authorised [OF decision this] obtain er r p c where
          "authorised (pe_contracts (xe_pipeline x)) (pe_decoders (xe_pipeline x)) request trust policy registry
            (xe_decided_at x) er r p c" unfolding at by blast
        ultimately show "route_admitted env x args w"
          using Ok resolved d allowed unfolding route_admitted_def inputs by blast
      next
        assume "route_admitted env x args w"
        with Ok resolved d allowed show "rd_execution_allowed d"
          unfolding route_admitted_def inputs by auto
      qed
      with e d show ?thesis by (simp add: route_end_def end_tells_prints_document)
    qed
  qed
qed

lemma execute_end_stdout: "execute_end env x outcome = Some e \<Longrightarrow> en_stdout e = [] \<longrightarrow> en_code e = 1"
  by (auto simp: execute_end_def prints_document_def prints_def print_lines_Nil split: result.splits)

lemma execute_command_tells: "tells (execute_command env x args) (execute_finished env x args) True"
  unfolding tells_def
proof (intro allI impI)
  fix w w' e
  assume run: "execute_command env x args w = Some (w', Ended e)"
  from run have "well_ended e \<and> (en_stdout e = [] \<longrightarrow> en_code e = 1)"
  proof (cases rule: execute_command_cases)
    case (2 inputs selection additional w1 sink outcome d)
    with execute_end_well [OF 2(4)] execute_end_stdout [OF 2(4)] show ?thesis by simp
  qed (auto simp: failed_well_ended failed_code)
  with execute_command_code [OF run] show "end_tells (execute_finished env x args w w') True e"
    by (intro end_tells_code) (auto simp: execute_finished_def)
qed

lemma forensics_query_command_tells:
  "tells (forensics_query_command env x args) (query_answered env x args) False"
  unfolding tells_def
proof (intro allI impI)
  fix w w' e
  assume run: "forensics_query_command env x args w = Some (w', Ended e)"
  show "end_tells (query_answered env x args w w') False e"
  proof (cases "flag_path args ''--sqlite''")
    case None
    with run show ?thesis
      by (auto simp: forensics_query_command_def require_flag_def ends_Some query_answered_def end_tells_failed)
  next
    case (Some path)
    obtain w1 opened where o: "open_forensic_store (xe_sqlite x) path w = (w1, opened)" by fastforce
    show ?thesis
    proof (cases opened)
      case (Err d)
      with run Some o show ?thesis
        by (auto simp: forensics_query_command_def require_flag_def ends_Some query_answered_def end_tells_failed)
    next
      case opened: (Ok u)
      note open_facts = Some o opened
      show ?thesis
      proof (cases "forensics_query env x args w1")
        case (Err d)
        with run open_facts forensics_query_Err [OF Err] show ?thesis
          by (auto simp: forensics_query_command_def require_flag_def ends_Some query_answered_def end_tells_failed)
      next
        case (Ok found)
        with run open_facts show ?thesis
          by (cases found)
            (auto simp: forensics_query_command_def require_flag_def ends_Some query_answered_def query_end_def
              end_tells_failed end_tells_prints_document)
      qed
    qed
  qed
qed

lemma serve_command_tells: "tells (serve_command env v args) (\<lambda>_ _. False) False"
  unfolding tells_def by (auto elim!: serve_command_cases intro: end_tells_failed)

lemma gnat_end_stdout: "en_stdout (gnat_end env g result) = [] \<longrightarrow> en_code (gnat_end env g result) = 1"
  by (auto simp: gnat_end_def prints_document_def prints_def print_lines_Nil Let_def split: result.splits prod.splits)

lemma gnat_dispatch_command_tells: "tells (gnat_dispatch_command env g args) (gnat_completed env g args) True"
  unfolding tells_def
proof (intro allI impI)
  fix w w' e
  assume run: "gnat_dispatch_command env g args w = Some (w', Ended e)"
  from run have "well_ended e \<and> (en_stdout e = [] \<longrightarrow> en_code e = 1)"
    by (cases rule: gnat_dispatch_command_cases)
      (auto simp: failed_well_ended failed_code gnat_end_well gnat_end_stdout)
  with gnat_dispatch_command_code [OF run] show "end_tells (gnat_completed env g args w w') True e"
    by (intro end_tells_code) (auto simp: gnat_completed_def)
qed

lemma nf_end_tells:
  "end_tells (\<exists>r receipt. result = Ok r \<and> nw_outcome r = NfCompleted receipt) True (nf_end env n result)"
proof (cases result)
  case (Ok r)
  then show ?thesis
    by (cases "nw_outcome r") (auto simp: nf_end_def Let_def end_tells_prints_document)
qed (simp add: nf_end_def end_tells_failed)

lemma neuronforge_command_tells:
  "tells (neuronforge_command env n args) (neuronforge_completed env n args) True"
  unfolding tells_def
proof (intro allI impI)
  fix w w' e
  assume run: "neuronforge_command env n args w = Some (w', Ended e)"
  from run show "end_tells (neuronforge_completed env n args w w') True e"
  proof (cases "nf_scene env args w")
    case (Err d)
    with run nf_scene_Err [OF Err] show ?thesis
      by (auto simp: neuronforge_command_def ends_Some neuronforge_completed_def end_tells_failed)
  next
    case (Ok scene_text)
    obtain w1 s where sink: "nf_sink env n args w = (w1, s)" by fastforce
    show ?thesis
    proof (cases s)
      case (Err d)
      with run Ok sink nf_sink_Err [of env n args w w1 d] show ?thesis
        by (auto simp: neuronforge_command_def ends_Some neuronforge_completed_def end_tells_failed)
    next
      case s: (Ok export)
      from run Ok sink s obtain result where
        result: "run_neuronforge (nv_debug_text (nx_adapter n)) (nx_event_id n) (nf_request n args scene_text)
          (http_neuronforge_adapter (nx_adapter n)
            \<lparr>nc_base_url_override = flag_path args ''--neuronforge-url''\<rparr>) export (nx_now n) w1 =
          Some (w', result)" and e: "e = nf_end env n result"
        by (auto simp: neuronforge_command_def ends_Some split: Option.bind_splits)
      have "neuronforge_completed env n args w w' \<longleftrightarrow>
          (\<exists>r receipt. result = Ok r \<and> nw_outcome r = NfCompleted receipt)"
        using Ok sink s result by (auto simp: neuronforge_completed_def)
      with nf_end_tells [of result env n] e show ?thesis by simp
    qed
  qed
qed

lemma status_command_tells: "tells (status_command env) (\<lambda>_ _. True) False"
  by (auto simp: tells_def status_command_def Let_def ends_Some end_tells_prints)

lemma canonical_status_command_tells:
  "tells (canonical_status_command env build now) (\<lambda>_ _. \<exists>envelope.
     build_canonical_service_status_envelope (cn_contracts env) build now = Ok envelope) False"
proof (cases "build_canonical_service_status_envelope (cn_contracts env) build now")
  case (Ok envelope)
  then have "json_get envelope ''state'' = Some (JString ''ready'')"
    unfolding service_status_Ok by (auto simp: json_get_object)
  with Ok show ?thesis by (auto simp: tells_def canonical_status_command_def ends_Some end_tells_prints)
next
  case (Err d)
  then show ?thesis by (auto simp: tells_def canonical_status_command_def ends_Some end_tells_failed)
qed

section \<open>The process\<close>

lemma run_main_end:
  assumes run: "run_main rn args w = Some (w', Ended e)"
  shows "en_code e = (if command_succeeded rn args w w' then 0 else 1) \<and>
    (en_stdout e = [] \<longleftrightarrow> en_stderr e \<noteq> []) \<and>
    (if length args \<le> 1 \<or> args ! 1 \<in> {''--help'', ''-h''} then en_stdout e = []
     else if command_succeeded rn args w w' then en_stdout e \<noteq> []
     else en_stdout e \<noteq> [] \<longrightarrow>
       args ! 1 \<in> {''route'', ''execute'', ''gnat-dispatch'', ''neuronforge-dispatch''})"
proof -
  have told: "?thesis" if "tells m success reports" "m w = Some (w', Ended e)" "1 < length args"
    "args ! 1 \<notin> {''--help'', ''-h''}" "command_succeeded rn args w w' \<longleftrightarrow> success w w'"
    "reports \<longrightarrow> args ! 1 \<in> {''route'', ''execute'', ''gnat-dispatch'', ''neuronforge-dispatch''}"
    for m success reports
  proof -
    from that(1,2) have "end_tells (success w w') reports e" by (simp add: tells_def)
    note says = end_tells_says [OF this that(6)]
    have "\<not> (length args \<le> 1 \<or> args ! 1 \<in> {''--help'', ''-h''})"
      using that(3,4) by (simp only: not_le de_Morgan_disj simp_thms)
    note other = if_not_P [OF this]
    show ?thesis unfolding that(5) other by (rule says)
  qed
  have "usage_lines \<noteq> []" by (simp add: usage_lines_def)
  then have usage: "?thesis" if "e = usage_end args"
    "command_succeeded rn args w w' \<longleftrightarrow> 1 < length args \<and> (args ! 1 = ''--help'' \<or> args ! 1 = ''-h'')"
    "length args \<le> 1 \<or> args ! 1 \<in> {''--help'', ''-h''}"
    using that by (simp add: usage_end_def print_lines_Nil)
  show ?thesis
  proof (cases "length args \<le> 1")
    case True
    with run show ?thesis by (intro usage) (simp_all add: run_main_def ends_Some command_succeeded_def)
  next
    case False
    note main = run [unfolded run_main_def Let_def if_not_P [OF False]]
    note success = command_succeeded_def [of rn args w w', unfolded Let_def]
    let ?c = "args ! 1"
    consider "?c \<in> {''--help'', ''-h''}" | "?c \<in> {''--version'', ''-V''}" | "?c = ''validate''"
      | "?c = ''route''" | "?c = ''execute''" | "?c = ''forensics-query''" | "?c = ''serve''"
      | "?c = ''gnat-dispatch''" | "?c = ''neuronforge-dispatch''" | "?c = ''status''"
      | "?c = ''canonical-status''"
      | "?c \<notin> {''--help'', ''-h'', ''--version'', ''-V'', ''validate'', ''route'', ''execute'', ''forensics-query'',
          ''serve'', ''gnat-dispatch'', ''neuronforge-dispatch'', ''status'', ''canonical-status''}"
      by blast
    then show ?thesis
    proof cases
      case 1
      with main False show ?thesis by (intro usage) (auto simp: ends_Some success)
    next
      case 2
      have "tells (ends (prints 0 [''fa-local-run '' @ cn_version (rn_console rn)])) (\<lambda>_ _. True) False"
        by (auto simp: tells_def ends_Some end_tells_prints)
      from told [OF this] 2 main False show ?thesis by (auto simp: success)
    next
      case 3
      show ?thesis
        by (rule told [OF validate_command_tells main [unfolded 3, simplified]])
          (use 3 False in \<open>simp_all add: success\<close>)
    next
      case 4
      show ?thesis
        by (rule told [OF route_command_tells main [unfolded 4, simplified]])
          (use 4 False in \<open>simp_all add: success\<close>)
    next
      case 5
      show ?thesis
        by (rule told [OF execute_command_tells main [unfolded 5, simplified]])
          (use 5 False in \<open>simp_all add: success\<close>)
    next
      case 6
      show ?thesis
        by (rule told [OF forensics_query_command_tells main [unfolded 6, simplified]])
          (use 6 False in \<open>simp_all add: success\<close>)
    next
      case 7
      show ?thesis
        by (rule told [OF serve_command_tells main [unfolded 7, simplified]])
          (use 7 False in \<open>simp_all add: success\<close>)
    next
      case 8
      show ?thesis
        by (rule told [OF gnat_dispatch_command_tells main [unfolded 8, simplified]])
          (use 8 False in \<open>simp_all add: success\<close>)
    next
      case 9
      show ?thesis
        by (rule told [OF neuronforge_command_tells main [unfolded 9, simplified]])
          (use 9 False in \<open>simp_all add: success\<close>)
    next
      case 10
      show ?thesis
        by (rule told [OF status_command_tells main [unfolded 10, simplified]])
          (use 10 False in \<open>simp_all add: success\<close>)
    next
      case 11
      show ?thesis
        by (rule told [OF canonical_status_command_tells main [unfolded 11, simplified]])
          (use 11 False in \<open>simp_all add: success\<close>)
    next
      case 12
      let ?unknown = "\<lparr>en_code = 1, en_stdout = [], en_stderr = print_lines
        [''error: unknown command '' @ cn_debug_text (rn_console rn) ?c,
         ''Run '' @ [CHR 0x27] @ ''fa-local-run --help'' @ [CHR 0x27] @ '' for usage.'']\<rparr>"
      have "tells (ends ?unknown) (\<lambda>_ _. False) False"
        by (auto simp: tells_def ends_Some end_tells_failed failed_def print_lines_Nil)
      then show ?thesis by (rule told) (use 12 main False in \<open>simp_all add: success\<close>)
    qed
  qed
qed

end
