(* ===== verification/Runner_Properties.thy ===== *)
theory Runner_Properties
  imports Runner_Ends Pipeline_Properties Gnat_Properties
begin

text \<open>
  The properties of the command-line runner: how a process ends, what its exit code says of the run or
  the dispatch it drove, when it serves, and what its flags mean.
\<close>

section \<open>Samples\<close>

definition sample_console :: "'w console_env" where
  "sample_console =
     \<lparr>cn_version = ''0.1.0'', cn_contracts = sample_contracts\<lparr>ce_from_slice := (\<lambda>_. Ok sample_json)\<rparr>,
      cn_read = (\<lambda>_ _. Ok ''{}''), cn_read_text = (\<lambda>_ _. Ok ''scene''), cn_stdin = (\<lambda>_. Err ''closed''),
      cn_read_var = (\<lambda>_. Some ''1''), cn_pretty = (\<lambda>_. ''{}''), cn_compact = (\<lambda>_. ''{}''),
      cn_debug_text = quoted, cn_parse_uuid = (\<lambda>_. Err ''invalid''), cn_show_uuid = (\<lambda>_. ''u'')\<rparr>"

definition sample_execute :: "sample_world execute_env" where
  "sample_execute =
     \<lparr>xe_pipeline = sample_env sample_contracts ''write'', xe_decision_id = 9, xe_decided_at = 5,
      xe_decision_json = (\<lambda>_. JNull), xe_denial_json = (\<lambda>_. JNull), xe_status_json = (\<lambda>_. JNull),
      xe_event_json = (\<lambda>_. JNull),
      xe_jsonl = \<lparr>jl_open_append = (\<lambda>_ w. (w, Ok ())), jl_append = (\<lambda>_ _ w. (w, True))\<rparr>,
      xe_sqlite = \<lparr>sl_open = (\<lambda>_ w. (w, Ok ())), sl_execute_batch = (\<lambda>_ w. (w, Ok ())),
        sl_execute = (\<lambda>_ _ w. (w, Ok ())), sl_query_texts = (\<lambda>_ _ _. Ok [])\<rparr>,
      xe_printers = \<lparr>sp_uuid = (\<lambda>_. ''u''), sp_rfc3339 = (\<lambda>_. ''t'')\<rparr>,
      xe_print_event = (\<lambda>_. Ok ''{}''), xe_parse_event = (\<lambda>_. Err ''no event''),
      xe_decode_event_type = (\<lambda>_. Err ''no type'')\<rparr>"

definition sample_execute_args :: "string list" where
  "sample_execute_args =
     [''fa-local-run'', ''execute'', ''--request'', ''r'', ''--requester-trust'', ''t'',
      ''--policy'', ''p'', ''--capability-registry'', ''c'', ''--plan'', ''e'',
      ''--local-file-write-root'', ''/data'', ''--per-step-dispatch'']"

lemma sample_execute_flags:
  "flag_path sample_execute_args ''--request'' = Some ''r''"
  "flag_path sample_execute_args ''--requester-trust'' = Some ''t''"
  "flag_path sample_execute_args ''--policy'' = Some ''p''"
  "flag_path sample_execute_args ''--capability-registry'' = Some ''c''"
  "flag_path sample_execute_args ''--plan'' = Some ''e''"
  "flag_path sample_execute_args ''--local-file-write-root'' = Some ''/data''"
  "flag_path sample_execute_args ''--nmap-binary'' = None"
  "flag_path sample_execute_args ''--forensic-export'' = None"
  "flag_path sample_execute_args ''--forensic-sqlite'' = None"
  "flag_values sample_execute_args ''--adapter'' = []"
  "execute_mode sample_execute_args = PerStep"
  by code_simp+

lemma sample_execute_inputs:
  "execute_inputs sample_console sample_execute_args w =
     Ok (sample_inputs sample_json, Some (adapter_selection.LocalFileWrite ''/data''), [])"
  "execute_sink sample_console sample_execute sample_execute_args w = (w, Ok None)"
  "default_context sample_execute = sample_resolution"
  by (simp_all add: execute_inputs_def read_contracts_def contract_paths_def read_json_file_def
      optional_plan_def execute_selection_def execute_additional_def execute_sink_def choose_sink_def
      sample_execute_flags sample_console_def sample_inputs_def default_context_def
      new_route_resolution_context_def sample_execute_def sample_resolution_def)

section \<open>How a process ends\<close>

text \<open>C22: Every process that ends, as long as it does not panic, says on its exit code whether its command
did what it was asked, and on its streams what came of it. The code is 0 exactly when the command
succeeded, by the table \<open>command_succeeded\<close>: a valid request, an authorised and admitted route, a finished
execution, an answered query, a complete dispatch, a status, the version or the usage; else it is 1.
It printed on exactly one of the streams. The usage goes to the standard error; otherwise a success is
on the standard output, and a failure is on the standard error unless it is the outcome that \<open>route\<close>,
\<open>execute\<close> or a dispatch reports. (A process that panics ends with the code 101 of the language's run
time, and has no end here.)\<close>

theorem process_end_decides:
  assumes "run_main rn args w = Some (w', Ended e)"
  shows "en_code e = (if command_succeeded rn args w w' then 0 else 1) \<and>
    (en_stdout e = [] \<longleftrightarrow> en_stderr e \<noteq> []) \<and>
    (if length args \<le> 1 \<or> args ! 1 \<in> {''--help'', ''-h''} then en_stdout e = []
     else if command_succeeded rn args w w' then en_stdout e \<noteq> []
     else en_stdout e \<noteq> [] \<longrightarrow>
       args ! 1 \<in> {''route'', ''execute'', ''gnat-dispatch'', ''neuronforge-dispatch''})"
  using assms by (rule run_main_end)

theorem process_end_decides_witness:
  "\<forall>rn :: (nat, nat, nat) runner_env. \<exists>e.
     run_main rn [''fa-local-run'', ''--version''] 0 = Some (0, Ended e) \<and> en_code e = 0 \<and> en_stdout e \<noteq> []"
proof
  fix rn :: "(nat, nat, nat) runner_env"
  obtain e where run: "run_main rn [''fa-local-run'', ''--version''] 0 = Some (0, Ended e)"
    by (simp add: run_main_def ends_def)
  have "command_succeeded rn [''fa-local-run'', ''--version''] 0 0"
    by (simp add: command_succeeded_def)
  with process_end_decides [OF run] have "en_code e = 0 \<and> en_stdout e \<noteq> []"
    by auto
  with run show "\<exists>e. run_main rn [''fa-local-run'', ''--version''] 0 = Some (0, Ended e) \<and> en_code e = 0 \<and>
      en_stdout e \<noteq> []" by blast
qed

text \<open>C5: The exit code of \<open>execute\<close> tells the truth. A process that ends with 0 drove one run whose
request was authorised, whose declared plan was accepted and answers the decision, whose trace ended
completed, completed with constraints or partially successful, and of which every status has its
forensic event; a run of this kind always ends with 0, and every other end is 1.\<close>

theorem execute_exit_code_truthful:
  assumes "execute_command env x args w = Some (w', Ended e)"
  shows "en_code e = 0 \<longleftrightarrow>
    (\<exists>inputs selection additional w1 sink out.
       execute_inputs env args w = Ok (inputs, selection, additional) \<and>
       execute_sink env x args w = (w1, Ok sink) \<and>
       run_pipeline (xe_pipeline x) inputs selection additional (execute_mode args) sink
         (default_context x) w1 = Some (w', Ok out) \<and>
       finished_run (xe_pipeline x) inputs (xe_decided_at x) out)"
  using assms by (rule execute_command_code)

lemma sample_execute_ends:
  "\<exists>w' out e. run_pipeline (xe_pipeline sample_execute) (sample_inputs sample_json)
     (Some (adapter_selection.LocalFileWrite ''/data'')) [] PerStep None (default_context sample_execute)
     sample_files = Some (w', Ok out) \<and>
   finished_run (xe_pipeline sample_execute) (sample_inputs sample_json) (xe_decided_at sample_execute) out \<and>
   execute_command sample_console sample_execute sample_execute_args sample_files = Some (w', Ended e)"
proof -
  have fields: "xe_pipeline sample_execute = sample_env sample_contracts ''write''"
    "xe_decided_at sample_execute = rc_decided_at_utc sample_resolution"
    by (simp_all add: sample_execute_def sample_resolution_def)
  obtain d w' t rs where run: "sample_run sample_contracts ''write'' sample_json =
      Some (w', Ok (pipeline_outcome d None (Some t) rs))"
    using sample_run_answers by blast
  have "is_valid_step_id ''write''" using sample_names(1) by (simp add: harmless_step_def)
  from sample_run_writes [OF this] run
  have "finished_state (st_state (vs_status (last (tr_statuses t))))"
    by (auto simp: finished_state_def pipeline_outcome_def)
  then have finished: "finished_run (xe_pipeline sample_execute) (sample_inputs sample_json)
      (xe_decided_at sample_execute) (pipeline_outcome d None (Some t) rs)"
    using run_pipeline_evidence [OF run] run_pipeline_traced [OF run, of t]
    unfolding finished_run_def fields by (simp add: pipeline_outcome_def)
  obtain e where "execute_end sample_console sample_execute (Ok (pipeline_outcome d None (Some t) rs)) = Some e"
    using execute_end_Ok [OF run] by blast
  then have "execute_command sample_console sample_execute sample_execute_args sample_files =
      Some (w', Ended e)"
    using run by (simp add: execute_command_def sample_execute_inputs sample_execute_flags fields ends_def)
  with run finished show ?thesis
    by (simp only: fields sample_execute_inputs) blast
qed

theorem execute_exit_code_truthful_witness:
  "\<exists>w' e. execute_command sample_console sample_execute sample_execute_args sample_files =
     Some (w', Ended e) \<and> en_code e = 0"
proof -
  obtain w' out e where run: "run_pipeline (xe_pipeline sample_execute) (sample_inputs sample_json)
      (Some (adapter_selection.LocalFileWrite ''/data'')) [] PerStep None (default_context sample_execute)
      sample_files = Some (w', Ok out)"
    and finished: "finished_run (xe_pipeline sample_execute) (sample_inputs sample_json)
      (xe_decided_at sample_execute) out"
    and ends: "execute_command sample_console sample_execute sample_execute_args sample_files =
      Some (w', Ended e)"
    using sample_execute_ends by blast
  have "en_code e = 0"
    unfolding execute_exit_code_truthful [OF ends]
    using run finished by (simp add: sample_execute_inputs(1,2) sample_execute_flags)
  with ends show ?thesis by blast
qed

text \<open>C40: A flag with nothing after it is ignored. Appending a flag of \<open>execute\<close> without its value to a
command line that does not end in such a flag changes nothing: a run that was asked to record its
evidence (\<open>--forensic-sqlite\<close>) records none and ends as it would have without the flag.\<close>

definition EXECUTE_FLAGS :: "string list" where
  "EXECUTE_FLAGS =
     [''--request'', ''--requester-trust'', ''--policy'', ''--capability-registry'', ''--plan'',
      ''--local-file-write-root'', ''--nmap-binary'', ''--nmap-profile'', ''--adapter'',
      ''--forensic-export'', ''--forensic-sqlite'']"

theorem dangling_flag_ignored:
  assumes "last args \<notin> set EXECUTE_FLAGS" and "flag \<in> set EXECUTE_FLAGS"
  shows "execute_command env x (args @ [flag]) w = execute_command env x args w"
proof -
  have "flag_path (args @ [flag]) f = flag_path args f" if "f \<in> set EXECUTE_FLAGS" for f
    using that assms(1) by (intro flag_path_dangling) auto
  then have flags:
    "flag_path (args @ [flag]) ''--request'' = flag_path args ''--request''"
    "flag_path (args @ [flag]) ''--requester-trust'' = flag_path args ''--requester-trust''"
    "flag_path (args @ [flag]) ''--policy'' = flag_path args ''--policy''"
    "flag_path (args @ [flag]) ''--capability-registry'' = flag_path args ''--capability-registry''"
    "flag_path (args @ [flag]) ''--plan'' = flag_path args ''--plan''"
    "flag_path (args @ [flag]) ''--local-file-write-root'' = flag_path args ''--local-file-write-root''"
    "flag_path (args @ [flag]) ''--nmap-binary'' = flag_path args ''--nmap-binary''"
    "flag_path (args @ [flag]) ''--nmap-profile'' = flag_path args ''--nmap-profile''"
    "flag_path (args @ [flag]) ''--forensic-export'' = flag_path args ''--forensic-export''"
    "flag_path (args @ [flag]) ''--forensic-sqlite'' = flag_path args ''--forensic-sqlite''"
    by (simp_all add: EXECUTE_FLAGS_def)
  have adapters: "flag_values (args @ [flag]) ''--adapter'' = flag_values args ''--adapter''"
    using assms(1) by (intro flag_values_dangling) (auto simp: EXECUTE_FLAGS_def)
  have mode: "execute_mode (args @ [flag]) = execute_mode args"
    using assms(2) by (auto simp: execute_mode_def EXECUTE_FLAGS_def)
  show ?thesis
    unfolding execute_command_def execute_inputs_def read_contracts_def contract_paths_def
      optional_plan_def execute_selection_def execute_additional_def execute_sink_def choose_sink_def
      flags adapters mode ..
qed

theorem dangling_flag_ignored_witness:
  "execute_command sample_console sample_execute (sample_execute_args @ [''--forensic-sqlite'']) sample_files =
   execute_command sample_console sample_execute sample_execute_args sample_files"
  by (rule dangling_flag_ignored) (simp_all add: sample_execute_args_def EXECUTE_FLAGS_def)

section \<open>Dispatches\<close>

text \<open>C10: The exit code of \<open>gnat-dispatch\<close> tells the truth. A process that ends with 0 negotiated the
envelope it read and delivered every declared shard, in the declared order, each with a receipt in the
state \<open>complete\<close>; such a dispatch always ends with 0, and every other end is 1.\<close>

theorem gnat_exit_code_truthful:
  assumes "gnat_dispatch_command env g args w = Some (w', Ended e)"
  shows "en_code e = 0 \<longleftrightarrow>
    (\<exists>envelope_path enrichment_path config w1 sink envelope enrichments result.
       gnat_flags args = Ok (envelope_path, enrichment_path, config) \<and>
       gnat_sink env g args w = (w1, Ok sink) \<and>
       gnat_files env g envelope_path enrichment_path w1 = Ok (envelope, enrichments) \<and>
       run_gnat (gx_run g) envelope ready_default enrichments
         (cortex_subprocess_adapter (gx_shards g) config) sink (gx_now g) w1 = Some (w', Ok result) \<and>
       all_shards_complete envelope (gw_outcome result) \<and> dispatch_admitted envelope ready_default)"
  using assms by (rule gnat_dispatch_command_code)

definition sample_gnat_command :: "(nat, nat) gnat_command_env" where
  "sample_gnat_command =
     \<lparr>gx_run = sample_gnat_env, gx_now = 9, gx_shards = clock_os 0 (state_receipt ''complete''),
      gx_decode_envelope = (\<lambda>_. Ok sample_envelope), gx_decode_enrichments = (\<lambda>_. Ok sample_enrichments),
      gx_denial_json = (\<lambda>_. JNull), gx_admission_json = (\<lambda>_. JNull), gx_event_json = (\<lambda>_. JNull),
      gx_jsonl = \<lparr>jl_open_append = (\<lambda>_ w. (w, Ok ())), jl_append = (\<lambda>_ _ w. (w, True))\<rparr>,
      gx_sqlite = \<lparr>sl_open = (\<lambda>_ w. (w, Ok ())), sl_execute_batch = (\<lambda>_ w. (w, Ok ())),
        sl_execute = (\<lambda>_ _ w. (w, Ok ())), sl_query_texts = (\<lambda>_ _ _. Ok [])\<rparr>,
      gx_printers = \<lparr>sp_uuid = (\<lambda>_. ''u''), sp_rfc3339 = (\<lambda>_. ''t'')\<rparr>,
      gx_print_event = (\<lambda>_. Ok ''{}'')\<rparr>"

definition sample_gnat_args :: "string list" where
  "sample_gnat_args =
     [''fa-local-run'', ''gnat-dispatch'', ''--envelope'', ''e'', ''--shard-enrichment'', ''s'',
      ''--cortex-repo-root'', ''/cor'']"

lemma sample_gnat_flags:
  "gnat_flags sample_gnat_args = Ok (''e'', ''s'', sample_subprocess)"
  "gnat_sink sample_console sample_gnat_command sample_gnat_args w = (w, Ok None)"
  "gnat_files sample_console sample_gnat_command ''e'' ''s'' w = Ok (sample_envelope, sample_enrichments)"
proof -
  have flags: "flag_path sample_gnat_args ''--envelope'' = Some ''e''"
    "flag_path sample_gnat_args ''--shard-enrichment'' = Some ''s''"
    "flag_path sample_gnat_args ''--cortex-repo-root'' = Some ''/cor''"
    "flag_path sample_gnat_args ''--cortex-python'' = None"
    "flag_path sample_gnat_args ''--forensic-export'' = None"
    "flag_path sample_gnat_args ''--forensic-sqlite'' = None"
    by code_simp+
  show "gnat_flags sample_gnat_args = Ok (''e'', ''s'', sample_subprocess)"
    "gnat_sink sample_console sample_gnat_command sample_gnat_args w = (w, Ok None)"
    by (simp_all add: gnat_flags_def require_flag_def gnat_sink_def choose_sink_def flags
        sample_subprocess_def)
  have "load_gnat_envelope sample_contracts decode v = Ok x \<longleftrightarrow> decode v = Ok x" for decode v x
    by (simp add: load_gnat_envelope_def sample_loads)
  then have "load_gnat_envelope (sample_contracts\<lparr>ce_from_slice := f\<rparr>) (\<lambda>_. Ok sample_envelope) v =
      Ok sample_envelope" for f v
    by (simp add: load_gnat_envelope_def deserialize_Ok validate_contract_value_def load_json_value_def
        schema_path_def sample_contracts_def)
  then show "gnat_files sample_console sample_gnat_command ''e'' ''s'' w =
      Ok (sample_envelope, sample_enrichments)"
    by (simp add: gnat_files_def read_json_file_def sample_console_def sample_gnat_command_def)
qed

lemma clock_os_delivers:
  assumes "sr_worker_type request \<in> set AUTHORIZED_WORKER_TYPES"
  shows "deliver_shard (clock_os 0 receipt) config request w = Some (w, receipt_result receipt)"
proof -
  have "wait_loop (clock_os 0 receipt) deadline 0 w = Some (w, Exited (Some 0))" for deadline w
    by (subst wait_loop.simps) (simp add: clock_os_def)
  then have "await_shard (clock_os 0 receipt) request path 0 w = Some (w, receipt_result receipt)" for path w
    by (simp add: await_shard_def wait_with_deadline_def) (simp add: clock_os_def read_pipe_def printed_result_def)
  with assms show ?thesis
    by (simp add: deliver_shard_def) (simp add: clock_os_def)
qed

lemma sample_gnat_admitted: "dispatch_admitted sample_envelope ready_default"
  by (simp add: dispatch_admitted_def envelope_wf_def serves_envelope_def sample_envelope_def
      ready_default_def sample_shard_def)

lemma clock_os_recognised:
  "answers_recognised (cortex_subprocess_adapter (clock_os 0 (state_receipt ''complete'')) config)"
  unfolding answers_recognised_def
proof (intro allI)
  fix request and w :: nat
  show "\<exists>w' r. ga_deliver_shard (cortex_subprocess_adapter (clock_os 0 (state_receipt ''complete'')) config)
      request w = Some (w', r) \<and> result_recognised r"
  proof (cases "sr_worker_type request \<in> set AUTHORIZED_WORKER_TYPES")
    case True
    from clock_os_delivers [OF this, of "state_receipt ''complete''" config w] show ?thesis
      by (simp add: cortex_subprocess_adapter_def receipt_result_def state_receipt_state
          recognised_states_def)
  next
    case False
    then show ?thesis by (simp add: cortex_subprocess_adapter_def deliver_shard_def)
  qed
qed

lemma sample_gnat_run:
  "\<exists>w' result. run_gnat (gx_run sample_gnat_command) sample_envelope ready_default sample_enrichments
     (cortex_subprocess_adapter (gx_shards sample_gnat_command) sample_subprocess) None
     (gx_now sample_gnat_command) 0 = Some (w', Ok result) \<and>
   all_shards_complete sample_envelope (gw_outcome result)"
proof -
  let ?os = "clock_os 0 (state_receipt ''complete'')"
  obtain w' result where run: "run_gnat sample_gnat_env sample_envelope ready_default sample_enrichments
      (cortex_subprocess_adapter ?os sample_subprocess) None 9 0 = Some (w', Ok result)"
    using run_gnat_answers [OF clock_os_recognised sample_requests(3,2)] by blast
  obtain admission results where dispatched: "gw_outcome result = GnatDispatched admission results"
    using run_gnat_reported [OF run] sample_gnat_admitted
    by (cases "gw_outcome result") (auto simp: dispatch_admitted_def)
  have "\<forall>request \<in> set (declared_requests sample_envelope sample_enrichments).
      sr_worker_type request \<in> set AUTHORIZED_WORKER_TYPES"
    by (simp add: declared_requests_def sample_envelope_def sample_shard_def from_declared_shard_def
        AUTHORIZED_WORKER_TYPES_def)
  then have "\<forall>(i, r) \<in> set results. r = receipt_result (state_receipt ''complete'')"
    using run_gnat_called [OF run dispatched] clock_os_delivers
    by (fastforce simp: cortex_subprocess_adapter_def)
  then have "list_all (shard_completed \<circ> snd) results"
    by (auto simp: list_all_iff receipt_result_def state_receipt_state)
  then have "en_code (gnat_end sample_console sample_gnat_command (Ok result)) = 0"
    by (simp add: gnat_end_def gnat_dispatch_result_to_json_def Let_def dispatched)
  then have "all_shards_complete sample_envelope (gw_outcome result)"
    using gnat_end_Ok [OF run] by blast
  with run show ?thesis by (simp add: sample_gnat_command_def)
qed

theorem gnat_exit_code_truthful_witness:
  "\<exists>w' e. gnat_dispatch_command sample_console sample_gnat_command sample_gnat_args 0 =
     Some (w', Ended e) \<and> en_code e = 0"
proof -
  obtain w' result where run: "run_gnat (gx_run sample_gnat_command) sample_envelope ready_default
      sample_enrichments (cortex_subprocess_adapter (gx_shards sample_gnat_command) sample_subprocess) None
      (gx_now sample_gnat_command) 0 = Some (w', Ok result)"
    "all_shards_complete sample_envelope (gw_outcome result)"
    using sample_gnat_run by blast
  let ?e = "gnat_end sample_console sample_gnat_command (Ok result)"
  have ends: "gnat_dispatch_command sample_console sample_gnat_command sample_gnat_args 0 =
      Some (w', Ended ?e)"
    using run(1) by (simp add: gnat_dispatch_command_def sample_gnat_flags ends_def)
  have "en_code ?e = 0"
    unfolding gnat_exit_code_truthful [OF ends]
    using run sample_gnat_admitted by (simp add: sample_gnat_flags)
  with ends show ?thesis by blast
qed

section \<open>Serving\<close>

text \<open>C13: The process serves exactly when it was told to and everything it needs is there: the command is
\<open>serve\<close>, \<open>FA_LOCAL_SERVE_ENABLED\<close> is set, the named registry file loads, the port is the default or one
that parses, the keys of the named variable parse, and the loopback address binds. It then serves from
the state that has just loaded this registry.\<close>

theorem serving_decides:
  "run_main rn args w = Some (w', Serving port public_keys state) \<longleftrightarrow>
     1 < length args \<and> args ! 1 = ''serve'' \<and>
     cn_read_var (rn_console rn) ''FA_LOCAL_SERVE_ENABLED'' \<noteq> None \<and>
     (\<exists>registry_file service.
        flag_path args ''--registry-file'' = Some registry_file \<and>
        load_service (vx_serve (rn_serve rn)) (cn_contracts (rn_console rn)) registry_file = Ok service \<and>
        (case flag_path args ''--port'' of None \<Rightarrow> port = 8012 | Some v \<Rightarrow> parse_u16 v = Ok port) \<and>
        load_public_keys_from_env (cn_read_var (rn_console rn)) (vx_parse_keys (rn_serve rn))
          (case flag_path args ''--public-keys-env'' of
             None \<Rightarrow> ''FA_LOCAL_SERVE_PUBLIC_KEYS'' | Some name \<Rightarrow> name) = Ok public_keys \<and>
        vx_bind (rn_serve rn) port w = (w', Ok ()) \<and>
        state = daemon_start service)"
    (is "?l \<longleftrightarrow> ?r")
proof -
  let ?env = "rn_console rn" and ?v = "rn_serve rn"
  have port: "serve_port ?env args = Ok port \<longleftrightarrow>
      (case flag_path args ''--port'' of None \<Rightarrow> port = 8012 | Some v \<Rightarrow> parse_u16 v = Ok port)" for port
    by (auto simp: serve_port_def DEFAULT_SERVE_PORT_def result_simps split: option.split)
  have inputs: "serve_inputs ?env ?v args = Ok (service, port, public_keys) \<longleftrightarrow>
      cn_read_var ?env ''FA_LOCAL_SERVE_ENABLED'' \<noteq> None \<and>
      (\<exists>registry_file. flag_path args ''--registry-file'' = Some registry_file \<and>
        serve_port ?env args = Ok port \<and>
        load_public_keys_from_env (cn_read_var ?env) (vx_parse_keys ?v)
          (case flag_path args ''--public-keys-env'' of
             None \<Rightarrow> ''FA_LOCAL_SERVE_PUBLIC_KEYS'' | Some name \<Rightarrow> name) = Ok public_keys \<and>
        load_service (vx_serve ?v) (cn_contracts ?env) registry_file = Ok service)" for service port public_keys
    by (auto simp: serve_inputs_def require_flag_def DEFAULT_PUBLIC_KEYS_ENV_def Let_def result_simps
        split: option.split)
  show ?thesis
  proof
    assume l: ?l
    note main = run_main_serves [OF l]
    from main(3) obtain service where "serve_inputs ?env ?v args = Ok (service, port, public_keys)"
      "vx_bind ?v port w = (w', Ok ())" "state = daemon_start service"
      by (auto elim!: serve_command_cases)
    with main(1,2) show ?r unfolding inputs port by blast
  next
    assume r: ?r
    then obtain service where "serve_inputs ?env ?v args = Ok (service, port, public_keys)"
      and "vx_bind ?v port w = (w', Ok ())" "state = daemon_start service"
      unfolding inputs port by blast
    then have "serve_command ?env ?v args w = Some (w', Serving port public_keys state)"
      by (simp add: serve_command_def run_server_def)
    moreover from r have "1 < length args" "args ! 1 = ''serve''" by blast+
    ultimately show ?l by (simp add: run_main_def)
  qed
qed

section \<open>Flags and values\<close>

text \<open>C38: A value of \<open>--adapter\<close> is accepted exactly when it says a selection for the capability that it
names: \<open>ID:local-file-write:DIR\<close>, \<open>ID:nmap-preflight:BINARY\<close> with the profile \<open>loopback\<close> or none, or
\<open>ID:nmap-preflight:BINARY:private-subnet\<close>, with no colon in the parts.\<close>

theorem adapter_value_decides:
  "parse_capability_scoped_adapter debug parse_uuid v = Ok a \<longleftrightarrow>
     (\<exists>i. adapter_value_says v i (sa_selection a) \<and> parse_uuid i = Ok (sa_capability_id a))"
  by (rule parse_adapter_Ok)

text \<open>C39: The daemon's port is the value of \<open>--port\<close>, 8012 when none is given: a text is accepted exactly
when it is a decimal number below 65536 after an optional plus sign, and it then stands for that number;
so the printed form of a number is accepted exactly when the number fits in 16 bits.\<close>

theorem serve_port_decides:
  "(serve_port env args = Ok n \<longleftrightarrow>
     (case flag_path args ''--port'' of
        None \<Rightarrow> n = 8012
      | Some s \<Rightarrow> \<exists>ds. ds \<noteq> [] \<and> list_all is_ascii_digit ds \<and> (s = ds \<or> s = ''+'' @ ds) \<and>
          decimal_from 0 ds = unat n)) \<and>
   (parse_u16 (show_nat k) = Ok m \<longleftrightarrow> k < 2 ^ 16 \<and> m = of_nat k)"
  using parse_u16_Ok [of _ n]
  by (auto simp: serve_port_def DEFAULT_SERVE_PORT_def map_err_Ok parse_u16_show_nat split: option.split)

end
