(* ===== verification/Spec2Isabelle.thy ===== *)
theory Spec2Isabelle
  imports Samples Pipeline_Properties Gnat_Properties Reconnaissance_Properties Serve Export_Properties
    Friction Df_Local Runner_Properties
begin

text \<open>
  A verification library for FA Local Operator (\<open>src/\<close> of the repository, a Rust crate): the local
  service that decides whether a requested execution is admitted and, when it is, drives the admitted
  plan through delivery adapters and reports what happened.

  The program and its parts. A request, the requester's trust envelope, a policy artifact and the
  capability registry arrive as JSON. Each is checked against its schema and decoded
  (\<open>src/domain/shared/schema.rs\<close>); the trust engine, the policy loader and the registry's admission
  each answer with a value or a denial guard; the posture resolver folds the answers into one route
  decision (\<open>src/app/decision_service.rs\<close>). A plan is validated against the registry and hashed
  (\<open>src/domain/execution\<close>). Routing pairs decision and plan and selects the route
  (\<open>src/app/routing_service.rs\<close>); coordination and delivery turn the route into a trace of validated
  statuses, calling adapters for the whole route or step by step (\<open>src/app/execution_service.rs\<close>,
  \<open>src/adapters/execution_delivery\<close>). A decision that waits becomes a review package
  (\<open>src/app/review_service.rs\<close>), and every fact that is reported can be recorded as a forensic event
  (\<open>src/app/forensic_service.rs\<close>). The pipeline service composes all of this into one run
  (\<open>src/app/execution_pipeline_service.rs\<close>).

  Beside this, Cortex can ask the service to run the shards of an extraction plan: the envelope is
  negotiated against what the service supports, each shard is run in a subprocess under its deadline,
  and every fact becomes a Gnat forensic event (\<open>src/integrations/cortex\<close>,
  \<open>src/app/gnat_dispatch_pipeline_service.rs\<close>). A reuse reconnaissance reads a sealed corpus of
  documents under an authorised plan and decides which donors may be reused and which topology is
  taken (\<open>src/app/reuse_reconnaissance_service.rs\<close>, \<open>src/domain/reuse_reconnaissance\<close>). A read-only
  daemon answers authorised requests for capability records (\<open>src/app/serve_service.rs\<close>,
  \<open>src/adapters/serve\<close>). One analysis task can be sent to NeuronForge Local
  (\<open>src/integrations/neuronforge_local\<close>), statuses are written back to DataForge Local
  (\<open>src/integrations/df_local\<close>), forensic events of every family can be exported to line files and
  SQLite stores (\<open>src/adapters/exports\<close>), and friction payloads say what an operator has to do
  (\<open>src/domain/friction\<close>). The command-line runner reads flags and files, drives one of these services
  and ends with an exit code (\<open>src/bin/fa_local_run.rs\<close>).

  The theories, in the order of the calls.
  \<^item> \<open>Prelude\<close>: results and early returns, the bytes of strings, lists searched by key or position, and
    the locales \<open>keyed_table\<close> (a list searched by its first matching key) and \<open>validated_type\<close> (a
    checked constructor and its wrapper), with the collections \<open>result_simps\<close> and \<open>result_errs\<close>.
  \<^item> \<open>Vocabulary\<close>: identifiers (128-bit words), instants (integers), enumerations, denial guards, errors.
  \<^item> \<open>Contracts\<close>: schema files and the load-validate-decode chain, over the record \<open>contract_env\<close> of
    the external functions it calls.
  \<^item> \<open>Trust\<close>, \<open>Policy_Artifact\<close>, \<open>Capabilities\<close>: the records of the three contracts and the functions
    that judge them, with the predicates \<open>trusted_at\<close> and \<open>admissible\<close> they decide. \<open>capability_rule_for\<close>,
    \<open>capability_for\<close>, \<open>approval_rule_for\<close> and \<open>side_effect_rule_for\<close> interpret \<open>keyed_table\<close>.
  \<^item> \<open>Execution_Plan\<close>: plans, canonical form and hash, the validator; \<open>plan_structure_valid\<close> is its
    contract and \<open>same_content\<close> what the canonical form keeps.
  \<^item> \<open>Execution_Status\<close>: statuses and their state-by-state validation; \<open>status_row_of\<close> is the table it
    decides. The status constructors interpret \<open>validated_type\<close>.
  \<^item> \<open>Posture\<close>, \<open>Decision\<close>: the resolver with its specification \<open>spec_posture\<close>, and the service around
    it with \<open>authorised\<close>, what a decision that is not a denial rests on.
  \<^item> \<open>Routing\<close>: inputs and selected routes.
  \<^item> \<open>Delivery\<close>: adapters as records over a world \<open>'w\<close> that a call returns changed, also when the code
    around it leaves with an error (\<open>effect\<close>, \<open>and_do\<close>); the registry, which interprets the locale
    \<open>dispatch_table\<close>; the nmap-preflight and local-file-write adapters, which interpret
    \<open>lawful_adapter\<close>.
  \<^item> \<open>Coordination\<close>, \<open>Route_Delivery\<close>, \<open>Step_Delivery\<close>: the three parts of the execution service. The
    first reads directives, the second delivers a route through one adapter, the third runs the loop
    over the declared steps, whose mutable variables are the record \<open>per_step_run\<close>.
  \<^item> \<open>Step_Facts\<close>: what a per-step delivery does and reports. \<open>Samples\<close>: concrete inputs for which
    the hypotheses of the properties hold.
  \<^item> \<open>Review\<close>: review packages with \<open>package_wf\<close>, the contract of their validation, and their emission,
    with \<open>emission_acceptable\<close> and \<open>emission_presentable\<close> for what it asks of its input.
  \<^item> \<open>Forensics\<close>, \<open>Forensic_Recording\<close>: forensic events with \<open>event_wf\<close>, the facts that become events
    (\<open>forensic_record_kind\<close>), the recorder with \<open>kind_recordable\<close> and \<open>event_says\<close>, and the export step.
    Packages and events interpret \<open>validated_type\<close> as the statuses do.
  \<^item> \<open>Pipeline\<close>: the run as one effect over the world, with the foreign code in the record
    \<open>pipeline_env\<close>. The locale \<open>world_relation\<close> follows a relation through effects; its interpretation
    \<open>receipts\<close> bounds what a delivery can write, and \<open>exports\<close> follows the calls of the export adapter
    after it. \<open>Pipeline_Facts\<close> and \<open>Pipeline_Runs\<close> hold the evidence of
    a run and when it answers, \<open>Pipeline_Samples\<close> and \<open>Pipeline_Properties\<close> its inputs and properties.
  \<^item> \<open>Texts\<close>: trimming and the truncation of summaries by characters. \<open>Gnat_Negotiation\<close>: envelopes,
    their negotiation with \<open>envelope_wf\<close> and \<open>serves_envelope\<close>, and Gnat events with \<open>gnat_event_wf\<close>.
    \<open>Gnat_Shard\<close>: the subprocess adapter over \<open>shard_env\<close>; the polling loop \<open>wait_loop\<close> may run forever
    and is a partial function into options, proved to end under \<open>steady_clock\<close>. The reading of a pipe may
    run forever too, and then the adapter never answers; nothing assumes that it ends. \<open>shard_printed\<close> ties
    a receipt to what the spawned process printed. \<open>Gnat_Pipeline\<close>: the run. \<open>Gnat_Runs\<close> and \<open>Gnat_Properties\<close>: what it delivers and records, with the properties.
  \<^item> \<open>Corpus\<close>: sealed corpora over \<open>corpus_env\<close>, with \<open>corpus_admissible\<close> and \<open>receipt_says\<close>.
    \<open>Reconnaissance\<close>: the engine with \<open>donors_decided\<close> and \<open>topology_decided\<close>, and frozen results.
    \<open>Reconnaissance_Run\<close> and \<open>Reconnaissance_Properties\<close>: the service around both, with the properties.
  \<^item> \<open>Friction\<close>: friction payloads with \<open>friction_wf\<close>, interpreting \<open>validated_type\<close>. \<open>Http_Client\<close>: the
    HTTP client of the integrations. \<open>Neuronforge\<close>: the dispatch of the one admitted task, its event and
    the run. \<open>Labels\<close>: printed enumerations. \<open>Df_Local\<close>: the writeback of statuses and the canonical
    service status.
  \<^item> \<open>Export_Sinks\<close>: the JSONL and SQLite sinks, written once over the texts and statements in which
    the copies of the source differ. \<open>Export_Facts\<close> and \<open>Export_Properties\<close>: the locale \<open>bounded_sink\<close>
    that all six sinks interpret, and what a store and a line file keep of the recorded events, also when
    an insertion or a write fails.
  \<^item> \<open>Serve\<close>: tokens, the answer to a request with its table \<open>answer_fits\<close>, and the daemon as the step
    relation \<open>daemon_step\<close>, whose labels are the signals and the iterations with their time, disk and
    request. \<open>newest_said\<close> is the registry that the file said last at the start or a reload, and
    \<open>answered_at\<close> an answer that follows the table under it.
  \<^item> \<open>Arguments\<close>: flags, the port and the values of \<open>--adapter\<close>, with \<open>adapter_value_says\<close>. \<open>Runner\<close>: one
    definition per subcommand over the environments of its services; a process ends with what it
    printed, or serves. \<open>Runner_Facts\<close>: how commands end. \<open>Runner_Ends\<close>: what the end of each command
    tells, by the table \<open>command_succeeded\<close>. \<open>Runner_Properties\<close>: that exit codes and streams say what was
    done (\<open>finished_run\<close>, \<open>all_shards_complete\<close>).

  What the lemmas show. Each judging function is proved equivalent to a predicate that knows nothing
  of its order of checks (\<open>evaluate_Ok\<close>, \<open>admit_execution_request_Ok\<close>, \<open>validate_plan_Ok\<close>,
  \<open>validate_status_Ok\<close>, \<open>resolve_Some\<close>, \<open>new_routing_input_Ok\<close>). The status builders are shown to
  produce well-formed statuses of one state (\<open>builders_speak\<close>, \<open>route_builders_speak\<close>) and to succeed
  when their texts and times permit (\<open>decision_builders_total\<close>, \<open>route_builders_total\<close>). The loop over
  the steps is treated with a Hoare-style rule (\<open>keeps_and_do\<close>, \<open>deliver_steps_invariant\<close>) and two
  invariants: \<open>log_inv\<close> relates the outcomes to a log of the adapter calls, kept by wrapping every
  adapter of the registry (\<open>logged\<close>), and \<open>progress_inv\<close> describes the statuses. States of a trace move
  along \<open>next_state\<close>. The run is cut into its cases (\<open>run_pipeline_cases\<close>, \<open>run_admitted_cases\<close>), so that
  what it changes (\<open>run_pipeline_changes\<close>), what it records (\<open>run_pipeline_evidence\<close>), when it answers
  (\<open>run_pipeline_answers\<close>) and when it cannot (\<open>rejected_policy_errs\<close>, \<open>run_pipeline_loses\<close>) follow from
  the lemmas of the components.

  Conventions. A string is the list of its UTF-8 bytes. A panic is \<open>None\<close>: the resolver, coordination
  and delivery are option-valued because the source calls \<open>expect\<close> or cuts strings there. Every loop but
  the polling loop of \<open>Gnat_Shard\<close> is a recursion that is proved to end, so no fuel is needed; the
  serving loop of the daemon, which never ends, is a step relation. Machine integers that can overflow are
  words, and \<open>checked_add\<close> and \<open>u16_digits\<close> are the only arithmetic on them. External code is a parameter: the JSON
  parser, schema compiler and decoders (\<open>contract_env\<close>, \<open>decoders\<close>), the UUID printer, the canonical
  serialiser and SHA-256 (\<open>hash_env\<close>), the file system (\<open>fs_env\<close>), the clock. A property that relies on
  one of them says what it assumes: a printer that is injective, a digest of 32 bytes, a write that
  sets a file's contents.

  Not modelled: sockets, files, databases and the console themselves, the signal handler of the daemon
  and the log lines it prints, the derived serialisers and \<open>Debug\<close> forms, and the module files that only
  re-export. They are input/output or generated code, and stand in the model as parameters where the
  code relies on what they answer.
\<close>

section \<open>Delivery\<close>

text \<open>C1: Each declared step reaches its adapter at most once. Whatever the adapters answer, the calls
a per-step delivery of a validated plan makes are requests for declared steps of that plan, each
scoped to its own step and capability under the route's posture; no step identifier occurs in two
calls, fallback attempts and error exits included; and nothing is called unless the route is
executable under an admitted posture.\<close>

theorem step_calls_declared_and_unique:
  assumes "validate_plan env now declared capabilities = Ok plan"
    and "deliver_plan_per_step_via_registry show_uuid route plan (logged_registry registry) ctx (w, []) =
      Some ((w', calls), r)"
  shows "distinct (concat (map (dr_declared_step_ids \<circ> fst) calls)) \<and>
    (\<forall>c \<in> set calls. \<exists>s \<in> set (pl_steps declared). fst c = step_request route plan s) \<and>
    (calls \<noteq> [] \<longrightarrow> deliverable route)"
  using deliver_plan_calls [OF validated_plan_ordered [OF assms(1)] assms(2)] assms(1)
  by (simp add: calls_for_def called_steps_def validate_plan_Ok)

theorem step_calls_declared_and_unique_witness:
  "\<exists>w' calls r. deliver_plan_per_step_via_registry sample_show_uuid sample_route sample_validated
      (logged_registry sample_adapters) sample_context (0, []) = Some ((w', calls), r) \<and>
    length calls = 2 \<and> distinct (concat (map (dr_declared_step_ids \<circ> fst) calls))"
  using sample_delivery_eval step_calls_declared_and_unique [OF sample_plan_valid] by fastforce

text \<open>C2: The final status tells the truth about the adapters' answers. After a per-step delivery of a
validated plan that ends with a trace, \<open>Completed\<close> means that an adapter answered
\<open>DeliveredAllSteps\<close> for every declared step, \<open>CompletedWithConstraints\<close> that it did for every step
or for its declared fallback, \<open>PartialSuccess\<close> that it did for some step, and every other final state
that no adapter answered so for any step.\<close>

theorem final_status_truthful:
  assumes "validate_plan env now declared capabilities = Ok plan"
    and "deliver_plan_per_step_via_registry show_uuid route plan (logged_registry registry) ctx (w, []) =
      Some ((w', calls), Ok t)"
  shows "truthful route plan calls (fst (last (trace_entries t)))"
  using deliver_plan_truthful [OF validated_plan_ordered [OF assms(1)] assms(2)] .

theorem final_status_truthful_witness:
  "\<exists>w' calls t. deliver_plan_per_step_via_registry sample_show_uuid sample_route sample_validated
      (logged_registry sample_adapters) sample_context (0, []) = Some ((w', calls), Ok t) \<and>
    fst (last (trace_entries t)) = CompletedWithConstraints \<and>
    truthful sample_route sample_validated calls CompletedWithConstraints"
  using sample_delivery_eval final_status_truthful [OF sample_plan_valid] by fastforce

text \<open>C33: Traces of per-step deliveries. A delivery of a validated plan that succeeds reports a run that
starts admitted, moves through declared steps only, one status each, and ends in one final state, each
change a transition of the state machine; every status is well-formed and carries the route's request,
plan, hash and posture.\<close>

theorem step_delivery_trace:
  assumes "validate_plan env now declared capabilities = Ok plan"
    and "deliver_plan_per_step_via_registry show_uuid route plan registry ctx w = Some (w', Ok t)"
  shows "lawful_run (trace_entries t) \<and>
    (\<exists>ids final. set ids \<subseteq> set (plan_step_ids plan) \<and>
       trace_entries t = (AdmittedNotStarted, None) # running ids @ [(final, None)]) \<and>
    list_all (speaks_of (sr_request_id route) (sr_correlation_id route) (link_of route)
      (sr_resolved_approval_posture route)) (tr_statuses t)"
  using deliver_plan_trace [OF validated_plan_ordered [OF assms(1)] assms(2)] by blast

theorem step_delivery_trace_witness:
  "\<exists>w' t. deliver_plan_per_step_via_registry sample_show_uuid sample_route sample_validated
      (logged_registry sample_adapters) sample_context (0, []) = Some (w', Ok t) \<and>
    lawful_run (trace_entries t)"
proof -
  obtain w' t where run: "deliver_plan_per_step_via_registry sample_show_uuid sample_route
      sample_validated (logged_registry sample_adapters) sample_context (0, []) = Some (w', Ok t)"
    using sample_delivery_eval by blast
  from step_delivery_trace [OF sample_plan_valid run] run show ?thesis by blast
qed

text \<open>A per-step delivery does not panic unless an adapter does: none of the \<open>expect\<close> calls of the
coordinator can fail.\<close>

theorem step_delivery_never_panics:
  assumes "panic_free registry"
  shows "deliver_plan_per_step_via_registry show_uuid route plan registry ctx w \<noteq> None"
  using assms by (rule deliver_plan_not_None)

theorem step_delivery_never_panics_witness:
  "deliver_plan_per_step_via_registry sample_show_uuid sample_route sample_validated sample_adapters
     sample_context 0 \<noteq> None"
  by (rule step_delivery_never_panics [OF sample_panic_free])

text \<open>With the crate's own adapters a plan is always driven to its last step. When every registered
adapter is an nmap-preflight or a local-file-write adapter configured for the capability it is
registered under, and the route and the plan's step identifiers are reportable, the loop over the
declared steps ends without an error in every world, whatever the file system answers.\<close>

theorem crate_adapters_finish_the_plan:
  assumes "route_reportable route" and "list_all is_valid_step_id (plan_step_ids plan)"
    and "\<And>cap adapter. resolve_adapter registry cap = Some adapter \<Longrightarrow>
      (\<exists>config. nm_supported_capability_id config = cap \<and> adapter = nmap_adapter fs config) \<or>
      (\<exists>config. lf_supported_capability_id config = cap \<and> adapter = local_file_adapter fs show_uuid config)"
  shows "\<exists>w' run'. deliver_steps show_uuid route plan registry started (pl_steps (vp_plan plan)) run w =
    Some (w', Ok run')"
proof -
  have "deliverable route"
    using assms(1) by (simp add: route_reportable_def)
  from crate_adapters_serve [OF this assms(3)] show ?thesis
    by (intro deliver_steps_total assms(1,2)) simp_all
qed

theorem crate_adapters_finish_the_plan_witness:
  "\<exists>w' run'. deliver_steps sample_show_uuid sample_route sample_validated
     (Mapping.update 7 (local_file_adapter sample_fs sample_show_uuid sample_file_config) new_registry)
     1 (pl_steps (vp_plan sample_validated))
     \<lparr>run_statuses = [], run_outcomes = [], run_stop_dispatching = False, run_fallback_results = Map.empty\<rparr>
     sample_files = Some (w', Ok run')"
  by (rule crate_adapters_finish_the_plan [OF sample_reportable sample_steps_valid, of _ sample_fs])
    (auto simp: resolve_adapter_update registry.find_start split: if_splits
      intro!: disjI2 exI [of _ sample_file_config], simp add: sample_file_config_def)

text \<open>A partial success is reported exactly when its text fits. When some steps completed and others
did not, the final status exists exactly when the identifier and the detail of the first incomplete
step have at most 136 bytes together; the coordinator accepts adapter texts of up to 160, so a
delivery may end in an error after steps were delivered.\<close>

theorem partial_success_text_bound:
  assumes "route_reportable route" and "started \<le> completed"
    and "\<not> list_all is_completed (map snd outcomes)" and "list_ex is_completed (map snd outcomes)"
    and "length outcomes < 2 ^ 32" and "find_map incomplete_detail outcomes = Some (i, m)"
  shows "(\<exists>v. build_plan_outcome_status_from_route route outcomes started completed = Some (Ok v)) \<longleftrightarrow>
    length i + length m \<le> 136"
  using assms by (rule partial_success_answers)

theorem partial_success_text_bound_witness:
  "\<not> (\<exists>v. build_plan_outcome_status_from_route sample_route
     [(''write'', step_delivery_outcome.Completed),
      (''backup'', step_delivery_outcome.Failed (replicate 160 CHR ''x''))] 1 2 = Some (Ok v))"
  by (subst partial_success_text_bound [OF sample_reportable, where i = "''backup''" and m = "replicate 160 CHR ''x''"])
    simp_all

text \<open>C35: A whole-route delivery calls at most one adapter, once. Whatever the registry holds and the
adapter answers, the calls are none or the single request built from the route, and a call is made
only for a deliverable route whose requested capability has an adapter.\<close>

theorem route_delivery_calls_once:
  assumes "deliver_selected_route_via_registry show_uuid route (logged_registry registry) ctx (w, []) =
    Some ((w', calls), r)"
  shows "calls = [] \<or> deliverable route \<and> (\<exists>a. calls = [(route_request route, a)]) \<and>
    resolve_adapter registry (sr_requested_capability_id route) \<noteq> None"
  using assms by (rule deliver_route_logged)

theorem route_delivery_calls_once_witness:
  "\<exists>w' calls r. deliver_selected_route_via_registry sample_show_uuid sample_route
      (logged_registry sample_adapters) sample_context (0, []) = Some ((w', calls), r) \<and>
    (calls = [] \<or> (\<exists>a. calls = [(route_request sample_route, a)]))"
proof -
  have "deliver_selected_route_via_registry sample_show_uuid sample_route
      (logged_registry sample_adapters) sample_context (0, []) \<noteq> None"
    by (rule deliver_route_not_None [OF panic_free_logged [OF sample_panic_free]])
  then show ?thesis using route_delivery_calls_once by fastforce
qed

text \<open>The local-file-write adapter, delivering a whole reportable route it is scoped to, always
produces a trace, whatever the file system answers: the trace reports the adapter's own result as a
lawful run.\<close>

theorem file_delivery_answers:
  assumes "route_reportable route" and "cx_started_at_utc ctx \<le> cx_completed_at_utc ctx"
    and "local_file_validate_request config (route_request route) = Ok ()"
  shows "\<exists>w' r t. deliver_via_adapter route (local_file_adapter fs show_uuid config) ctx w = Some (w', Ok t) \<and>
    local_file_deliver_route fs show_uuid config (route_request route) w = Some (w', r) \<and>
    trace_entries t = delivery_entries (sr_declared_step_ids route) r \<and> lawful_run (trace_entries t)"
  using local_file.delivery_answers [OF assms, of fs show_uuid w]
  by (simp add: local_file_adapter_def)

text \<open>An adapter that does not support a request leaves no trace: the nmap-preflight adapter refuses
a route outside its capability, its single step or its posture with an error and an unchanged world.\<close>

theorem nmap_refuses_unsupported:
  assumes "\<not> (scoped_to (nm_supported_capability_id config) (route_request route) \<and>
      length (sr_declared_step_ids route) = 1)"
    and "deliver_via_adapter route (nmap_adapter fs config) ctx w = Some (w', r)"
  shows "w' = w \<and> (\<exists>e. r = Err e)"
  using assms(1)
  by (intro nmap.delivery_refused [OF _ assms(2)])
    (simp add: nmap_validate_request_Ok, simp add: route_request_def)

theorem file_delivery_answers_witness:
  "\<exists>w' r t. deliver_via_adapter sample_plain_route
      (local_file_adapter sample_fs sample_show_uuid sample_file_config) sample_context sample_files =
      Some (w', Ok t) \<and>
    local_file_deliver_route sample_fs sample_show_uuid sample_file_config
      (route_request sample_plain_route) sample_files = Some (w', r) \<and>
    trace_entries t = delivery_entries [''write'', ''backup''] r \<and> lawful_run (trace_entries t)"
  using file_delivery_answers [OF sample_plain_reportable, of sample_context sample_file_config
      sample_fs sample_show_uuid sample_files] sample_plain_supported
  by (simp add: sample_plain_steps sample_context_def)

theorem nmap_refuses_unsupported_witness:
  "\<exists>e. deliver_via_adapter sample_plain_route (nmap_adapter sample_fs sample_nmap_config) sample_context
     sample_files = Some (sample_files, Err e)"
proof -
  have "deliver_via_adapter sample_plain_route (nmap_adapter sample_fs sample_nmap_config) sample_context
      sample_files \<noteq> None"
    by (auto simp: deliver_via_adapter_def and_do_None pure_do_def call_adapter_def nmap_adapter_def
        nmap_deliver_route_def)
  then obtain w' r where d: "deliver_via_adapter sample_plain_route
      (nmap_adapter sample_fs sample_nmap_config) sample_context sample_files = Some (w', r)"
    by auto
  moreover have "length (sr_declared_step_ids sample_plain_route) \<noteq> 1"
    by (simp add: sample_plain_steps)
  ultimately show ?thesis
    using nmap_refuses_unsupported [OF _ d] by auto
qed

text \<open>Receipts of one plan overwrite each other. The file adapter names a receipt after the request
and the plan's hash, not after the step: when two steps of a plan are delivered by it one after the
other, on a file system where a write sets the file's contents, only the receipt of the second is
left.\<close>

theorem receipts_overwritten:
  assumes "\<And>p c w w'. fs_write fs p c w = (w', Ok ()) \<Longrightarrow> content w' = (content w)(p \<mapsto> c)"
    and "local_file_deliver_route fs show_uuid config (step_request route plan s) w =
      Some (w1, DeliveredAllSteps)"
    and "local_file_deliver_route fs show_uuid config (step_request route plan t) w1 =
      Some (w2, DeliveredAllSteps)"
  shows "content w2 = (content w)
    (receipt_path_for show_uuid config (sr_request_id route) (vp_stable_plan_hash plan) \<mapsto>
       receipt_contents show_uuid (step_request route plan t))"
proof -
  have written: "content w' = (content w)
      (receipt_path_for show_uuid config (sr_request_id route) (vp_stable_plan_hash plan) \<mapsto>
         receipt_contents show_uuid (step_request route plan x))"
    if "local_file_deliver_route fs show_uuid config (step_request route plan x) w =
      Some (w', DeliveredAllSteps)" for x w w'
    using that assms(1)
    by (auto simp: local_file_deliver_route_def step_request_def
        split: result.splits if_splits io_error_kind.splits prod.splits)
  from written [OF assms(2)] written [OF assms(3)] show ?thesis by simp
qed

theorem receipts_overwritten_witness:
  "\<exists>w1 w2. local_file_deliver_route sample_fs sample_show_uuid sample_file_config
      (step_request sample_route sample_validated (sample_step ''write'')) sample_files =
        Some (w1, DeliveredAllSteps) \<and>
    local_file_deliver_route sample_fs sample_show_uuid sample_file_config
      (step_request sample_route sample_validated (sample_step ''backup'')) w1 =
        Some (w2, DeliveredAllSteps) \<and>
    w2 (receipt_path_for sample_show_uuid sample_file_config 1 sample_hash) =
      Some (receipt_contents sample_show_uuid
        (step_request sample_route sample_validated (sample_step ''backup'')))"
proof -
  have run: "\<exists>w'. local_file_deliver_route sample_fs sample_show_uuid sample_file_config
      (step_request sample_route sample_validated (sample_step i)) w = Some (w', DeliveredAllSteps)"
    if "w (refusal_marker_path sample_file_config) = None" for i w
    using that sample_step_supported [of i]
    by (simp add: local_file_deliver_route_def sample_fs_def sample_file_config_def
        step_request_def)
  have marker: "refusal_marker_path sample_file_config \<noteq>
      receipt_path_for sample_show_uuid sample_file_config u h" for u h
    by (simp add: refusal_marker_path_def receipt_path_for_def sample_file_config_def path_join_def
        REFUSAL_MARKER_FILE_NAME_def)
  obtain w1 where w1: "local_file_deliver_route sample_fs sample_show_uuid sample_file_config
      (step_request sample_route sample_validated (sample_step ''write'')) sample_files =
        Some (w1, DeliveredAllSteps)"
    using run [of sample_files "''write''"] by (auto simp: sample_files_def)
  then have "w1 (refusal_marker_path sample_file_config) = None"
    using marker sample_step_supported [of "''write''"]
    by (auto simp: local_file_deliver_route_def sample_fs_def sample_files_def step_request_def
        sample_file_config_def split: if_splits)
  then obtain w2 where
    w2: "local_file_deliver_route sample_fs sample_show_uuid sample_file_config
      (step_request sample_route sample_validated (sample_step ''backup'')) w1 =
        Some (w2, DeliveredAllSteps)" using run [of w1 "''backup''"] by blast
  have "w2 = sample_files(receipt_path_for sample_show_uuid sample_file_config
      (sr_request_id sample_route) (vp_stable_plan_hash sample_validated) \<mapsto>
      receipt_contents sample_show_uuid (step_request sample_route sample_validated (sample_step ''backup'')))"
    by (rule receipts_overwritten [where content = id, simplified, OF _ w1 w2])
      (simp add: sample_fs_def)
  with w1 w2 show ?thesis
    by (simp add: sample_route_def routable_plan_selection_def sample_decision_def sample_validated_def)
qed

section \<open>Decisions\<close>

text \<open>C14: The decision service fails closed. A decision that is not a denial rests on four contracts
that load, an envelope trusted in the request's environment at the time of the decision, an admission
under the policy, and agreement of all parts; its posture is the greatest that the requester's ceiling,
the policy's requirement, the capability's posture, the review class, the side effect and the user's
intent permit; and its flags say what its posture says.\<close>

theorem decision_fails_closed:
  assumes "resolve_route_decision env dec show_uuid now request trust policy registry ctx = Some (Ok d)"
    and "rd_resolved_approval_posture d \<noteq> approval_posture.Denied"
  shows "\<exists>er r p c rule approval.
    authorised env dec request trust policy registry (rc_decided_at_utc ctx) er r p c \<and>
    capability_rule_for p (cap_capability_id c) = Some rule \<and>
    approval_rule_for p (rt_requester_class r) = Some approval \<and>
    rd_resolved_approval_posture d = greatest_permitted approval rule c er r \<and>
    coherent d \<and> rd_request_id d = er_request_id er \<and> rd_correlation_id d = er_correlation_id er \<and>
    cd_requested_capability_id (rd_capability_decision_summary d) = er_requested_capability_id er"
  using assms by (rule decision_authorised)

theorem decision_fails_closed_witness:
  "\<exists>d er r p c. resolve_route_decision sample_contracts sample_decoders sample_show_uuid 0 sample_json
      sample_json sample_json sample_json sample_resolution = Some (Ok d) \<and>
    rd_resolved_approval_posture d = PolicyPreapproved \<and>
    authorised sample_contracts sample_decoders sample_json sample_json sample_json sample_json 5 er r p c"
proof -
  obtain d where d: "resolve_route_decision sample_contracts sample_decoders sample_show_uuid 0 sample_json
      sample_json sample_json sample_json sample_resolution = Some (Ok d)"
    "rd_resolved_approval_posture d = PolicyPreapproved"
    using sample_decision_eval by blast
  from decision_fails_closed [OF d(1)] d show ?thesis by (auto simp: sample_resolution_def)
qed

text \<open>C15: The resolver, on every input it does not panic on, answers the specification: the greatest
posture the rules permit when the outcomes are successes that agree, a denial otherwise; the decision carries
the request's identifiers and the context, is denied exactly when it records a denial, and its flags
say what its posture says.\<close>

theorem resolver_answers_specification:
  assumes "resolve show_uuid input ctx = Some d"
  shows "rd_resolved_approval_posture d = spec_posture input \<and> coherent d \<and> answers input ctx d \<and>
    (rd_denial_guards d = [] \<longleftrightarrow> spec_posture input \<noteq> approval_posture.Denied)"
  using assms by (rule resolve_Some)

theorem resolver_answers_specification_witness:
  "\<exists>d. resolve sample_show_uuid sample_resolution_input sample_resolution = Some d \<and>
    rd_resolved_approval_posture d = PolicyPreapproved \<and> coherent d"
  using sample_resolve_eval resolver_answers_specification sample_spec_posture by metis

text \<open>No factor can be overruled. The resolved posture is at most the requester's ceiling, the
policy's requirement and the capability's posture; an external network effect is always denied, and a
request without a stated user intent never gets beyond review.\<close>

theorem posture_never_raised:
  assumes "resolve show_uuid input ctx = Some d" and "ri_requester_trust_outcome input = Ok r"
    and "ri_policy_outcome input = Ok p" and "ri_capability_admission_outcome input = Ok c"
  shows "rd_resolved_approval_posture d \<le> cap_approval_posture c \<and>
    (\<forall>rule. capability_rule_for p (cap_capability_id c) = Some rule \<longrightarrow>
       rd_resolved_approval_posture d \<le> cr_required_approval_posture rule) \<and>
    (\<forall>approval. approval_rule_for p (rt_requester_class r) = Some approval \<longrightarrow>
       rd_resolved_approval_posture d \<le> ar_max_posture approval) \<and>
    (er_requested_side_effect_class (ri_request input) = ExternalNetworkDeniedByDefault \<longrightarrow>
       rd_resolved_approval_posture d = approval_posture.Denied) \<and>
    (rt_user_intent_basis r = None \<longrightarrow>
       rd_resolved_approval_posture d \<le> approval_posture.ReviewRequired)"
  using resolve_Some [OF assms(1)] spec_posture_bounds [OF assms(2-4)] by simp

theorem posture_never_raised_witness:
  "\<exists>d. resolve sample_show_uuid sample_resolution_input sample_resolution = Some d \<and>
    rd_resolved_approval_posture d \<le> cap_approval_posture sample_capability"
  using sample_resolve_eval
    posture_never_raised [of sample_show_uuid sample_resolution_input sample_resolution]
  by (auto simp: sample_resolution_input_def)

text \<open>The resolver does not panic on ASCII texts. When the summaries of the denials it is handed and
the printed capability identifier are ASCII, it answers, with a nonempty operator summary of at most
160 bytes.\<close>

theorem resolver_total_on_ascii:
  assumes "\<forall>t \<in> handed_texts input. is_ascii t"
    and "is_ascii (show_uuid (er_requested_capability_id (ri_request input)))"
  shows "\<exists>d. resolve show_uuid input ctx = Some d \<and> bounded_text (rd_operator_visible_summary d)"
  using assms by (rule resolve_total)

theorem resolver_total_on_ascii_witness:
  "\<exists>d. resolve (\<lambda>_. ''7'') sample_resolution_input sample_resolution = Some d \<and>
    bounded_text (rd_operator_visible_summary d)"
  by (rule resolver_total_on_ascii)
    (simp_all add: handed_texts_def sample_resolution_input_def byte_def)

section \<open>Routing and coordination\<close>

text \<open>Only admitted work is deliverable. A route selected for a checked decision and a plan with
steps passes delivery's own route check exactly when the decision's posture is admitted.\<close>

theorem selected_route_deliverable:
  assumes "new_routing_input d plan = Ok input" and "select_route input = Ok route"
    and "pred_option (\<lambda>p. pl_steps (vp_plan p) \<noteq> []) plan"
  shows "validate_selected_route_for_delivery route = Ok () \<longleftrightarrow>
    admitted_posture (rd_resolved_approval_posture d)"
  using selected_deliverable [OF assms] by (simp add: validate_selected_route_Ok)

theorem selected_route_deliverable_witness:
  "\<exists>input route. new_routing_input sample_decision (Some sample_validated) = Ok input \<and>
    select_route input = Ok route \<and> validate_selected_route_for_delivery route = Ok ()"
proof -
  obtain input where input: "new_routing_input sample_decision (Some sample_validated) = Ok input"
    using sample_routing_input by blast
  from select_route_Ok [OF input] have "select_route input = Ok (route_of sample_decision (Some sample_validated))" .
  with selected_route_deliverable [OF input this] input show ?thesis
    by (simp add: sample_validated_def sample_plan_def sample_decision_def)
qed

text \<open>Route selection never fails on a checked input, and the route says what the decision allows:
executable exactly for an admitted posture, awaiting approval exactly for the explicit-approval
posture, linked to the plan's identity, hash and steps exactly when there is a plan.\<close>

theorem route_selection_total:
  assumes "new_routing_input d plan = Ok input"
  shows "\<exists>route. select_route input = Ok route \<and>
    (sr_executable route \<longleftrightarrow> admitted_posture (rd_resolved_approval_posture d)) \<and>
    (sr_explicit_approval_required route \<longleftrightarrow> rd_resolved_approval_posture d = ExplicitOperatorApproval) \<and>
    sr_execution_plan_id route = map_option (\<lambda>p. pl_execution_plan_id (vp_plan p)) plan \<and>
    sr_stable_plan_hash route = map_option vp_stable_plan_hash plan \<and>
    sr_declared_step_ids route =
      (case plan of None \<Rightarrow> [] | Some p \<Rightarrow> map step_id (pl_steps (vp_plan p)))"
  using assms by (rule select_route_new)

theorem route_selection_total_witness:
  "\<exists>input route. new_routing_input sample_decision (Some sample_validated) = Ok input \<and>
    select_route input = Ok route \<and> sr_executable route"
  using sample_routing_input route_selection_total by (fastforce simp: sample_decision_def)

text \<open>What coordination reports. On a checked input, coordination never panics; when it succeeds,
the trace has the states and steps its directive asks for on an admitted route, and the one state of
the posture otherwise; every status is well-formed and speaks of the decision and of the plan.\<close>

theorem coordination_reports:
  assumes "new_coordination_input d plan directive ctx = Ok input"
  shows "\<exists>r. coordinate input = Some r \<and> (\<forall>t. r = Ok t \<longrightarrow>
    trace_entries t =
      (case plan of
         Some p \<Rightarrow> if admitted_posture (rd_resolved_approval_posture d)
                   then planned_entries (plan_step_ids p) directive
                   else [(WaitingExplicitApproval, None)]
       | None \<Rightarrow> [(pre_execution_state (rd_resolved_approval_posture d), None)]) \<and>
    list_all (speaks_for d (if admitted_posture (rd_resolved_approval_posture d) then plan else None))
      (tr_statuses t))"
  using coordinate_never_panics [OF assms] coordinate_entries [OF assms] by (cases "coordinate input") auto

theorem coordination_reports_witness:
  "\<exists>input t. new_coordination_input sample_decision (Some sample_validated) (CancelInFlight ''write'')
      sample_context = Ok input \<and> coordinate input = Some (Ok t) \<and>
    trace_entries t = [(AdmittedNotStarted, None), (InProgress, Some ''write''), (execution_state.Canceled, None)]"
proof -
  obtain input t where input: "new_coordination_input sample_decision (Some sample_validated)
      (CancelInFlight ''write'') sample_context = Ok input" and t: "coordinate input = Some (Ok t)"
    using sample_coordination by blast
  from coordination_reports [OF input] t have
    "trace_entries t = planned_entries (plan_step_ids sample_validated) (CancelInFlight ''write'')"
    by (auto simp: sample_decision_def)
  with input t show ?thesis
    by (auto simp: sample_validated_def plan_step_ids_def sample_plan_def sample_step_def
        steps_through_def running_def)
qed

text \<open>When coordination of an admitted route answers. For a plan whose hash and identifiers the
statuses can carry and times in order, there is a trace exactly when the directive is feasible: its
step is declared, its failure text is bounded, and it is not an unsupported condition.\<close>

theorem coordination_answers_feasible:
  assumes "admitted_posture (rd_resolved_approval_posture d)" and "plan_reportable plan"
    and "cx_started_at_utc ctx \<le> cx_completed_at_utc ctx"
  shows "(\<exists>t. coordinate_admitted_route d plan directive ctx = Ok t) \<longleftrightarrow>
    directive_feasible (plan_step_ids plan) directive"
  using assms by (rule coordinate_admitted_total)

theorem coordination_answers_feasible_witness:
  "\<not> (\<exists>t. coordinate_admitted_route sample_decision sample_validated (CancelInFlight ''other'')
      sample_context = Ok t)"
  by (subst coordination_answers_feasible [OF _ sample_plan_reportable])
    (simp_all add: sample_decision_def sample_context_def plan_step_ids_def
      sample_validated_def sample_plan_def sample_step_def)

section \<open>Plan hashes\<close>

text \<open>What the plan hash covers. When identifiers print differently, two plans have the same
canonical form exactly when they agree in their steps in order, their budgets and policies, and their
declared capabilities, side effects and fallbacks as multisets; identifiers, times and the recorded
hash do not count.\<close>

theorem canonical_form_is_content:
  assumes "inj show_uuid"
  shows "canonical_plan show_uuid p = canonical_plan show_uuid q \<longleftrightarrow> same_content p q"
  using assms by (rule canonical_plan_eq_iff)

theorem canonical_form_is_content_witness:
  "canonical_plan (\<lambda>u. replicate (unat u) CHR ''x'') sample_plan =
     canonical_plan (\<lambda>u. replicate (unat u) CHR ''x'') (sample_plan\<lparr>pl_planned_at_utc := 99\<rparr>)"
proof -
  have "inj (\<lambda>u :: uuid. replicate (unat u) CHR ''x'')"
    by (rule injI) (metis length_replicate word_unat_eq_iff)
  from canonical_form_is_content [OF this] show ?thesis by (simp add: same_content_def)
qed

text \<open>A validated plan has a reportable hash, and its content decides. When SHA-256 yields 32 bytes
the validated hash is 64 lowercase hexadecimal digits; and a plan of the same content that carries the
same hash is accepted too, with the same hash.\<close>

theorem validated_hash_stable:
  assumes "\<And>bytes. length (he_sha256 env bytes) = 32"
    and "validate_plan env now p registry = Ok v" and "same_content p q"
    and "pl_stable_plan_hash q = pl_stable_plan_hash p"
  shows "is_valid_hash (vp_stable_plan_hash v) \<and>
    validate_plan env now' q registry = Ok \<lparr>vp_plan = q, vp_stable_plan_hash = vp_stable_plan_hash v\<rparr>"
proof -
  have "compute_stable_plan_hash env p = compute_stable_plan_hash env q"
    using canonical_plan_cong [OF assms(3)] by (simp add: compute_stable_plan_hash_def)
  moreover have "is_valid_hash (compute_stable_plan_hash env p)"
    using assms(1) by (simp add: compute_stable_plan_hash_def hex_digest_valid)
  ultimately show ?thesis
    using assms(2,4) plan_structure_valid_cong [OF assms(3)] by (simp add: validate_plan_Ok)
qed

theorem validated_hash_stable_witness:
  "validate_plan sample_hash_env 1 (sample_plan\<lparr>pl_planned_at_utc := 99\<rparr>) sample_registry =
     Ok \<lparr>vp_plan = sample_plan\<lparr>pl_planned_at_utc := 99\<rparr>, vp_stable_plan_hash = sample_hash\<rparr>"
  using validated_hash_stable [of sample_hash_env 0 sample_plan sample_registry sample_validated
      "sample_plan\<lparr>pl_planned_at_utc := 99\<rparr>"] sample_plan_valid
  by (simp add: sample_hash_env_def same_content_def) (simp add: sample_validated_def)

end
